(* ===== verification/Prelude.thy ===== *)
theory Prelude
  imports Main "HOL-Library.Word" "HOL-Library.Signed_Division"
begin

text \<open>
  The vocabulary every component shares: the integer and byte-string types of the
  contract, results that carry a failure or a value, and Rust's checked and
  saturating arithmetic.  The simplification rules that read a successful result
  backwards (\<open>bindE_Inr\<close>, \<open>if_Inl_Inr\<close>, ...) are what turns "this operation
  succeeded" into the list of guards it passed and the effects it had.
\<close>

section \<open>Scalar types\<close>

type_synonym u8 = "8 word"
type_synonym u32 = "32 word"
type_synonym u64 = "64 word"
type_synonym bytes = "8 word list"
type_synonym symbol = string

text \<open>\<open>i128\<close> is modelled as \<open>int\<close> with its range written out in every checked
  operation.\<close>

definition i128_min :: int where "i128_min = - (2 ^ 127)"
definition i128_max :: int where "i128_max = 2 ^ 127 - 1"

definition i128_ok :: "int \<Rightarrow> bool" where
  "i128_ok x = (i128_min \<le> x \<and> x \<le> i128_max)"

definition i128_checked_add :: "int \<Rightarrow> int \<Rightarrow> int option" where
  "i128_checked_add a b = (if i128_ok (a + b) then Some (a + b) else None)"

definition i128_checked_sub :: "int \<Rightarrow> int \<Rightarrow> int option" where
  "i128_checked_sub a b = (if i128_ok (a - b) then Some (a - b) else None)"

definition i128_checked_mul :: "int \<Rightarrow> int \<Rightarrow> int option" where
  "i128_checked_mul a b = (if i128_ok (a * b) then Some (a * b) else None)"

text \<open>Rust's \<open>/\<close> and \<open>%\<close> truncate toward zero; the library's \<open>sdiv\<close> and \<open>smod\<close>
  are those operations on \<open>int\<close>.\<close>

definition i128_checked_div :: "int \<Rightarrow> int \<Rightarrow> int option" where
  "i128_checked_div a b =
    (if b = 0 then None else if i128_ok (a sdiv b) then Some (a sdiv b) else None)"

definition word_checked_add :: "'a::len word \<Rightarrow> 'a word \<Rightarrow> 'a word option" where
  "word_checked_add a b = (if uint a + uint b < 2 ^ LENGTH('a) then Some (a + b) else None)"

definition word_saturating_add :: "'a::len word \<Rightarrow> 'a word \<Rightarrow> 'a word" where
  "word_saturating_add a b = (if uint a + uint b < 2 ^ LENGTH('a) then a + b else - 1)"

lemma sdiv_nonneg [simp]: "0 \<le> a \<Longrightarrow> 0 \<le> b \<Longrightarrow> (a::int) sdiv b = a div b"
  by (cases "a = 0"; cases "b = 0") (simp_all add: signed_divide_int_def sgn_if)

lemma smod_nonneg [simp]: "0 \<le> a \<Longrightarrow> 0 \<le> b \<Longrightarrow> (a::int) smod b = a mod b"
  by (cases "a = 0") (simp_all add: signed_modulo_int_def sgn_if)

lemma i128_checked_add_Some [simp]:
  "i128_checked_add a b = Some c \<longleftrightarrow> c = a + b \<and> i128_ok (a + b)"
  by (auto simp: i128_checked_add_def)

lemma i128_checked_sub_Some [simp]:
  "i128_checked_sub a b = Some c \<longleftrightarrow> c = a - b \<and> i128_ok (a - b)"
  by (auto simp: i128_checked_sub_def)

lemma i128_checked_mul_Some [simp]:
  "i128_checked_mul a b = Some c \<longleftrightarrow> c = a * b \<and> i128_ok (a * b)"
  by (auto simp: i128_checked_mul_def)

lemma i128_ok_between: "i128_ok b \<Longrightarrow> 0 \<le> a \<Longrightarrow> a \<le> b \<Longrightarrow> i128_ok a"
  by (simp add: i128_ok_def i128_min_def)

lemma word_checked_add_Some [simp]:
  "word_checked_add a b = Some c \<longleftrightarrow> c = a + b \<and> uint a + uint b < 2 ^ LENGTH('a)"
  for a b c :: "'a::len word"
  by (auto simp: word_checked_add_def)

lemma uint_sum_less_iff: "uint a + uint b < 2 ^ LENGTH('a) \<longleftrightarrow> unat a + unat b < 2 ^ LENGTH('a)"
  for a b :: "'a::len word"
proof -
  have "uint a + uint b = int (unat a + unat b)" by simp
  moreover have "(2::int) ^ LENGTH('a) = int (2 ^ LENGTH('a))" by simp
  ultimately show ?thesis by (simp only: of_nat_less_iff)
qed

lemma unat_word_saturating_add:
  "unat (word_saturating_add a b) = min (unat a + unat b) (2 ^ LENGTH('a) - 1)"
  for a b :: "'a::len word"
proof (cases "unat a + unat b < 2 ^ LENGTH('a)")
  case True
  then show ?thesis
    using unat_add_lem [of a b] by (auto simp: word_saturating_add_def uint_sum_less_iff)
next
  case False
  moreover have "0 < (2::nat) ^ LENGTH('a)" by simp
  ultimately have "min (unat a + unat b) (2 ^ LENGTH('a) - 1) = 2 ^ LENGTH('a) - 1" by linarith
  with False show ?thesis
    by (simp add: word_saturating_add_def uint_sum_less_iff unsigned_minus_1_eq_mask
        mask_eq_exp_minus_1)
qed

lemma uint_add_no_overflow:
  "uint a + uint b < 2 ^ LENGTH('a) \<Longrightarrow> uint (a + b) = uint a + uint b"
  for a b :: "'a::len word"
  by (simp add: uint_word_ariths)

section \<open>Results\<close>

text \<open>\<open>bindE m f\<close> is \<open>m?\<close> followed by \<open>f\<close>: a failure is returned at once.\<close>

definition bindE :: "'e + 'a \<Rightarrow> ('a \<Rightarrow> 'e + 'b) \<Rightarrow> 'e + 'b" where
  "bindE m f = (case m of Inl e \<Rightarrow> Inl e | Inr x \<Rightarrow> f x)"

definition ok_or :: "'a option \<Rightarrow> 'e \<Rightarrow> 'e + 'a" where
  "ok_or v e = (case v of None \<Rightarrow> Inl e | Some x \<Rightarrow> Inr x)"

definition is_ok :: "'e + 'a \<Rightarrow> bool" where
  "is_ok r = (case r of Inl _ \<Rightarrow> False | Inr _ \<Rightarrow> True)"

text \<open>A loop over a list whose body may fail or return early.\<close>

fun foldE :: "('a \<Rightarrow> 's \<Rightarrow> 'e + 's) \<Rightarrow> 'a list \<Rightarrow> 's \<Rightarrow> 'e + 's" where
  "foldE f [] s = Inr s"
| "foldE f (x # xs) s = bindE (f x s) (foldE f xs)"

lemma bindE_simps [simp]: "bindE (Inl e) f = Inl e" "bindE (Inr x) f = f x"
  by (simp_all add: bindE_def)

lemma bindE_Inr [simp]: "bindE m f = Inr y \<longleftrightarrow> (\<exists>x. m = Inr x \<and> f x = Inr y)"
  by (cases m) simp_all

lemma bindE_Inl: "bindE m f = Inl e \<longleftrightarrow> m = Inl e \<or> (\<exists>x. m = Inr x \<and> f x = Inl e)"
  by (cases m) simp_all

lemma bindE_assoc: "bindE (bindE m f) g = bindE m (\<lambda>x. bindE (f x) g)"
  by (cases m) simp_all

lemma ok_or_simps [simp]: "ok_or None e = Inl e" "ok_or (Some x) e = Inr x"
  by (simp_all add: ok_or_def)

lemma ok_or_Inr [simp]: "ok_or v e = Inr x \<longleftrightarrow> v = Some x"
  by (cases v) simp_all

lemma ok_or_Inl: "ok_or v e = Inl e' \<longleftrightarrow> v = None \<and> e' = e"
  by (cases v) auto

lemma if_Inl_Inr [simp]: "(if b then Inl e else r) = Inr y \<longleftrightarrow> \<not> b \<and> r = Inr y"
  by simp

lemma if_Inr_Inl [simp]: "(if b then r else Inl e) = Inr y \<longleftrightarrow> b \<and> r = Inr y"
  by simp

lemma is_ok_simps [simp]: "is_ok (Inl e) = False" "is_ok (Inr x) = True"
  by (simp_all add: is_ok_def)

lemma foldE_append:
  "foldE f (xs @ ys) s = bindE (foldE f xs s) (foldE f ys)"
proof (induction xs arbitrary: s)
  case (Cons x xs)
  have "foldE f (xs @ ys) = (\<lambda>s. bindE (foldE f xs s) (foldE f ys))" using Cons.IH by blast
  then show ?case by (simp add: bindE_assoc)
qed simp

text \<open>An invariant of the body is an invariant of the loop.\<close>

lemma foldE_invariant:
  assumes "foldE f xs s = Inr s'" and "P s"
    and "\<And>x a b. x \<in> set xs \<Longrightarrow> P a \<Longrightarrow> f x a = Inr b \<Longrightarrow> P b"
  shows "P s'"
  using assms
proof (induction xs arbitrary: s)
  case (Cons x xs)
  from Cons.prems(1) obtain m where m: "f x s = Inr m" "foldE f xs m = Inr s'" by auto
  have "P m" using Cons.prems(2,3) m(1) by (meson list.set_intros(1))
  then show ?case using Cons.IH [OF m(2)] Cons.prems(3) by (meson list.set_intros(2))
qed simp

section \<open>Lists as host vectors\<close>

text \<open>\<open>Vec::get\<close>: \<open>None\<close> out of range.\<close>

definition vec_get :: "'a list \<Rightarrow> nat \<Rightarrow> 'a option" where
  "vec_get xs i = (if i < length xs then Some (xs ! i) else None)"

lemma vec_get_simps [simp]:
  "vec_get [] i = None" "vec_get (x # xs) 0 = Some x" "vec_get (x # xs) (Suc i) = vec_get xs i"
  by (simp_all add: vec_get_def)

lemma vec_get_Some: "vec_get xs i = Some x \<longleftrightarrow> i < length xs \<and> x = xs ! i"
  by (auto simp: vec_get_def)

lemma vec_get_None [simp]: "vec_get xs i = None \<longleftrightarrow> length xs \<le> i"
  by (auto simp: vec_get_def)

lemma vec_get_0: "vec_get xs 0 = Some x \<longleftrightarrow> (\<exists>ys. xs = x # ys)"
  by (cases xs) auto

text \<open>Facts about which parts of the ledger an operation leaves alone (\<open>frame\<close>), and
  the definitions of the event constructors (\<open>emit_defs\<close>).\<close>

named_theorems frame
named_theorems emit_defs
named_theorems const_defs

end
