(* ===== verification/Types.thy ===== *)
theory Types
  imports Prelude "HOL-Library.Char_ord" "HOL-Library.List_Lexorder"
begin

text \<open>
  The data of the contract: \<open>src/contracts/escrow/src/types.rs\<close>, \<open>errors.rs\<close> and the
  constants of \<open>lib.rs\<close>.  Structs are records whose fields carry a short prefix
  (\<open>e_\<close> for \<open>Escrow\<close>, \<open>d_\<close> for \<open>DisputeData\<close>, ...), enums are datatypes, \<open>u32\<close>/\<open>u64\<close>
  scalars are words and \<open>i128\<close> is \<open>int\<close>.  Lengths, indices and vote counts of host
  vectors (\<open>u32\<close> in Rust) are \<open>nat\<close>.  Addresses, symbols and strings are strings;
  \<open>BoundedPayees\<close>, a one-field wrapper around a vector, is the list itself.
\<close>

type_synonym address = string

section \<open>Errors\<close>

text \<open>
  \<open>ContractError\<close> is a field-less enum with \<open>repr(u32)\<close>: a value is its stable ABI
  code, and every variant of the source is named by an abbreviation below.
\<close>

datatype ContractError = ContractError (error_code: nat)

abbreviation "InvalidAmount \<equiv> ContractError 1"
abbreviation "InsufficientBalance \<equiv> ContractError 2"
abbreviation "EscrowNotFound \<equiv> ContractError 3"
abbreviation "InvalidState \<equiv> ContractError 4"
abbreviation "NotAuthorized \<equiv> ContractError 5"
abbreviation "AlreadyInitialized \<equiv> ContractError 6"
abbreviation "FeeExceedsMax \<equiv> ContractError 7"
abbreviation "EscrowHasNoBuyer \<equiv> ContractError 8"
abbreviation "ShippingWindowNotElapsed \<equiv> ContractError 9"
abbreviation "InvalidEvidenceHash \<equiv> ContractError 10"
abbreviation "DisputeNotFound \<equiv> ContractError 11"
abbreviation "ArithmeticError \<equiv> ContractError 12"
abbreviation "DeliveryBeforeDisputeWindow \<equiv> ContractError 13"
abbreviation "ContractPaused \<equiv> ContractError 14"
abbreviation "ArithmeticOverflow \<equiv> ContractError 15"
abbreviation "InvalidStateTransition \<equiv> ContractError 16"
abbreviation "InputTooLong \<equiv> ContractError 17"
abbreviation "InvalidAddress \<equiv> ContractError 18"
abbreviation "SameAddress \<equiv> ContractError 19"
abbreviation "AmountExceedsMaximum \<equiv> ContractError 20"
abbreviation "InvalidTrackingId \<equiv> ContractError 21"
abbreviation "DeliveryNotRecorded \<equiv> ContractError 22"
abbreviation "ConflictingRoles \<equiv> ContractError 23"
abbreviation "DisputeWindowStillOpen \<equiv> ContractError 24"
abbreviation "UnauthorizedResolver \<equiv> ContractError 25"
abbreviation "ContractNotPaused \<equiv> ContractError 26"
abbreviation "TokenNotAllowed \<equiv> ContractError 27"
abbreviation "EscrowExpired \<equiv> ContractError 28"
abbreviation "AmountBelowMinimum \<equiv> ContractError 29"
abbreviation "NotPendingFinalization \<equiv> ContractError 30"
abbreviation "AppealWindowActive \<equiv> ContractError 31"
abbreviation "PlatformFeeExceedsMax \<equiv> ContractError 32"
abbreviation "InvalidShippingWindow \<equiv> ContractError 33"
abbreviation "DeliveryAlreadyRecorded \<equiv> ContractError 34"
abbreviation "NotInitialized \<equiv> ContractError 35"
abbreviation "IndexOutOfBounds \<equiv> ContractError 36"
abbreviation "InvalidExpiration \<equiv> ContractError 37"
abbreviation "DeliveryNotProposed \<equiv> ContractError 38"
abbreviation "TimelockNotElapsed \<equiv> ContractError 39"
abbreviation "GracePeriodNotElapsed \<equiv> ContractError 40"
abbreviation "MaxAppealsReached \<equiv> ContractError 41"
abbreviation "BasketTokenMismatch \<equiv> ContractError 42"
abbreviation "InvalidMulticallArg \<equiv> ContractError 43"
abbreviation "PayeeBpsMismatch \<equiv> ContractError 44"
abbreviation "TooManyMessages \<equiv> ContractError 45"
abbreviation "InvalidTtlExtension \<equiv> ContractError 46"
abbreviation "InvalidResolverThreshold \<equiv> ContractError 47"
abbreviation "InvalidFallbackDeadline \<equiv> ContractError 48"
abbreviation "DisputeTimeoutNotElapsed \<equiv> ContractError 49"
abbreviation "DisputeNotDeadlocked \<equiv> ContractError 50"
abbreviation "InvalidDisputeTimeout \<equiv> ContractError 51"
abbreviation "NoResolverVotes \<equiv> ContractError 52"
abbreviation "EscrowCounterOverflow \<equiv> ContractError 53"
abbreviation "FeeCalculationOverflow \<equiv> ContractError 54"
abbreviation "AmountCalculationOverflow \<equiv> ContractError 55"
abbreviation "PayeeIndexOutOfBounds \<equiv> ContractError 56"
abbreviation "BasketIndexOutOfBounds \<equiv> ContractError 57"
abbreviation "ProtocolFeeExceedsMax \<equiv> ContractError 58"
abbreviation "ArbitrationFeeExceedsMax \<equiv> ContractError 59"
abbreviation "MulticallBatchTooLarge \<equiv> ContractError 60"
abbreviation "NotAuthorizedBuyer \<equiv> ContractError 61"
abbreviation "NotAuthorizedSeller \<equiv> ContractError 62"
abbreviation "EscrowAlreadyCompleted \<equiv> ContractError 63"
abbreviation "EscrowAlreadyRefunded \<equiv> ContractError 64"
abbreviation "AppealFeeExceedsMax \<equiv> ContractError 65"
abbreviation "AppealFeeBelowMinimum \<equiv> ContractError 66"
abbreviation "NotInRecoveryMode \<equiv> ContractError 67"
abbreviation "InvalidDisputeReason \<equiv> ContractError 68"
abbreviation "InvalidOperation \<equiv> ContractError 69"
abbreviation "InvalidTimelockDelay \<equiv> ContractError 70"
abbreviation "InvalidProposalHash \<equiv> ContractError 71"
abbreviation "DuplicateNotes \<equiv> ContractError 72"
abbreviation "GracePeriodTooLong \<equiv> ContractError 73"
abbreviation "TimestampInvariantViolated \<equiv> ContractError 74"
abbreviation "NoPendingFeeCollector \<equiv> ContractError 75"
abbreviation "InvalidMaxAppeals \<equiv> ContractError 76"
abbreviation "InvalidMaxBasketSize \<equiv> ContractError 77"
abbreviation "InvalidWasmHash \<equiv> ContractError 78"
abbreviation "NoPendingTreasury \<equiv> ContractError 79"
abbreviation "DuplicateResolver \<equiv> ContractError 80"

text \<open>The derived order of \<open>ContractError\<close> (\<open>PartialOrd, Ord\<close>) is the order of the codes.\<close>

instantiation ContractError :: linorder
begin

definition less_eq_ContractError :: "ContractError \<Rightarrow> ContractError \<Rightarrow> bool" where
  "less_eq_ContractError a b = (error_code a \<le> error_code b)"

definition less_ContractError :: "ContractError \<Rightarrow> ContractError \<Rightarrow> bool" where
  "less_ContractError a b = (error_code a < error_code b)"

instance
  by standard
    (auto simp: less_eq_ContractError_def less_ContractError_def ContractError.expand)

end

text \<open>
  How an invocation can fail: with a contract error, or by a trap of the host (a
  missing authorisation, a rejected token transfer, an arithmetic overflow under
  \<open>overflow-checks\<close>, a failed conversion).  Either way the host discards every effect of the
  invocation, so a failed result carries no state.
\<close>

datatype trap = AuthRequired | TransferRejected | Overflow | ConversionError | HostError

datatype failure = Err ContractError | Trap trap

section \<open>Enumerations\<close>

datatype EscrowState = Pending | Funded | Shipped | Completed | Disputed | RefundRequested
  | Refunded | Canceled | PendingFinalization | Expired

datatype DisputeStatus = Active | Resolved

datatype ResolutionType = Release | Refund

fun to_history_code :: "EscrowState \<Rightarrow> u8" where
  "to_history_code Pending = 0"
| "to_history_code Funded = 1"
| "to_history_code Shipped = 2"
| "to_history_code Completed = 3"
| "to_history_code Disputed = 4"
| "to_history_code RefundRequested = 5"
| "to_history_code Refunded = 6"
| "to_history_code Canceled = 7"
| "to_history_code PendingFinalization = 8"
| "to_history_code Expired = 9"

definition from_history_code :: "u8 \<Rightarrow> EscrowState" where
  "from_history_code code =
    (if code = 0 then Pending
     else if code = 1 then Funded
     else if code = 2 then Shipped
     else if code = 3 then Completed
     else if code = 4 then Disputed
     else if code = 5 then RefundRequested
     else if code = 6 then Refunded
     else if code = 7 then Canceled
     else if code = 8 then PendingFinalization
     else Expired)"

lemma from_to_history_code [simp]: "from_history_code (to_history_code s) = s"
  by (cases s) (simp_all add: from_history_code_def)

datatype TimelockOperation = SetAdmin
  | Upgrade
  | SetProtocolFee
  | SetArbitrationFee
  | SetPlatformFee
  | SetTreasury
  | SetFeeCollector
  | SetTtlExtension
  | SetAmountLimits
  | AddApprovedResolver
  | RemoveApprovedResolver
  | SetResolverStrict
  | SetTokenAllowlistEnabled
  | AddAllowedToken
  | RemoveAllowedToken
  | PauseContract
  | UnpauseContract
  | SetMaxAppeals
  | SetMaxBasketSize
  | SetAppealFee
  | SetTimelockDelay

text \<open>The \<open>repr(u32)\<close> discriminant, the key under which a proposal is stored.\<close>

fun timelock_code :: "TimelockOperation \<Rightarrow> u32" where
  "timelock_code SetAdmin = 1"
| "timelock_code Upgrade = 2"
| "timelock_code SetProtocolFee = 3"
| "timelock_code SetArbitrationFee = 4"
| "timelock_code SetPlatformFee = 5"
| "timelock_code SetTreasury = 6"
| "timelock_code SetFeeCollector = 7"
| "timelock_code SetTtlExtension = 8"
| "timelock_code SetAmountLimits = 9"
| "timelock_code AddApprovedResolver = 10"
| "timelock_code RemoveApprovedResolver = 11"
| "timelock_code SetResolverStrict = 12"
| "timelock_code SetTokenAllowlistEnabled = 13"
| "timelock_code AddAllowedToken = 14"
| "timelock_code RemoveAllowedToken = 15"
| "timelock_code PauseContract = 16"
| "timelock_code UnpauseContract = 17"
| "timelock_code SetMaxAppeals = 18"
| "timelock_code SetMaxBasketSize = 19"
| "timelock_code SetAppealFee = 20"
| "timelock_code SetTimelockDelay = 21"

definition timelock_from_u32 :: "u32 \<Rightarrow> TimelockOperation option" where
  "timelock_from_u32 val =
    (if val = 1 then Some SetAdmin
     else if val = 2 then Some Upgrade
     else if val = 3 then Some SetProtocolFee
     else if val = 4 then Some SetArbitrationFee
     else if val = 5 then Some SetPlatformFee
     else if val = 6 then Some SetTreasury
     else if val = 7 then Some SetFeeCollector
     else if val = 8 then Some SetTtlExtension
     else if val = 9 then Some SetAmountLimits
     else if val = 10 then Some AddApprovedResolver
     else if val = 11 then Some RemoveApprovedResolver
     else if val = 12 then Some SetResolverStrict
     else if val = 13 then Some SetTokenAllowlistEnabled
     else if val = 14 then Some AddAllowedToken
     else if val = 15 then Some RemoveAllowedToken
     else if val = 16 then Some PauseContract
     else if val = 17 then Some UnpauseContract
     else if val = 18 then Some SetMaxAppeals
     else if val = 19 then Some SetMaxBasketSize
     else if val = 20 then Some SetAppealFee
     else if val = 21 then Some SetTimelockDelay
     else None)"

lemma timelock_from_code [simp]: "timelock_from_u32 (timelock_code op) = Some op"
  by (cases op) (simp_all add: timelock_from_u32_def)

lemma timelock_code_inj [simp]: "timelock_code a = timelock_code b \<longleftrightarrow> a = b"
  by (metis timelock_from_code option.inject)

text \<open>The derived order on operations.\<close>

instantiation TimelockOperation :: linorder
begin

definition less_eq_TimelockOperation :: "TimelockOperation \<Rightarrow> TimelockOperation \<Rightarrow> bool" where
  "less_eq_TimelockOperation a b = (timelock_code a \<le> timelock_code b)"

definition less_TimelockOperation :: "TimelockOperation \<Rightarrow> TimelockOperation \<Rightarrow> bool" where
  "less_TimelockOperation a b = (timelock_code a < timelock_code b)"

instance
  by standard
    (auto simp: less_eq_TimelockOperation_def less_TimelockOperation_def order.strict_iff_order)

end

section \<open>Resolver sets\<close>

record MultiResolver =
  mr_resolvers :: "address list"
  mr_threshold :: nat

record FallbackResolver =
  fr_primary :: address
  fr_backup :: address
  fr_dispute_deadline :: u64

datatype ResolverSet = Single address | Multi MultiResolver | Fallback FallbackResolver

text \<open>\<open>internal::contains\<close>: linear search in a vector of addresses.\<close>

fun contains :: "address list \<Rightarrow> address \<Rightarrow> bool" where
  "contains [] target = False"
| "contains (item # items) target = (if item = target then True else contains items target)"

lemma contains_iff [simp]: "contains xs a \<longleftrightarrow> a \<in> set xs"
  by (induction xs) auto

fun rs_count :: "ResolverSet \<Rightarrow> nat" where
  "rs_count (Single _) = 1"
| "rs_count (Multi m) = length (mr_resolvers m)"
| "rs_count (Fallback _) = 2"

fun rs_contains :: "ResolverSet \<Rightarrow> address \<Rightarrow> bool" where
  "rs_contains (Single resolver) addr = (addr = resolver)"
| "rs_contains (Multi m) addr = contains (mr_resolvers m) addr"
| "rs_contains (Fallback f) addr = (addr = fr_primary f \<or> addr = fr_backup f)"

fun rs_threshold :: "ResolverSet \<Rightarrow> nat" where
  "rs_threshold (Multi m) = mr_threshold m"
| "rs_threshold _ = 1"

fun can_resolve_now :: "ResolverSet \<Rightarrow> address \<Rightarrow> u64 \<Rightarrow> bool" where
  "can_resolve_now (Fallback f) addr now =
    (if addr = fr_primary f then True
     else if addr = fr_backup f then fr_dispute_deadline f \<le> now
     else False)"
| "can_resolve_now rs addr now = rs_contains rs addr"

lemma can_resolve_now_contains: "can_resolve_now rs addr now \<Longrightarrow> rs_contains rs addr"
  by (cases rs) (auto split: if_splits)

record ResolverVote =
  v_resolver :: address
  v_resolution :: ResolutionType
  v_voted_at :: u64

section \<open>Disputes\<close>

record DisputeData =
  d_escrow_id :: u64
  d_reason :: symbol
  d_description :: bytes
  d_evidence_hash :: bytes
  d_status :: DisputeStatus
  d_disputed_at :: u64
  d_tracking_id :: "string option"
  d_resolution :: u32
  d_resolved_by :: "address option"
  d_appeal_count :: u32
  d_resolved_at :: u64
  d_arbitration_fee :: int
  d_resolver_fee :: int
  d_fees_charged :: bool

definition set_resolution :: "ResolutionType \<Rightarrow> DisputeData \<Rightarrow> DisputeData" where
  "set_resolution r d = d\<lparr>d_resolution := (case r of Release \<Rightarrow> 1 | Refund \<Rightarrow> 2)\<rparr>"

definition get_resolution :: "DisputeData \<Rightarrow> ResolutionType option" where
  "get_resolution d =
    (if d_resolution d = 1 then Some Release
     else if d_resolution d = 2 then Some Refund
     else None)"

definition clear_resolution :: "DisputeData \<Rightarrow> DisputeData" where
  "clear_resolution d = d\<lparr>d_resolution := 0, d_resolved_by := None, d_resolved_at := 0\<rparr>"

lemma get_set_resolution [simp]: "get_resolution (set_resolution r d) = Some r"
  by (cases r) (simp_all add: get_resolution_def set_resolution_def)

section \<open>Configuration\<close>

record FeeConfig =
  f_protocol_fee_bps :: u32
  f_arbitration_fee_bps :: u32

definition GLOBAL_CONFIG_FLAG_PAUSED :: u32 where
  [const_defs]: "GLOBAL_CONFIG_FLAG_PAUSED = 1"
definition GLOBAL_CONFIG_FLAG_TOKEN_ALLOWLIST_ENABLED :: u32 where
  [const_defs]: "GLOBAL_CONFIG_FLAG_TOKEN_ALLOWLIST_ENABLED = 2"
definition GLOBAL_CONFIG_FLAG_RESOLVER_STRICT :: u32 where
  [const_defs]: "GLOBAL_CONFIG_FLAG_RESOLVER_STRICT = 4"
definition GLOBAL_CONFIG_FLAG_RECOVERY_MODE :: u32 where
  [const_defs]: "GLOBAL_CONFIG_FLAG_RECOVERY_MODE = 8"

record GlobalConfig =
  g_fee_collector :: "address option"
  g_treasury :: "address option"
  g_protocol_fee_bps :: u32
  g_arbitration_fee_bps :: u32
  g_platform_fee_bps :: u32
  g_appeal_fee_bps :: u32
  g_min_amount :: int
  g_max_amount :: int
  g_dispute_timeout :: u64
  g_ttl_extension_ledgers :: u32
  g_state_flags :: u32

record PublicContractConfig =
  pc_fee_bps :: u32
  pc_arbitration_fee_bps :: u32
  pc_paused :: bool
  pc_escrow_count :: u64

record ContractConfig =
  cc_admin :: address
  cc_fee_bps :: u32
  cc_arbitration_fee_bps :: u32
  cc_fee_collector :: address
  cc_escrow_count :: u64

section \<open>Escrows\<close>

record Payee =
  p_address :: address
  p_bps :: u32

record TokenEntry =
  te_token :: address
  te_amount :: int

record ExpirySchedule =
  x_expires_at :: u64
  x_grace_period :: u64

record Escrow =
  e_payees :: "Payee list"
  e_buyer :: "address option"
  e_resolvers :: ResolverSet
  e_token :: address
  e_amount :: int
  e_fee_bps :: u32
  e_resolver_fee_bps :: u32
  e_shipping_window :: u64
  e_packed_timestamps :: u64
  e_shipped_at :: u64
  e_delivered_at :: "u64 option"
  e_tracking_id :: "string option"
  e_state :: EscrowState
  e_notes :: string
  e_expires_at :: "u64 option"
  e_grace_period :: u64

unbundle bit_operations_syntax

definition funded_at :: "Escrow \<Rightarrow> u64" where
  "funded_at e = drop_bit 32 (e_packed_timestamps e)"

definition dispute_deadline :: "Escrow \<Rightarrow> u64" where
  "dispute_deadline e = e_packed_timestamps e AND 0xFFFFFFFF"

definition pack_timestamps :: "u64 \<Rightarrow> u64 \<Rightarrow> u64" where
  "pack_timestamps funded deadline = push_bit 32 funded OR (deadline AND 0xFFFFFFFF)"

record EscrowInput =
  in_buyer :: "address option"
  in_resolver :: address
  in_token :: address
  in_amount :: int
  in_fee_bps :: u32
  in_resolver_fee_bps :: u32
  in_shipping_window :: u64
  in_notes :: string

record Message =
  m_sender :: address
  m_timestamp :: u64
  m_content :: string

record ContractStats =
  st_total_created :: u64
  st_total_completed :: u64
  st_total_disputed :: u64
  st_total_refunded :: u64

record TimelockProposal =
  tp_operation :: TimelockOperation
  tp_proposer :: address
  tp_params_hash :: bytes
  tp_queued_at :: u64
  tp_ready_at :: u64

section \<open>Storage keys\<close>

datatype (plugins only: code size) DataKey =
    DK_Admin
  | DK_EscrowCounter
  | DK_FeeCollector
  | DK_FeeConfig
  | DK_Paused
  | DK_ActionPaused symbol
  | DK_TtlExtensionLedgers
  | DK_TokenAllowlistEnabled
  | DK_TokenAllowlist
  | DK_PlatformFeeBps
  | DK_Treasury
  | DK_MaxAmount
  | DK_MinAmount
  | DK_ApprovedResolvers
  | DK_ResolverStrict
  | DK_AccumulatedFees address
  | DK_StorageVersion
  | DK_Escrow u64
  | DK_EscrowStateHistory u64
  | DK_Dispute u64
  | DK_Messages u64
  | DK_PendingExpiry u64
  | DK_ResolverVotes u64
  | DK_BuyerEscrowIndex address
  | DK_VendorEscrowIndex address
  | DK_TotalArbitrationFees address
  | DK_TotalCreated
  | DK_TotalDisputed
  | DK_TotalCompleted
  | DK_TotalRefunded
  | DK_EvidenceLog u64
  | DK_BasketTokens u64
  | DK_DeliveryProposal u64
  | DK_TimelockOp u32
  | DK_DisputeTimeout
  | DK_ShardedCounter u32 u32
  | DK_Message u64 nat
  | DK_MessageCount u64
  | DK_BuyerEscrow address nat
  | DK_BuyerEscrowCount address
  | DK_VendorEscrow address nat
  | DK_VendorEscrowCount address
  | DK_PendingFeeCollector
  | DK_PendingTreasury
  | DK_MaxAppeals
  | DK_MaxBasketSize
  | DK_AppealFeeBps
  | DK_RecoveryMode
  | DK_AdminTimelockDelay
  | DK_GlobalConfig

section \<open>Host values\<close>

text \<open>
  The dynamically typed values of the host (\<open>Val\<close>): parameters of timelocked
  operations, arguments of a \<open>multicall\<close>, and the fields of events.
\<close>

datatype val = VVoid | VBool bool | VU32 u32 | VU64 u64 | VI128 int | VAddress address
  | VSymbol symbol | VString string | VBytes bytes | VState EscrowState
  | VResolution ResolutionType | VPayees "Payee list" | VOption "val option" | VVec "val list"

section \<open>Constants of lib.rs\<close>

definition MAX_ESCROW_FEE_BPS :: u32 where [const_defs]: "MAX_ESCROW_FEE_BPS = 300"
definition MAX_ARBITRATION_FEE_BPS :: u32 where [const_defs]: "MAX_ARBITRATION_FEE_BPS = 500"
definition MAX_COMBINED_FEE_BPS :: u32 where [const_defs]: "MAX_COMBINED_FEE_BPS = 1000"
definition CONTRACT_VERSION :: u32 where [const_defs]: "CONTRACT_VERSION = 1"
definition STORAGE_VERSION :: u32 where [const_defs]: "STORAGE_VERSION = 2"
definition MAX_PLATFORM_FEE_BPS :: u32 where [const_defs]: "MAX_PLATFORM_FEE_BPS = 200"
definition APPEAL_WINDOW :: u64 where [const_defs]: "APPEAL_WINDOW = 86400"
definition MAX_APPEAL_FEE_BPS :: u32 where [const_defs]: "MAX_APPEAL_FEE_BPS = 500"
definition MIN_APPEAL_FEE_BPS :: u32 where [const_defs]: "MIN_APPEAL_FEE_BPS = 10"
definition DEFAULT_APPEAL_FEE_BPS :: u32 where [const_defs]: "DEFAULT_APPEAL_FEE_BPS = 0"
definition MIN_ESCROW_AMOUNT :: int where [const_defs]: "MIN_ESCROW_AMOUNT = 1"
definition DISPUTE_WINDOW :: u64 where [const_defs]: "DISPUTE_WINDOW = 172800"
definition DELIVERY_RELEASE_WINDOW :: u64 where [const_defs]: "DELIVERY_RELEASE_WINDOW = 172800"
definition MIN_TTL_EXTENSION :: u32 where [const_defs]: "MIN_TTL_EXTENSION = 1000"
definition MAX_TTL_EXTENSION :: u32 where [const_defs]: "MAX_TTL_EXTENSION = 2592000"
definition DEFAULT_TTL_EXTENSION :: u32 where [const_defs]: "DEFAULT_TTL_EXTENSION = 120960"
definition TTL_THRESHOLD_DIVISOR :: u32 where [const_defs]: "TTL_THRESHOLD_DIVISOR = 2"
definition PENDING_EXPIRY_WINDOW :: u64 where [const_defs]: "PENDING_EXPIRY_WINDOW = 604800"
definition FALLBACK_PRIMARY_GRACE :: u64 where [const_defs]: "FALLBACK_PRIMARY_GRACE = 2592000"
definition MAX_FALLBACK_DEADLINE_OFFSET :: u64 where [const_defs]: "MAX_FALLBACK_DEADLINE_OFFSET = PENDING_EXPIRY_WINDOW + DISPUTE_WINDOW + FALLBACK_PRIMARY_GRACE"
definition MAX_STATE_HISTORY_ENTRIES :: nat where [const_defs]: "MAX_STATE_HISTORY_ENTRIES = 50"
definition BASIS_POINTS :: u32 where [const_defs]: "BASIS_POINTS = 10000"
definition DELIVERY_TIMELOCK :: u64 where [const_defs]: "DELIVERY_TIMELOCK = 86400"
definition MAX_GRACE_PERIOD :: u64 where [const_defs]: "MAX_GRACE_PERIOD = 604800"
definition MAX_TRACKING_ID_LEN :: nat where [const_defs]: "MAX_TRACKING_ID_LEN = 64"
definition MAX_DESCRIPTION_LEN :: nat where [const_defs]: "MAX_DESCRIPTION_LEN = 256"
definition MAX_NOTES_LEN :: nat where [const_defs]: "MAX_NOTES_LEN = 500"
definition MAX_MESSAGE_LEN :: nat where [const_defs]: "MAX_MESSAGE_LEN = 500"
definition MAX_MESSAGES_PER_ESCROW :: nat where [const_defs]: "MAX_MESSAGES_PER_ESCROW = 100"
definition MAX_BASKET_SIZE :: nat where [const_defs]: "MAX_BASKET_SIZE = 20"
definition MAX_MULTICALL_BATCH_SIZE :: nat where [const_defs]: "MAX_MULTICALL_BATCH_SIZE = 10"
definition ESCROW_INDEX_PAGE_SIZE :: nat where [const_defs]: "ESCROW_INDEX_PAGE_SIZE = 20"
definition MIN_SHIPPING_WINDOW :: u64 where [const_defs]: "MIN_SHIPPING_WINDOW = 1"
definition MAX_SHIPPING_WINDOW :: u64 where [const_defs]: "MAX_SHIPPING_WINDOW = 63072000"
definition DEFAULT_SHIPPING_WINDOW :: u64 where [const_defs]: "DEFAULT_SHIPPING_WINDOW = 3600"
definition MAX_MESSAGES_PER_PAGE :: u64 where [const_defs]: "MAX_MESSAGES_PER_PAGE = 50"
definition MAX_IDS_PER_QUERY :: nat where [const_defs]: "MAX_IDS_PER_QUERY = 50"
definition MAX_ESCROWS_PER_PAGE :: u64 where [const_defs]: "MAX_ESCROWS_PER_PAGE = 50"
definition MAX_ESCROW_AMOUNT :: int where [const_defs]: "MAX_ESCROW_AMOUNT = i128_max div 10000"
definition MAX_PAYEES :: nat where [const_defs]: "MAX_PAYEES = 10"
definition MAX_APPEALS :: u32 where [const_defs]: "MAX_APPEALS = 3"
definition MIN_MAX_APPEALS :: u32 where [const_defs]: "MIN_MAX_APPEALS = 1"
definition MAX_MAX_APPEALS :: u32 where [const_defs]: "MAX_MAX_APPEALS = 10"
definition MIN_MAX_BASKET_SIZE :: u32 where [const_defs]: "MIN_MAX_BASKET_SIZE = 1"
definition DEFAULT_DISPUTE_TIMEOUT :: u64 where [const_defs]: "DEFAULT_DISPUTE_TIMEOUT = 2592000"
definition MIN_DISPUTE_TIMEOUT :: u64 where [const_defs]: "MIN_DISPUTE_TIMEOUT = 3600"
definition MAX_DISPUTE_TIMEOUT :: u64 where [const_defs]: "MAX_DISPUTE_TIMEOUT = 31536000"
definition DISPUTE_DEADLOCK_WINDOW :: u64 where [const_defs]: "DISPUTE_DEADLOCK_WINDOW = 604800"
definition COUNTER_SHARDS :: u32 where [const_defs]: "COUNTER_SHARDS = 16"

definition ZERO_ADDRESS_STR :: string where
  "ZERO_ADDRESS_STR = ''GAAAAAAAAAAAAAAAAAAAAAAAAAAAAAAAAAAAAAAAAAAAAAAAAAAAAWHF''"

text \<open>\<open>zero_address\<close>: the address parsed from that string.\<close>

definition zero_address :: address where "zero_address = ZERO_ADDRESS_STR"

end
