(* ===== verification/Ledger.thy ===== *)
theory Ledger
  imports Types
begin

text \<open>
  The part of the Soroban host the contract runs on, as far as the source relies on it:
  instance and persistent storage, events, rent (TTL) requests, authorisation, and calls
  to token contracts.  Storage is a record with one field per value type of a
  \<open>DataKey\<close> family; key families that share a value type share a field and stay keyed by
  \<open>DataKey\<close>.  Token contracts, signatures, hashing and code upload are not under \<open>src/\<close>:
  they are the fields of \<open>env\<close>, so every definition is parametric in them.
\<close>

section \<open>Storage\<close>

record instance_storage =
  i_admin :: "address option"
  i_escrow_counter :: "u64 option"
  i_fee_collector :: "address option"
  i_fee_config :: "FeeConfig option"
  i_paused :: "bool option"
  i_action_paused :: "symbol \<Rightarrow> bool option"
  i_ttl_extension :: "u32 option"
  i_token_allowlist_enabled :: "bool option"
  i_token_allowlist :: "address list option"
  i_platform_fee_bps :: "u32 option"
  i_treasury :: "address option"
  i_max_amount :: "int option"
  i_min_amount :: "int option"
  i_approved_resolvers :: "address list option"
  i_resolver_strict :: "bool option"
  i_storage_version :: "u32 option"
  i_total_arbitration_fees :: "address \<Rightarrow> int option"
  i_legacy_totals :: "DataKey \<Rightarrow> u64 option"
  i_timelock :: "u32 \<Rightarrow> TimelockProposal option"
  i_dispute_timeout :: "u64 option"
  i_pending_fee_collector :: "address option"
  i_pending_treasury :: "address option"
  i_max_appeals :: "u32 option"
  i_max_basket_size :: "u32 option"
  i_appeal_fee_bps :: "u32 option"
  i_recovery_mode :: "bool option"
  i_admin_timelock_delay :: "u64 option"
  i_global_config :: "GlobalConfig option"

text \<open>
  \<open>p_ids\<close> holds the vectors of escrow ids (index pages \<open>VendorEscrow\<close>, \<open>BuyerEscrow\<close> and the
  flat pre-paging indexes), \<open>p_counts\<close> the \<open>u32\<close> counts (\<open>VendorEscrowCount\<close>,
  \<open>BuyerEscrowCount\<close>, \<open>MessageCount\<close>).
\<close>

record persistent_storage =
  p_escrow :: "u64 \<Rightarrow> Escrow option"
  p_history :: "u64 \<Rightarrow> u64 list option"
  p_dispute :: "u64 \<Rightarrow> DisputeData option"
  p_legacy_messages :: "u64 \<Rightarrow> Message list option"
  p_message :: "u64 \<Rightarrow> nat \<Rightarrow> Message option"
  p_pending_expiry :: "u64 \<Rightarrow> ExpirySchedule option"
  p_votes :: "u64 \<Rightarrow> ResolverVote list option"
  p_basket :: "u64 \<Rightarrow> TokenEntry list option"
  p_delivery_proposal :: "u64 \<Rightarrow> u64 option"
  p_shard :: "u32 \<Rightarrow> u32 \<Rightarrow> u64 option"
  p_ids :: "DataKey \<Rightarrow> u64 list option"
  p_counts :: "DataKey \<Rightarrow> nat option"

section \<open>The world an invocation acts on\<close>

record event =
  ev_topics :: "val list"
  ev_kind :: string
  ev_data :: "(string \<times> val) list"

text \<open>A transfer the contract asked a token for: token, sender, recipient, amount.\<close>

record transfer =
  tr_token :: address
  tr_from :: address
  tr_to :: address
  tr_amount :: int

text \<open>Requests to keep an entry alive: threshold and extension in ledgers.\<close>

datatype rent_request = ExtendInstance u32 u32 | ExtendPersistent DataKey u32 u32

text \<open>
  \<open>w_xfers\<close> is the log of transfers, oldest first, each with the storage the token
  contract would have observed had it called back at that moment.  \<open>w_wasm\<close> logs code
  upgrades.
\<close>

record world =
  w_inst :: instance_storage
  w_pers :: persistent_storage
  w_xfers :: "(transfer \<times> (instance_storage \<times> persistent_storage)) list"
  w_events :: "event list"
  w_rent :: "rent_request list"
  w_wasm :: "bytes list"

text \<open>
  One invocation: the ledger time, the contract's own address, who authorised it, whether the
  host accepts a second \<open>require_auth\<close> of one address in one frame, whether a token contract
  accepts a transfer given the transfers so far, the digest of a parameter vector (\<open>sha256\<close> of
  its XDR), and whether the host knows a code hash.
\<close>

record env =
  env_now :: u64
  env_self :: address
  env_auth :: "address \<Rightarrow> bool"
  env_reauth :: bool
  env_token_ok :: "transfer list \<Rightarrow> transfer \<Rightarrow> bool"
  env_params_hash :: "val list \<Rightarrow> bytes"
  env_wasm_ok :: "bytes \<Rightarrow> bool"

type_synonym 'a res = "failure + 'a"

abbreviation fail :: "ContractError \<Rightarrow> 'a res" where
  "fail e \<equiv> Inl (Err e)"

abbreviation panic :: "trap \<Rightarrow> 'a res" where
  "panic t \<equiv> Inl (Trap t)"

text \<open>\<open>opt.ok_or(e)?\<close> and a lookup of a result.\<close>

definition ok_or_err :: "'a option \<Rightarrow> ContractError \<Rightarrow> 'a res" where
  "ok_or_err v e = ok_or v (Err e)"

lemma ok_or_err_simps [simp]:
  "ok_or_err None e = fail e" "ok_or_err (Some x) e = Inr x"
  "ok_or_err v e = Inr x \<longleftrightarrow> v = Some x"
  by (simp_all add: ok_or_err_def)

section \<open>Host operations\<close>

definition publish :: "event \<Rightarrow> world \<Rightarrow> world" where
  "publish ev w = w\<lparr>w_events := w_events w @ [ev]\<rparr>"

text \<open>\<open>addr.require_auth()\<close>: traps unless the invocation carries its authorisation.\<close>

definition require_auth :: "env \<Rightarrow> address \<Rightarrow> unit res" where
  "require_auth env addr = (if env_auth env addr then Inr () else panic AuthRequired)"

lemma require_auth_Inr [simp]: "require_auth env a = Inr u \<longleftrightarrow> env_auth env a"
  by (simp add: require_auth_def)

text \<open>
  The invocation after the addresses in \<open>used\<close> were authenticated in the current frame.  A comment in
  \<open>internal.rs\<close> (\<open>create_escrow_internal\<close>) says that the host rejects a second
  \<open>require_auth\<close> of one address there; tests of \<open>co_signed_release\<close> rely on the opposite.
  \<open>env_reauth\<close> leaves it open.
\<close>

definition after_auth :: "env \<Rightarrow> address list \<Rightarrow> env" where
  "after_auth env used =
    env\<lparr>env_auth := (\<lambda>a. env_auth env a \<and> (env_reauth env \<or> a \<notin> set used))\<rparr>"

lemma after_auth_fields [simp]:
  "env_now (after_auth env used) = env_now env" "env_self (after_auth env used) = env_self env"
  "env_reauth (after_auth env used) = env_reauth env"
  "env_token_ok (after_auth env used) = env_token_ok env"
  "env_params_hash (after_auth env used) = env_params_hash env"
  "env_wasm_ok (after_auth env used) = env_wasm_ok env"
  "env_auth (after_auth env used) a \<longleftrightarrow> env_auth env a \<and> (env_reauth env \<or> a \<notin> set used)"
  by (simp_all add: after_auth_def)

lemma after_auth_Nil [simp]: "after_auth env [] = env"
  by (simp add: after_auth_def)

text \<open>
  \<open>token::Client::transfer\<close>, the body of \<open>internal::transfer_helper\<close>: the token contract
  moves exactly \<open>amount\<close> or traps.
\<close>

definition transfer_helper ::
  "env \<Rightarrow> address \<Rightarrow> address \<Rightarrow> address \<Rightarrow> int \<Rightarrow> world \<Rightarrow> world res" where
  "transfer_helper env token_addr from to amount w =
    (let t = \<lparr>tr_token = token_addr, tr_from = from, tr_to = to, tr_amount = amount\<rparr>
     in if env_token_ok env (map fst (w_xfers w)) t
        then Inr (w\<lparr>w_xfers := w_xfers w @ [(t, (w_inst w, w_pers w))]\<rparr>)
        else panic TransferRejected)"

section \<open>Updating one storage tier\<close>

definition inst_update :: "(instance_storage \<Rightarrow> instance_storage) \<Rightarrow> world \<Rightarrow> world" where
  "inst_update f w = w\<lparr>w_inst := f (w_inst w)\<rparr>"

definition pers_update :: "(persistent_storage \<Rightarrow> persistent_storage) \<Rightarrow> world \<Rightarrow> world" where
  "pers_update f w = w\<lparr>w_pers := f (w_pers w)\<rparr>"

definition request_rent :: "rent_request \<Rightarrow> world \<Rightarrow> world" where
  "request_rent r w = w\<lparr>w_rent := w_rent w @ [r]\<rparr>"

lemma publish_frame [simp]:
  "w_inst (publish ev w) = w_inst w" "w_pers (publish ev w) = w_pers w"
  "w_xfers (publish ev w) = w_xfers w" "w_rent (publish ev w) = w_rent w"
  "w_wasm (publish ev w) = w_wasm w" "w_events (publish ev w) = w_events w @ [ev]"
  by (simp_all add: publish_def)

lemma inst_update_frame [simp]:
  "w_inst (inst_update f w) = f (w_inst w)" "w_pers (inst_update f w) = w_pers w"
  "w_xfers (inst_update f w) = w_xfers w" "w_rent (inst_update f w) = w_rent w"
  "w_wasm (inst_update f w) = w_wasm w" "w_events (inst_update f w) = w_events w"
  by (simp_all add: inst_update_def)

lemma pers_update_frame [simp]:
  "w_inst (pers_update f w) = w_inst w" "w_pers (pers_update f w) = f (w_pers w)"
  "w_xfers (pers_update f w) = w_xfers w" "w_rent (pers_update f w) = w_rent w"
  "w_wasm (pers_update f w) = w_wasm w" "w_events (pers_update f w) = w_events w"
  by (simp_all add: pers_update_def)

lemma request_rent_frame [simp]:
  "w_inst (request_rent r w) = w_inst w" "w_pers (request_rent r w) = w_pers w"
  "w_xfers (request_rent r w) = w_xfers w" "w_rent (request_rent r w) = w_rent w @ [r]"
  "w_wasm (request_rent r w) = w_wasm w" "w_events (request_rent r w) = w_events w"
  by (simp_all add: request_rent_def)

lemma transfer_helper_Inr:
  "transfer_helper env tk a b n w = Inr w' \<longleftrightarrow>
    env_token_ok env (map fst (w_xfers w))
      \<lparr>tr_token = tk, tr_from = a, tr_to = b, tr_amount = n\<rparr> \<and>
    w' = w\<lparr>w_xfers := w_xfers w @
      [(\<lparr>tr_token = tk, tr_from = a, tr_to = b, tr_amount = n\<rparr>, (w_inst w, w_pers w))]\<rparr>"
  by (auto simp: transfer_helper_def Let_def)

lemma transfer_helper_frame:
  assumes "transfer_helper env tk a b n w = Inr w'"
  shows "w_inst w' = w_inst w" "w_pers w' = w_pers w" "w_rent w' = w_rent w"
    "w_wasm w' = w_wasm w" "w_events w' = w_events w"
    "w_xfers w' = w_xfers w @
      [(\<lparr>tr_token = tk, tr_from = a, tr_to = b, tr_amount = n\<rparr>, (w_inst w, w_pers w))]"
  using assms by (simp_all add: transfer_helper_Inr)

section \<open>Custody\<close>

text \<open>
  What the contract holds of a token, as the transfers it made imply: a token contract
  that moves what it is told to and nothing else (SEP-41) leaves this balance to it.
\<close>

definition xfer_delta :: "address \<Rightarrow> address \<Rightarrow> transfer \<Rightarrow> int" where
  "xfer_delta self tk t =
    (if tr_token t = tk
     then (if tr_to t = self then tr_amount t else 0)
        - (if tr_from t = self then tr_amount t else 0)
     else 0)"

definition custody_of :: "address \<Rightarrow> address \<Rightarrow> transfer list \<Rightarrow> int" where
  "custody_of self tk ts = sum_list (map (xfer_delta self tk) ts)"

lemma custody_of_Nil [simp]: "custody_of self tk [] = 0"
  by (simp add: custody_of_def)

lemma custody_of_Cons [simp]:
  "custody_of self tk (t # ts) = xfer_delta self tk t + custody_of self tk ts"
  by (simp add: custody_of_def)

lemma custody_of_append [simp]:
  "custody_of self tk (xs @ ys) = custody_of self tk xs + custody_of self tk ys"
  by (simp add: custody_of_def)

section \<open>A freshly deployed contract\<close>

definition empty_instance :: instance_storage where
  "empty_instance = \<lparr>
    i_admin = None, i_escrow_counter = None, i_fee_collector = None, i_fee_config = None,
    i_paused = None, i_action_paused = (\<lambda>_. None), i_ttl_extension = None,
    i_token_allowlist_enabled = None, i_token_allowlist = None, i_platform_fee_bps = None,
    i_treasury = None, i_max_amount = None, i_min_amount = None,
    i_approved_resolvers = None, i_resolver_strict = None, i_storage_version = None,
    i_total_arbitration_fees = (\<lambda>_. None), i_legacy_totals = (\<lambda>_. None),
    i_timelock = (\<lambda>_. None), i_dispute_timeout = None, i_pending_fee_collector = None,
    i_pending_treasury = None, i_max_appeals = None, i_max_basket_size = None,
    i_appeal_fee_bps = None, i_recovery_mode = None, i_admin_timelock_delay = None,
    i_global_config = None\<rparr>"

definition empty_persistent :: persistent_storage where
  "empty_persistent = \<lparr>
    p_escrow = (\<lambda>_. None), p_history = (\<lambda>_. None), p_dispute = (\<lambda>_. None),
    p_legacy_messages = (\<lambda>_. None), p_message = (\<lambda>_ _. None), p_pending_expiry = (\<lambda>_. None),
    p_votes = (\<lambda>_. None), p_basket = (\<lambda>_. None), p_delivery_proposal = (\<lambda>_. None),
    p_shard = (\<lambda>_ _. None), p_ids = (\<lambda>_. None), p_counts = (\<lambda>_. None)\<rparr>"

definition fresh_world :: world where
  "fresh_world = \<lparr>w_inst = empty_instance, w_pers = empty_persistent, w_xfers = [],
    w_events = [], w_rent = [], w_wasm = []\<rparr>"

end
