(* ===== verification/Events.thy ===== *)
theory Events
  imports Ledger
begin

text \<open>
  The events of \<open>src/contracts/escrow/src/events.rs\<close>.  \<open>emit_x env args\<close> is the event that
  the function of that name publishes: its topics, the name of its payload struct and the
  payload's fields in order; an operation performs it with \<open>publish\<close>.
\<close>

definition EVENT_SCHEMA_VERSION :: u32 where [const_defs]: "EVENT_SCHEMA_VERSION = 4"

definition basket_val :: "(address \<times> int) list \<Rightarrow> val" where
  "basket_val ts = VVec (map (\<lambda>(a, n). VVec [VAddress a, VI128 n]) ts)"

definition emit_fee_updated ::
  "env \<Rightarrow> u32 \<Rightarrow> u32 \<Rightarrow> event" where
  [emit_defs]: "emit_fee_updated env old_fee_bps new_fee_bps = \<lparr>
    ev_topics = [VSymbol ''Fee'', VSymbol ''Updated''],
    ev_kind = ''FeeUpdated'',
    ev_data =
      [(''schema_version'', VU32 EVENT_SCHEMA_VERSION),
       (''old_fee_bps'', VU32 old_fee_bps),
       (''new_fee_bps'', VU32 new_fee_bps),
       (''timestamp'', VU64 (env_now env))]\<rparr>"

definition emit_protocol_fee_updated ::
  "env \<Rightarrow> u32 \<Rightarrow> u32 \<Rightarrow> event" where
  [emit_defs]: "emit_protocol_fee_updated env old_fee_bps new_fee_bps = \<lparr>
    ev_topics = [VSymbol ''ProtoFee'', VSymbol ''Updated''],
    ev_kind = ''ProtocolFeeUpdated'',
    ev_data =
      [(''schema_version'', VU32 EVENT_SCHEMA_VERSION),
       (''old_fee_bps'', VU32 old_fee_bps),
       (''new_fee_bps'', VU32 new_fee_bps),
       (''timestamp'', VU64 (env_now env))]\<rparr>"

definition emit_arbitration_fee_updated ::
  "env \<Rightarrow> u32 \<Rightarrow> u32 \<Rightarrow> event" where
  [emit_defs]: "emit_arbitration_fee_updated env old_fee_bps new_fee_bps = \<lparr>
    ev_topics = [VSymbol ''ArbFee'', VSymbol ''Updated''],
    ev_kind = ''ArbitrationFeeUpdated'',
    ev_data =
      [(''schema_version'', VU32 EVENT_SCHEMA_VERSION),
       (''old_fee_bps'', VU32 old_fee_bps),
       (''new_fee_bps'', VU32 new_fee_bps),
       (''timestamp'', VU64 (env_now env))]\<rparr>"

definition emit_admin_rotated ::
  "env \<Rightarrow> address \<Rightarrow> address \<Rightarrow> event" where
  [emit_defs]: "emit_admin_rotated env old_admin new_admin = \<lparr>
    ev_topics = [VSymbol ''Admin'', VSymbol ''Rotated''],
    ev_kind = ''AdminRotated'',
    ev_data =
      [(''schema_version'', VU32 EVENT_SCHEMA_VERSION),
       (''old_admin'', VAddress old_admin),
       (''new_admin'', VAddress new_admin),
       (''timestamp'', VU64 (env_now env))]\<rparr>"

definition emit_contract_paused ::
  "env \<Rightarrow> address \<Rightarrow> event" where
  [emit_defs]: "emit_contract_paused env admin = \<lparr>
    ev_topics = [VSymbol ''Contract'', VSymbol ''Paused'', VAddress admin],
    ev_kind = ''ContractPausedEvent'',
    ev_data =
      [(''schema_version'', VU32 EVENT_SCHEMA_VERSION),
       (''admin'', VAddress admin),
       (''timestamp'', VU64 (env_now env))]\<rparr>"

definition emit_contract_unpaused ::
  "env \<Rightarrow> address \<Rightarrow> event" where
  [emit_defs]: "emit_contract_unpaused env admin = \<lparr>
    ev_topics = [VSymbol ''Contract'', VSymbol ''Unpaused'', VAddress admin],
    ev_kind = ''ContractUnpausedEvent'',
    ev_data =
      [(''schema_version'', VU32 EVENT_SCHEMA_VERSION),
       (''admin'', VAddress admin),
       (''timestamp'', VU64 (env_now env))]\<rparr>"

definition emit_escrow_created ::
  "env \<Rightarrow> u64 \<Rightarrow> address \<Rightarrow> address \<Rightarrow> address \<Rightarrow> int \<Rightarrow> u32 \<Rightarrow> u32 \<Rightarrow> u64 \<Rightarrow> u64 option \<Rightarrow> EscrowState \<Rightarrow> event" where
  [emit_defs]: "emit_escrow_created env escrow_id seller resolver token amount fee_bps resolver_fee_bps shipping_window expires_at new_state = \<lparr>
    ev_topics = [VSymbol ''Escrow'', VSymbol ''Created'', VAddress seller, VAddress resolver],
    ev_kind = ''EscrowCreated'',
    ev_data =
      [(''schema_version'', VU32 EVENT_SCHEMA_VERSION),
       (''escrow_id'', VU64 escrow_id),
       (''seller'', VAddress seller),
       (''resolver'', VAddress resolver),
       (''token'', VAddress token),
       (''amount'', VI128 amount),
       (''fee_bps'', VU32 fee_bps),
       (''resolver_fee_bps'', VU32 resolver_fee_bps),
       (''shipping_window'', VU64 shipping_window),
       (''expires_at'', VOption (map_option VU64 expires_at)),
       (''timestamp'', VU64 (env_now env)),
       (''new_state'', VState new_state)]\<rparr>"

definition emit_escrow_funded ::
  "env \<Rightarrow> u64 \<Rightarrow> address \<Rightarrow> int \<Rightarrow> EscrowState \<Rightarrow> EscrowState \<Rightarrow> (address \<times> int) list option \<Rightarrow> event" where
  [emit_defs]: "emit_escrow_funded env escrow_id buyer amount prev_state new_state basket_tokens = \<lparr>
    ev_topics = [VSymbol ''Escrow'', VSymbol ''Funded'', VU64 escrow_id, VAddress buyer],
    ev_kind = ''EscrowFunded'',
    ev_data =
      [(''schema_version'', VU32 EVENT_SCHEMA_VERSION),
       (''escrow_id'', VU64 escrow_id),
       (''buyer'', VAddress buyer),
       (''amount'', VI128 amount),
       (''timestamp'', VU64 (env_now env)),
       (''prev_state'', VState prev_state),
       (''new_state'', VState new_state),
       (''basket_tokens'', VOption (map_option basket_val basket_tokens))]\<rparr>"

definition emit_escrow_shipped ::
  "env \<Rightarrow> u64 \<Rightarrow> address \<Rightarrow> string \<Rightarrow> EscrowState \<Rightarrow> EscrowState \<Rightarrow> event" where
  [emit_defs]: "emit_escrow_shipped env escrow_id seller tracking_id prev_state new_state = \<lparr>
    ev_topics = [VSymbol ''Escrow'', VSymbol ''Shipped'', VAddress seller],
    ev_kind = ''EscrowShipped'',
    ev_data =
      [(''schema_version'', VU32 EVENT_SCHEMA_VERSION),
       (''escrow_id'', VU64 escrow_id),
       (''seller'', VAddress seller),
       (''tracking_id'', VString tracking_id),
       (''timestamp'', VU64 (env_now env)),
       (''prev_state'', VState prev_state),
       (''new_state'', VState new_state)]\<rparr>"

definition emit_delivery_recorded ::
  "env \<Rightarrow> u64 \<Rightarrow> u64 \<Rightarrow> event" where
  [emit_defs]: "emit_delivery_recorded env escrow_id delivered_at = \<lparr>
    ev_topics = [VSymbol ''Escrow'', VSymbol ''Delivered''],
    ev_kind = ''DeliveryRecorded'',
    ev_data =
      [(''schema_version'', VU32 EVENT_SCHEMA_VERSION),
       (''escrow_id'', VU64 escrow_id),
       (''delivered_at'', VU64 delivered_at)]\<rparr>"

definition emit_escrow_completed ::
  "env \<Rightarrow> u64 \<Rightarrow> address \<Rightarrow> int \<Rightarrow> u32 \<Rightarrow> EscrowState \<Rightarrow> EscrowState \<Rightarrow> event" where
  [emit_defs]: "emit_escrow_completed env escrow_id recipient amount fee_bps prev_state new_state = \<lparr>
    ev_topics = [VSymbol ''Escrow'', VSymbol ''Completed'', VAddress recipient],
    ev_kind = ''EscrowCompleted'',
    ev_data =
      [(''schema_version'', VU32 EVENT_SCHEMA_VERSION),
       (''escrow_id'', VU64 escrow_id),
       (''recipient'', VAddress recipient),
       (''amount'', VI128 amount),
       (''fee_bps'', VU32 fee_bps),
       (''timestamp'', VU64 (env_now env)),
       (''prev_state'', VState prev_state),
       (''new_state'', VState new_state)]\<rparr>"

definition emit_dispute_raised ::
  "env \<Rightarrow> u64 \<Rightarrow> address \<Rightarrow> symbol \<Rightarrow> bytes \<Rightarrow> bytes \<Rightarrow> EscrowState \<Rightarrow> EscrowState \<Rightarrow> event" where
  [emit_defs]: "emit_dispute_raised env escrow_id buyer reason description evidence_hash prev_state new_state = \<lparr>
    ev_topics = [VSymbol ''Dispute'', VSymbol ''Raised'', VAddress buyer],
    ev_kind = ''DisputeRaised'',
    ev_data =
      [(''schema_version'', VU32 EVENT_SCHEMA_VERSION),
       (''escrow_id'', VU64 escrow_id),
       (''buyer'', VAddress buyer),
       (''reason'', VSymbol reason),
       (''description'', VBytes description),
       (''evidence_hash'', VBytes evidence_hash),
       (''timestamp'', VU64 (env_now env)),
       (''prev_state'', VState prev_state),
       (''new_state'', VState new_state)]\<rparr>"

definition emit_dispute_resolved ::
  "env \<Rightarrow> u64 \<Rightarrow> address \<Rightarrow> ResolutionType \<Rightarrow> address \<Rightarrow> int \<Rightarrow> int \<Rightarrow> int \<Rightarrow> int \<Rightarrow> EscrowState \<Rightarrow> EscrowState \<Rightarrow> event" where
  [emit_defs]: "emit_dispute_resolved env escrow_id resolver resolution recipient amount arbitration_fee resolver_fee platform_fee prev_state new_state = \<lparr>
    ev_topics = [VSymbol ''Dispute'', VSymbol ''Resolved'', VAddress resolver],
    ev_kind = ''DisputeResolved'',
    ev_data =
      [(''schema_version'', VU32 EVENT_SCHEMA_VERSION),
       (''escrow_id'', VU64 escrow_id),
       (''resolver'', VAddress resolver),
       (''resolution'', VResolution resolution),
       (''recipient'', VAddress recipient),
       (''amount'', VI128 amount),
       (''arbitration_fee'', VI128 arbitration_fee),
       (''resolver_fee'', VI128 resolver_fee),
       (''platform_fee'', VI128 platform_fee),
       (''timestamp'', VU64 (env_now env)),
       (''prev_state'', VState prev_state),
       (''new_state'', VState new_state)]\<rparr>"

definition emit_resolver_vote_recorded ::
  "env \<Rightarrow> u64 \<Rightarrow> address \<Rightarrow> ResolutionType \<Rightarrow> u32 \<Rightarrow> u32 \<Rightarrow> event" where
  [emit_defs]: "emit_resolver_vote_recorded env escrow_id resolver resolution vote_count threshold = \<lparr>
    ev_topics = [VSymbol ''resolver_vote_recorded''],
    ev_kind = ''ResolverVoteRecorded'',
    ev_data =
      [(''schema_version'', VU32 EVENT_SCHEMA_VERSION),
       (''escrow_id'', VU64 escrow_id),
       (''resolver'', VAddress resolver),
       (''resolution'', VResolution resolution),
       (''vote_count'', VU32 vote_count),
       (''threshold'', VU32 threshold),
       (''voted_at'', VU64 (env_now env))]\<rparr>"

definition emit_auto_released ::
  "env \<Rightarrow> u64 \<Rightarrow> address \<Rightarrow> int \<Rightarrow> u32 \<Rightarrow> EscrowState \<Rightarrow> EscrowState \<Rightarrow> event" where
  [emit_defs]: "emit_auto_released env escrow_id seller amount fee_bps prev_state new_state = \<lparr>
    ev_topics = [VSymbol ''Escrow'', VSymbol ''Released'', VAddress seller],
    ev_kind = ''AutoReleased'',
    ev_data =
      [(''schema_version'', VU32 EVENT_SCHEMA_VERSION),
       (''escrow_id'', VU64 escrow_id),
       (''seller'', VAddress seller),
       (''amount'', VI128 amount),
       (''fee_bps'', VU32 fee_bps),
       (''timestamp'', VU64 (env_now env)),
       (''prev_state'', VState prev_state),
       (''new_state'', VState new_state)]\<rparr>"

definition emit_escrow_canceled ::
  "env \<Rightarrow> u64 \<Rightarrow> address \<Rightarrow> address \<Rightarrow> EscrowState \<Rightarrow> EscrowState \<Rightarrow> event" where
  [emit_defs]: "emit_escrow_canceled env escrow_id seller cancelled_by prev_state new_state = \<lparr>
    ev_topics = [VSymbol ''Escrow'', VSymbol ''Canceled'', VAddress cancelled_by],
    ev_kind = ''EscrowCanceled'',
    ev_data =
      [(''schema_version'', VU32 EVENT_SCHEMA_VERSION),
       (''escrow_id'', VU64 escrow_id),
       (''seller'', VAddress seller),
       (''cancelled_by'', VAddress cancelled_by),
       (''timestamp'', VU64 (env_now env)),
       (''prev_state'', VState prev_state),
       (''new_state'', VState new_state)]\<rparr>"

definition emit_escrow_expired ::
  "env \<Rightarrow> u64 \<Rightarrow> address \<Rightarrow> int \<Rightarrow> EscrowState \<Rightarrow> EscrowState \<Rightarrow> event" where
  [emit_defs]: "emit_escrow_expired env escrow_id buyer amount prev_state new_state = \<lparr>
    ev_topics = [VSymbol ''Escrow'', VSymbol ''Expired'', VAddress buyer],
    ev_kind = ''EscrowExpired'',
    ev_data =
      [(''schema_version'', VU32 EVENT_SCHEMA_VERSION),
       (''escrow_id'', VU64 escrow_id),
       (''buyer'', VAddress buyer),
       (''amount'', VI128 amount),
       (''timestamp'', VU64 (env_now env)),
       (''prev_state'', VState prev_state),
       (''new_state'', VState new_state)]\<rparr>"

definition emit_escrow_auto_canceled ::
  "env \<Rightarrow> u64 \<Rightarrow> event" where
  [emit_defs]: "emit_escrow_auto_canceled env escrow_id = \<lparr>
    ev_topics = [VSymbol ''Escrow'', VSymbol ''AutoCncl''],
    ev_kind = ''EscrowAutoCanceled'',
    ev_data =
      [(''schema_version'', VU32 EVENT_SCHEMA_VERSION),
       (''escrow_id'', VU64 escrow_id),
       (''timestamp'', VU64 (env_now env))]\<rparr>"

definition emit_contract_initialized ::
  "env \<Rightarrow> address \<Rightarrow> address \<Rightarrow> u32 \<Rightarrow> event" where
  [emit_defs]: "emit_contract_initialized env admin fee_collector arbitration_fee_bps = \<lparr>
    ev_topics = [VSymbol ''Contract'', VSymbol ''Init''],
    ev_kind = ''ContractInitialized'',
    ev_data =
      [(''schema_version'', VU32 EVENT_SCHEMA_VERSION),
       (''admin'', VAddress admin),
       (''fee_collector'', VAddress fee_collector),
       (''arbitration_fee_bps'', VU32 arbitration_fee_bps),
       (''timestamp'', VU64 (env_now env))]\<rparr>"

definition emit_resolver_rotated ::
  "env \<Rightarrow> u64 \<Rightarrow> address \<Rightarrow> address \<Rightarrow> event" where
  [emit_defs]: "emit_resolver_rotated env escrow_id old_resolver new_resolver = \<lparr>
    ev_topics = [VSymbol ''Resolver'', VSymbol ''Rotated''],
    ev_kind = ''ResolverRotated'',
    ev_data =
      [(''schema_version'', VU32 EVENT_SCHEMA_VERSION),
       (''escrow_id'', VU64 escrow_id),
       (''old_resolver'', VAddress old_resolver),
       (''new_resolver'', VAddress new_resolver),
       (''rotated_at'', VU64 (env_now env))]\<rparr>"

definition emit_token_allowlist_updated ::
  "env \<Rightarrow> address \<Rightarrow> bool \<Rightarrow> event" where
  [emit_defs]: "emit_token_allowlist_updated env token added = \<lparr>
    ev_topics = [VSymbol ''Token'', VSymbol ''Allowlist'', VAddress token],
    ev_kind = ''TokenAllowlistUpdated'',
    ev_data =
      [(''schema_version'', VU32 EVENT_SCHEMA_VERSION),
       (''added'', VBool added),
       (''timestamp'', VU64 (env_now env))]\<rparr>"

definition emit_allowlist_toggled ::
  "env \<Rightarrow> bool \<Rightarrow> event" where
  [emit_defs]: "emit_allowlist_toggled env enabled = \<lparr>
    ev_topics = [VSymbol ''Allowlist'', VSymbol ''Toggled''],
    ev_kind = ''AllowlistToggled'',
    ev_data =
      [(''schema_version'', VU32 EVENT_SCHEMA_VERSION),
       (''enabled'', VBool enabled),
       (''timestamp'', VU64 (env_now env))]\<rparr>"

definition emit_dispute_pending_finalization ::
  "env \<Rightarrow> u64 \<Rightarrow> address \<Rightarrow> ResolutionType \<Rightarrow> int \<Rightarrow> u64 \<Rightarrow> event" where
  [emit_defs]: "emit_dispute_pending_finalization env escrow_id resolver resolution amount appeal_deadline = \<lparr>
    ev_topics = [VSymbol ''Dispute'', VSymbol ''Pending'', VAddress resolver],
    ev_kind = ''DisputePendingFinalization'',
    ev_data =
      [(''schema_version'', VU32 EVENT_SCHEMA_VERSION),
       (''escrow_id'', VU64 escrow_id),
       (''resolver'', VAddress resolver),
       (''resolution'', VResolution resolution),
       (''amount'', VI128 amount),
       (''appeal_deadline'', VU64 appeal_deadline),
       (''pending_at'', VU64 (env_now env))]\<rparr>"

definition emit_dispute_appealed ::
  "env \<Rightarrow> u64 \<Rightarrow> address \<Rightarrow> event" where
  [emit_defs]: "emit_dispute_appealed env escrow_id appellant = \<lparr>
    ev_topics = [VSymbol ''Dispute'', VSymbol ''Appealed'', VAddress appellant],
    ev_kind = ''DisputeAppealed'',
    ev_data =
      [(''schema_version'', VU32 EVENT_SCHEMA_VERSION),
       (''escrow_id'', VU64 escrow_id),
       (''appellant'', VAddress appellant),
       (''timestamp'', VU64 (env_now env))]\<rparr>"

definition emit_platform_fee_updated ::
  "env \<Rightarrow> u32 \<Rightarrow> u32 \<Rightarrow> event" where
  [emit_defs]: "emit_platform_fee_updated env old_fee_bps new_fee_bps = \<lparr>
    ev_topics = [VSymbol ''PlatFee'', VSymbol ''Updated''],
    ev_kind = ''PlatformFeeUpdated'',
    ev_data =
      [(''schema_version'', VU32 EVENT_SCHEMA_VERSION),
       (''old_fee_bps'', VU32 old_fee_bps),
       (''new_fee_bps'', VU32 new_fee_bps),
       (''timestamp'', VU64 (env_now env))]\<rparr>"

definition emit_treasury_updated ::
  "env \<Rightarrow> address \<Rightarrow> address \<Rightarrow> event" where
  [emit_defs]: "emit_treasury_updated env old_treasury new_treasury = \<lparr>
    ev_topics = [VSymbol ''Treasury'', VSymbol ''Updated''],
    ev_kind = ''TreasuryUpdated'',
    ev_data =
      [(''schema_version'', VU32 EVENT_SCHEMA_VERSION),
       (''old_treasury'', VAddress old_treasury),
       (''new_treasury'', VAddress new_treasury),
       (''timestamp'', VU64 (env_now env))]\<rparr>"

definition emit_basket_escrow_created ::
  "env \<Rightarrow> u64 \<Rightarrow> address \<Rightarrow> u32 \<Rightarrow> event" where
  [emit_defs]: "emit_basket_escrow_created env escrow_id seller token_count = \<lparr>
    ev_topics = [VSymbol ''Basket'', VSymbol ''Created'', VAddress seller],
    ev_kind = ''BasketEscrowCreated'',
    ev_data =
      [(''schema_version'', VU32 EVENT_SCHEMA_VERSION),
       (''escrow_id'', VU64 escrow_id),
       (''seller'', VAddress seller),
       (''token_count'', VU32 token_count),
       (''timestamp'', VU64 (env_now env))]\<rparr>"

definition emit_message_posted ::
  "env \<Rightarrow> u64 \<Rightarrow> address \<Rightarrow> event" where
  [emit_defs]: "emit_message_posted env escrow_id sender = \<lparr>
    ev_topics = [VSymbol ''Message'', VSymbol ''Posted'', VAddress sender],
    ev_kind = ''MessagePosted'',
    ev_data =
      [(''schema_version'', VU32 EVENT_SCHEMA_VERSION),
       (''escrow_id'', VU64 escrow_id),
       (''sender'', VAddress sender),
       (''timestamp'', VU64 (env_now env))]\<rparr>"

definition emit_refund_requested ::
  "env \<Rightarrow> u64 \<Rightarrow> address \<Rightarrow> EscrowState \<Rightarrow> EscrowState \<Rightarrow> (address \<times> int) list option \<Rightarrow> event" where
  [emit_defs]: "emit_refund_requested env escrow_id buyer prev_state new_state basket_tokens = \<lparr>
    ev_topics = [VSymbol ''Refund'', VSymbol ''Requested'', VAddress buyer],
    ev_kind = ''RefundRequestedEvent'',
    ev_data =
      [(''schema_version'', VU32 EVENT_SCHEMA_VERSION),
       (''escrow_id'', VU64 escrow_id),
       (''buyer'', VAddress buyer),
       (''timestamp'', VU64 (env_now env)),
       (''prev_state'', VState prev_state),
       (''new_state'', VState new_state),
       (''basket_tokens'', VOption (map_option basket_val basket_tokens))]\<rparr>"

definition emit_refund_approved ::
  "env \<Rightarrow> u64 \<Rightarrow> address \<Rightarrow> EscrowState \<Rightarrow> EscrowState \<Rightarrow> event" where
  [emit_defs]: "emit_refund_approved env escrow_id seller prev_state new_state = \<lparr>
    ev_topics = [VSymbol ''Refund'', VSymbol ''Approved'', VAddress seller],
    ev_kind = ''RefundApprovedEvent'',
    ev_data =
      [(''schema_version'', VU32 EVENT_SCHEMA_VERSION),
       (''escrow_id'', VU64 escrow_id),
       (''seller'', VAddress seller),
       (''timestamp'', VU64 (env_now env)),
       (''prev_state'', VState prev_state),
       (''new_state'', VState new_state)]\<rparr>"

definition emit_contract_upgraded ::
  "env \<Rightarrow> address \<Rightarrow> bytes \<Rightarrow> event" where
  [emit_defs]: "emit_contract_upgraded env admin new_wasm_hash = \<lparr>
    ev_topics = [VSymbol ''contract_upgraded''],
    ev_kind = ''ContractUpgradedEvent'',
    ev_data =
      [(''schema_version'', VU32 EVENT_SCHEMA_VERSION),
       (''admin'', VAddress admin),
       (''new_wasm_hash'', VBytes new_wasm_hash),
       (''timestamp'', VU64 (env_now env))]\<rparr>"

definition emit_storage_migrated ::
  "env \<Rightarrow> address \<Rightarrow> u32 \<Rightarrow> u32 \<Rightarrow> event" where
  [emit_defs]: "emit_storage_migrated env admin from_version to_version = \<lparr>
    ev_topics = [VSymbol ''storage_migrated''],
    ev_kind = ''StorageMigratedEvent'',
    ev_data =
      [(''schema_version'', VU32 EVENT_SCHEMA_VERSION),
       (''admin'', VAddress admin),
       (''from_version'', VU32 from_version),
       (''to_version'', VU32 to_version),
       (''timestamp'', VU64 (env_now env))]\<rparr>"

definition emit_ttl_extension_updated ::
  "env \<Rightarrow> u32 \<Rightarrow> u32 \<Rightarrow> address \<Rightarrow> event" where
  [emit_defs]: "emit_ttl_extension_updated env old_ledgers new_ledgers caller = \<lparr>
    ev_topics = [VSymbol ''TtlExt'', VSymbol ''Updated''],
    ev_kind = ''TtlExtensionUpdated'',
    ev_data =
      [(''schema_version'', VU32 EVENT_SCHEMA_VERSION),
       (''old_ledgers'', VU32 old_ledgers),
       (''new_ledgers'', VU32 new_ledgers),
       (''caller'', VAddress caller),
       (''timestamp'', VU64 (env_now env))]\<rparr>"

definition emit_amount_limits_updated ::
  "env \<Rightarrow> int \<Rightarrow> int \<Rightarrow> int \<Rightarrow> int \<Rightarrow> address \<Rightarrow> event" where
  [emit_defs]: "emit_amount_limits_updated env old_min_amount new_min_amount old_max_amount new_max_amount caller = \<lparr>
    ev_topics = [VSymbol ''AmtLimit'', VSymbol ''Updated''],
    ev_kind = ''AmountLimitsUpdated'',
    ev_data =
      [(''schema_version'', VU32 EVENT_SCHEMA_VERSION),
       (''old_min_amount'', VI128 old_min_amount),
       (''new_min_amount'', VI128 new_min_amount),
       (''old_max_amount'', VI128 old_max_amount),
       (''new_max_amount'', VI128 new_max_amount),
       (''caller'', VAddress caller),
       (''timestamp'', VU64 (env_now env))]\<rparr>"

definition emit_action_paused ::
  "env \<Rightarrow> symbol \<Rightarrow> address \<Rightarrow> event" where
  [emit_defs]: "emit_action_paused env action caller = \<lparr>
    ev_topics = [VSymbol ''Action'', VSymbol ''Paused'', VSymbol action],
    ev_kind = ''ActionPausedEvent'',
    ev_data =
      [(''schema_version'', VU32 EVENT_SCHEMA_VERSION),
       (''action'', VSymbol action),
       (''caller'', VAddress caller),
       (''timestamp'', VU64 (env_now env))]\<rparr>"

definition emit_action_unpaused ::
  "env \<Rightarrow> symbol \<Rightarrow> address \<Rightarrow> event" where
  [emit_defs]: "emit_action_unpaused env action caller = \<lparr>
    ev_topics = [VSymbol ''Action'', VSymbol ''Unpaused'', VSymbol action],
    ev_kind = ''ActionUnpausedEvent'',
    ev_data =
      [(''schema_version'', VU32 EVENT_SCHEMA_VERSION),
       (''action'', VSymbol action),
       (''caller'', VAddress caller),
       (''timestamp'', VU64 (env_now env))]\<rparr>"

definition emit_resolver_approved ::
  "env \<Rightarrow> address \<Rightarrow> address \<Rightarrow> event" where
  [emit_defs]: "emit_resolver_approved env resolver caller = \<lparr>
    ev_topics = [VSymbol ''Resolver'', VSymbol ''Approved'', VAddress resolver],
    ev_kind = ''ResolverApproved'',
    ev_data =
      [(''schema_version'', VU32 EVENT_SCHEMA_VERSION),
       (''resolver'', VAddress resolver),
       (''caller'', VAddress caller),
       (''timestamp'', VU64 (env_now env))]\<rparr>"

definition emit_resolver_removed ::
  "env \<Rightarrow> address \<Rightarrow> address \<Rightarrow> event" where
  [emit_defs]: "emit_resolver_removed env resolver caller = \<lparr>
    ev_topics = [VSymbol ''Resolver'', VSymbol ''Removed'', VAddress resolver],
    ev_kind = ''ResolverRemoved'',
    ev_data =
      [(''schema_version'', VU32 EVENT_SCHEMA_VERSION),
       (''resolver'', VAddress resolver),
       (''caller'', VAddress caller),
       (''timestamp'', VU64 (env_now env))]\<rparr>"

definition emit_resolver_strict_updated ::
  "env \<Rightarrow> bool \<Rightarrow> bool \<Rightarrow> address \<Rightarrow> event" where
  [emit_defs]: "emit_resolver_strict_updated env old_strict new_strict caller = \<lparr>
    ev_topics = [VSymbol ''ResStrct'', VSymbol ''Updated''],
    ev_kind = ''ResolverStrictUpdated'',
    ev_data =
      [(''schema_version'', VU32 EVENT_SCHEMA_VERSION),
       (''old_strict'', VBool old_strict),
       (''new_strict'', VBool new_strict),
       (''caller'', VAddress caller),
       (''timestamp'', VU64 (env_now env))]\<rparr>"

definition emit_fee_collector_pending ::
  "env \<Rightarrow> address \<Rightarrow> address \<Rightarrow> event" where
  [emit_defs]: "emit_fee_collector_pending env old_collector pending_collector = \<lparr>
    ev_topics = [VSymbol ''FeeColl'', VSymbol ''Pending''],
    ev_kind = ''FeeCollectorPending'',
    ev_data =
      [(''schema_version'', VU32 EVENT_SCHEMA_VERSION),
       (''old_collector'', VAddress old_collector),
       (''pending_collector'', VAddress pending_collector),
       (''timestamp'', VU64 (env_now env))]\<rparr>"

definition emit_fee_collector_accepted ::
  "env \<Rightarrow> address \<Rightarrow> address \<Rightarrow> event" where
  [emit_defs]: "emit_fee_collector_accepted env old_collector new_collector = \<lparr>
    ev_topics = [VSymbol ''FeeColl'', VSymbol ''Accepted''],
    ev_kind = ''FeeCollectorAccepted'',
    ev_data =
      [(''schema_version'', VU32 EVENT_SCHEMA_VERSION),
       (''old_collector'', VAddress old_collector),
       (''new_collector'', VAddress new_collector),
       (''timestamp'', VU64 (env_now env))]\<rparr>"

definition emit_fee_collector_updated ::
  "env \<Rightarrow> address \<Rightarrow> address \<Rightarrow> event" where
  [emit_defs]: "emit_fee_collector_updated env old_collector new_collector = \<lparr>
    ev_topics = [VSymbol ''FeeColl'', VSymbol ''Updated'', VAddress new_collector],
    ev_kind = ''FeeCollectorUpdated'',
    ev_data =
      [(''schema_version'', VU32 EVENT_SCHEMA_VERSION),
       (''old_collector'', VAddress old_collector),
       (''timestamp'', VU64 (env_now env))]\<rparr>"

definition emit_treasury_pending ::
  "env \<Rightarrow> address \<Rightarrow> address \<Rightarrow> event" where
  [emit_defs]: "emit_treasury_pending env old_treasury pending_treasury = \<lparr>
    ev_topics = [VSymbol ''Treasury'', VSymbol ''Pending''],
    ev_kind = ''TreasuryPending'',
    ev_data =
      [(''schema_version'', VU32 EVENT_SCHEMA_VERSION),
       (''old_treasury'', VAddress old_treasury),
       (''pending_treasury'', VAddress pending_treasury),
       (''timestamp'', VU64 (env_now env))]\<rparr>"

definition emit_treasury_accepted ::
  "env \<Rightarrow> address \<Rightarrow> address \<Rightarrow> event" where
  [emit_defs]: "emit_treasury_accepted env old_treasury new_treasury = \<lparr>
    ev_topics = [VSymbol ''Treasury'', VSymbol ''Accepted''],
    ev_kind = ''TreasuryAccepted'',
    ev_data =
      [(''schema_version'', VU32 EVENT_SCHEMA_VERSION),
       (''old_treasury'', VAddress old_treasury),
       (''new_treasury'', VAddress new_treasury),
       (''timestamp'', VU64 (env_now env))]\<rparr>"

definition emit_emergency_drain ::
  "env \<Rightarrow> u64 \<Rightarrow> address \<Rightarrow> int \<Rightarrow> event" where
  [emit_defs]: "emit_emergency_drain env escrow_id token amount = \<lparr>
    ev_topics = [VSymbol ''Emergency'', VSymbol ''Drain''],
    ev_kind = ''EmergencyDrain'',
    ev_data =
      [(''schema_version'', VU32 EVENT_SCHEMA_VERSION),
       (''escrow_id'', VU64 escrow_id),
       (''token'', VAddress token),
       (''amount'', VI128 amount),
       (''timestamp'', VU64 (env_now env))]\<rparr>"

definition emit_delivery_proposed ::
  "env \<Rightarrow> u64 \<Rightarrow> u64 \<Rightarrow> u64 \<Rightarrow> event" where
  [emit_defs]: "emit_delivery_proposed env escrow_id proposed_at unlock_at = \<lparr>
    ev_topics = [VSymbol ''Delivery'', VSymbol ''Proposed''],
    ev_kind = ''DeliveryProposed'',
    ev_data =
      [(''schema_version'', VU32 EVENT_SCHEMA_VERSION),
       (''escrow_id'', VU64 escrow_id),
       (''proposed_at'', VU64 proposed_at),
       (''unlock_at'', VU64 unlock_at)]\<rparr>"

definition emit_delivery_proposal_cancelled ::
  "env \<Rightarrow> u64 \<Rightarrow> event" where
  [emit_defs]: "emit_delivery_proposal_cancelled env escrow_id = \<lparr>
    ev_topics = [VSymbol ''Delivery'', VSymbol ''Cancelled''],
    ev_kind = ''DeliveryProposalCancelled'',
    ev_data =
      [(''schema_version'', VU32 EVENT_SCHEMA_VERSION),
       (''escrow_id'', VU64 escrow_id),
       (''timestamp'', VU64 (env_now env))]\<rparr>"

definition emit_pending_expiry_cleared ::
  "env \<Rightarrow> u64 \<Rightarrow> event" where
  [emit_defs]: "emit_pending_expiry_cleared env escrow_id = \<lparr>
    ev_topics = [VSymbol ''PendingExpiry'', VSymbol ''Cleared''],
    ev_kind = ''PendingExpiryClear'',
    ev_data =
      [(''schema_version'', VU32 EVENT_SCHEMA_VERSION),
       (''escrow_id'', VU64 escrow_id),
       (''timestamp'', VU64 (env_now env))]\<rparr>"

definition emit_timelock_queued ::
  "env \<Rightarrow> u32 \<Rightarrow> address \<Rightarrow> u64 \<Rightarrow> u64 \<Rightarrow> event" where
  [emit_defs]: "emit_timelock_queued env operation proposer queued_at ready_at = \<lparr>
    ev_topics = [VSymbol ''Timelock'', VSymbol ''Queued''],
    ev_kind = ''TimelockQueued'',
    ev_data =
      [(''schema_version'', VU32 EVENT_SCHEMA_VERSION),
       (''operation'', VU32 operation),
       (''proposer'', VAddress proposer),
       (''queued_at'', VU64 queued_at),
       (''ready_at'', VU64 ready_at)]\<rparr>"

definition emit_timelock_executed ::
  "env \<Rightarrow> u32 \<Rightarrow> address \<Rightarrow> address \<Rightarrow> val list \<Rightarrow> event" where
  [emit_defs]: "emit_timelock_executed env operation proposer executor params = \<lparr>
    ev_topics = [VSymbol ''Timelock'', VSymbol ''Executed''],
    ev_kind = ''TimelockExecuted'',
    ev_data =
      [(''schema_version'', VU32 EVENT_SCHEMA_VERSION),
       (''operation'', VU32 operation),
       (''proposer'', VAddress proposer),
       (''executor'', VAddress executor),
       (''params'', VVec params),
       (''executed_at'', VU64 (env_now env))]\<rparr>"

definition emit_timelock_cancelled ::
  "env \<Rightarrow> u32 \<Rightarrow> address \<Rightarrow> address \<Rightarrow> event" where
  [emit_defs]: "emit_timelock_cancelled env operation proposer canceller = \<lparr>
    ev_topics = [VSymbol ''Timelock'', VSymbol ''Cancelled''],
    ev_kind = ''TimelockCancelled'',
    ev_data =
      [(''schema_version'', VU32 EVENT_SCHEMA_VERSION),
       (''operation'', VU32 operation),
       (''proposer'', VAddress proposer),
       (''canceller'', VAddress canceller),
       (''cancelled_at'', VU64 (env_now env))]\<rparr>"

definition emit_max_appeals_updated ::
  "env \<Rightarrow> u32 \<Rightarrow> u32 \<Rightarrow> event" where
  [emit_defs]: "emit_max_appeals_updated env old_max new_max = \<lparr>
    ev_topics = [VSymbol ''MaxAppeal'', VSymbol ''Updated''],
    ev_kind = ''MaxAppealsUpdated'',
    ev_data =
      [(''schema_version'', VU32 EVENT_SCHEMA_VERSION),
       (''old_max'', VU32 old_max),
       (''new_max'', VU32 new_max),
       (''timestamp'', VU64 (env_now env))]\<rparr>"

definition emit_max_basket_size_updated ::
  "env \<Rightarrow> u32 \<Rightarrow> u32 \<Rightarrow> event" where
  [emit_defs]: "emit_max_basket_size_updated env old_max new_max = \<lparr>
    ev_topics = [VSymbol ''MaxBasket'', VSymbol ''Updated''],
    ev_kind = ''MaxBasketSizeUpdated'',
    ev_data =
      [(''schema_version'', VU32 EVENT_SCHEMA_VERSION),
       (''old_max'', VU32 old_max),
       (''new_max'', VU32 new_max),
       (''timestamp'', VU64 (env_now env))]\<rparr>"

definition emit_recovery_withdraw ::
  "env \<Rightarrow> u64 \<Rightarrow> address \<Rightarrow> int \<Rightarrow> event" where
  [emit_defs]: "emit_recovery_withdraw env escrow_id buyer amount = \<lparr>
    ev_topics = [VSymbol ''Recovery'', VSymbol ''Withdraw''],
    ev_kind = ''RecoveryWithdraw'',
    ev_data =
      [(''schema_version'', VU32 EVENT_SCHEMA_VERSION),
       (''escrow_id'', VU64 escrow_id),
       (''buyer'', VAddress buyer),
       (''amount'', VI128 amount),
       (''timestamp'', VU64 (env_now env))]\<rparr>"

definition emit_timelock_delay_updated ::
  "env \<Rightarrow> u64 \<Rightarrow> u64 \<Rightarrow> address \<Rightarrow> event" where
  [emit_defs]: "emit_timelock_delay_updated env old_delay new_delay caller = \<lparr>
    ev_topics = [VSymbol ''Admin'', VSymbol ''DelayUpd''],
    ev_kind = ''TimelockDelayUpdated'',
    ev_data =
      [(''schema_version'', VU32 EVENT_SCHEMA_VERSION),
       (''old_delay'', VU64 old_delay),
       (''new_delay'', VU64 new_delay),
       (''caller'', VAddress caller),
       (''timestamp'', VU64 (env_now env))]\<rparr>"

definition emit_appeal_fee_updated ::
  "env \<Rightarrow> u32 \<Rightarrow> u32 \<Rightarrow> event" where
  [emit_defs]: "emit_appeal_fee_updated env old_fee_bps new_fee_bps = \<lparr>
    ev_topics = [VSymbol ''AppealFee'', VSymbol ''Updated''],
    ev_kind = ''AppealFeeUpdated'',
    ev_data =
      [(''schema_version'', VU32 EVENT_SCHEMA_VERSION),
       (''old_fee_bps'', VU32 old_fee_bps),
       (''new_fee_bps'', VU32 new_fee_bps),
       (''timestamp'', VU64 (env_now env))]\<rparr>"

definition emit_recovery_mode_updated ::
  "env \<Rightarrow> bool \<Rightarrow> address \<Rightarrow> event" where
  [emit_defs]: "emit_recovery_mode_updated env enabled caller = \<lparr>
    ev_topics = [VSymbol ''Recovery'', VSymbol ''ModeUpd''],
    ev_kind = ''RecoveryModeUpdated'',
    ev_data =
      [(''schema_version'', VU32 EVENT_SCHEMA_VERSION),
       (''enabled'', VBool enabled),
       (''caller'', VAddress caller),
       (''timestamp'', VU64 (env_now env))]\<rparr>"

text \<open>Every payload starts with the schema version, so a consumer can always dispatch on it.\<close>

definition schema_stamped :: "event \<Rightarrow> bool" where
  "schema_stamped ev = (\<exists>fields. ev_data ev = (''schema_version'', VU32 4) # fields)"

end
