(* ===== verification/Storage.thy ===== *)
theory Storage
  imports Events
begin

text \<open>
  \<open>src/contracts/escrow/src/storage.rs\<close>: the packed global configuration and its
  fallback to the pre-v2 keys, rent extension, the paged message store, and the timelock
  proposals.  The paged escrow indexes of the same file are in the theory \<open>Escrow_Index\<close>.
\<close>

section \<open>Global configuration\<close>

definition default_global_config :: GlobalConfig where
  "default_global_config = \<lparr>
    g_fee_collector = None,
    g_treasury = None,
    g_protocol_fee_bps = 0,
    g_arbitration_fee_bps = 0,
    g_platform_fee_bps = 0,
    g_appeal_fee_bps = DEFAULT_APPEAL_FEE_BPS,
    g_min_amount = MIN_ESCROW_AMOUNT,
    g_max_amount = MAX_ESCROW_AMOUNT,
    g_dispute_timeout = DEFAULT_DISPUTE_TIMEOUT,
    g_ttl_extension_ledgers = DEFAULT_TTL_EXTENSION,
    g_state_flags = 0\<rparr>"

definition unwrap_or :: "'a option \<Rightarrow> 'a \<Rightarrow> 'a" where
  "unwrap_or v d = (case v of None \<Rightarrow> d | Some x \<Rightarrow> x)"

lemma unwrap_or_simps [simp]: "unwrap_or None d = d" "unwrap_or (Some x) d = x"
  by (simp_all add: unwrap_or_def)

text \<open>A flag of the packed mask.\<close>

definition flag_set :: "u32 \<Rightarrow> u32 \<Rightarrow> bool" where
  "flag_set flags f = (flags AND f \<noteq> 0)"

definition read_legacy_global_config :: "world \<Rightarrow> GlobalConfig" where
  "read_legacy_global_config w =
    (let storage = w_inst w;
         defaults = default_global_config;
         fees = i_fee_config storage;
         paused = unwrap_or (i_paused storage)
           (flag_set (g_state_flags defaults) GLOBAL_CONFIG_FLAG_PAUSED);
         token_allowlist_enabled = unwrap_or (i_token_allowlist_enabled storage)
           (flag_set (g_state_flags defaults) GLOBAL_CONFIG_FLAG_TOKEN_ALLOWLIST_ENABLED);
         resolver_strict = unwrap_or (i_resolver_strict storage)
           (flag_set (g_state_flags defaults) GLOBAL_CONFIG_FLAG_RESOLVER_STRICT);
         recovery_mode = unwrap_or (i_recovery_mode storage)
           (flag_set (g_state_flags defaults) GLOBAL_CONFIG_FLAG_RECOVERY_MODE);
         f0 = 0;
         f1 = (if paused then f0 OR GLOBAL_CONFIG_FLAG_PAUSED else f0);
         f2 = (if token_allowlist_enabled
               then f1 OR GLOBAL_CONFIG_FLAG_TOKEN_ALLOWLIST_ENABLED else f1);
         f3 = (if resolver_strict then f2 OR GLOBAL_CONFIG_FLAG_RESOLVER_STRICT else f2);
         state_flags = (if recovery_mode then f3 OR GLOBAL_CONFIG_FLAG_RECOVERY_MODE else f3)
     in \<lparr>g_fee_collector = i_fee_collector storage,
         g_treasury = i_treasury storage,
         g_protocol_fee_bps = (case fees of None \<Rightarrow> 0 | Some f \<Rightarrow> f_protocol_fee_bps f),
         g_arbitration_fee_bps = (case fees of None \<Rightarrow> 0 | Some f \<Rightarrow> f_arbitration_fee_bps f),
         g_platform_fee_bps =
           unwrap_or (i_platform_fee_bps storage) (g_platform_fee_bps defaults),
         g_appeal_fee_bps = unwrap_or (i_appeal_fee_bps storage) (g_appeal_fee_bps defaults),
         g_min_amount = unwrap_or (i_min_amount storage) (g_min_amount defaults),
         g_max_amount = unwrap_or (i_max_amount storage) (g_max_amount defaults),
         g_dispute_timeout = unwrap_or (i_dispute_timeout storage) (g_dispute_timeout defaults),
         g_ttl_extension_ledgers =
           unwrap_or (i_ttl_extension storage) (g_ttl_extension_ledgers defaults),
         g_state_flags = state_flags\<rparr>)"

definition read_global_config :: "world \<Rightarrow> GlobalConfig" where
  "read_global_config w =
    (case i_global_config (w_inst w) of
       Some config \<Rightarrow> config
     | None \<Rightarrow> read_legacy_global_config w)"

definition write_global_config :: "GlobalConfig \<Rightarrow> world \<Rightarrow> world" where
  "write_global_config config = inst_update (i_global_config_update (\<lambda>_. Some config))"

definition update_global_config :: "(GlobalConfig \<Rightarrow> GlobalConfig) \<Rightarrow> world \<Rightarrow> world" where
  "update_global_config f w = write_global_config (f (read_global_config w)) w"

text \<open>The pre-v2 keys, and the removal of each of them.\<close>

definition legacy_global_config_keys :: "DataKey list" where
  "legacy_global_config_keys =
    [DK_FeeCollector, DK_Treasury, DK_FeeConfig, DK_PlatformFeeBps, DK_AppealFeeBps,
     DK_MinAmount, DK_MaxAmount, DK_DisputeTimeout, DK_TtlExtensionLedgers, DK_Paused,
     DK_TokenAllowlistEnabled, DK_ResolverStrict, DK_RecoveryMode]"

fun remove_legacy_key :: "DataKey \<Rightarrow> instance_storage \<Rightarrow> instance_storage" where
  "remove_legacy_key DK_FeeCollector i = i\<lparr>i_fee_collector := None\<rparr>"
| "remove_legacy_key DK_Treasury i = i\<lparr>i_treasury := None\<rparr>"
| "remove_legacy_key DK_FeeConfig i = i\<lparr>i_fee_config := None\<rparr>"
| "remove_legacy_key DK_PlatformFeeBps i = i\<lparr>i_platform_fee_bps := None\<rparr>"
| "remove_legacy_key DK_AppealFeeBps i = i\<lparr>i_appeal_fee_bps := None\<rparr>"
| "remove_legacy_key DK_MinAmount i = i\<lparr>i_min_amount := None\<rparr>"
| "remove_legacy_key DK_MaxAmount i = i\<lparr>i_max_amount := None\<rparr>"
| "remove_legacy_key DK_DisputeTimeout i = i\<lparr>i_dispute_timeout := None\<rparr>"
| "remove_legacy_key DK_TtlExtensionLedgers i = i\<lparr>i_ttl_extension := None\<rparr>"
| "remove_legacy_key DK_Paused i = i\<lparr>i_paused := None\<rparr>"
| "remove_legacy_key DK_TokenAllowlistEnabled i = i\<lparr>i_token_allowlist_enabled := None\<rparr>"
| "remove_legacy_key DK_ResolverStrict i = i\<lparr>i_resolver_strict := None\<rparr>"
| "remove_legacy_key DK_RecoveryMode i = i\<lparr>i_recovery_mode := None\<rparr>"
| "remove_legacy_key _ i = i"

definition migrate_legacy_global_config :: "world \<Rightarrow> world" where
  "migrate_legacy_global_config w =
    (let config = read_global_config w;
         w1 = write_global_config config w
     in inst_update (fold remove_legacy_key legacy_global_config_keys) w1)"

definition get_ttl_extension :: "world \<Rightarrow> u32" where
  "get_ttl_extension w = g_ttl_extension_ledgers (read_global_config w)"

text \<open>\<open>extend_ttl(key, ext / TTL_THRESHOLD_DIVISOR, ext)\<close> on either tier.\<close>

definition extend_instance_ttl :: "world \<Rightarrow> world" where
  "extend_instance_ttl w =
    (let ext = get_ttl_extension w
     in request_rent (ExtendInstance (ext div TTL_THRESHOLD_DIVISOR) ext) w)"

definition extend_ttl_for_key :: "DataKey \<Rightarrow> world \<Rightarrow> world" where
  "extend_ttl_for_key key w =
    (let ext = get_ttl_extension w
     in request_rent (ExtendPersistent key (ext div TTL_THRESHOLD_DIVISOR) ext) w)"

lemma extend_instance_ttl_frame [simp]:
  "w_inst (extend_instance_ttl w) = w_inst w" "w_pers (extend_instance_ttl w) = w_pers w"
  "w_xfers (extend_instance_ttl w) = w_xfers w" "w_wasm (extend_instance_ttl w) = w_wasm w"
  "w_events (extend_instance_ttl w) = w_events w"
  by (simp_all add: extend_instance_ttl_def Let_def)

lemma extend_ttl_for_key_frame [simp]:
  "w_inst (extend_ttl_for_key k w) = w_inst w" "w_pers (extend_ttl_for_key k w) = w_pers w"
  "w_xfers (extend_ttl_for_key k w) = w_xfers w" "w_wasm (extend_ttl_for_key k w) = w_wasm w"
  "w_events (extend_ttl_for_key k w) = w_events w"
  by (simp_all add: extend_ttl_for_key_def Let_def)

lemma write_global_config_frame [simp]:
  "w_inst (write_global_config c w) = (w_inst w)\<lparr>i_global_config := Some c\<rparr>"
  "w_pers (write_global_config c w) = w_pers w"
  "w_xfers (write_global_config c w) = w_xfers w"
  "w_wasm (write_global_config c w) = w_wasm w"
  "w_events (write_global_config c w) = w_events w"
  "w_rent (write_global_config c w) = w_rent w"
  by (simp_all add: write_global_config_def)

lemma update_global_config_frame [simp]:
  "w_inst (update_global_config f w) =
    (w_inst w)\<lparr>i_global_config := Some (f (read_global_config w))\<rparr>"
  "w_pers (update_global_config f w) = w_pers w"
  "w_xfers (update_global_config f w) = w_xfers w"
  "w_wasm (update_global_config f w) = w_wasm w"
  "w_events (update_global_config f w) = w_events w"
  "w_rent (update_global_config f w) = w_rent w"
  by (simp_all add: update_global_config_def)

lemma read_global_config_cong:
  "w_inst w = w_inst w' \<Longrightarrow> read_global_config w = read_global_config w'"
  by (simp add: read_global_config_def read_legacy_global_config_def split: option.split)

lemma read_update_global_config [simp]:
  "read_global_config (update_global_config f w) = f (read_global_config w)"
  by (simp add: read_global_config_def [of "update_global_config f w"])

lemma read_write_global_config [simp]:
  "read_global_config (write_global_config c w) = c"
  by (simp add: read_global_config_def)

definition write_admin_address :: "address \<Rightarrow> world \<Rightarrow> world" where
  "write_admin_address admin = inst_update (i_admin_update (\<lambda>_. Some admin))"

definition read_admin_address :: "world \<Rightarrow> address option" where
  "read_admin_address w = i_admin (w_inst w)"

definition write_fee_config :: "FeeConfig \<Rightarrow> world \<Rightarrow> world" where
  "write_fee_config fee_config = update_global_config (\<lambda>c. c\<lparr>
     g_protocol_fee_bps := f_protocol_fee_bps fee_config,
     g_arbitration_fee_bps := f_arbitration_fee_bps fee_config\<rparr>)"

definition read_fee_config :: "world \<Rightarrow> FeeConfig" where
  "read_fee_config w =
    (let config = read_global_config w
     in \<lparr>f_protocol_fee_bps = g_protocol_fee_bps config,
         f_arbitration_fee_bps = g_arbitration_fee_bps config\<rparr>)"

definition write_escrow_counter :: "u64 \<Rightarrow> world \<Rightarrow> world" where
  "write_escrow_counter counter = inst_update (i_escrow_counter_update (\<lambda>_. Some counter))"

definition read_escrow_counter :: "world \<Rightarrow> u64" where
  "read_escrow_counter w = unwrap_or (i_escrow_counter (w_inst w)) 0"

definition write_escrow_data :: "u64 \<Rightarrow> Escrow \<Rightarrow> world \<Rightarrow> world" where
  "write_escrow_data escrow_id escrow w =
    extend_ttl_for_key (DK_Escrow escrow_id)
      (pers_update (p_escrow_update (\<lambda>m. m(escrow_id \<mapsto> escrow))) w)"

definition read_escrow_data :: "u64 \<Rightarrow> world \<Rightarrow> Escrow option \<times> world" where
  "read_escrow_data escrow_id w =
    (case p_escrow (w_pers w) escrow_id of
       None \<Rightarrow> (None, w)
     | Some e \<Rightarrow> (Some e, extend_ttl_for_key (DK_Escrow escrow_id) w))"

lemma write_fee_config_read [simp]: "read_fee_config (write_fee_config c w) = c"
  by (simp add: read_fee_config_def write_fee_config_def)

section \<open>Messages\<close>

definition read_message_count :: "u64 \<Rightarrow> world \<Rightarrow> nat" where
  "read_message_count escrow_id w =
    (let count = unwrap_or (p_counts (w_pers w) (DK_MessageCount escrow_id)) 0
     in if count = 0
        then (case p_legacy_messages (w_pers w) escrow_id of
                Some legacy \<Rightarrow> length legacy
              | None \<Rightarrow> count)
        else count)"

definition read_message_at :: "u64 \<Rightarrow> nat \<Rightarrow> world \<Rightarrow> Message option \<times> world" where
  "read_message_at escrow_id index w =
    (case p_message (w_pers w) escrow_id index of
       Some message \<Rightarrow> (Some message, extend_ttl_for_key (DK_Message escrow_id index) w)
     | None \<Rightarrow>
         ((case p_legacy_messages (w_pers w) escrow_id of
             None \<Rightarrow> None
           | Some legacy \<Rightarrow> vec_get legacy index), w))"

definition store_message :: "u64 \<Rightarrow> nat \<Rightarrow> Message \<Rightarrow> world \<Rightarrow> world" where
  "store_message escrow_id index message w =
    extend_ttl_for_key (DK_Message escrow_id index)
      (pers_update (p_message_update
         (\<lambda>m. m(escrow_id := (m escrow_id)(index \<mapsto> message)))) w)"

definition store_count :: "DataKey \<Rightarrow> nat \<Rightarrow> world \<Rightarrow> world" where
  "store_count key n w =
    extend_ttl_for_key key (pers_update (p_counts_update (\<lambda>m. m(key \<mapsto> n))) w)"

fun store_messages :: "u64 \<Rightarrow> nat \<Rightarrow> Message list \<Rightarrow> world \<Rightarrow> world" where
  "store_messages escrow_id index [] w = w"
| "store_messages escrow_id index (message # legacy) w =
    store_messages escrow_id (Suc index) legacy (store_message escrow_id index message w)"

definition migrate_legacy_messages :: "u64 \<Rightarrow> world \<Rightarrow> world" where
  "migrate_legacy_messages escrow_id w =
    (case p_counts (w_pers w) (DK_MessageCount escrow_id) of
       Some _ \<Rightarrow> w
     | None \<Rightarrow>
         (case p_legacy_messages (w_pers w) escrow_id of
            None \<Rightarrow> w
          | Some legacy \<Rightarrow>
              pers_update (p_legacy_messages_update (\<lambda>m. m(escrow_id := None)))
                (store_count (DK_MessageCount escrow_id) (length legacy)
                  (store_messages escrow_id 0 legacy w))))"

definition append_message :: "u64 \<Rightarrow> Message \<Rightarrow> nat \<Rightarrow> world \<Rightarrow> world res" where
  "append_message escrow_id message cap w =
    (let w1 = migrate_legacy_messages escrow_id w;
         count = unwrap_or (p_counts (w_pers w1) (DK_MessageCount escrow_id)) 0
     in if cap \<le> count then fail TooManyMessages
        else Inr (store_count (DK_MessageCount escrow_id) (count + 1)
                   (store_message escrow_id count message w1)))"

section \<open>Timelock proposals\<close>

definition write_timelock_proposal :: "u32 \<Rightarrow> TimelockProposal \<Rightarrow> world \<Rightarrow> world" where
  "write_timelock_proposal operation proposal w =
    extend_instance_ttl (inst_update (i_timelock_update (\<lambda>m. m(operation \<mapsto> proposal))) w)"

definition read_timelock_proposal :: "u32 \<Rightarrow> world \<Rightarrow> TimelockProposal option \<times> world" where
  "read_timelock_proposal operation w =
    (case i_timelock (w_inst w) operation of
       None \<Rightarrow> (None, w)
     | Some p \<Rightarrow> (Some p, extend_instance_ttl w))"

definition remove_timelock_proposal :: "u32 \<Rightarrow> world \<Rightarrow> world" where
  "remove_timelock_proposal operation =
    inst_update (i_timelock_update (\<lambda>m. m(operation := None)))"

section \<open>The message store as a list\<close>

text \<open>The thread of an escrow: the slots \<open>0 .. count - 1\<close>, or the pre-paging vector.\<close>

definition thread_rep :: "u64 \<Rightarrow> Message list \<Rightarrow> world \<Rightarrow> bool" where
  "thread_rep escrow_id ms w \<longleftrightarrow>
    (case p_counts (w_pers w) (DK_MessageCount escrow_id) of
       Some n \<Rightarrow> n = length ms \<and> p_legacy_messages (w_pers w) escrow_id = None \<and>
         p_message (w_pers w) escrow_id = vec_get ms
     | None \<Rightarrow> p_message (w_pers w) escrow_id = (\<lambda>_. None) \<and>
         ms = unwrap_or (p_legacy_messages (w_pers w) escrow_id) [])"

lemma store_message_frame [simp]:
  "w_inst (store_message i n m w) = w_inst w" "w_xfers (store_message i n m w) = w_xfers w"
  "w_wasm (store_message i n m w) = w_wasm w" "w_events (store_message i n m w) = w_events w"
  "w_pers (store_message i n m w) = (w_pers w)
    \<lparr>p_message := (p_message (w_pers w))(i := (p_message (w_pers w) i)(n \<mapsto> m))\<rparr>"
  by (simp_all add: store_message_def)

lemma store_count_frame [simp]:
  "w_inst (store_count k n w) = w_inst w" "w_xfers (store_count k n w) = w_xfers w"
  "w_wasm (store_count k n w) = w_wasm w" "w_events (store_count k n w) = w_events w"
  "w_pers (store_count k n w) =
    (w_pers w)\<lparr>p_counts := (p_counts (w_pers w))(k \<mapsto> n)\<rparr>"
  by (simp_all add: store_count_def)

lemma store_messages_pers:
  "w_pers (store_messages i n ms w) = (w_pers w)
    \<lparr>p_message := (p_message (w_pers w))
      (i := (\<lambda>k. if n \<le> k \<and> k < n + length ms then Some (ms ! (k - n))
                else p_message (w_pers w) i k))\<rparr>"
proof (induction ms arbitrary: n w)
  case (Cons m ms)
  show ?case
    by (rule persistent_storage.equality) (auto simp: Cons.IH fun_eq_iff nth_Cons' Suc_diff_Suc)
qed (rule persistent_storage.equality; auto simp: fun_eq_iff)

lemma migrate_legacy_messages_rep:
  assumes "thread_rep i ms w"
  shows "thread_rep i ms (migrate_legacy_messages i w)"
    and "unwrap_or (p_counts (w_pers (migrate_legacy_messages i w)) (DK_MessageCount i)) 0
      = length ms"
  using assms
  by (auto simp: thread_rep_def migrate_legacy_messages_def store_messages_pers fun_eq_iff
      vec_get_def split: option.splits)

lemma read_message_count_rep: "thread_rep i ms w \<Longrightarrow> read_message_count i w = length ms"
  by (auto simp: thread_rep_def read_message_count_def Let_def split: option.splits)

lemma read_message_at_rep: "thread_rep i ms w \<Longrightarrow> fst (read_message_at i n w) = vec_get ms n"
  by (auto simp: thread_rep_def read_message_at_def vec_get_def split: option.splits if_splits)

lemma append_message_rep:
  assumes "thread_rep i ms w"
  shows "append_message i m cap w =
      (if cap \<le> length ms then fail TooManyMessages
       else Inr (store_count (DK_MessageCount i) (length ms + 1)
                  (store_message i (length ms) m (migrate_legacy_messages i w))))"
    and "append_message i m cap w = Inr w' \<Longrightarrow> thread_rep i (ms @ [m]) w'"
proof -
  note mig = migrate_legacy_messages_rep [OF assms]
  show eq: "append_message i m cap w =
      (if cap \<le> length ms then fail TooManyMessages
       else Inr (store_count (DK_MessageCount i) (length ms + 1)
                  (store_message i (length ms) m (migrate_legacy_messages i w))))"
    by (simp add: append_message_def Let_def mig(2))
  have "p_legacy_messages (w_pers (migrate_legacy_messages i w)) i = None
      \<or> ms = [] \<and> p_legacy_messages (w_pers (migrate_legacy_messages i w)) i = None"
    and "p_message (w_pers (migrate_legacy_messages i w)) i = vec_get ms"
    using assms
    by (auto simp: thread_rep_def migrate_legacy_messages_def store_messages_pers fun_eq_iff
        vec_get_def split: option.splits)
  then show "append_message i m cap w = Inr w' \<Longrightarrow> thread_rep i (ms @ [m]) w'"
    unfolding eq
    by (auto simp: thread_rep_def fun_eq_iff vec_get_def nth_append)
qed

end
