(* ===== verification/Payout.thy ===== *)
theory Payout
  imports Storage
begin

text \<open>
  \<open>src/contracts/escrow/src/helpers/payout.rs\<close>: the fee arithmetic in \<open>i128\<close> and the one
  place money leaves the contract (\<open>payout\<close>).
\<close>

definition calculate_fee :: "int \<Rightarrow> u32 \<Rightarrow> int res" where
  "calculate_fee amount fee_bps =
    (if amount < 0 then fail InvalidAmount
     else if BASIS_POINTS < fee_bps then fail FeeExceedsMax
     else
       bindE (ok_or_err (i128_checked_div amount (uint BASIS_POINTS)) FeeCalculationOverflow) (\<lambda>q.
       bindE (ok_or_err (i128_checked_mul q (uint fee_bps)) FeeCalculationOverflow) (\<lambda>part1.
       bindE (ok_or_err (i128_checked_mul (amount smod uint BASIS_POINTS) (uint fee_bps))
                FeeCalculationOverflow) (\<lambda>r.
       bindE (ok_or_err (i128_checked_div r (uint BASIS_POINTS)) FeeCalculationOverflow) (\<lambda>part2.
       ok_or_err (i128_checked_add part1 part2) FeeCalculationOverflow)))))"

definition calculate_protocol_fee :: "int \<Rightarrow> u32 \<Rightarrow> (int \<times> int) res" where
  "calculate_protocol_fee amount fee_bps =
    bindE (calculate_fee amount fee_bps) (\<lambda>fee.
    bindE (ok_or_err (i128_checked_sub amount fee) AmountCalculationOverflow) (\<lambda>net.
    Inr (fee, net)))"

definition payout :: "env \<Rightarrow> address \<Rightarrow> address \<Rightarrow> int \<Rightarrow> world \<Rightarrow> world res" where
  "payout env token_addr recipient amount w =
    (if amount \<le> 0 then Inr w
     else transfer_helper env token_addr (env_self env) recipient amount w)"

definition transfer_with_protocol_fee ::
  "env \<Rightarrow> address \<Rightarrow> address \<Rightarrow> address \<Rightarrow> int \<Rightarrow> u32 \<Rightarrow> world \<Rightarrow> ((int \<times> int) \<times> world) res" where
  "transfer_with_protocol_fee env token_addr recipient fee_collector amount fee_bps w =
    bindE (calculate_protocol_fee amount fee_bps) (\<lambda>(fee, net).
    bindE (payout env token_addr recipient net w) (\<lambda>w1.
    bindE (payout env token_addr fee_collector fee w1) (\<lambda>w2.
    Inr ((fee, net), w2))))"

record TransferInstruction =
  ti_recipient :: address
  ti_amount :: int

definition calculate_dispute_allocations ::
  "Escrow \<Rightarrow> ResolutionType \<Rightarrow> int \<Rightarrow> address \<Rightarrow> TransferInstruction list res" where
  "calculate_dispute_allocations escrow resolution arbitration_fee fee_collector =
    (if e_amount escrow < arbitration_fee then fail InsufficientBalance
     else
       bindE (ok_or_err (i128_checked_sub (e_amount escrow) arbitration_fee)
                AmountCalculationOverflow) (\<lambda>remaining_amount.
       bindE (calculate_protocol_fee remaining_amount (e_fee_bps escrow)) (\<lambda>(fee, net_amount).
       bindE (case resolution of
                Release \<Rightarrow> bindE (ok_or_err (vec_get (e_payees escrow) 0) PayeeIndexOutOfBounds)
                             (\<lambda>payee. Inr (p_address payee))
              | Refund \<Rightarrow> ok_or_err (e_buyer escrow) EscrowHasNoBuyer) (\<lambda>recipient.
       Inr (\<lparr>ti_recipient = recipient, ti_amount = net_amount\<rparr> #
            (if 0 < fee then [\<lparr>ti_recipient = fee_collector, ti_amount = fee\<rparr>] else []))))))"

section \<open>The fee is the floor of the exact share\<close>

lemma uint_BASIS_POINTS [simp]: "uint BASIS_POINTS = 10000"
  by (simp add: BASIS_POINTS_def)

lemma le_BASIS_POINTS: "b \<le> BASIS_POINTS \<longleftrightarrow> uint b \<le> 10000"
  by (simp add: word_le_def)

lemma split_div_floor:
  fixes a b d :: int
  assumes "0 < d"
  shows "a div d * b + (a mod d * b) div d = a * b div d"
proof -
  have "a * b = (a div d * b) * d + a mod d * b"
    by (metis div_mult_mod_eq mult.assoc mult.commute ring_class.ring_distribs(2))
  then show ?thesis using assms by simp
qed

lemma calculate_fee_eq:
  assumes "0 \<le> amount" "amount \<le> i128_max" "fee_bps \<le> BASIS_POINTS"
  shows "calculate_fee amount fee_bps = Inr (amount * uint fee_bps div 10000)"
proof -
  let ?b = "uint fee_bps"
  have b: "0 \<le> ?b" "?b \<le> 10000" using assms(3) by (simp_all add: le_BASIS_POINTS)
  have q: "0 \<le> amount div 10000" "amount div 10000 \<le> i128_max" using assms by auto
  have qb: "0 \<le> amount div 10000 * ?b" "amount div 10000 * ?b \<le> i128_max"
  proof -
    have "amount div 10000 * ?b \<le> amount div 10000 * 10000"
      using b q by (intro mult_left_mono) auto
    also have "\<dots> \<le> amount" by simp
    finally show "amount div 10000 * ?b \<le> i128_max" using assms(2) by simp
  qed (use b q in simp)
  have "amount mod 10000 * ?b \<le> 10000 * 10000"
    using b by (intro mult_mono) (auto simp: less_imp_le)
  moreover have "(10000::int) * 10000 \<le> i128_max" by (simp add: i128_max_def)
  ultimately have r: "0 \<le> amount mod 10000 * ?b" "amount mod 10000 * ?b \<le> i128_max"
    using b by auto
  have r': "amount mod 10000 * ?b div 10000 \<le> i128_max"
    using r by linarith
  have eq: "amount div 10000 * ?b + amount mod 10000 * ?b div 10000 = amount * ?b div 10000"
    by (rule split_div_floor) simp
  have s: "0 \<le> amount * ?b div 10000" "amount * ?b div 10000 \<le> i128_max"
  proof -
    have "amount * ?b \<le> amount * 10000" using b assms(1) by (intro mult_left_mono) auto
    then have "amount * ?b div 10000 \<le> amount * 10000 div 10000" by (rule zdiv_mono1) simp
    then show "amount * ?b div 10000 \<le> i128_max" using assms(2) by simp
  qed (use b assms(1) in \<open>simp add: pos_imp_zdiv_nonneg_iff\<close>)
  have ok: "i128_ok x" if "0 \<le> x" "x \<le> i128_max" for x
    using that by (simp add: i128_ok_def i128_min_def)
  have d: "i128_checked_div amount 10000 = Some (amount div 10000)"
    using assms(1) ok [OF q] by (simp add: i128_checked_div_def)
  have m: "i128_checked_mul (amount div 10000) ?b = Some (amount div 10000 * ?b)"
    using ok [OF qb] by (simp add: i128_checked_mul_def)
  have mr: "i128_checked_mul (amount mod 10000) ?b = Some (amount mod 10000 * ?b)"
    using ok [OF r] by (simp add: i128_checked_mul_def)
  have dr: "i128_checked_div (amount mod 10000 * ?b) 10000 =
      Some (amount mod 10000 * ?b div 10000)"
    using r(1) ok [OF _ r'] by (simp add: i128_checked_div_def pos_imp_zdiv_nonneg_iff)
  have ad: "i128_checked_add (amount div 10000 * ?b) (amount mod 10000 * ?b div 10000) =
      Some (amount * ?b div 10000)"
    unfolding i128_checked_add_def eq using ok [OF s] by simp
  have g: "\<not> amount < 0" "\<not> BASIS_POINTS < fee_bps" using assms by (simp_all add: not_less)
  show ?thesis
    using assms(1) g by (simp add: calculate_fee_def d m mr dr ad)
qed

lemma calculate_fee_Inr:
  assumes "calculate_fee amount fee_bps = Inr fee" "amount \<le> i128_max"
  shows "fee = amount * uint fee_bps div 10000" "0 \<le> fee" "fee \<le> amount" "0 \<le> amount"
    "fee_bps \<le> BASIS_POINTS"
proof -
  have g: "0 \<le> amount" "fee_bps \<le> BASIS_POINTS"
    using assms(1) by (auto simp: calculate_fee_def not_less split: if_splits)
  then show f: "fee = amount * uint fee_bps div 10000"
    using calculate_fee_eq [OF g(1) assms(2) g(2)] assms(1) by simp
  show "0 \<le> amount" "fee_bps \<le> BASIS_POINTS" by (fact g)+
  show "0 \<le> fee" using g by (simp add: f pos_imp_zdiv_nonneg_iff)
  have "amount * uint fee_bps \<le> amount * 10000"
    using g by (intro mult_left_mono) (auto simp: le_BASIS_POINTS)
  then have "fee \<le> amount * 10000 div 10000" unfolding f by (rule zdiv_mono1) simp
  then show "fee \<le> amount" by simp
qed

lemma calculate_protocol_fee_Inr:
  assumes "calculate_protocol_fee amount fee_bps = Inr (fee, net)" "amount \<le> i128_max"
  shows "fee = amount * uint fee_bps div 10000" "fee + net = amount" "0 \<le> fee" "0 \<le> net"
    "0 \<le> amount" "fee_bps \<le> BASIS_POINTS"
proof -
  have c: "calculate_fee amount fee_bps = Inr fee" and n: "net = amount - fee"
    using assms(1) by (auto simp: calculate_protocol_fee_def)
  note f = calculate_fee_Inr [OF c assms(2)]
  show "fee = amount * uint fee_bps div 10000" "fee + net = amount" "0 \<le> fee" "0 \<le> net"
    "0 \<le> amount" "fee_bps \<le> BASIS_POINTS"
    using f n by auto
qed

lemma calculate_protocol_fee_eq:
  assumes "0 \<le> amount" "amount \<le> i128_max" "fee_bps \<le> BASIS_POINTS"
  shows "calculate_protocol_fee amount fee_bps =
    Inr (amount * uint fee_bps div 10000, amount - amount * uint fee_bps div 10000)"
proof -
  have c: "calculate_fee amount fee_bps = Inr (amount * uint fee_bps div 10000)"
    by (rule calculate_fee_eq [OF assms])
  note f = calculate_fee_Inr [OF c assms(2)]
  have "i128_ok (amount - amount * uint fee_bps div 10000)"
    using f assms by (auto simp: i128_ok_def i128_min_def)
  then show ?thesis by (simp add: calculate_protocol_fee_def c i128_checked_sub_def)
qed

text \<open>
  C25. \<open>calculate_protocol_fee\<close> on every \<open>i128\<close> amount and every \<open>u32\<close> rate: negative amounts
  and rates above 100% are rejected; otherwise the fee is the exact share rounded down,
  the net amount is the rest, and no intermediate step overflows.
\<close>

theorem calculate_protocol_fee_exact:
  assumes "i128_ok amount"
  shows "calculate_protocol_fee amount fee_bps =
    (if amount < 0 then fail InvalidAmount
     else if BASIS_POINTS < fee_bps then fail FeeExceedsMax
     else Inr (amount * uint fee_bps div 10000, amount - amount * uint fee_bps div 10000))"
  using calculate_protocol_fee_eq [of amount fee_bps] assms
  by (auto simp: i128_ok_def not_less calculate_protocol_fee_def calculate_fee_def)

theorem calculate_protocol_fee_exact_witness:
  "calculate_protocol_fee i128_max 300 =
    Inr (i128_max * 300 div 10000, i128_max - i128_max * 300 div 10000)"
  using calculate_protocol_fee_exact [of i128_max 300]
  by (simp add: i128_ok_def i128_max_def i128_min_def BASIS_POINTS_def)

section \<open>What a payout does to the ledger\<close>

text \<open>Every part of the world except the transfer log.\<close>

definition same_but_xfers :: "world \<Rightarrow> world \<Rightarrow> bool" where
  "same_but_xfers w w' \<longleftrightarrow> w_inst w' = w_inst w \<and> w_pers w' = w_pers w \<and>
    w_rent w' = w_rent w \<and> w_wasm w' = w_wasm w \<and> w_events w' = w_events w"

lemma payout_Inr:
  assumes "payout env tk r n w = Inr w'"
  shows "same_but_xfers w w'"
    "w_xfers w' = w_xfers w @ (if n \<le> 0 then []
       else [(\<lparr>tr_token = tk, tr_from = env_self env, tr_to = r, tr_amount = n\<rparr>,
              (w_inst w, w_pers w))])"
  using assms
  by (auto simp: payout_def same_but_xfers_def transfer_helper_Inr split: if_splits)

text \<open>What the contract holds of \<open>tk\<close>.\<close>

definition custody :: "env \<Rightarrow> address \<Rightarrow> world \<Rightarrow> int" where
  "custody env tk w = custody_of (env_self env) tk (map fst (w_xfers w))"

lemma custody_cong: "w_xfers w' = w_xfers w \<Longrightarrow> custody env tk w' = custody env tk w"
  by (simp add: custody_def)

lemma custody_payout:
  assumes "payout env tk r n w = Inr w'"
  shows "custody env tk' w' = custody env tk' w
    - (if tk' = tk \<and> r \<noteq> env_self env then max n 0 else 0)"
  using payout_Inr(2) [OF assms] by (auto simp: custody_def xfer_delta_def)

lemma custody_receive:
  assumes "transfer_helper env tk from (env_self env) n w = Inr w'" "from \<noteq> env_self env"
  shows "custody env tk' w' = custody env tk' w + (if tk' = tk then n else 0)"
  using transfer_helper_frame(6) [OF assms(1)] assms(2)
  by (auto simp: custody_def xfer_delta_def)

end
