(* ===== verification/Escrow_Index.thy ===== *)
theory Escrow_Index
  imports Storage
begin

text \<open>
  The paged vendor and buyer escrow indexes of
  \<open>src/contracts/escrow/src/storage.rs\<close>.  The source has one copy of the code per role over
  different keys; the definitions here take the keys (\<open>index_keys\<close>), as the source's own
  \<open>clear_pages\<close> and \<open>write_pages\<close> do, and each role is an instance.  The locale
  \<open>escrow_index\<close> is the contract the escrow operations and the queries rely on.
\<close>

section \<open>Pages\<close>

definition page_count :: "nat \<Rightarrow> nat" where
  "page_count n = (n + ESCROW_INDEX_PAGE_SIZE - 1) div ESCROW_INDEX_PAGE_SIZE"

definition read_index_count :: "DataKey \<Rightarrow> world \<Rightarrow> nat" where
  "read_index_count key w = unwrap_or (p_counts (w_pers w) key) 0"

record index_keys =
  ik_page :: "nat \<Rightarrow> DataKey"
  ik_count :: DataKey
  ik_legacy :: DataKey

definition vendor_keys :: "address \<Rightarrow> index_keys" where
  "vendor_keys vendor = \<lparr>ik_page = DK_VendorEscrow vendor,
     ik_count = DK_VendorEscrowCount vendor, ik_legacy = DK_VendorEscrowIndex vendor\<rparr>"

definition buyer_keys :: "address \<Rightarrow> index_keys" where
  "buyer_keys buyer = \<lparr>ik_page = DK_BuyerEscrow buyer,
     ik_count = DK_BuyerEscrowCount buyer, ik_legacy = DK_BuyerEscrowIndex buyer\<rparr>"

text \<open>Writing and removing one vector of ids.\<close>

definition store_ids :: "DataKey \<Rightarrow> u64 list \<Rightarrow> world \<Rightarrow> world" where
  "store_ids key ids w =
    extend_ttl_for_key key (pers_update (p_ids_update (\<lambda>m. m(key \<mapsto> ids))) w)"

definition remove_ids :: "DataKey \<Rightarrow> world \<Rightarrow> world" where
  "remove_ids key = pers_update (p_ids_update (\<lambda>m. m(key := None)))"

definition clear_pages :: "(nat \<Rightarrow> DataKey) \<Rightarrow> nat \<Rightarrow> world \<Rightarrow> world" where
  "clear_pages page_key count w =
    (if count = 0 then w
     else fold (\<lambda>page_idx. remove_ids (page_key page_idx)) [0..<page_count count] w)"

function write_pages_from :: "(nat \<Rightarrow> DataKey) \<Rightarrow> nat \<Rightarrow> u64 list \<Rightarrow> world \<Rightarrow> world" where
  "write_pages_from page_key page_idx ids w =
    (if ids = [] then w
     else write_pages_from page_key (Suc page_idx) (drop ESCROW_INDEX_PAGE_SIZE ids)
            (store_ids (page_key page_idx) (take ESCROW_INDEX_PAGE_SIZE ids) w))"
  by pat_completeness auto
termination
  by (relation "measure (\<lambda>(_, _, ids, _). length ids)")
    (auto simp: ESCROW_INDEX_PAGE_SIZE_def)

declare write_pages_from.simps [simp del]

definition write_pages :: "(nat \<Rightarrow> DataKey) \<Rightarrow> DataKey \<Rightarrow> u64 list \<Rightarrow> world \<Rightarrow> world" where
  "write_pages page_key count_key ids w =
    store_count count_key (length ids) (write_pages_from page_key 0 ids w)"

section \<open>The index of one owner\<close>

definition write_escrow_index :: "index_keys \<Rightarrow> u64 list \<Rightarrow> world \<Rightarrow> world" where
  "write_escrow_index K escrow_ids w =
    write_pages (ik_page K) (ik_count K) escrow_ids
      (clear_pages (ik_page K) (read_index_count (ik_count K) w) w)"

definition read_legacy_index :: "index_keys \<Rightarrow> world \<Rightarrow> u64 list \<times> world" where
  "read_legacy_index K w =
    (case p_ids (w_pers w) (ik_legacy K) of
       None \<Rightarrow> ([], w)
     | Some result \<Rightarrow> (result, extend_ttl_for_key (ik_legacy K) w))"

definition migrate_legacy_index :: "index_keys \<Rightarrow> world \<Rightarrow> world" where
  "migrate_legacy_index K w =
    (if read_index_count (ik_count K) w \<noteq> 0 then w
     else (case p_ids (w_pers w) (ik_legacy K) of
             None \<Rightarrow> w
           | Some legacy \<Rightarrow> remove_ids (ik_legacy K) (write_escrow_index K legacy w)))"

definition append_escrow_index :: "index_keys \<Rightarrow> u64 \<Rightarrow> world \<Rightarrow> world res" where
  "append_escrow_index K escrow_id w =
    (let w1 = migrate_legacy_index K w;
         count = read_index_count (ik_count K) w1;
         page_key = ik_page K (count div ESCROW_INDEX_PAGE_SIZE);
         page = unwrap_or (p_ids (w_pers w1) page_key) [];
         w2 = store_ids page_key (page @ [escrow_id]) w1
     in if count + 1 < 2 ^ 32 then Inr (store_count (ik_count K) (count + 1) w2)
        else panic Overflow)"

definition read_page :: "index_keys \<Rightarrow> nat \<Rightarrow> u64 list \<times> world \<Rightarrow> u64 list \<times> world" where
  "read_page K page_idx = (\<lambda>(result, w).
    (case p_ids (w_pers w) (ik_page K page_idx) of
       None \<Rightarrow> (result, w)
     | Some page \<Rightarrow> (result @ page, extend_ttl_for_key (ik_page K page_idx) w)))"

definition read_escrow_index :: "index_keys \<Rightarrow> world \<Rightarrow> u64 list \<times> world" where
  "read_escrow_index K w =
    (let count = read_index_count (ik_count K) w
     in if count = 0 then read_legacy_index K w
        else fold (read_page K) [0..<page_count count] ([], w))"

text \<open>
  Reading a window of the index: \<open>i\<close> walks from \<open>start\<close> to \<open>end\<close> page by page, and only
  pages that overlap the window are loaded.
\<close>

definition read_offsets :: "u64 list \<Rightarrow> nat \<Rightarrow> nat \<Rightarrow> u64 list" where
  "read_offsets page i j =
    map (\<lambda>k. page ! (k mod ESCROW_INDEX_PAGE_SIZE))
      (filter (\<lambda>k. k mod ESCROW_INDEX_PAGE_SIZE < length page) [i..<j])"

function read_window :: "index_keys \<Rightarrow> nat \<Rightarrow> nat \<Rightarrow> u64 list \<times> world \<Rightarrow> u64 list \<times> world" where
  "read_window K i end_at (result, w) =
    (if i < end_at
     then let page_idx = i div ESCROW_INDEX_PAGE_SIZE;
              page_end = (i div ESCROW_INDEX_PAGE_SIZE + 1) * ESCROW_INDEX_PAGE_SIZE;
              acc = (case p_ids (w_pers w) (ik_page K page_idx) of
                       None \<Rightarrow> (result, w)
                     | Some page \<Rightarrow>
                         (result @ read_offsets page i (min end_at page_end),
                          extend_ttl_for_key (ik_page K page_idx) w))
          in read_window K (min end_at page_end) end_at acc
     else (result, w))"
  by pat_completeness auto
termination
proof (relation "measure (\<lambda>(_, i, end_at, _). end_at - i)", goal_cases)
  case (2 K i end_at result w x xa xb)
  have "i < (i div ESCROW_INDEX_PAGE_SIZE + 1) * ESCROW_INDEX_PAGE_SIZE"
    using dividend_less_div_times [of ESCROW_INDEX_PAGE_SIZE i]
    by (simp add: ESCROW_INDEX_PAGE_SIZE_def)
  with 2 show ?case by (auto simp: min_def)
qed simp

declare read_window.simps [simp del]

definition read_escrow_index_page ::
  "index_keys \<Rightarrow> u64 \<Rightarrow> u64 \<Rightarrow> world \<Rightarrow> u64 list \<times> world" where
  "read_escrow_index_page K start limit w =
    (let count = read_index_count (ik_count K) w;
         window_end = unat (word_saturating_add start limit)
     in if count = 0
        then let (legacy, w1) = read_legacy_index K w;
                 end_at = min window_end (length legacy)
             in (map ((!) legacy) [unat start..<end_at], w1)
        else if count \<le> unat start \<or> limit = 0 then ([], w)
        else read_window K (unat start) (min window_end count) ([], w))"

section \<open>Vendor and buyer indexes\<close>

definition append_vendor_escrow_index :: "address \<Rightarrow> u64 \<Rightarrow> world \<Rightarrow> world res" where
  "append_vendor_escrow_index vendor = append_escrow_index (vendor_keys vendor)"

definition read_vendor_escrow_count :: "address \<Rightarrow> world \<Rightarrow> nat" where
  "read_vendor_escrow_count vendor = read_index_count (ik_count (vendor_keys vendor))"

definition read_vendor_escrow_index :: "address \<Rightarrow> world \<Rightarrow> u64 list \<times> world" where
  "read_vendor_escrow_index vendor = read_escrow_index (vendor_keys vendor)"

definition read_vendor_escrow_index_page ::
  "address \<Rightarrow> u64 \<Rightarrow> u64 \<Rightarrow> world \<Rightarrow> u64 list \<times> world" where
  "read_vendor_escrow_index_page vendor = read_escrow_index_page (vendor_keys vendor)"

definition write_vendor_escrow_index :: "address \<Rightarrow> u64 list \<Rightarrow> world \<Rightarrow> world" where
  "write_vendor_escrow_index vendor = write_escrow_index (vendor_keys vendor)"

definition append_buyer_escrow_index :: "address \<Rightarrow> u64 \<Rightarrow> world \<Rightarrow> world res" where
  "append_buyer_escrow_index buyer = append_escrow_index (buyer_keys buyer)"

definition read_buyer_escrow_count :: "address \<Rightarrow> world \<Rightarrow> nat" where
  "read_buyer_escrow_count buyer = read_index_count (ik_count (buyer_keys buyer))"

definition read_buyer_escrow_index :: "address \<Rightarrow> world \<Rightarrow> u64 list \<times> world" where
  "read_buyer_escrow_index buyer = read_escrow_index (buyer_keys buyer)"

definition write_buyer_escrow_index :: "address \<Rightarrow> u64 list \<Rightarrow> world \<Rightarrow> world" where
  "write_buyer_escrow_index buyer = write_escrow_index (buyer_keys buyer)"

section \<open>The index as a list of ids\<close>

definition page_at :: "u64 list \<Rightarrow> nat \<Rightarrow> u64 list option" where
  "page_at ids i =
    (if i < page_count (length ids)
     then Some (take ESCROW_INDEX_PAGE_SIZE (drop (ESCROW_INDEX_PAGE_SIZE * i) ids))
     else None)"

definition index_rep :: "index_keys \<Rightarrow> u64 list \<Rightarrow> world \<Rightarrow> bool" where
  "index_rep K ids w \<longleftrightarrow>
    (if read_index_count (ik_count K) w = 0
     then ids = unwrap_or (p_ids (w_pers w) (ik_legacy K)) [] \<and>
          (\<forall>i. p_ids (w_pers w) (ik_page K i) = None)
     else read_index_count (ik_count K) w = length ids \<and>
          p_ids (w_pers w) (ik_legacy K) = None \<and>
          (\<forall>i. p_ids (w_pers w) (ik_page K i) = page_at ids i))"

definition keys_ok :: "index_keys \<Rightarrow> bool" where
  "keys_ok K \<longleftrightarrow> inj (ik_page K) \<and> (\<forall>i. ik_page K i \<noteq> ik_legacy K)"

lemma vendor_keys_ok [simp]: "keys_ok (vendor_keys v)"
  by (auto simp: keys_ok_def vendor_keys_def inj_def)

lemma buyer_keys_ok [simp]: "keys_ok (buyer_keys b)"
  by (auto simp: keys_ok_def buyer_keys_def inj_def)

definition own_keys :: "index_keys \<Rightarrow> DataKey set" where
  "own_keys K = insert (ik_count K) (insert (ik_legacy K) (range (ik_page K)))"

text \<open>Persistent storage without the index entries.\<close>

definition index_free :: "persistent_storage \<Rightarrow> persistent_storage" where
  "index_free p = p\<lparr>p_ids := (\<lambda>_. None), p_counts := (\<lambda>_. None)\<rparr>"

lemma index_free_updates [simp]:
  "index_free (p_ids_update f p) = index_free p"
  "index_free (p_counts_update g p) = index_free p"
  by (simp_all add: index_free_def)

lemma index_free_fields:
  assumes "index_free p = index_free q"
  shows "p_escrow p = p_escrow q" "p_history p = p_history q" "p_dispute p = p_dispute q"
    "p_legacy_messages p = p_legacy_messages q" "p_message p = p_message q"
    "p_pending_expiry p = p_pending_expiry q" "p_votes p = p_votes q"
    "p_basket p = p_basket q" "p_delivery_proposal p = p_delivery_proposal q"
    "p_shard p = p_shard q"
  using arg_cong [OF assms, of p_escrow]
    arg_cong [OF assms, of p_history]
    arg_cong [OF assms, of p_dispute]
    arg_cong [OF assms, of p_legacy_messages]
    arg_cong [OF assms, of p_message]
    arg_cong [OF assms, of p_pending_expiry]
    arg_cong [OF assms, of p_votes]
    arg_cong [OF assms, of p_basket]
    arg_cong [OF assms, of p_delivery_proposal]
    arg_cong [OF assms, of p_shard]
  by (simp_all add: index_free_def)

text \<open>A step that only touches index entries of \<open>S\<close>, and rent.\<close>

definition index_step :: "DataKey set \<Rightarrow> world \<Rightarrow> world \<Rightarrow> bool" where
  "index_step S w w' \<longleftrightarrow>
    w_inst w' = w_inst w \<and> w_xfers w' = w_xfers w \<and> w_events w' = w_events w \<and>
    w_wasm w' = w_wasm w \<and> index_free (w_pers w') = index_free (w_pers w) \<and>
    (\<forall>k. k \<notin> S \<longrightarrow> p_ids (w_pers w') k = p_ids (w_pers w) k \<and>
                    p_counts (w_pers w') k = p_counts (w_pers w) k)"

lemma index_step_refl [simp]: "index_step S w w"
  by (simp add: index_step_def)

lemma index_step_trans: "index_step S a b \<Longrightarrow> index_step S b c \<Longrightarrow> index_step S a c"
  by (simp add: index_step_def)

lemma index_step_store_ids [simp]: "k \<in> S \<Longrightarrow> index_step S w (store_ids k ids w)"
  by (auto simp: index_step_def store_ids_def)

lemma index_step_remove_ids [simp]: "k \<in> S \<Longrightarrow> index_step S w (remove_ids k w)"
  by (auto simp: index_step_def remove_ids_def)

lemma index_step_store_count [simp]: "k \<in> S \<Longrightarrow> index_step S w (store_count k n w)"
  by (auto simp: index_step_def)

lemma store_ids_pers [simp]:
  "w_pers (store_ids k ids w) = (w_pers w)\<lparr>p_ids := (p_ids (w_pers w))(k \<mapsto> ids)\<rparr>"
  by (simp add: store_ids_def)

lemma remove_ids_pers [simp]:
  "w_pers (remove_ids k w) = (w_pers w)\<lparr>p_ids := (p_ids (w_pers w))(k := None)\<rparr>"
  by (simp add: remove_ids_def)

lemma index_step_clear_pages [simp]:
  "range pk \<subseteq> S \<Longrightarrow> index_step S w (clear_pages pk n w)"
proof -
  assume S: "range pk \<subseteq> S"
  have "index_step S w (fold (\<lambda>i. remove_ids (pk i)) is w)" for "is"
  proof (induction "is" arbitrary: w)
    case (Cons i "is")
    have "index_step S w (remove_ids (pk i) w)" using S by (intro index_step_remove_ids) auto
    from index_step_trans [OF this Cons.IH] show ?case by simp
  qed simp
  then show ?thesis by (simp add: clear_pages_def)
qed

lemma index_step_write_pages_from [simp]:
  "range pk \<subseteq> S \<Longrightarrow> index_step S w (write_pages_from pk n ids w)"
proof (induction pk n ids w rule: write_pages_from.induct)
  case (1 pk n ids w)
  then show ?case
    by (subst write_pages_from.simps)
      (auto intro: index_step_trans [OF index_step_store_ids [of "pk n"]])
qed

lemma index_step_write_index [simp]: "index_step (own_keys K) w (write_escrow_index K ids w)"
proof -
  have r: "range (ik_page K) \<subseteq> own_keys K" by (auto simp: own_keys_def)
  show ?thesis
    unfolding write_escrow_index_def write_pages_def
    by (rule index_step_trans [OF index_step_trans [OF index_step_clear_pages [OF r]
          index_step_write_pages_from [OF r]] index_step_store_count])
      (simp add: own_keys_def)
qed

lemma index_step_migrate [simp]: "index_step (own_keys K) w (migrate_legacy_index K w)"
proof -
  have "index_step (own_keys K) w (remove_ids (ik_legacy K) (write_escrow_index K ids w))"
    for ids
    by (rule index_step_trans [OF index_step_write_index index_step_remove_ids])
      (simp_all add: own_keys_def)
  then show ?thesis
    by (auto simp: migrate_legacy_index_def split: option.split)
qed

text \<open>Reading an index only asks for rent.\<close>

lemma read_escrow_index_step: "index_step {} w (snd (read_escrow_index K w))"
proof -
  have "index_step {} w (snd (fold (read_page K) is (ids, w)))" for "is" ids w
  proof (induction "is" arbitrary: ids w)
    case (Cons i "is")
    have "index_step {} w (snd (read_page K i (ids, w)))"
      by (simp add: read_page_def index_step_def split: option.split)
    moreover obtain ids' w' where "read_page K i (ids, w) = (ids', w')"
      by (cases "read_page K i (ids, w)")
    ultimately show ?case using index_step_trans [OF _ Cons.IH] by simp
  qed simp
  then show ?thesis
    by (simp add: read_escrow_index_def read_legacy_index_def Let_def index_step_def
        split: option.split)
qed

lemma append_escrow_index_step:
  assumes "append_escrow_index K escrow_id w = Inr w'"
  shows "index_step (own_keys K) w w'"
proof -
  let ?w1 = "migrate_legacy_index K w"
  have "index_step (own_keys K) ?w1 w'"
    using assms
    by (auto simp: append_escrow_index_def Let_def own_keys_def
        intro!: index_step_trans [OF index_step_store_ids index_step_store_count])
  with index_step_migrate show ?thesis by (rule index_step_trans)
qed

section \<open>Correctness of the paging\<close>

lemma page_size_pos [simp]: "0 < ESCROW_INDEX_PAGE_SIZE"
  by (simp add: ESCROW_INDEX_PAGE_SIZE_def)

lemma less_page_count: "i < page_count n \<longleftrightarrow> ESCROW_INDEX_PAGE_SIZE * i < n"
  by (auto simp: page_count_def ESCROW_INDEX_PAGE_SIZE_def)

lemma concat_take_drop: "concat (map (\<lambda>i. take n (drop (n * i) xs)) [0..<m]) = take (n * m) xs"
proof (induction m)
  case (Suc m)
  then show ?case by (simp add: take_add add.commute [of n "n * m"])
qed simp

lemma concat_pages:
  "concat (map (\<lambda>i. the (page_at ids i)) [0..<page_count (length ids)]) = ids"
proof -
  have "concat (map (\<lambda>i. the (page_at ids i)) [0..<page_count (length ids)]) =
      concat (map (\<lambda>i. take ESCROW_INDEX_PAGE_SIZE (drop (ESCROW_INDEX_PAGE_SIZE * i) ids))
        [0..<page_count (length ids)])"
    by (rule arg_cong [of _ _ concat]) (auto simp: page_at_def)
  also have "\<dots> = ids"
    unfolding concat_take_drop
    by (rule take_all) (metis less_page_count less_irrefl not_le)
  finally show ?thesis .
qed

lemma page_at_snoc:
  "page_at (ids @ [x]) i =
    (if i = length ids div ESCROW_INDEX_PAGE_SIZE
     then Some (unwrap_or (page_at ids i) [] @ [x]) else page_at ids i)"
proof -
  let ?n = "ESCROW_INDEX_PAGE_SIZE"
  consider "i < length ids div ?n" | "i = length ids div ?n" | "length ids div ?n < i"
    by linarith
  then show ?thesis
  proof cases
    case 1
    then have "?n * i + ?n \<le> length ids" by (simp add: ESCROW_INDEX_PAGE_SIZE_def)
    with 1 page_size_pos show ?thesis
      by (auto simp: page_at_def less_page_count simp del: page_size_pos)
  next
    case 2
    then have "?n * i \<le> length ids" "length ids < ?n * i + ?n"
      by (auto simp: ESCROW_INDEX_PAGE_SIZE_def)
    then have "?n * i < length (ids @ [x])" by simp
    with 2 \<open>length ids < ?n * i + ?n\<close> show ?thesis by (auto simp: page_at_def less_page_count)
  next
    case 3
    then have "length ids < ?n * i" by (simp add: ESCROW_INDEX_PAGE_SIZE_def)
    with 3 show ?thesis by (auto simp: page_at_def less_page_count)
  qed
qed

lemma write_pages_from_ids:
  assumes "inj pk"
  shows "p_ids (w_pers (write_pages_from pk n ids w)) (pk j) =
      (if n \<le> j \<and> j < n + page_count (length ids) then page_at ids (j - n)
       else p_ids (w_pers w) (pk j))"
    and "k \<notin> range pk \<Longrightarrow> p_ids (w_pers (write_pages_from pk n ids w)) k = p_ids (w_pers w) k"
    and "p_counts (w_pers (write_pages_from pk n ids w)) = p_counts (w_pers w)"
  using assms
proof (induction pk n ids w arbitrary: j k rule: write_pages_from.induct)
  case (1 pk n ids w)
  let ?n = "ESCROW_INDEX_PAGE_SIZE"
  note IH = 1
  {
    case 1
    show ?case
    proof (cases "ids = []")
      case False
      have pc: "page_count (length ids) = Suc (page_count (length ids - ?n))"
        using False by (cases "length ids \<le> ?n")
          (auto simp: page_count_def ESCROW_INDEX_PAGE_SIZE_def div_if)
      have sh: "page_at ids (Suc m) = page_at (drop ?n ids) m" for m
        by (auto simp: page_at_def less_page_count drop_drop add.commute)
      have p0: "page_at ids 0 = Some (take ?n ids)"
        using False by (simp add: page_at_def less_page_count)
      consider "j < n" | "j = n" | m where "j = n + Suc m" by (metis less_iff_Suc_add not_less_iff_gr_or_eq add_Suc_right)
      then show ?thesis
        using False 1 IH(1) [OF False, of j]
        by cases (subst write_pages_from.simps; auto simp: pc sh p0 inj_eq)+
    next
      case True
      then have "page_count (length ids) = 0"
        by (simp add: page_count_def ESCROW_INDEX_PAGE_SIZE_def)
      with True show ?thesis by (auto simp: write_pages_from.simps)
    qed
  next
    case 2
    then show ?case using IH(2) by (subst write_pages_from.simps) auto
  next
    case 3
    then show ?case using IH(3) by (subst write_pages_from.simps) auto
  }
qed

lemma clear_pages_ids:
  "p_ids (w_pers (clear_pages pk n w)) k =
    (if k \<in> pk ` {..<page_count n} then None else p_ids (w_pers w) k)"
  "p_counts (w_pers (clear_pages pk n w)) = p_counts (w_pers w)"
proof -
  have "p_ids (w_pers (fold (\<lambda>i. remove_ids (pk i)) is w)) k =
      (if k \<in> pk ` set is then None else p_ids (w_pers w) k) \<and>
    p_counts (w_pers (fold (\<lambda>i. remove_ids (pk i)) is w)) = p_counts (w_pers w)" for "is"
    by (induction "is" arbitrary: w) auto
  then show "p_ids (w_pers (clear_pages pk n w)) k =
      (if k \<in> pk ` {..<page_count n} then None else p_ids (w_pers w) k)"
    and "p_counts (w_pers (clear_pages pk n w)) = p_counts (w_pers w)"
    by (auto simp: clear_pages_def page_count_def ESCROW_INDEX_PAGE_SIZE_def atLeast0LessThan)
qed

lemma migrate_legacy_index_rep:
  assumes "keys_ok K" "index_rep K ids w"
  defines "w1 \<equiv> migrate_legacy_index K w"
  shows "index_rep K ids w1" "read_index_count (ik_count K) w1 = length ids"
    "\<And>i. p_ids (w_pers w1) (ik_page K i) = page_at ids i"
    "p_ids (w_pers w1) (ik_legacy K) = None"
proof -
  have inj: "inj (ik_page K)" and leg: "\<And>i. ik_page K i \<noteq> ik_legacy K"
    using assms(1) by (auto simp: keys_ok_def)
  have nil: "page_at [] i = None" for i by (simp add: page_at_def less_page_count)
  have "index_rep K ids w1 \<and> read_index_count (ik_count K) w1 = length ids \<and>
    (\<forall>i. p_ids (w_pers w1) (ik_page K i) = page_at ids i) \<and>
    p_ids (w_pers w1) (ik_legacy K) = None"
  proof (cases "read_index_count (ik_count K) w = 0")
    case False
    then show ?thesis using assms(2) by (simp add: w1_def migrate_legacy_index_def index_rep_def)
  next
    case True
    show ?thesis
    proof (cases "p_ids (w_pers w) (ik_legacy K)")
      case None
      then show ?thesis
        using True assms(2) by (simp add: w1_def migrate_legacy_index_def index_rep_def nil)
    next
      case (Some legacy)
      then have ids: "legacy = ids" and pages: "\<And>i. p_ids (w_pers w) (ik_page K i) = None"
        using True assms(2) by (auto simp: index_rep_def)
      have w1: "w1 = remove_ids (ik_legacy K) (store_count (ik_count K) (length ids)
          (write_pages_from (ik_page K) 0 ids w))"
        using True Some ids
        by (simp add: w1_def migrate_legacy_index_def write_escrow_index_def write_pages_def
            clear_pages_def)
      have "p_ids (w_pers w1) (ik_page K i) = page_at ids i" for i
        using leg write_pages_from_ids(1) [OF inj, of 0 ids w i] pages
        by (auto simp: w1 page_at_def)
      moreover have "read_index_count (ik_count K) w1 = length ids"
        by (simp add: w1 read_index_count_def)
      moreover have "p_ids (w_pers w1) (ik_legacy K) = None" by (simp add: w1)
      ultimately show ?thesis by (auto simp: index_rep_def nil)
    qed
  qed
  then show "index_rep K ids w1" "read_index_count (ik_count K) w1 = length ids"
    "\<And>i. p_ids (w_pers w1) (ik_page K i) = page_at ids i"
    "p_ids (w_pers w1) (ik_legacy K) = None" by auto
qed

lemma append_escrow_index_rep:
  assumes "keys_ok K" "index_rep K ids w" "append_escrow_index K x w = Inr w'"
  shows "index_rep K (ids @ [x]) w'"
proof -
  let ?w1 = "migrate_legacy_index K w"
  note mig = migrate_legacy_index_rep [OF assms(1,2)]
  let ?i = "length ids div ESCROW_INDEX_PAGE_SIZE"
  have inj: "inj (ik_page K)" and leg: "\<And>i. ik_page K i \<noteq> ik_legacy K"
    using assms(1) by (auto simp: keys_ok_def)
  have w': "w' = store_count (ik_count K) (length ids + 1)
      (store_ids (ik_page K ?i) (unwrap_or (page_at ids ?i) [] @ [x]) ?w1)"
    using assms(3) by (simp add: append_escrow_index_def Let_def mig(2,3))
  have "p_ids (w_pers w') (ik_page K i) = page_at (ids @ [x]) i" for i
    using inj by (auto simp: w' mig(3) page_at_snoc inj_eq)
  moreover have "p_ids (w_pers w') (ik_legacy K) = None"
    using leg [of ?i] mig(4) by (simp add: w')
  ultimately show ?thesis by (simp add: index_rep_def w' read_index_count_def)
qed

lemma append_escrow_index_ok:
  assumes "keys_ok K" "index_rep K ids w" "length ids + 1 < 2 ^ 32"
  shows "is_ok (append_escrow_index K x w)"
  using assms(3) migrate_legacy_index_rep(2) [OF assms(1,2)]
  by (simp add: append_escrow_index_def Let_def)

lemma read_pages_fold:
  assumes "\<And>i. i \<in> set is \<Longrightarrow> p_ids (w_pers w) (ik_page K i) = Some (f i)"
  shows "fst (fold (read_page K) is (acc, w)) = acc @ concat (map f is)"
  using assms
proof (induction "is" arbitrary: acc w)
  case (Cons i "is")
  then show ?case by (simp add: read_page_def)
qed simp

lemma read_escrow_index_rep:
  assumes "index_rep K ids w"
  shows "fst (read_escrow_index K w) = ids"
proof (cases "read_index_count (ik_count K) w = 0")
  case True
  then show ?thesis
    using assms
    by (auto simp: read_escrow_index_def read_legacy_index_def index_rep_def split: option.split)
next
  case False
  then have *: "read_index_count (ik_count K) w = length ids"
    "\<And>i. p_ids (w_pers w) (ik_page K i) = page_at ids i"
    using assms by (auto simp: index_rep_def)
  have "fst (fold (read_page K) [0..<page_count (length ids)] ([], w)) =
      [] @ concat (map (\<lambda>i. the (page_at ids i)) [0..<page_count (length ids)])"
    by (rule read_pages_fold) (auto simp: * page_at_def)
  then show ?thesis using False * by (simp add: read_escrow_index_def concat_pages)
qed

lemma read_offsets_page:
  assumes "page_at ids (i div ESCROW_INDEX_PAGE_SIZE) = Some page"
    and "i \<le> j" "j \<le> length ids" "j \<le> (i div ESCROW_INDEX_PAGE_SIZE + 1) * ESCROW_INDEX_PAGE_SIZE"
  shows "read_offsets page i j = map ((!) ids) [i..<j]"
proof -
  let ?n = "ESCROW_INDEX_PAGE_SIZE"
  have page: "page = take ?n (drop (?n * (i div ?n)) ids)"
    using assms(1) by (simp add: page_at_def split: if_splits)
  have k: "k mod ?n < length page \<and> page ! (k mod ?n) = ids ! k" if "i \<le> k" "k < j" for k
  proof -
    have "k div ?n = i div ?n"
      using that assms(4) by (auto simp: ESCROW_INDEX_PAGE_SIZE_def)
    then have "?n * (i div ?n) + k mod ?n = k" by (metis mult_div_mod_eq)
    moreover have "k mod ?n < ?n" by simp
    ultimately show ?thesis using that assms(3) by (auto simp: page)
  qed
  have "filter (\<lambda>k. k mod ?n < length page) [i..<j] = [i..<j]"
    using k by (intro filter_True) auto
  then show ?thesis using k by (simp add: read_offsets_def)
qed

lemma read_window_rep:
  assumes "\<And>i. p_ids (w_pers w) (ik_page K i) = page_at ids i" "i \<le> e" "e \<le> length ids"
  shows "fst (read_window K i e (acc, w)) = acc @ map ((!) ids) [i..<e]"
  using assms
proof (induction K i e "(acc, w)" arbitrary: acc w rule: read_window.induct)
  case (1 K i e acc w)
  let ?n = "ESCROW_INDEX_PAGE_SIZE"
  let ?m = "min e ((i div ?n + 1) * ?n)"
  show ?case
  proof (cases "i < e")
    case True
    have "i < (i div ?n + 1) * ?n"
      using dividend_less_div_times [of ?n i] by (simp add: ESCROW_INDEX_PAGE_SIZE_def)
    then have im: "i \<le> ?m" using True by simp
    have "i div ?n < page_count (length ids)"
      using True 1(4) by (simp add: less_page_count) (metis div_times_less_eq_dividend le_less_trans mult.commute less_le_trans)
    then obtain page where page: "page_at ids (i div ?n) = Some page"
      by (simp add: page_at_def)
    have off: "read_offsets page i ?m = map ((!) ids) [i..<?m]"
      by (rule read_offsets_page [OF page im]) (use 1(4) in auto)
    have "fst (read_window K i e (acc, w)) =
        fst (read_window K ?m e
          (acc @ map ((!) ids) [i..<?m], extend_ttl_for_key (ik_page K (i div ?n)) w))"
      using True page 1(2) by (subst read_window.simps) (simp add: off [simplified] Let_def)
    also have "\<dots> = (acc @ map ((!) ids) [i..<?m]) @ map ((!) ids) [?m..<e]"
      by (rule 1(1) [OF True refl refl]) (use True page 1(2,4) off in auto)
    also have "\<dots> = acc @ map ((!) ids) [i..<e]"
      using im upt_add_eq_append [of i ?m "e - ?m"]
      by (simp add: map_append [symmetric] del: map_append)
    finally show ?thesis .
  qed (simp add: read_window.simps)
qed

lemma map_nth_upt: "b \<le> length xs \<Longrightarrow> map ((!) xs) [a..<b] = take (b - a) (drop a xs)"
  by (rule nth_equalityI) auto

text \<open>A page of the index is the window of the list of ids it stands for.\<close>

lemma read_escrow_index_page_rep:
  assumes "index_rep K ids w" "length ids < 2 ^ 32"
  shows "fst (read_escrow_index_page K start limit w) =
    take (unat limit) (drop (unat start) ids)"
proof -
  let ?e = "min (unat (word_saturating_add start limit)) (length ids)"
  have u: "unat (word_saturating_add start limit) = min (unat start + unat limit) (2 ^ 64 - 1)"
    by (simp add: unat_word_saturating_add)
  have e: "?e = min (unat start + unat limit) (length ids)" using assms(2) by (simp add: u)
  have win: "map ((!) ids) [unat start..<?e] = take (unat limit) (drop (unat start) ids)"
    unfolding e by (simp add: map_nth_upt min_def)
  consider "read_index_count (ik_count K) w = 0"
    | "read_index_count (ik_count K) w \<noteq> 0" "length ids \<le> unat start \<or> limit = 0"
    | "read_index_count (ik_count K) w \<noteq> 0" "unat start < length ids" "limit \<noteq> 0"
    by linarith
  then show ?thesis
  proof cases
    case 1
    then have "fst (read_legacy_index K w) = ids"
      using assms(1) by (auto simp: index_rep_def read_legacy_index_def split: option.split)
    with 1 show ?thesis
      by (simp add: read_escrow_index_page_def Let_def case_prod_beta win)
  next
    case 2
    then show ?thesis
      using assms(1) by (auto simp: read_escrow_index_page_def Let_def index_rep_def)
  next
    case 3
    then have c: "read_index_count (ik_count K) w = length ids"
      "\<And>i. p_ids (w_pers w) (ik_page K i) = page_at ids i"
      using assms(1) by (auto simp: index_rep_def)
    have "unat start \<le> ?e" using 3 by (simp add: e)
    then show ?thesis
      using 3 c by (simp add: read_escrow_index_page_def Let_def read_window_rep win)
  qed
qed

lemma index_rep_cong:
  assumes "\<And>k. k \<in> own_keys K \<Longrightarrow> p_ids (w_pers w') k = p_ids (w_pers w) k \<and>
    p_counts (w_pers w') k = p_counts (w_pers w) k"
  shows "index_rep K ids w' \<longleftrightarrow> index_rep K ids w"
  using assms by (simp add: index_rep_def read_index_count_def own_keys_def)

lemma index_rep_step:
  assumes "index_step S w w'" "own_keys K \<inter> S = {}"
  shows "index_rep K ids w' \<longleftrightarrow> index_rep K ids w"
  using assms by (intro index_rep_cong) (auto simp: index_step_def)

lemma own_keys_disjoint:
  "own_keys (vendor_keys v) \<inter> own_keys (buyer_keys b) = {}"
  "v \<noteq> v' \<Longrightarrow> own_keys (vendor_keys v) \<inter> own_keys (vendor_keys v') = {}"
  "b \<noteq> b' \<Longrightarrow> own_keys (buyer_keys b) \<inter> own_keys (buyer_keys b') = {}"
  by (auto simp: own_keys_def vendor_keys_def buyer_keys_def)

section \<open>The contract of an escrow index\<close>

text \<open>
  What the escrow operations rely on: \<open>rep p ids w\<close> says that owner \<open>p\<close>'s index holds
  \<open>ids\<close>, oldest first; appending adds at the end of that owner's list and leaves every
  other owner's alone; reading returns the list.
\<close>

locale escrow_index =
  fixes rep :: "'p \<Rightarrow> u64 list \<Rightarrow> world \<Rightarrow> bool"
    and add :: "'p \<Rightarrow> u64 \<Rightarrow> world \<Rightarrow> world res"
    and get_all :: "'p \<Rightarrow> world \<Rightarrow> u64 list \<times> world"
  assumes add_rep: "rep p ids w \<Longrightarrow> add p x w = Inr w' \<Longrightarrow> rep p (ids @ [x]) w'"
    and add_other: "p \<noteq> q \<Longrightarrow> rep q ids w \<Longrightarrow> add p x w = Inr w' \<Longrightarrow> rep q ids w'"
    and add_ok: "rep p ids w \<Longrightarrow> length ids + 1 < 2 ^ 32 \<Longrightarrow> \<exists>w'. add p x w = Inr w'"
    and get_all_rep: "rep p ids w \<Longrightarrow> fst (get_all p w) = ids"
begin

lemma add_many_rep:
  assumes "foldE (\<lambda>(p, x). add p x) steps w = Inr w'" "\<And>p. rep p (ids p) w"
  shows "rep p (ids p @ map snd (filter (\<lambda>s. fst s = p) steps)) w'"
  using assms
proof (induction steps arbitrary: ids w)
  case (Cons s steps)
  obtain q x w1 where s: "s = (q, x)" "add q x w = Inr w1"
    "foldE (\<lambda>(p, x). add p x) steps w1 = Inr w'"
    using Cons.prems(1) by (cases s) auto
  let ?ids = "\<lambda>p. if p = q then ids p @ [x] else ids p"
  have "rep p (?ids p) w1" for p
    using s(2) Cons.prems(2) add_rep [of q "ids q" w x w1] add_other [of q p "ids p" w x w1]
    by (cases "p = q") auto
  from Cons.IH [OF s(3) this] show ?case by (auto simp: s(1) split: if_splits)
qed simp

lemma add_many_read:
  assumes "foldE (\<lambda>(p, x). add p x) steps w = Inr w'" "\<And>p. rep p [] w"
  shows "fst (get_all p w') = map snd (filter (\<lambda>s. fst s = p) steps)"
  using get_all_rep [OF add_many_rep [of steps w w' "\<lambda>_. []", OF assms]] by simp

lemma add_many_ok:
  assumes "\<And>p. rep p (ids p) w" "\<And>p. length (ids p) + length steps < 2 ^ 32"
  shows "\<exists>w'. foldE (\<lambda>(p, x). add p x) steps w = Inr w'"
  using assms
proof (induction steps arbitrary: ids w)
  case (Cons s steps)
  obtain q x where s: "s = (q, x)" by (cases s)
  have "length (ids q) + 1 < 2 ^ 32" using Cons.prems(2) [of q] by simp
  then obtain w1 where w1: "add q x w = Inr w1" using add_ok [OF Cons.prems(1)] by blast
  let ?ids = "\<lambda>p. if p = q then ids p @ [x] else ids p"
  have "rep p (?ids p) w1" for p
    using w1 Cons.prems(1) add_rep [of q "ids q" w x w1] add_other [of q p "ids p" w x w1]
    by (cases "p = q") auto
  moreover have "length (?ids p) + length steps < 2 ^ 32" for p
    using Cons.prems(2) [of p] by auto
  ultimately obtain w' where "foldE (\<lambda>(p, x). add p x) steps w1 = Inr w'"
    using Cons.IH [of ?ids w1] by blast
  with s w1 show ?case by auto
qed simp

end

interpretation vendor_index: escrow_index "\<lambda>v. index_rep (vendor_keys v)"
  append_vendor_escrow_index read_vendor_escrow_index
proof
  fix p q :: address and ids x w w'
  show "index_rep (vendor_keys p) ids w \<Longrightarrow> append_vendor_escrow_index p x w = Inr w' \<Longrightarrow>
      index_rep (vendor_keys p) (ids @ [x]) w'"
    unfolding append_vendor_escrow_index_def by (rule append_escrow_index_rep) simp
  show "p \<noteq> q \<Longrightarrow> index_rep (vendor_keys q) ids w \<Longrightarrow>
      append_vendor_escrow_index p x w = Inr w' \<Longrightarrow> index_rep (vendor_keys q) ids w'"
    using index_rep_step [OF append_escrow_index_step own_keys_disjoint(2)]
    by (metis append_vendor_escrow_index_def)
  show "index_rep (vendor_keys p) ids w \<Longrightarrow> length ids + 1 < 2 ^ 32 \<Longrightarrow>
      \<exists>w'. append_vendor_escrow_index p x w = Inr w'"
    using append_escrow_index_ok [of "vendor_keys p" ids w x]
    by (auto simp: append_vendor_escrow_index_def is_ok_def split: sum.splits)
  show "index_rep (vendor_keys p) ids w \<Longrightarrow> fst (read_vendor_escrow_index p w) = ids"
    by (simp add: read_vendor_escrow_index_def read_escrow_index_rep)
qed

interpretation buyer_index: escrow_index "\<lambda>b. index_rep (buyer_keys b)"
  append_buyer_escrow_index read_buyer_escrow_index
proof
  fix p q :: address and ids x w w'
  show "index_rep (buyer_keys p) ids w \<Longrightarrow> append_buyer_escrow_index p x w = Inr w' \<Longrightarrow>
      index_rep (buyer_keys p) (ids @ [x]) w'"
    unfolding append_buyer_escrow_index_def by (rule append_escrow_index_rep) simp
  show "p \<noteq> q \<Longrightarrow> index_rep (buyer_keys q) ids w \<Longrightarrow>
      append_buyer_escrow_index p x w = Inr w' \<Longrightarrow> index_rep (buyer_keys q) ids w'"
    using index_rep_step [OF append_escrow_index_step own_keys_disjoint(3)]
    by (metis append_buyer_escrow_index_def)
  show "index_rep (buyer_keys p) ids w \<Longrightarrow> length ids + 1 < 2 ^ 32 \<Longrightarrow>
      \<exists>w'. append_buyer_escrow_index p x w = Inr w'"
    using append_escrow_index_ok [of "buyer_keys p" ids w x]
    by (auto simp: append_buyer_escrow_index_def is_ok_def split: sum.splits)
  show "index_rep (buyer_keys p) ids w \<Longrightarrow> fst (read_buyer_escrow_index p w) = ids"
    by (simp add: read_buyer_escrow_index_def read_escrow_index_rep)
qed

text \<open>Frame of an append on either index.\<close>

lemma append_vendor_step:
  "append_vendor_escrow_index v x w = Inr w' \<Longrightarrow> index_step (own_keys (vendor_keys v)) w w'"
  by (simp add: append_vendor_escrow_index_def append_escrow_index_step)

lemma append_buyer_step:
  "append_buyer_escrow_index b x w = Inr w' \<Longrightarrow> index_step (own_keys (buyer_keys b)) w w'"
  by (simp add: append_buyer_escrow_index_def append_escrow_index_step)

lemma index_step_fields:
  assumes "index_step S w w'"
  shows "w_inst w' = w_inst w" "w_xfers w' = w_xfers w" "w_events w' = w_events w"
    "w_wasm w' = w_wasm w" "p_escrow (w_pers w') = p_escrow (w_pers w)"
    "p_history (w_pers w') = p_history (w_pers w)" "p_dispute (w_pers w') = p_dispute (w_pers w)"
    "p_pending_expiry (w_pers w') = p_pending_expiry (w_pers w)"
    "p_votes (w_pers w') = p_votes (w_pers w)" "p_basket (w_pers w') = p_basket (w_pers w)"
    "p_delivery_proposal (w_pers w') = p_delivery_proposal (w_pers w)"
    "p_shard (w_pers w') = p_shard (w_pers w)" "p_message (w_pers w') = p_message (w_pers w)"
    "p_legacy_messages (w_pers w') = p_legacy_messages (w_pers w)"
  using assms index_free_fields [of "w_pers w'" "w_pers w"] by (simp_all add: index_step_def)

lemmas append_vendor_fields = index_step_fields [OF append_vendor_step]
lemmas append_buyer_fields = index_step_fields [OF append_buyer_step]

end
