(* ===== verification/Internal.thy ===== *)
theory Internal
  imports Payout Escrow_Index
begin

text \<open>
  \<open>src/contracts/escrow/src/internal.rs\<close>, the helpers every entry point shares: resolver
  votes and their tally, the guards and validations, loading and saving escrows with
  their packed state history, baskets and delivery proposals.  The helpers that move money or
  decide when it may move are in \<open>Settlement\<close>.
\<close>

fun terminal_state_error :: "EscrowState \<Rightarrow> ContractError \<Rightarrow> ContractError" where
  "terminal_state_error Completed fallback = EscrowAlreadyCompleted"
| "terminal_state_error Refunded fallback = EscrowAlreadyRefunded"
| "terminal_state_error _ fallback = fallback"

section \<open>Resolver votes\<close>

definition load_resolver_votes :: "u64 \<Rightarrow> world \<Rightarrow> ResolverVote list" where
  "load_resolver_votes escrow_id w = unwrap_or (p_votes (w_pers w) escrow_id) []"

definition save_resolver_votes :: "u64 \<Rightarrow> ResolverVote list \<Rightarrow> world \<Rightarrow> world" where
  "save_resolver_votes escrow_id votes w =
    extend_ttl_for_key (DK_ResolverVotes escrow_id)
      (pers_update (p_votes_update (\<lambda>m. m(escrow_id \<mapsto> votes))) w)"

text \<open>The first vote of the resolver is replaced; without one the new vote is appended.\<close>

fun update_vote ::
  "address \<Rightarrow> ResolutionType \<Rightarrow> u64 \<Rightarrow> ResolverVote list \<Rightarrow> ResolverVote list" where
  "update_vote resolver resolution now [] =
    [\<lparr>v_resolver = resolver, v_resolution = resolution, v_voted_at = now\<rparr>]"
| "update_vote resolver resolution now (vote # votes) =
    (if v_resolver vote = resolver
     then vote\<lparr>v_resolution := resolution, v_voted_at := now\<rparr> # votes
     else vote # update_vote resolver resolution now votes)"

definition add_or_update_vote ::
  "env \<Rightarrow> u64 \<Rightarrow> address \<Rightarrow> ResolutionType \<Rightarrow> world \<Rightarrow> ResolverVote list" where
  "add_or_update_vote env escrow_id resolver resolution w =
    update_vote resolver resolution (env_now env) (load_resolver_votes escrow_id w)"

definition u32_checked_inc :: "nat \<Rightarrow> nat option" where
  "u32_checked_inc n = (if n + 1 < 2 ^ 32 then Some (n + 1) else None)"

definition count_vote :: "ResolverVote \<Rightarrow> nat \<times> nat \<Rightarrow> (nat \<times> nat) res" where
  "count_vote vote = (\<lambda>(release_count, refund_count).
    (case v_resolution vote of
       Release \<Rightarrow> bindE (ok_or_err (u32_checked_inc release_count) ArithmeticError)
                    (\<lambda>n. Inr (n, refund_count))
     | Refund \<Rightarrow> bindE (ok_or_err (u32_checked_inc refund_count) ArithmeticError)
                    (\<lambda>n. Inr (release_count, n))))"

definition tally_votes :: "ResolverVote list \<Rightarrow> nat \<Rightarrow> ResolutionType option res" where
  "tally_votes votes threshold =
    (if votes = [] then Inr None
     else bindE (foldE count_vote votes (0, 0)) (\<lambda>(release_count, refund_count).
       Inr (if threshold \<le> release_count then Some Release
            else if threshold \<le> refund_count then Some Refund
            else None)))"

definition u32_saturating_inc :: "nat \<Rightarrow> nat" where
  "u32_saturating_inc n = min (n + 1) (2 ^ 32 - 1)"

fun count_votes_saturating :: "ResolverVote list \<Rightarrow> nat \<Rightarrow> nat \<Rightarrow> nat \<times> nat" where
  "count_votes_saturating [] release_count refund_count = (release_count, refund_count)"
| "count_votes_saturating (vote # votes) release_count refund_count =
    (case v_resolution vote of
       Release \<Rightarrow> count_votes_saturating votes (u32_saturating_inc release_count) refund_count
     | Refund \<Rightarrow> count_votes_saturating votes release_count (u32_saturating_inc refund_count))"

definition tally_votes_majority :: "ResolverVote list \<Rightarrow> ResolutionType" where
  "tally_votes_majority votes =
    (let (release_count, refund_count) = count_votes_saturating votes 0 0
     in if refund_count < release_count then Release else Refund)"

section \<open>Pause, admin and allowlist guards\<close>

definition ensure_not_paused :: "world \<Rightarrow> unit res" where
  "ensure_not_paused w =
    (if flag_set (g_state_flags (read_global_config w)) GLOBAL_CONFIG_FLAG_PAUSED
     then fail ContractPaused else Inr ())"

definition ensure_action_not_paused :: "symbol \<Rightarrow> world \<Rightarrow> unit res" where
  "ensure_action_not_paused action w =
    (if flag_set (g_state_flags (read_global_config w)) GLOBAL_CONFIG_FLAG_PAUSED
     then fail ContractPaused
     else if unwrap_or (i_action_paused (w_inst w) action) False then fail ContractPaused
     else Inr ())"

definition require_admin :: "world \<Rightarrow> address res" where
  "require_admin w = ok_or_err (i_admin (w_inst w)) NotAuthorized"

definition require_admin_caller :: "address \<Rightarrow> world \<Rightarrow> address res" where
  "require_admin_caller caller w =
    bindE (require_admin w) (\<lambda>admin.
    if caller \<noteq> admin then fail NotAuthorized else Inr admin)"

definition is_token_allowlist_enabled :: "world \<Rightarrow> bool" where
  "is_token_allowlist_enabled w =
    flag_set (g_state_flags (read_global_config w)) GLOBAL_CONFIG_FLAG_TOKEN_ALLOWLIST_ENABLED"

definition is_token_allowed :: "address \<Rightarrow> world \<Rightarrow> unit res" where
  "is_token_allowed token w =
    (if \<not> is_token_allowlist_enabled w then Inr ()
     else if contains (unwrap_or (i_token_allowlist (w_inst w)) []) token then Inr ()
     else fail TokenNotAllowed)"

definition read_platform_fee_bps :: "world \<Rightarrow> u32" where
  "read_platform_fee_bps w = g_platform_fee_bps (read_global_config w)"

definition write_platform_fee_bps :: "u32 \<Rightarrow> world \<Rightarrow> world" where
  "write_platform_fee_bps fee_bps = update_global_config (\<lambda>c. c\<lparr>g_platform_fee_bps := fee_bps\<rparr>)"

definition read_treasury :: "world \<Rightarrow> address res" where
  "read_treasury w = ok_or_err (g_treasury (read_global_config w)) NotInitialized"

definition write_treasury :: "address \<Rightarrow> world \<Rightarrow> world" where
  "write_treasury treasury = update_global_config (\<lambda>c. c\<lparr>g_treasury := Some treasury\<rparr>)"

section \<open>Validation\<close>

definition validate_escrow_fee_bps :: "u32 \<Rightarrow> unit res" where
  "validate_escrow_fee_bps fee_bps =
    (if MAX_ESCROW_FEE_BPS < fee_bps then fail FeeExceedsMax else Inr ())"

definition validate_shipping_window :: "u64 \<Rightarrow> unit res" where
  "validate_shipping_window shipping_window =
    (if \<not> (MIN_SHIPPING_WINDOW \<le> shipping_window \<and> shipping_window \<le> MAX_SHIPPING_WINDOW)
     then fail InvalidShippingWindow else Inr ())"

fun check_unique_resolvers :: "address list \<Rightarrow> address list \<Rightarrow> unit res" where
  "check_unique_resolvers [] seen = Inr ()"
| "check_unique_resolvers (resolver # resolvers) seen =
    (if contains seen resolver then fail DuplicateResolver
     else check_unique_resolvers resolvers (seen @ [resolver]))"

definition validate_resolvers ::
  "env \<Rightarrow> ResolverSet \<Rightarrow> address \<Rightarrow> address option \<Rightarrow> unit res" where
  "validate_resolvers env resolvers seller buyer =
    (if rs_contains resolvers seller then fail ConflictingRoles
     else if (case buyer of None \<Rightarrow> False | Some b \<Rightarrow> rs_contains resolvers b)
       then fail ConflictingRoles
     else (case resolvers of
         Multi m \<Rightarrow>
           (let count = length (mr_resolvers m)
            in if count = 0 \<or> mr_threshold m = 0 \<or> count < mr_threshold m
               then fail InvalidResolverThreshold
               else check_unique_resolvers (mr_resolvers m) [])
       | Fallback f \<Rightarrow>
           (if fr_primary f = fr_backup f then fail DuplicateResolver
            else bindE (ok_or_err (word_checked_add (env_now env) MAX_FALLBACK_DEADLINE_OFFSET)
                          ArithmeticOverflow) (\<lambda>max_deadline.
              if max_deadline < fr_dispute_deadline f then fail InvalidFallbackDeadline
              else Inr ()))
       | Single _ \<Rightarrow> Inr ()))"

definition validate_resolver_fee_bps :: "u32 \<Rightarrow> unit res" where
  "validate_resolver_fee_bps fee_bps =
    (if MAX_ESCROW_FEE_BPS < fee_bps then fail FeeExceedsMax else Inr ())"

definition add_payee_bps :: "Payee \<Rightarrow> u32 \<Rightarrow> u32 res" where
  "add_payee_bps payee total_bps =
    bindE (ok_or_err (word_checked_add total_bps (p_bps payee)) ArithmeticError) (\<lambda>t.
    if p_address payee = zero_address then fail InvalidAddress else Inr t)"

definition validate_payees :: "Payee list \<Rightarrow> unit res" where
  "validate_payees payees =
    (if payees = [] then fail InvalidAddress
     else if MAX_PAYEES < length payees then fail InvalidAddress
     else bindE (foldE add_payee_bps payees 0) (\<lambda>total_bps.
       if total_bps \<noteq> BASIS_POINTS then fail PayeeBpsMismatch else Inr ()))"

definition validate_arbitration_fee_bps :: "u32 \<Rightarrow> unit res" where
  "validate_arbitration_fee_bps fee_bps =
    (if MAX_ARBITRATION_FEE_BPS < fee_bps then fail ArbitrationFeeExceedsMax else Inr ())"

definition validate_combined_fees :: "u32 \<Rightarrow> u32 \<Rightarrow> unit res" where
  "validate_combined_fees protocol_fee_bps arbitration_fee_bps =
    bindE (ok_or_err (word_checked_add protocol_fee_bps arbitration_fee_bps) ArithmeticError)
      (\<lambda>combined. if MAX_COMBINED_FEE_BPS < combined then fail FeeExceedsMax else Inr ())"

definition validate_fee_collector_change :: "address \<Rightarrow> world \<Rightarrow> address res" where
  "validate_fee_collector_change new_collector w =
    (if new_collector = zero_address then fail InvalidAddress
     else bindE (require_admin w) (\<lambda>admin.
       if new_collector = admin then fail InvalidAddress
       else bindE (ok_or_err (g_fee_collector (read_global_config w)) NotInitialized)
         (\<lambda>old_collector.
         if new_collector = old_collector then fail SameAddress else Inr old_collector)))"

definition validate_treasury_change :: "address \<Rightarrow> world \<Rightarrow> address res" where
  "validate_treasury_change new_treasury w =
    (if new_treasury = zero_address then fail InvalidAddress
     else bindE (require_admin w) (\<lambda>admin.
       if new_treasury = admin then fail InvalidAddress
       else bindE (ok_or_err (g_treasury (read_global_config w)) NotInitialized)
         (\<lambda>old_treasury.
         if new_treasury = old_treasury then fail SameAddress else Inr old_treasury)))"

definition update_arbitration_fee :: "address \<Rightarrow> u32 \<Rightarrow> world \<Rightarrow> (u32 \<times> world) res" where
  "update_arbitration_fee caller fee_bps w =
    bindE (require_admin w) (\<lambda>admin.
    if caller \<noteq> admin then fail NotAuthorized
    else bindE (validate_arbitration_fee_bps fee_bps) (\<lambda>_.
      let config = read_fee_config w
      in bindE (validate_combined_fees (f_protocol_fee_bps config) fee_bps) (\<lambda>_.
         Inr (f_arbitration_fee_bps config,
              write_fee_config (config\<lparr>f_arbitration_fee_bps := fee_bps\<rparr>) w))))"

section \<open>Packed state history\<close>

definition HISTORY_TIMESTAMP_BITS :: nat where
  [const_defs]: "HISTORY_TIMESTAMP_BITS = 56"

definition HISTORY_TIMESTAMP_MASK :: u64 where
  [const_defs]: "HISTORY_TIMESTAMP_MASK = push_bit HISTORY_TIMESTAMP_BITS 1 - 1"

definition pack_history_entry :: "EscrowState \<Rightarrow> u64 \<Rightarrow> u64" where
  "pack_history_entry state timestamp =
    push_bit HISTORY_TIMESTAMP_BITS (ucast (to_history_code state))
      OR (timestamp AND HISTORY_TIMESTAMP_MASK)"

definition unpack_history_entry :: "u64 \<Rightarrow> EscrowState \<times> u64" where
  "unpack_history_entry packed =
    (from_history_code (ucast (drop_bit HISTORY_TIMESTAMP_BITS packed)),
     packed AND HISTORY_TIMESTAMP_MASK)"

definition decode_history :: "u64 list \<Rightarrow> (EscrowState \<times> u64) list" where
  "decode_history packed = map unpack_history_entry packed"

text \<open>The oldest entries are dropped while there are more than the maximum.\<close>

definition append_state_history :: "env \<Rightarrow> u64 \<Rightarrow> EscrowState \<Rightarrow> world \<Rightarrow> world" where
  "append_state_history env escrow_id state w =
    (let history = unwrap_or (p_history (w_pers w) escrow_id) []
                     @ [pack_history_entry state (env_now env)];
         bounded = drop (length history - MAX_STATE_HISTORY_ENTRIES) history
     in extend_ttl_for_key (DK_EscrowStateHistory escrow_id)
          (pers_update (p_history_update (\<lambda>m. m(escrow_id \<mapsto> bounded))) w))"

definition load_state_history :: "u64 \<Rightarrow> world \<Rightarrow> (EscrowState \<times> u64) list \<times> world" where
  "load_state_history escrow_id w =
    (let packed = unwrap_or (p_history (w_pers w) escrow_id) [];
         w1 = (if packed \<noteq> [] then extend_ttl_for_key (DK_EscrowStateHistory escrow_id) w else w)
     in (decode_history packed, w1))"

definition load_state_history_no_ttl :: "u64 \<Rightarrow> world \<Rightarrow> (EscrowState \<times> u64) list" where
  "load_state_history_no_ttl escrow_id w =
    decode_history (unwrap_or (p_history (w_pers w) escrow_id) [])"

definition escrow_created_at :: "u64 \<Rightarrow> world \<Rightarrow> u64 \<times> world" where
  "escrow_created_at escrow_id w =
    (let (history, w1) = load_state_history escrow_id w
     in (case vec_get history 0 of None \<Rightarrow> 0 | Some (_, ts) \<Rightarrow> ts, w1))"

section \<open>Loading and saving\<close>

definition save_escrow :: "env \<Rightarrow> u64 \<Rightarrow> Escrow \<Rightarrow> EscrowState option \<Rightarrow> world \<Rightarrow> world" where
  "save_escrow env escrow_id escrow prev_state w =
    (let state_changed =
           (case prev_state of
              Some prev \<Rightarrow> prev \<noteq> e_state escrow
            | None \<Rightarrow>
                (case p_escrow (w_pers w) escrow_id of
                   None \<Rightarrow> True
                 | Some existing \<Rightarrow> e_state existing \<noteq> e_state escrow));
         w1 = extend_ttl_for_key (DK_Escrow escrow_id)
                (pers_update (p_escrow_update (\<lambda>m. m(escrow_id \<mapsto> escrow))) w)
     in if state_changed then append_state_history env escrow_id (e_state escrow) w1 else w1)"

definition load_escrow :: "u64 \<Rightarrow> world \<Rightarrow> (Escrow \<times> world) res" where
  "load_escrow escrow_id w =
    bindE (ok_or_err (p_escrow (w_pers w) escrow_id) EscrowNotFound) (\<lambda>escrow.
    Inr (escrow, extend_ttl_for_key (DK_Escrow escrow_id) w))"

definition save_dispute :: "u64 \<Rightarrow> DisputeData \<Rightarrow> world \<Rightarrow> world" where
  "save_dispute escrow_id dispute w =
    extend_ttl_for_key (DK_Dispute escrow_id)
      (pers_update (p_dispute_update (\<lambda>m. m(escrow_id \<mapsto> dispute))) w)"

definition load_dispute :: "u64 \<Rightarrow> world \<Rightarrow> (DisputeData \<times> world) res" where
  "load_dispute escrow_id w =
    bindE (ok_or_err (p_dispute (w_pers w) escrow_id) DisputeNotFound) (\<lambda>dispute.
    Inr (dispute, extend_ttl_for_key (DK_Dispute escrow_id) w))"

definition save_basket_tokens :: "u64 \<Rightarrow> TokenEntry list \<Rightarrow> world \<Rightarrow> world" where
  "save_basket_tokens escrow_id tokens w =
    extend_ttl_for_key (DK_BasketTokens escrow_id)
      (pers_update (p_basket_update (\<lambda>m. m(escrow_id \<mapsto> tokens))) w)"

definition load_basket_tokens :: "u64 \<Rightarrow> world \<Rightarrow> TokenEntry list \<times> world" where
  "load_basket_tokens escrow_id w =
    (case p_basket (w_pers w) escrow_id of
       Some tokens \<Rightarrow> (tokens, extend_ttl_for_key (DK_BasketTokens escrow_id) w)
     | None \<Rightarrow> ([], w))"

definition clear_delivery_proposal :: "env \<Rightarrow> u64 \<Rightarrow> world \<Rightarrow> world" where
  "clear_delivery_proposal env escrow_id w =
    (if p_delivery_proposal (w_pers w) escrow_id \<noteq> None
     then publish (emit_delivery_proposal_cancelled env escrow_id)
            (pers_update (p_delivery_proposal_update (\<lambda>m. m(escrow_id := None))) w)
     else w)"

definition remove_pending_expiry :: "u64 \<Rightarrow> world \<Rightarrow> world" where
  "remove_pending_expiry escrow_id =
    pers_update (p_pending_expiry_update (\<lambda>m. m(escrow_id := None)))"

text \<open>Every entry an escrow may own, for \<open>extend_escrow_ttl\<close>.\<close>

definition owned_entries :: "u64 \<Rightarrow> persistent_storage \<Rightarrow> (DataKey \<times> bool) list" where
  "owned_entries escrow_id p =
    [(DK_EscrowStateHistory escrow_id, p_history p escrow_id \<noteq> None),
     (DK_Dispute escrow_id, p_dispute p escrow_id \<noteq> None),
     (DK_Messages escrow_id, p_legacy_messages p escrow_id \<noteq> None),
     (DK_PendingExpiry escrow_id, p_pending_expiry p escrow_id \<noteq> None),
     (DK_ResolverVotes escrow_id, p_votes p escrow_id \<noteq> None),
     (DK_BasketTokens escrow_id, p_basket p escrow_id \<noteq> None),
     (DK_DeliveryProposal escrow_id, p_delivery_proposal p escrow_id \<noteq> None),
     (DK_MessageCount escrow_id, p_counts p (DK_MessageCount escrow_id) \<noteq> None)]"

definition extend_if_present :: "u32 \<Rightarrow> DataKey \<times> bool \<Rightarrow> world \<Rightarrow> world" where
  "extend_if_present ext kp w =
    (if snd kp then request_rent (ExtendPersistent (fst kp) ext ext) w else w)"

definition extend_escrow_ttl_internal :: "u64 \<Rightarrow> world \<Rightarrow> world res" where
  "extend_escrow_ttl_internal escrow_id w =
    (if p_escrow (w_pers w) escrow_id = None then fail EscrowNotFound
     else
       let ext = get_ttl_extension w;
           w1 = request_rent (ExtendPersistent (DK_Escrow escrow_id) ext ext) w;
           w2 = fold (extend_if_present ext) (owned_entries escrow_id (w_pers w)) w1;
           count = unwrap_or (p_counts (w_pers w) (DK_MessageCount escrow_id)) 0;
           messages = map (\<lambda>index. (DK_Message escrow_id index,
                             p_message (w_pers w) escrow_id index \<noteq> None)) [0..<count];
           w3 = fold (extend_if_present ext) messages w2
       in Inr (request_rent (ExtendInstance ext ext) w3))"

end
