(* ===== verification/Settlement.thy ===== *)
theory Settlement
  imports Internal
begin

text \<open>
  The rest of \<open>src/contracts/escrow/src/internal.rs\<close> that moves money or decides when it
  may move: the distribution of a payment over the payees, basket payouts, the
  auto-release gate, pending-expiry checks, the sharded lifecycle counters and the shared
  settlement path; and \<open>next_escrow_id\<close> of \<open>lib.rs\<close>.
\<close>

section \<open>Lifecycle counters\<close>

definition COUNTER_KIND_CREATED :: u32 where [const_defs]: "COUNTER_KIND_CREATED = 0"
definition COUNTER_KIND_COMPLETED :: u32 where [const_defs]: "COUNTER_KIND_COMPLETED = 1"
definition COUNTER_KIND_DISPUTED :: u32 where [const_defs]: "COUNTER_KIND_DISPUTED = 2"
definition COUNTER_KIND_REFUNDED :: u32 where [const_defs]: "COUNTER_KIND_REFUNDED = 3"

definition increment_sharded_counter :: "u32 \<Rightarrow> u64 \<Rightarrow> world \<Rightarrow> world res" where
  "increment_sharded_counter kind seed w =
    (let bucket = ucast (seed mod ucast COUNTER_SHARDS);
         current = unwrap_or (p_shard (w_pers w) kind bucket) 0
     in bindE (ok_or_err (word_checked_add current 1) ArithmeticError) (\<lambda>new_value.
        Inr (extend_ttl_for_key (DK_ShardedCounter kind bucket)
          (pers_update (p_shard_update
             (\<lambda>m. m(kind := (m kind)(bucket \<mapsto> new_value)))) w))))"

fun sum_shards :: "(u32 \<Rightarrow> u64 option) \<Rightarrow> u32 list \<Rightarrow> u64 \<Rightarrow> u64" where
  "sum_shards m [] acc = acc"
| "sum_shards m (bucket # buckets) acc =
    sum_shards m buckets (word_saturating_add acc (unwrap_or (m bucket) 0))"

definition read_sharded_counter_total :: "u32 \<Rightarrow> world \<Rightarrow> u64" where
  "read_sharded_counter_total kind w =
    sum_shards (p_shard (w_pers w) kind) (map of_nat [0..<unat COUNTER_SHARDS]) 0"

definition read_counter_total :: "u32 \<Rightarrow> DataKey \<Rightarrow> world \<Rightarrow> u64" where
  "read_counter_total kind legacy_key w =
    word_saturating_add (unwrap_or (i_legacy_totals (w_inst w) legacy_key) 0)
      (read_sharded_counter_total kind w)"

definition record_escrow_completed :: "u64 \<Rightarrow> world \<Rightarrow> world res" where
  "record_escrow_completed escrow_id = increment_sharded_counter COUNTER_KIND_COMPLETED escrow_id"

definition record_escrow_refunded :: "u64 \<Rightarrow> world \<Rightarrow> world res" where
  "record_escrow_refunded escrow_id = increment_sharded_counter COUNTER_KIND_REFUNDED escrow_id"

section \<open>Escrow ids\<close>

definition next_escrow_id :: "world \<Rightarrow> (u64 \<times> world) res" where
  "next_escrow_id w =
    (let escrow_id = unwrap_or (i_escrow_counter (w_inst w)) 1
     in bindE (ok_or_err (word_checked_add escrow_id 1) EscrowCounterOverflow) (\<lambda>next_id.
        Inr (escrow_id,
             extend_instance_ttl (inst_update (i_escrow_counter_update (\<lambda>_. Some next_id)) w))))"

section \<open>Distribution over the payees\<close>

definition payee_share :: "int \<Rightarrow> u32 \<Rightarrow> int res" where
  "payee_share amount bps =
    bindE (ok_or_err (i128_checked_mul amount (uint bps)) ArithmeticError) (\<lambda>m.
    ok_or_err (i128_checked_div m (uint BASIS_POINTS)) ArithmeticError)"

text \<open>One round of the loop over payees \<open>1..N\<close>: pay the floored share, track the rest.\<close>

definition pay_share ::
  "env \<Rightarrow> address \<Rightarrow> int \<Rightarrow> Payee \<Rightarrow> int \<times> world \<Rightarrow> (int \<times> world) res" where
  "pay_share env token_addr amount payee = (\<lambda>(remaining, w).
    bindE (payee_share amount (p_bps payee)) (\<lambda>payee_amount.
    bindE (payout env token_addr (p_address payee) payee_amount w) (\<lambda>w1.
    bindE (ok_or_err (i128_checked_sub remaining payee_amount) ArithmeticError) (\<lambda>remaining1.
    Inr (remaining1, w1)))))"

definition distribute_to_payees ::
  "env \<Rightarrow> address \<Rightarrow> Payee list \<Rightarrow> int \<Rightarrow> world \<Rightarrow> world res" where
  "distribute_to_payees env token_addr payees amount w =
    (if amount < 0 then fail InvalidAmount
     else
       bindE (foldE (pay_share env token_addr amount) (drop 1 payees) (amount, w))
         (\<lambda>(remaining, w1).
       bindE (ok_or_err (vec_get payees 0) PayeeIndexOutOfBounds) (\<lambda>first_payee.
       payout env token_addr (p_address first_payee) remaining w1)))"

section \<open>Basket tokens\<close>

definition is_transferable_basket_entry :: "TokenEntry \<Rightarrow> address \<Rightarrow> bool" where
  "is_transferable_basket_entry entry primary_token \<longleftrightarrow>
    te_token entry \<noteq> primary_token \<and> 0 < te_amount entry"

definition payout_basket_entry ::
  "env \<Rightarrow> address \<Rightarrow> address \<Rightarrow> TokenEntry \<Rightarrow> world \<Rightarrow> world res" where
  "payout_basket_entry env primary_token recipient entry w =
    (if \<not> is_transferable_basket_entry entry primary_token then Inr w
     else payout env (te_token entry) recipient (te_amount entry) w)"

definition payout_basket_tokens :: "env \<Rightarrow> u64 \<Rightarrow> address \<Rightarrow> world \<Rightarrow> world res" where
  "payout_basket_tokens env escrow_id recipient w =
    bindE (load_escrow escrow_id w) (\<lambda>(escrow, w1).
    let (basket_tokens, w2) = load_basket_tokens escrow_id w1
    in foldE (payout_basket_entry env (e_token escrow) recipient) basket_tokens w2)"

section \<open>The auto-release gate\<close>

definition ensure_auto_release_eligible :: "env \<Rightarrow> Escrow \<Rightarrow> u64 \<Rightarrow> world \<Rightarrow> unit res" where
  "ensure_auto_release_eligible env escrow escrow_id w =
    (if e_state escrow \<noteq> Funded \<and> e_state escrow \<noteq> Shipped
     then fail (terminal_state_error (e_state escrow) InvalidState)
     else if is_ok (load_dispute escrow_id w) then fail InvalidState
     else
       let now = env_now env
       in (case e_delivered_at escrow of
             Some delivered_at \<Rightarrow>
               bindE (ok_or_err (word_checked_add delivered_at DELIVERY_RELEASE_WINDOW)
                        ArithmeticOverflow) (\<lambda>eligible_at.
               if now < eligible_at then fail ShippingWindowNotElapsed else Inr ())
           | None \<Rightarrow>
               if e_state escrow = Shipped then fail DeliveryNotRecorded
               else if now < dispute_deadline escrow then fail DeliveryBeforeDisputeWindow
               else
                 let shipped_or_funded_at =
                       (if 0 < e_shipped_at escrow then e_shipped_at escrow else funded_at escrow)
                 in bindE (ok_or_err (word_checked_add shipped_or_funded_at
                            (e_shipping_window escrow)) ArithmeticError) (\<lambda>window_elapsed_at.
                    if now < window_elapsed_at then fail ShippingWindowNotElapsed else Inr ())))"

section \<open>Settlement\<close>

text \<open>
  Shared by \<open>auto_release\<close> and \<open>confirm_delivery\<close>.  Returns the previous state, the
  primary payee and the updated escrow.
\<close>

definition settle_escrow_to_payees ::
  "env \<Rightarrow> Escrow \<Rightarrow> u64 \<Rightarrow> u32 \<Rightarrow> world \<Rightarrow> ((EscrowState \<times> address \<times> Escrow) \<times> world) res" where
  "settle_escrow_to_payees env escrow escrow_id fee_bps w =
    bindE (ok_or_err (g_fee_collector (read_global_config w)) NotInitialized) (\<lambda>fee_collector.
    bindE (ok_or_err (vec_get (e_payees escrow) 0) PayeeIndexOutOfBounds) (\<lambda>first_payee.
    let first_payee_addr = p_address first_payee;
        prev_state = e_state escrow;
        escrow1 = escrow\<lparr>e_state := Completed\<rparr>;
        w1 = save_escrow env escrow_id escrow1 (Some prev_state) w
    in
    bindE (record_escrow_completed escrow_id w1) (\<lambda>w2.
    let w3 = clear_delivery_proposal env escrow_id w2
    in
    bindE (calculate_protocol_fee (e_amount escrow1) fee_bps) (\<lambda>(protocol_fee, net_amount).
    bindE (if 0 < protocol_fee then payout env (e_token escrow1) fee_collector protocol_fee w3
           else Inr w3) (\<lambda>w4.
    bindE (distribute_to_payees env (e_token escrow1) (e_payees escrow1) net_amount w4) (\<lambda>w5.
    bindE (payout_basket_tokens env escrow_id first_payee_addr w5) (\<lambda>w6.
    Inr ((prev_state, first_payee_addr, escrow1), w6))))))))"

section \<open>Pending expiry\<close>

definition ensure_not_expired :: "env \<Rightarrow> u64 \<Rightarrow> world \<Rightarrow> world res" where
  "ensure_not_expired env escrow_id w =
    bindE (load_escrow escrow_id w) (\<lambda>(escrow, w1).
    if (case e_expires_at escrow of None \<Rightarrow> False | Some expires_at \<Rightarrow> expires_at \<le> env_now env)
    then fail EscrowExpired
    else if (case p_pending_expiry (w_pers w1) escrow_id of
               None \<Rightarrow> False | Some schedule \<Rightarrow> x_expires_at schedule \<le> env_now env)
    then fail EscrowExpired
    else Inr w1)"

definition pending_expiry_deadline :: "u64 \<Rightarrow> u64 res" where
  "pending_expiry_deadline created_at =
    ok_or_err (word_checked_add created_at PENDING_EXPIRY_WINDOW) ArithmeticOverflow"

definition save_pending_expiry :: "u64 \<Rightarrow> u64 \<Rightarrow> u64 \<Rightarrow> world \<Rightarrow> world" where
  "save_pending_expiry escrow_id expires_at grace_period w =
    extend_ttl_for_key (DK_PendingExpiry escrow_id)
      (pers_update (p_pending_expiry_update (\<lambda>m. m(escrow_id \<mapsto>
         \<lparr>x_expires_at = expires_at, x_grace_period = grace_period\<rparr>))) w)"

definition ensure_funding_not_expired :: "env \<Rightarrow> u64 \<Rightarrow> world \<Rightarrow> world res" where
  "ensure_funding_not_expired env escrow_id w =
    bindE (ensure_not_expired env escrow_id w) (\<lambda>w1.
    let now = env_now env;
        (created_at, w2) = escrow_created_at escrow_id w1
    in bindE (pending_expiry_deadline created_at) (\<lambda>blanket_deadline.
       if blanket_deadline < now then fail EscrowExpired else Inr w2))"

section \<open>Configuration accessors\<close>

definition read_dispute_timeout :: "world \<Rightarrow> u64" where
  "read_dispute_timeout w = g_dispute_timeout (read_global_config w)"

definition write_dispute_timeout :: "u64 \<Rightarrow> world \<Rightarrow> world" where
  "write_dispute_timeout timeout = update_global_config (\<lambda>c. c\<lparr>g_dispute_timeout := timeout\<rparr>)"

definition read_appeal_fee_bps :: "world \<Rightarrow> u32" where
  "read_appeal_fee_bps w = g_appeal_fee_bps (read_global_config w)"

definition write_appeal_fee_bps :: "u32 \<Rightarrow> world \<Rightarrow> world" where
  "write_appeal_fee_bps fee_bps = update_global_config (\<lambda>c. c\<lparr>g_appeal_fee_bps := fee_bps\<rparr>)"

definition validate_appeal_fee_bps :: "u32 \<Rightarrow> unit res" where
  "validate_appeal_fee_bps fee_bps =
    (if fee_bps = 0 then Inr ()
     else if fee_bps < MIN_APPEAL_FEE_BPS then fail AppealFeeBelowMinimum
     else if MAX_APPEAL_FEE_BPS < fee_bps then fail AppealFeeExceedsMax
     else Inr ())"

definition is_recovery_mode :: "world \<Rightarrow> bool" where
  "is_recovery_mode w =
    flag_set (g_state_flags (read_global_config w)) GLOBAL_CONFIG_FLAG_RECOVERY_MODE"

definition write_recovery_mode :: "bool \<Rightarrow> world \<Rightarrow> world" where
  "write_recovery_mode enabled = update_global_config (\<lambda>c. c\<lparr>g_state_flags :=
     (if enabled then g_state_flags c OR GLOBAL_CONFIG_FLAG_RECOVERY_MODE
      else g_state_flags c AND NOT GLOBAL_CONFIG_FLAG_RECOVERY_MODE)\<rparr>)"

definition read_max_appeals :: "world \<Rightarrow> u32" where
  "read_max_appeals w = unwrap_or (i_max_appeals (w_inst w)) MAX_APPEALS"

definition read_max_basket_size :: "world \<Rightarrow> u32" where
  "read_max_basket_size w = unwrap_or (i_max_basket_size (w_inst w)) (of_nat MAX_BASKET_SIZE)"

end
