(* ===== verification/Creation.thy ===== *)
theory Creation
  imports Settlement
begin

text \<open>
  Creating escrows: \<open>create_escrow_internal\<close> of \<open>internal.rs\<close> and the creation entry points
  of \<open>src/contracts/escrow/src/instructions.rs\<close>.  \<open>auth!(a)\<close> is \<open>require_auth env a\<close>; an
  entry point returns the new escrow id with the world it leaves.
\<close>

section \<open>Role and registry checks\<close>

fun payee_conflict :: "address \<Rightarrow> address option \<Rightarrow> Payee list \<Rightarrow> bool" where
  "payee_conflict resolver buyer [] = False"
| "payee_conflict resolver buyer (payee # payees) =
    (if resolver = p_address payee then True
     else if buyer = Some (p_address payee) then True
     else payee_conflict resolver buyer payees)"

definition check_resolver_registry :: "address \<Rightarrow> world \<Rightarrow> unit res" where
  "check_resolver_registry resolver w =
    (if flag_set (g_state_flags (read_global_config w)) GLOBAL_CONFIG_FLAG_RESOLVER_STRICT
     then (if contains (unwrap_or (i_approved_resolvers (w_inst w)) []) resolver
           then Inr () else fail UnauthorizedResolver)
     else Inr ())"

text \<open>The escrow every creation path stores: \<open>Pending\<close>, unfunded, undelivered.\<close>

definition new_escrow ::
  "Payee list \<Rightarrow> address option \<Rightarrow> ResolverSet \<Rightarrow> address \<Rightarrow> int \<Rightarrow> u32 \<Rightarrow> u32 \<Rightarrow> u64 \<Rightarrow> string
    \<Rightarrow> u64 option \<Rightarrow> u64 \<Rightarrow> Escrow" where
  "new_escrow payees buyer resolvers token amount fee_bps resolver_fee_bps shipping_window
     notes expires_at grace_period = \<lparr>
    e_payees = payees,
    e_buyer = buyer,
    e_resolvers = resolvers,
    e_token = token,
    e_amount = amount,
    e_fee_bps = fee_bps,
    e_resolver_fee_bps = resolver_fee_bps,
    e_shipping_window = shipping_window,
    e_packed_timestamps = 0,
    e_shipped_at = 0,
    e_delivered_at = None,
    e_tracking_id = None,
    e_state = Pending,
    e_notes = notes,
    e_expires_at = expires_at,
    e_grace_period = grace_period\<rparr>"

section \<open>The shared creation path\<close>

definition create_escrow_internal ::
  "env \<Rightarrow> Payee list \<Rightarrow> address option \<Rightarrow> address \<Rightarrow> address \<Rightarrow> int \<Rightarrow> u32 \<Rightarrow> u32 \<Rightarrow> u64 \<Rightarrow> string
    \<Rightarrow> u64 option \<Rightarrow> u64 \<Rightarrow> world \<Rightarrow> (u64 \<times> world) res" where
  "create_escrow_internal env payees buyer resolver token amount fee_bps resolver_fee_bps
     shipping_window notes expires_at grace_period w =
    (if payees = [] then fail InvalidAddress
     else bindE (ensure_action_not_paused ''CREATE'' w) (\<lambda>_.
     if amount \<le> 0 then fail InvalidAmount
     else let global_config = read_global_config w in
     if g_max_amount global_config < amount then fail AmountExceedsMaximum
     else if amount < g_min_amount global_config then fail AmountBelowMinimum
     else bindE (validate_shipping_window shipping_window) (\<lambda>_.
     if MAX_GRACE_PERIOD < grace_period then fail GracePeriodTooLong
     else bindE (validate_escrow_fee_bps fee_bps) (\<lambda>_.
     bindE (validate_resolver_fee_bps resolver_fee_bps) (\<lambda>_.
     bindE (validate_payees payees) (\<lambda>_.
     if MAX_NOTES_LEN < length notes then fail InputTooLong
     else if payee_conflict resolver buyer payees then fail ConflictingRoles
     else if buyer = Some resolver then fail ConflictingRoles
     else bindE (check_resolver_registry resolver w) (\<lambda>_.
     bindE (is_token_allowed token w) (\<lambda>_.
     bindE (next_escrow_id w) (\<lambda>(escrow_id, w1).
     let escrow = new_escrow payees buyer (Single resolver) token amount fee_bps
                    resolver_fee_bps shipping_window notes expires_at grace_period;
         w2 = save_escrow env escrow_id escrow None w1
     in
     bindE (ok_or_err (vec_get payees 0) PayeeIndexOutOfBounds) (\<lambda>first_payee.
     bindE (append_vendor_escrow_index (p_address first_payee) escrow_id w2) (\<lambda>w3.
     bindE (increment_sharded_counter COUNTER_KIND_CREATED escrow_id w3) (\<lambda>w4.
     Inr (escrow_id,
          publish (emit_escrow_created env escrow_id (p_address first_payee) resolver
            (e_token escrow) (e_amount escrow) (e_fee_bps escrow) (e_resolver_fee_bps escrow)
            (e_shipping_window escrow) (e_expires_at escrow) Pending) w4)))))))))))))"

section \<open>Entry points\<close>

text \<open>
  \<open>seller_or_payees\<close>: a vector of payees, or one seller address with the whole share.
\<close>

fun payees_of_val :: "val \<Rightarrow> Payee list option" where
  "payees_of_val (VPayees payees) = Some payees"
| "payees_of_val (VVec []) = Some []"
| "payees_of_val (VAddress seller) = Some [\<lparr>p_address = seller, p_bps = 10000\<rparr>]"
| "payees_of_val _ = None"

definition create_escrow ::
  "env \<Rightarrow> val \<Rightarrow> address option \<Rightarrow> address \<Rightarrow> address \<Rightarrow> int \<Rightarrow> u32 \<Rightarrow> u32 \<Rightarrow> u64 \<Rightarrow> string option
    \<Rightarrow> world \<Rightarrow> (u64 \<times> world) res" where
  "create_escrow env seller_or_payees buyer resolver token amount fee_bps resolver_fee_bps
     shipping_window notes w =
    bindE (ok_or_err (payees_of_val seller_or_payees) InvalidAddress) (\<lambda>payees.
    bindE (ok_or_err (vec_get payees 0) IndexOutOfBounds) (\<lambda>first_payee.
    bindE (require_auth env (p_address first_payee)) (\<lambda>_.
    bindE (ensure_action_not_paused ''create_escrow'' w) (\<lambda>_.
    create_escrow_internal env payees buyer resolver token amount fee_bps resolver_fee_bps
      shipping_window (unwrap_or notes []) None 0 w))))"

definition create_escrow_8 ::
  "env \<Rightarrow> val \<Rightarrow> address option \<Rightarrow> address \<Rightarrow> address \<Rightarrow> int \<Rightarrow> u32 \<Rightarrow> u64
    \<Rightarrow> world \<Rightarrow> (u64 \<times> world) res" where
  "create_escrow_8 env seller_or_payees buyer resolver token amount fee_bps shipping_window w =
    create_escrow env seller_or_payees buyer resolver token amount fee_bps 0
      shipping_window None w"

definition create_escrow_7 ::
  "env \<Rightarrow> val \<Rightarrow> address option \<Rightarrow> address \<Rightarrow> address \<Rightarrow> int \<Rightarrow> u32
    \<Rightarrow> world \<Rightarrow> (u64 \<times> world) res" where
  "create_escrow_7 env seller_or_payees buyer resolver token amount fee_bps w =
    create_escrow env seller_or_payees buyer resolver token amount fee_bps 0
      DEFAULT_SHIPPING_WINDOW None w"

definition check_expiration :: "env \<Rightarrow> u64 option \<Rightarrow> u64 \<Rightarrow> unit res" where
  "check_expiration env expires_at grace_period =
    (case expires_at of
       None \<Rightarrow> Inr ()
     | Some exp_time \<Rightarrow>
         if exp_time \<le> env_now env then fail InvalidExpiration
         else bindE (ok_or_err (word_checked_add exp_time grace_period) ArithmeticOverflow)
                (\<lambda>_. Inr ()))"

definition create_escrow_with_expiration ::
  "env \<Rightarrow> address \<Rightarrow> address option \<Rightarrow> address \<Rightarrow> address \<Rightarrow> int \<Rightarrow> u32 \<Rightarrow> u64 \<Rightarrow> u64 option \<Rightarrow> u64
    \<Rightarrow> world \<Rightarrow> (u64 \<times> world) res" where
  "create_escrow_with_expiration env seller buyer resolver token amount fee_bps
     shipping_window expires_at grace_period w =
    bindE (require_auth env seller) (\<lambda>_.
    bindE (check_expiration env expires_at grace_period) (\<lambda>_.
    if MAX_GRACE_PERIOD < grace_period then fail GracePeriodTooLong
    else
    bindE (create_escrow_internal env [\<lparr>p_address = seller, p_bps = 10000\<rparr>] buyer resolver
             token amount fee_bps 0 shipping_window [] expires_at grace_period w)
      (\<lambda>(escrow_id, w1).
    case expires_at of
      None \<Rightarrow> Inr (escrow_id, w1)
    | Some exp_data \<Rightarrow>
        Inr (escrow_id, save_pending_expiry escrow_id exp_data grace_period w1))))"

definition create_escrow_multi ::
  "env \<Rightarrow> address \<Rightarrow> address option \<Rightarrow> address list \<Rightarrow> nat \<Rightarrow> address \<Rightarrow> int \<Rightarrow> u32 \<Rightarrow> u64
    \<Rightarrow> world \<Rightarrow> (u64 \<times> world) res" where
  "create_escrow_multi env seller buyer resolvers threshold token amount fee_bps
     shipping_window w =
    bindE (require_auth env seller) (\<lambda>_.
    bindE (ensure_action_not_paused ''create_escrow_multi'' w) (\<lambda>_.
    if amount \<le> 0 then fail InvalidAmount
    else if MAX_ESCROW_AMOUNT < amount then fail AmountExceedsMaximum
    else if amount < MIN_ESCROW_AMOUNT then fail AmountBelowMinimum
    else bindE (validate_escrow_fee_bps fee_bps) (\<lambda>_.
    bindE (is_token_allowed token w) (\<lambda>_.
    let resolver_set = Multi \<lparr>mr_resolvers = resolvers, mr_threshold = threshold\<rparr> in
    bindE (validate_resolvers env resolver_set seller buyer) (\<lambda>_.
    bindE (next_escrow_id w) (\<lambda>(escrow_id, w1).
    let escrow = new_escrow [\<lparr>p_address = seller, p_bps = 10000\<rparr>] buyer resolver_set token
                   amount fee_bps 0 shipping_window [] None 0;
        w2 = save_escrow env escrow_id escrow None w1
    in
    bindE (append_vendor_escrow_index seller escrow_id w2) (\<lambda>w3.
    bindE (increment_sharded_counter COUNTER_KIND_CREATED escrow_id w3) (\<lambda>w4.
    bindE (ok_or_err (vec_get resolvers 0) IndexOutOfBounds) (\<lambda>resolver_addr.
    Inr (escrow_id,
         publish (emit_escrow_created env escrow_id seller resolver_addr (e_token escrow)
           (e_amount escrow) (e_fee_bps escrow) (e_resolver_fee_bps escrow)
           (e_shipping_window escrow) (e_expires_at escrow) Pending) w4))))))))))"

definition create_escrow_with_fallback ::
  "env \<Rightarrow> address \<Rightarrow> address option \<Rightarrow> address \<Rightarrow> address \<Rightarrow> u64 \<Rightarrow> address \<Rightarrow> int \<Rightarrow> u32 \<Rightarrow> u64
    \<Rightarrow> world \<Rightarrow> (u64 \<times> world) res" where
  "create_escrow_with_fallback env seller buyer primary_resolver backup_resolver
     fallback_deadline token amount fee_bps shipping_window w =
    bindE (require_auth env seller) (\<lambda>_.
    bindE (ensure_action_not_paused ''create_escrow_with_fallback'' w) (\<lambda>_.
    if amount \<le> 0 then fail InvalidAmount
    else if MAX_ESCROW_AMOUNT < amount then fail AmountExceedsMaximum
    else if amount < MIN_ESCROW_AMOUNT then fail InvalidAmount
    else bindE (validate_escrow_fee_bps fee_bps) (\<lambda>_.
    let resolver_set = Fallback \<lparr>fr_primary = primary_resolver, fr_backup = backup_resolver,
                                 fr_dispute_deadline = fallback_deadline\<rparr> in
    bindE (validate_resolvers env resolver_set seller buyer) (\<lambda>_.
    bindE (next_escrow_id w) (\<lambda>(escrow_id, w1).
    let escrow = new_escrow [\<lparr>p_address = seller, p_bps = 10000\<rparr>] buyer resolver_set token
                   amount fee_bps 0 shipping_window [] None 0;
        w2 = save_escrow env escrow_id escrow None w1
    in
    bindE (append_vendor_escrow_index seller escrow_id w2) (\<lambda>w3.
    bindE (increment_sharded_counter COUNTER_KIND_CREATED escrow_id w3) (\<lambda>w4.
    Inr (escrow_id,
         publish (emit_escrow_created env escrow_id seller primary_resolver (e_token escrow)
           (e_amount escrow) (e_fee_bps escrow) (e_resolver_fee_bps escrow)
           (e_shipping_window escrow) (e_expires_at escrow) Pending) w4))))))))"

section \<open>Batches\<close>

text \<open>Non-empty notes must be pairwise different within a batch.\<close>

fun check_batch_notes :: "EscrowInput list \<Rightarrow> string list \<Rightarrow> unit res" where
  "check_batch_notes [] seen_notes = Inr ()"
| "check_batch_notes (input # inputs) seen_notes =
    (if in_notes input = [] then check_batch_notes inputs seen_notes
     else if in_notes input \<in> set seen_notes then fail DuplicateNotes
     else check_batch_notes inputs (seen_notes @ [in_notes input]))"

definition create_batch_entry ::
  "env \<Rightarrow> address \<Rightarrow> EscrowInput \<Rightarrow> u64 list \<times> world \<Rightarrow> (u64 list \<times> world) res" where
  "create_batch_entry env seller input = (\<lambda>(escrow_ids, w).
    bindE (create_escrow_internal env [\<lparr>p_address = seller, p_bps = 10000\<rparr>] (in_buyer input)
             (in_resolver input) (in_token input) (in_amount input) (in_fee_bps input)
             (in_resolver_fee_bps input) (in_shipping_window input) (in_notes input) None 0 w)
      (\<lambda>(escrow_id, w1). Inr (escrow_ids @ [escrow_id], w1)))"

definition batch_create_escrow ::
  "env \<Rightarrow> address \<Rightarrow> EscrowInput list \<Rightarrow> world \<Rightarrow> (u64 list \<times> world) res" where
  "batch_create_escrow env seller escrows w =
    bindE (require_auth env seller) (\<lambda>_.
    bindE (ensure_action_not_paused ''batch_create_escrow'' w) (\<lambda>_.
    bindE (check_batch_notes escrows []) (\<lambda>_.
    foldE (create_batch_entry env seller) escrows ([], w))))"

section \<open>Baskets\<close>

text \<open>The two passes over the amounts: the first still admits a zero secondary amount.\<close>

fun check_amounts :: "GlobalConfig \<Rightarrow> int list \<Rightarrow> unit res" where
  "check_amounts global_config [] = Inr ()"
| "check_amounts global_config (amount # amounts) =
    (if amount < 0 then fail InvalidAmount
     else if g_max_amount global_config < amount then fail AmountExceedsMaximum
     else if 0 < amount \<and> amount < g_min_amount global_config then fail AmountBelowMinimum
     else check_amounts global_config amounts)"

fun check_positive_amounts :: "int \<Rightarrow> int \<Rightarrow> int list \<Rightarrow> unit res" where
  "check_positive_amounts max_amount min_amount [] = Inr ()"
| "check_positive_amounts max_amount min_amount (amount # amounts) =
    (if amount \<le> 0 then fail InvalidAmount
     else if max_amount < amount then fail AmountExceedsMaximum
     else if amount < min_amount then fail AmountBelowMinimum
     else check_positive_amounts max_amount min_amount amounts)"

text \<open>The pairwise scan for duplicate tokens.\<close>

fun has_duplicate :: "address list \<Rightarrow> bool" where
  "has_duplicate [] = False"
| "has_duplicate (token # tokens) = (if token \<in> set tokens then True else has_duplicate tokens)"

definition create_basket_escrow ::
  "env \<Rightarrow> address \<Rightarrow> address option \<Rightarrow> address \<Rightarrow> address list \<Rightarrow> int list \<Rightarrow> u32 \<Rightarrow> u64
    \<Rightarrow> string option \<Rightarrow> u64 option \<Rightarrow> u64 \<Rightarrow> world \<Rightarrow> (u64 \<times> world) res" where
  "create_basket_escrow env seller buyer resolver tokens amounts fee_bps shipping_window
     notes expires_at grace_period w =
    bindE (require_auth env seller) (\<lambda>_.
    bindE (ensure_action_not_paused ''create_basket_escrow'' w) (\<lambda>_.
    if length tokens \<noteq> length amounts \<or> tokens = [] \<or> MAX_BASKET_SIZE < length tokens
    then fail BasketTokenMismatch
    else if has_duplicate tokens then fail BasketTokenMismatch
    else bindE (check_amounts (read_global_config w) amounts) (\<lambda>_.
    bindE (ok_or_err (vec_get amounts 0) InvalidAmount) (\<lambda>primary_amount.
    if primary_amount = 0 then fail AmountBelowMinimum
    else bindE (validate_escrow_fee_bps fee_bps) (\<lambda>_.
    bindE (validate_shipping_window shipping_window) (\<lambda>_.
    let notes1 = unwrap_or notes [] in
    if MAX_NOTES_LEN < length notes1 then fail InputTooLong
    else if (case expires_at of None \<Rightarrow> False | Some expiry \<Rightarrow> expiry \<le> env_now env)
    then fail InvalidExpiration
    else bindE (check_positive_amounts (g_max_amount (read_global_config w))
                  (g_min_amount (read_global_config w)) amounts) (\<lambda>_.
    if resolver = seller then fail ConflictingRoles
    else if buyer = Some seller \<or> buyer = Some resolver then fail ConflictingRoles
    else bindE (check_resolver_registry resolver w) (\<lambda>_.
    bindE (foldE (\<lambda>token _. is_token_allowed token w) tokens ()) (\<lambda>_.
    bindE (check_expiration env expires_at grace_period) (\<lambda>_.
    bindE (next_escrow_id w) (\<lambda>(escrow_id, w1).
    bindE (ok_or_err (vec_get tokens 0) BasketTokenMismatch) (\<lambda>primary_token.
    let escrow = new_escrow [\<lparr>p_address = seller, p_bps = 10000\<rparr>] buyer (Single resolver)
                   primary_token primary_amount fee_bps 0 shipping_window notes1 expires_at 0;
        w2 = save_escrow env escrow_id escrow None w1;
        w3 = (case expires_at of None \<Rightarrow> w2
              | Some expiry \<Rightarrow> save_pending_expiry escrow_id expiry 0 w2);
        basket_entries = map2 (\<lambda>token amount. \<lparr>te_token = token, te_amount = amount\<rparr>)
                           tokens amounts;
        w4 = save_basket_tokens escrow_id basket_entries w3;
        w5 = (case expires_at of None \<Rightarrow> w4
              | Some expiry \<Rightarrow> save_pending_expiry escrow_id expiry grace_period w4);
        (vendor_escrows, w6) = read_vendor_escrow_index seller w5;
        w7 = write_vendor_escrow_index seller (vendor_escrows @ [escrow_id]) w6
    in
    bindE (append_vendor_escrow_index seller escrow_id w7) (\<lambda>w8.
    bindE (increment_sharded_counter COUNTER_KIND_CREATED escrow_id w8) (\<lambda>w9.
    Inr (escrow_id,
         publish (emit_basket_escrow_created env escrow_id seller (of_nat (length tokens)))
           w9)))))))))))))))"

end
