(* ===== verification/Lifecycle.thy ===== *)
theory Lifecycle
  imports Creation
begin

text \<open>
  The life of an escrow after its creation, from
  \<open>src/contracts/escrow/src/instructions.rs\<close>: funding, messages, shipment, delivery,
  release, cancellation, refunds, expiry, resolver rotation and rent.  Each definition is
  one entry point, guards in the order of the code, returning the world it leaves.
\<close>

section \<open>Roles\<close>

definition is_payee :: "Escrow \<Rightarrow> address \<Rightarrow> bool" where
  "is_payee escrow caller = contains (map p_address (e_payees escrow)) caller"

definition basket_tuples :: "TokenEntry list \<Rightarrow> (address \<times> int) list" where
  "basket_tuples tokens = map (\<lambda>entry. (te_token entry, te_amount entry)) tokens"

text \<open>The basket part of an event: present when there is more than one token.\<close>

definition basket_event_data :: "TokenEntry list \<Rightarrow> (address \<times> int) list option" where
  "basket_event_data tokens =
    (if 1 < length tokens then Some (basket_tuples tokens) else None)"

section \<open>Expiry\<close>

definition reclaim_expired :: "env \<Rightarrow> u64 \<Rightarrow> world \<Rightarrow> world res" where
  "reclaim_expired env escrow_id w =
    bindE (ensure_action_not_paused ''RECLAIM'' w) (\<lambda>_.
    bindE (load_escrow escrow_id w) (\<lambda>(escrow, w1).
    if e_state escrow \<noteq> Funded \<and> e_state escrow \<noteq> Shipped
    then fail (terminal_state_error (e_state escrow) InvalidState)
    else bindE (ok_or_err (e_expires_at escrow) InvalidState) (\<lambda>expires_at.
    if env_now env < expires_at then fail InvalidState
    else bindE (ok_or_err (e_buyer escrow) EscrowHasNoBuyer) (\<lambda>buyer.
    bindE (require_auth env buyer) (\<lambda>_.
    let prev_state = e_state escrow;
        escrow1 = escrow\<lparr>e_state := Expired\<rparr>;
        w2 = save_escrow env escrow_id escrow1 (Some prev_state) w1;
        w3 = publish (emit_pending_expiry_cleared env escrow_id)
               (remove_pending_expiry escrow_id w2);
        w4 = clear_delivery_proposal env escrow_id w3
    in
    bindE (payout env (e_token escrow1) buyer (e_amount escrow1) w4) (\<lambda>w5.
    bindE (payout_basket_tokens env escrow_id buyer w5) (\<lambda>w6.
    Inr (publish (emit_escrow_expired env escrow_id buyer (e_amount escrow1) prev_state Expired)
           w6))))))))"

definition auto_cancel_pending :: "env \<Rightarrow> u64 \<Rightarrow> world \<Rightarrow> world res" where
  "auto_cancel_pending env escrow_id w =
    bindE (ensure_action_not_paused ''auto_cancel_pending'' w) (\<lambda>_.
    bindE (ensure_not_expired env escrow_id w) (\<lambda>w1.
    bindE (load_escrow escrow_id w1) (\<lambda>(escrow, w2).
    if e_state escrow \<noteq> Pending then fail (terminal_state_error (e_state escrow) InvalidState)
    else
    let (created_at, w3) = escrow_created_at escrow_id w2 in
    bindE (pending_expiry_deadline created_at) (\<lambda>deadline.
    if env_now env \<le> deadline then fail ShippingWindowNotElapsed
    else
    let prev_state = e_state escrow;
        escrow1 = escrow\<lparr>e_state := Canceled\<rparr>;
        w4 = save_escrow env escrow_id escrow1 (Some prev_state) w3;
        w5 = publish (emit_pending_expiry_cleared env escrow_id)
               (remove_pending_expiry escrow_id w4)
    in Inr (publish (emit_escrow_auto_canceled env escrow_id) w5)))))"

section \<open>Funding\<close>

definition fund_basket_entry ::
  "env \<Rightarrow> address \<Rightarrow> address \<Rightarrow> TokenEntry \<Rightarrow> world \<Rightarrow> world res" where
  "fund_basket_entry env primary_token buyer entry w =
    (if is_transferable_basket_entry entry primary_token
     then transfer_helper env (te_token entry) buyer (env_self env) (te_amount entry) w
     else Inr w)"

definition fund_escrow :: "env \<Rightarrow> u64 \<Rightarrow> address \<Rightarrow> world \<Rightarrow> world res" where
  "fund_escrow env escrow_id buyer w =
    bindE (ensure_action_not_paused ''FUND'' w) (\<lambda>_.
    bindE (load_escrow escrow_id w) (\<lambda>(escrow, w1).
    if e_state escrow \<noteq> Pending then fail (terminal_state_error (e_state escrow) InvalidState)
    else bindE (require_auth env buyer) (\<lambda>_.
    let now = env_now env in
    bindE (ok_or_err (word_checked_add now DISPUTE_WINDOW) ArithmeticOverflow) (\<lambda>_.
    bindE (ensure_funding_not_expired env escrow_id w1) (\<lambda>w2.
    if is_payee escrow buyer then fail ConflictingRoles
    else if rs_contains (e_resolvers escrow) buyer then fail ConflictingRoles
    else if (case e_buyer escrow of None \<Rightarrow> False | Some expected_buyer \<Rightarrow> buyer \<noteq> expected_buyer)
    then fail NotAuthorizedBuyer
    else
    bindE (transfer_helper env (e_token escrow) buyer (env_self env) (e_amount escrow) w2) (\<lambda>w3.
    let (basket_tokens, w4) = load_basket_tokens escrow_id w3 in
    bindE (foldE (fund_basket_entry env (e_token escrow) buyer) basket_tokens w4) (\<lambda>w5.
    let prev_state = e_state escrow in
    bindE (ok_or_err (word_checked_add now DISPUTE_WINDOW) ArithmeticOverflow) (\<lambda>deadline.
    let escrow1 = escrow\<lparr>e_buyer := Some buyer, e_state := Funded,
                         e_packed_timestamps := push_bit 32 now OR (deadline AND 0xFFFFFFFF)\<rparr>
    in
    bindE (append_buyer_escrow_index buyer escrow_id w5) (\<lambda>w6.
    let w7 = save_escrow env escrow_id escrow1 (Some prev_state) w6;
        w8 = publish (emit_pending_expiry_cleared env escrow_id)
               (remove_pending_expiry escrow_id w7)
    in Inr (publish (emit_escrow_funded env escrow_id buyer (e_amount escrow1) Pending Funded
              (basket_event_data basket_tokens)) w8))))))))))"

text \<open>Every positive entry is transferred here, the primary token's included.\<close>

definition fund_any_entry :: "env \<Rightarrow> address \<Rightarrow> TokenEntry \<Rightarrow> world \<Rightarrow> world res" where
  "fund_any_entry env buyer entry w =
    (if 0 < te_amount entry
     then transfer_helper env (te_token entry) buyer (env_self env) (te_amount entry) w
     else Inr w)"

definition fund_basket_escrow :: "env \<Rightarrow> u64 \<Rightarrow> address \<Rightarrow> world \<Rightarrow> world res" where
  "fund_basket_escrow env escrow_id buyer w =
    bindE (require_auth env buyer) (\<lambda>_.
    bindE (ensure_action_not_paused ''FUND'' w) (\<lambda>_.
    bindE (load_escrow escrow_id w) (\<lambda>(escrow, w1).
    if e_state escrow \<noteq> Pending then fail (terminal_state_error (e_state escrow) InvalidState)
    else bindE (ensure_funding_not_expired env escrow_id w1) (\<lambda>w2.
    if is_payee escrow buyer then fail ConflictingRoles
    else if rs_contains (e_resolvers escrow) buyer then fail ConflictingRoles
    else let now = env_now env in
    bindE (ensure_not_expired env escrow_id w2) (\<lambda>w3.
    let (created_at, w4) = escrow_created_at escrow_id w3 in
    bindE (ok_or_err (word_checked_add created_at PENDING_EXPIRY_WINDOW) ArithmeticOverflow)
      (\<lambda>blanket_deadline.
    if blanket_deadline < now then fail EscrowExpired
    else bindE (ensure_funding_not_expired env escrow_id w4) (\<lambda>w5.
    if (case e_buyer escrow of None \<Rightarrow> False | Some expected_buyer \<Rightarrow> buyer \<noteq> expected_buyer)
    then fail NotAuthorizedBuyer
    else
    let (basket_tokens, w6) = load_basket_tokens escrow_id w5 in
    if basket_tokens = [] then fail BasketTokenMismatch
    else bindE (foldE (fund_any_entry env buyer) basket_tokens w6) (\<lambda>w7.
    let prev_state = e_state escrow in
    bindE (ok_or_err (word_checked_add now DISPUTE_WINDOW) ArithmeticError) (\<lambda>deadline.
    let escrow1 = escrow\<lparr>e_buyer := Some buyer, e_state := Funded,
                         e_packed_timestamps := push_bit 32 now OR (deadline AND 0xFFFFFFFF)\<rparr>
    in
    bindE (append_buyer_escrow_index buyer escrow_id w7) (\<lambda>w8.
    let w9 = save_escrow env escrow_id escrow1 (Some prev_state) w8;
        w10 = publish (emit_pending_expiry_cleared env escrow_id)
                (remove_pending_expiry escrow_id w9)
    in Inr (publish (emit_escrow_funded env escrow_id buyer (e_amount escrow1) Pending Funded
              (Some (basket_tuples basket_tokens))) w10)))))))))))"

section \<open>Messages\<close>

definition post_message :: "env \<Rightarrow> u64 \<Rightarrow> address \<Rightarrow> string \<Rightarrow> world \<Rightarrow> world res" where
  "post_message env escrow_id sender content w =
    bindE (require_auth env sender) (\<lambda>_.
    bindE (ensure_action_not_paused ''post_message'' w) (\<lambda>_.
    bindE (load_escrow escrow_id w) (\<lambda>(escrow, w1).
    if e_buyer escrow \<noteq> Some sender \<and> \<not> is_payee escrow sender then fail NotAuthorized
    else if content = [] then fail InvalidAmount
    else if MAX_MESSAGE_LEN < length content then fail InputTooLong
    else
    let message = \<lparr>m_sender = sender, m_timestamp = env_now env, m_content = content\<rparr> in
    bindE (append_message escrow_id message MAX_MESSAGES_PER_ESCROW w1) (\<lambda>w2.
    Inr (publish (emit_message_posted env escrow_id sender) w2)))))"

section \<open>Cancellation\<close>

definition cancel_escrow :: "env \<Rightarrow> address \<Rightarrow> u64 \<Rightarrow> world \<Rightarrow> world res" where
  "cancel_escrow env caller escrow_id w =
    bindE (require_auth env caller) (\<lambda>_.
    bindE (ensure_action_not_paused ''cancel_escrow'' w) (\<lambda>_.
    bindE (ensure_not_expired env escrow_id w) (\<lambda>w1.
    bindE (load_escrow escrow_id w1) (\<lambda>(escrow, w2).
    let buyer = e_buyer escrow in
    if \<not> is_payee escrow caller \<and> buyer \<noteq> Some caller then fail NotAuthorized
    else
    let prev_state = e_state escrow in
    bindE
      (if e_state escrow = Pending then Inr ((escrow\<lparr>e_state := Canceled\<rparr>, False), w2)
       else if e_state escrow = Funded \<and> buyer = Some caller
       then bindE (record_escrow_refunded escrow_id w2)
              (\<lambda>w3. Inr ((escrow\<lparr>e_state := Refunded\<rparr>, True), w3))
       else fail (terminal_state_error (e_state escrow) InvalidState))
      (\<lambda>((escrow1, should_refund), w3).
    let w4 = save_escrow env escrow_id escrow1 (Some prev_state) w3;
        w5 = publish (emit_pending_expiry_cleared env escrow_id)
               (remove_pending_expiry escrow_id w4)
    in
    bindE
      (if should_refund
       then bindE (payout env (e_token escrow1) caller (e_amount escrow1) w5)
              (payout_basket_tokens env escrow_id caller)
       else Inr w5) (\<lambda>w6.
    bindE (ok_or_err (vec_get (e_payees escrow1) 0) IndexOutOfBounds) (\<lambda>first_payee.
    Inr (publish (emit_escrow_canceled env escrow_id (p_address first_payee) caller prev_state
           (e_state escrow1)) w6))))))))"

definition mutual_cancel :: "env \<Rightarrow> u64 \<Rightarrow> world \<Rightarrow> world res" where
  "mutual_cancel env escrow_id w =
    bindE (ensure_action_not_paused ''mutual_cancel'' w) (\<lambda>_.
    bindE (ensure_not_expired env escrow_id w) (\<lambda>w1.
    bindE (load_escrow escrow_id w1) (\<lambda>(escrow, w2).
    bindE (ok_or_err (e_buyer escrow) EscrowHasNoBuyer) (\<lambda>buyer.
    bindE (ok_or_err (vec_get (e_payees escrow) 0) IndexOutOfBounds) (\<lambda>first_payee.
    let seller_addr = p_address first_payee in
    bindE (require_auth env seller_addr) (\<lambda>_.
    bindE (require_auth (after_auth env [seller_addr]) buyer) (\<lambda>_.
    if e_state escrow \<noteq> Funded \<and> e_state escrow \<noteq> Shipped
    then fail (terminal_state_error (e_state escrow) InvalidState)
    else
    let prev_state = e_state escrow;
        escrow1 = escrow\<lparr>e_state := Canceled\<rparr>;
        w3 = save_escrow env escrow_id escrow1 (Some prev_state) w2;
        w4 = clear_delivery_proposal env escrow_id w3
    in
    bindE (payout env (e_token escrow1) buyer (e_amount escrow1) w4) (\<lambda>w5.
    bindE (payout_basket_tokens env escrow_id buyer w5) (\<lambda>w6.
    Inr (publish (emit_escrow_canceled env escrow_id seller_addr buyer prev_state Canceled)
           w6))))))))))"

section \<open>Shipment and delivery\<close>

definition mark_shipped :: "env \<Rightarrow> address \<Rightarrow> u64 \<Rightarrow> string \<Rightarrow> world \<Rightarrow> world res" where
  "mark_shipped env caller escrow_id tracking_id w =
    bindE (require_auth env caller) (\<lambda>_.
    bindE (ensure_action_not_paused ''mark_shipped'' w) (\<lambda>_.
    bindE (ensure_not_expired env escrow_id w) (\<lambda>w1.
    bindE (load_escrow escrow_id w1) (\<lambda>(escrow, w2).
    bindE (ok_or_err (vec_get (e_payees escrow) 0) IndexOutOfBounds) (\<lambda>first_payee.
    if \<not> is_payee escrow caller then fail NotAuthorizedSeller
    else if e_state escrow \<noteq> Funded \<and> e_state escrow \<noteq> RefundRequested
    then fail (terminal_state_error (e_state escrow) InvalidState)
    else if tracking_id = [] then fail InvalidTrackingId
    else if MAX_TRACKING_ID_LEN < length tracking_id then fail InputTooLong
    else
    let prev_state = e_state escrow;
        escrow1 = escrow\<lparr>e_state := Shipped, e_shipped_at := env_now env,
                         e_tracking_id := Some tracking_id\<rparr>;
        w3 = save_escrow env escrow_id escrow1 (Some prev_state) w2
    in Inr (publish (emit_escrow_shipped env escrow_id (p_address first_payee) tracking_id
              prev_state Shipped) w3))))))"

definition propose_record_delivery :: "env \<Rightarrow> address \<Rightarrow> u64 \<Rightarrow> world \<Rightarrow> world res" where
  "propose_record_delivery env caller escrow_id w =
    bindE (require_auth env caller) (\<lambda>_.
    bindE (ok_or_err (i_admin (w_inst w)) NotAuthorized) (\<lambda>admin.
    if caller \<noteq> admin then fail NotAuthorized
    else bindE (load_escrow escrow_id w) (\<lambda>(escrow, w1).
    if e_state escrow \<noteq> Shipped then fail (terminal_state_error (e_state escrow) InvalidState)
    else if e_delivered_at escrow \<noteq> None then fail DeliveryAlreadyRecorded
    else
    let now = env_now env in
    bindE (ok_or_err (word_checked_add now DELIVERY_TIMELOCK) ArithmeticOverflow) (\<lambda>unlock_at.
    Inr (publish (emit_delivery_proposed env escrow_id now unlock_at)
      (pers_update (p_delivery_proposal_update (\<lambda>m. m(escrow_id \<mapsto> unlock_at))) w1))))))"

definition remove_delivery_proposal :: "u64 \<Rightarrow> world \<Rightarrow> world" where
  "remove_delivery_proposal escrow_id =
    pers_update (p_delivery_proposal_update (\<lambda>m. m(escrow_id := None)))"

definition cancel_delivery_proposal :: "env \<Rightarrow> address \<Rightarrow> u64 \<Rightarrow> world \<Rightarrow> world res" where
  "cancel_delivery_proposal env caller escrow_id w =
    bindE (require_auth env caller) (\<lambda>_.
    bindE (ok_or_err (i_admin (w_inst w)) NotAuthorized) (\<lambda>admin.
    bindE (load_escrow escrow_id w) (\<lambda>(escrow, w1).
    let is_buyer = (e_buyer escrow = Some caller) in
    if caller \<noteq> admin \<and> \<not> is_buyer then fail NotAuthorized
    else if p_delivery_proposal (w_pers w1) escrow_id = None then fail DeliveryNotProposed
    else Inr (publish (emit_delivery_proposal_cancelled env escrow_id)
                (remove_delivery_proposal escrow_id w1)))))"

definition reject_delivery_proposal :: "env \<Rightarrow> address \<Rightarrow> u64 \<Rightarrow> world \<Rightarrow> world res" where
  "reject_delivery_proposal env caller escrow_id w =
    bindE (require_auth env caller) (\<lambda>_.
    bindE (load_escrow escrow_id w) (\<lambda>(escrow, w1).
    bindE (ok_or_err (e_buyer escrow) EscrowHasNoBuyer) (\<lambda>buyer.
    if caller \<noteq> buyer then fail NotAuthorizedBuyer
    else if p_delivery_proposal (w_pers w1) escrow_id = None then fail DeliveryNotProposed
    else Inr (publish (emit_delivery_proposal_cancelled env escrow_id)
                (remove_delivery_proposal escrow_id w1)))))"

definition record_delivery :: "env \<Rightarrow> address \<Rightarrow> u64 \<Rightarrow> world \<Rightarrow> world res" where
  "record_delivery env caller escrow_id w =
    bindE (require_auth env caller) (\<lambda>_.
    bindE (ok_or_err (i_admin (w_inst w)) NotAuthorized) (\<lambda>admin.
    if caller \<noteq> admin then fail NotAuthorized
    else bindE (load_escrow escrow_id w) (\<lambda>(escrow, w1).
    if e_state escrow \<noteq> Shipped then fail (terminal_state_error (e_state escrow) InvalidState)
    else if e_delivered_at escrow \<noteq> None then fail DeliveryAlreadyRecorded
    else bindE (ok_or_err (p_delivery_proposal (w_pers w1) escrow_id) DeliveryNotProposed)
      (\<lambda>unlock_at.
    let now = env_now env in
    if now < unlock_at then fail TimelockNotElapsed
    else
    let w2 = remove_delivery_proposal escrow_id w1;
        escrow1 = escrow\<lparr>e_delivered_at := Some now\<rparr>;
        w3 = save_escrow env escrow_id escrow1 (Some (e_state escrow1)) w2
    in Inr (publish (emit_delivery_recorded env escrow_id now) w3)))))"

section \<open>Release\<close>

definition confirm_delivery :: "env \<Rightarrow> address \<Rightarrow> u64 \<Rightarrow> bool \<Rightarrow> world \<Rightarrow> world res" where
  "confirm_delivery env caller escrow_id waive_shipping_window w =
    bindE (require_auth env caller) (\<lambda>_.
    bindE (ensure_action_not_paused ''confirm_delivery'' w) (\<lambda>_.
    bindE (ensure_not_expired env escrow_id w) (\<lambda>w1.
    bindE (load_escrow escrow_id w1) (\<lambda>(escrow, w2).
    bindE (ok_or_err (e_buyer escrow) EscrowHasNoBuyer) (\<lambda>buyer.
    if caller \<noteq> buyer then fail NotAuthorizedBuyer
    else if e_state escrow \<noteq> Shipped
    then fail (terminal_state_error (e_state escrow) InvalidStateTransition)
    else if \<not> waive_shipping_window \<and> env_now env < dispute_deadline escrow
    then fail DisputeWindowStillOpen
    else
    bindE (settle_escrow_to_payees env escrow escrow_id (e_fee_bps escrow) w2)
      (\<lambda>((prev_state, first_payee_addr, escrow1), w3).
    Inr (publish (emit_escrow_completed env escrow_id first_payee_addr (e_amount escrow1)
           (e_fee_bps escrow1) prev_state Completed) w3)))))))"

definition co_signed_release :: "env \<Rightarrow> address \<Rightarrow> u64 \<Rightarrow> world \<Rightarrow> world res" where
  "co_signed_release env caller escrow_id w =
    bindE (require_auth env caller) (\<lambda>_.
    bindE (ensure_action_not_paused ''co_signed_release'' w) (\<lambda>_.
    bindE (load_escrow escrow_id w) (\<lambda>(escrow, w1).
    bindE (ok_or_err (vec_get (e_payees escrow) 0) IndexOutOfBounds) (\<lambda>payee.
    let first_payee = p_address payee in
    bindE (require_auth (after_auth env [caller]) first_payee) (\<lambda>_.
    bindE (ok_or_err (e_buyer escrow) EscrowHasNoBuyer) (\<lambda>buyer.
    bindE (require_auth (after_auth env [caller, first_payee]) buyer) (\<lambda>_.
    if e_state escrow \<noteq> Funded \<and> e_state escrow \<noteq> Shipped
    then fail (terminal_state_error (e_state escrow) InvalidState)
    else if is_ok (load_dispute escrow_id w1) then fail InvalidState
    else
    let fee_config = read_fee_config w1 in
    bindE (ok_or_err (g_fee_collector (read_global_config w1)) NotInitialized) (\<lambda>fee_collector.
    let prev_state = e_state escrow;
        updated = escrow\<lparr>e_state := Completed\<rparr>;
        w2 = save_escrow env escrow_id updated (Some prev_state) w1;
        w3 = clear_delivery_proposal env escrow_id w2
    in
    bindE (record_escrow_completed escrow_id w3) (\<lambda>w4.
    bindE (transfer_with_protocol_fee env (e_token updated) first_payee fee_collector
             (e_amount updated) (f_protocol_fee_bps fee_config) w4) (\<lambda>(_, w5).
    bindE (payout_basket_tokens env escrow_id first_payee w5) (\<lambda>w6.
    Inr (publish (emit_escrow_completed env escrow_id first_payee (e_amount updated)
           (f_protocol_fee_bps fee_config) prev_state Completed) w6))))))))))))"

definition extend_escrow_ttl :: "env \<Rightarrow> u64 \<Rightarrow> world \<Rightarrow> world res" where
  "extend_escrow_ttl env escrow_id w = extend_escrow_ttl_internal escrow_id w"

definition auto_release :: "env \<Rightarrow> u64 \<Rightarrow> world \<Rightarrow> world res" where
  "auto_release env escrow_id w =
    bindE (ensure_action_not_paused ''auto_release'' w) (\<lambda>_.
    bindE (ensure_not_expired env escrow_id w) (\<lambda>w1.
    bindE (load_escrow escrow_id w1) (\<lambda>(escrow, w2).
    bindE (ensure_auto_release_eligible env escrow escrow_id w2) (\<lambda>_.
    let protocol_fee_bps = f_protocol_fee_bps (read_fee_config w2) in
    bindE (settle_escrow_to_payees env escrow escrow_id protocol_fee_bps w2)
      (\<lambda>((prev_state, first_payee_addr, escrow1), w3).
    Inr (publish (emit_auto_released env escrow_id first_payee_addr (e_amount escrow1)
           (e_fee_bps escrow1) prev_state Completed) w3))))))"

section \<open>Resolver rotation\<close>

definition rotate_resolver :: "env \<Rightarrow> address \<Rightarrow> u64 \<Rightarrow> address \<Rightarrow> world \<Rightarrow> world res" where
  "rotate_resolver env caller escrow_id new_resolver w =
    bindE (require_auth env caller) (\<lambda>_.
    bindE (ensure_action_not_paused ''rotate_resolver'' w) (\<lambda>_.
    bindE (load_escrow escrow_id w) (\<lambda>(escrow, w1).
    bindE (require_admin w1) (\<lambda>admin.
    if \<not> is_payee escrow caller \<and> caller \<noteq> admin then fail NotAuthorized
    else if e_state escrow \<in> {Completed, Refunded, Canceled, Expired}
    then fail (terminal_state_error (e_state escrow) InvalidState)
    else
    (case e_resolvers escrow of
       Single current_resolver \<Rightarrow>
         if new_resolver = current_resolver then fail SameAddress
         else if is_payee escrow new_resolver then fail InvalidAddress
         else if e_buyer escrow = Some new_resolver then fail InvalidAddress
         else
           let escrow1 = escrow\<lparr>e_resolvers := Single new_resolver\<rparr>;
               w2 = save_escrow env escrow_id escrow1 (Some (e_state escrow1)) w1
           in Inr (publish (emit_resolver_rotated env escrow_id current_resolver new_resolver) w2)
     | _ \<Rightarrow> fail InvalidState)))))"

section \<open>Refunds\<close>

definition request_refund :: "env \<Rightarrow> address \<Rightarrow> u64 \<Rightarrow> world \<Rightarrow> world res" where
  "request_refund env caller escrow_id w =
    bindE (require_auth env caller) (\<lambda>_.
    bindE (ensure_action_not_paused ''request_refund'' w) (\<lambda>_.
    bindE (ensure_not_expired env escrow_id w) (\<lambda>w1.
    bindE (load_escrow escrow_id w1) (\<lambda>(escrow, w2).
    bindE (ok_or_err (e_buyer escrow) EscrowHasNoBuyer) (\<lambda>buyer.
    if caller \<noteq> buyer then fail NotAuthorizedBuyer
    else if e_state escrow \<noteq> Funded
    then fail (terminal_state_error (e_state escrow) InvalidStateTransition)
    else
    let prev_state = e_state escrow;
        escrow1 = escrow\<lparr>e_state := RefundRequested\<rparr>;
        w3 = save_escrow env escrow_id escrow1 (Some prev_state) w2;
        (basket_tokens, w4) = load_basket_tokens escrow_id w3
    in Inr (publish (emit_refund_requested env escrow_id caller prev_state RefundRequested
              (basket_event_data basket_tokens)) w4))))))"

definition approve_refund :: "env \<Rightarrow> address \<Rightarrow> u64 \<Rightarrow> world \<Rightarrow> world res" where
  "approve_refund env caller escrow_id w =
    bindE (require_auth env caller) (\<lambda>_.
    bindE (ensure_action_not_paused ''approve_refund'' w) (\<lambda>_.
    bindE (ensure_not_expired env escrow_id w) (\<lambda>w1.
    bindE (load_escrow escrow_id w1) (\<lambda>(escrow, w2).
    bindE (ok_or_err (vec_get (e_payees escrow) 0) IndexOutOfBounds) (\<lambda>first_payee.
    if caller \<noteq> p_address first_payee then fail NotAuthorizedSeller
    else if e_state escrow \<noteq> RefundRequested
    then fail (terminal_state_error (e_state escrow) InvalidStateTransition)
    else bindE (ok_or_err (e_buyer escrow) EscrowHasNoBuyer) (\<lambda>buyer.
    let prev_state = e_state escrow;
        escrow1 = escrow\<lparr>e_state := Refunded\<rparr>;
        w3 = save_escrow env escrow_id escrow1 (Some prev_state) w2
    in
    bindE (record_escrow_refunded escrow_id w3) (\<lambda>w4.
    bindE (payout env (e_token escrow1) buyer (e_amount escrow1) w4) (\<lambda>w5.
    bindE (payout_basket_tokens env escrow_id buyer w5) (\<lambda>w6.
    Inr (publish (emit_refund_approved env escrow_id caller prev_state Refunded) w6))))))))))"

end
