(* ===== verification/Disputes.thy ===== *)
theory Disputes
  imports Lifecycle
begin

text \<open>
  \<open>src/contracts/escrow/src/disputes.rs\<close>, with \<open>execute_resolution_transition\<close> of
  \<open>internal.rs\<close> and \<open>resolve_or_vote_internal\<close> of \<open>lib.rs\<close>: raising a dispute, resolver votes,
  the resolution transition that charges the fees, finalization, appeals, and the three
  escape hatches (timeout, deadlock, admin cancellation).
\<close>

definition DISPUTE_REASONS :: "symbol list" where
  "DISPUTE_REASONS = [''ITEM_NOT_RECEIVED'', ''NOT_AS_DESCRIBED'', ''DAMAGED'', ''DEFECTIVE'',
     ''FRAUD'', ''OTHER'']"

definition is_valid_dispute_reason :: "symbol \<Rightarrow> bool" where
  "is_valid_dispute_reason reason = (\<exists>allowed \<in> set DISPUTE_REASONS. allowed = reason)"

definition buyer_and_seller :: "Escrow \<Rightarrow> (address \<times> address) res" where
  "buyer_and_seller escrow =
    bindE (ok_or_err (e_buyer escrow) EscrowHasNoBuyer) (\<lambda>buyer.
    bindE (ok_or_err (vec_get (e_payees escrow) 0) IndexOutOfBounds) (\<lambda>payee.
    Inr (buyer, p_address payee)))"

fun voter_for :: "ResolverVote list \<Rightarrow> ResolutionType \<Rightarrow> address option" where
  "voter_for [] resolution = None"
| "voter_for (vote # votes) resolution =
    (if v_resolution vote = resolution then Some (v_resolver vote)
     else voter_for votes resolution)"

section \<open>Raising a dispute\<close>

definition raise_dispute ::
  "env \<Rightarrow> address \<Rightarrow> u64 \<Rightarrow> symbol \<Rightarrow> bytes \<Rightarrow> bytes \<Rightarrow> world \<Rightarrow> world res" where
  "raise_dispute env caller escrow_id reason description evidence_hash w =
    bindE (require_auth env caller) (\<lambda>_.
    bindE (ensure_action_not_paused ''raise_dispute'' w) (\<lambda>_.
    bindE (load_escrow escrow_id w) (\<lambda>(escrow, w1).
    bindE (ok_or_err (e_buyer escrow) EscrowHasNoBuyer) (\<lambda>buyer.
    if caller \<noteq> buyer then fail NotAuthorizedBuyer
    else if e_state escrow \<noteq> Funded \<and> e_state escrow \<noteq> Shipped
    then fail (terminal_state_error (e_state escrow) InvalidState)
    else if dispute_deadline escrow \<le> env_now env then fail DisputeWindowStillOpen
    else if \<not> is_valid_dispute_reason reason then fail InvalidDisputeReason
    else if MAX_DESCRIPTION_LEN < length description then fail InputTooLong
    else
    let prev_state = e_state escrow;
        escrow1 = escrow\<lparr>e_state := Disputed\<rparr>;
        dispute_data = \<lparr>
          d_escrow_id = escrow_id,
          d_reason = reason,
          d_description = description,
          d_evidence_hash = evidence_hash,
          d_status = Active,
          d_disputed_at = env_now env,
          d_tracking_id = e_tracking_id escrow1,
          d_resolution = 0,
          d_resolved_by = None,
          d_appeal_count = 0,
          d_resolved_at = 0,
          d_arbitration_fee = 0,
          d_resolver_fee = 0,
          d_fees_charged = False\<rparr>;
        w2 = save_escrow env escrow_id escrow1 (Some prev_state) w1;
        w3 = save_dispute escrow_id dispute_data w2;
        w4 = clear_delivery_proposal env escrow_id w3
    in
    bindE (increment_sharded_counter COUNTER_KIND_DISPUTED escrow_id w4) (\<lambda>w5.
    Inr (publish (emit_dispute_raised env escrow_id buyer reason description evidence_hash
           prev_state Disputed) w5))))))"

section \<open>The resolution transition\<close>

text \<open>
  The fees of this round: recorded ones once charged, none for the timeout fallback,
  otherwise computed from the current configuration and rejected when they exceed the
  escrowed amount.
\<close>

definition resolution_fees :: "Escrow \<Rightarrow> DisputeData \<Rightarrow> bool \<Rightarrow> world \<Rightarrow> (int \<times> int) res" where
  "resolution_fees escrow dispute_data charge_fees w =
    (if d_fees_charged dispute_data
     then Inr (d_arbitration_fee dispute_data, d_resolver_fee dispute_data)
     else if \<not> charge_fees then Inr (0, 0)
     else
       bindE (calculate_fee (e_amount escrow) (f_arbitration_fee_bps (read_fee_config w)))
         (\<lambda>arbitration_fee.
       bindE (calculate_fee (e_amount escrow) (e_resolver_fee_bps escrow)) (\<lambda>resolver_fee.
       bindE (ok_or_err (i128_checked_add arbitration_fee resolver_fee) ArithmeticError)
         (\<lambda>combined_fee.
       if e_amount escrow < combined_fee then fail FeeExceedsMax
       else Inr (arbitration_fee, resolver_fee)))))"

text \<open>Deducting the fees from the escrow and booking the arbitration fee.\<close>

definition deduct_fees :: "Escrow \<Rightarrow> int \<Rightarrow> int \<Rightarrow> world \<Rightarrow> (Escrow \<times> world) res" where
  "deduct_fees escrow arbitration_fee resolver_fee w =
    bindE (ok_or_err (i128_checked_sub (e_amount escrow) arbitration_fee) ArithmeticError) (\<lambda>a1.
    bindE (ok_or_err (i128_checked_sub a1 resolver_fee) ArithmeticError) (\<lambda>a2.
    let updated = escrow\<lparr>e_amount := a2\<rparr>;
        current_total = unwrap_or (i_total_arbitration_fees (w_inst w) (e_token updated)) 0
    in
    bindE (ok_or_err (i128_checked_add current_total arbitration_fee) ArithmeticError)
      (\<lambda>new_total.
    Inr (updated, inst_update (i_total_arbitration_fees_update
                    (\<lambda>m. m(e_token updated \<mapsto> new_total))) w))))"

definition execute_resolution_transition ::
  "env \<Rightarrow> u64 \<Rightarrow> Escrow \<Rightarrow> address \<Rightarrow> ResolutionType \<Rightarrow> ResolverVote list \<Rightarrow> bool \<Rightarrow> world
    \<Rightarrow> world res" where
  "execute_resolution_transition env escrow_id escrow caller final_resolution votes
     charge_fees w =
    bindE (load_dispute escrow_id w) (\<lambda>(dispute_data, w1).
    let fees_already_charged = d_fees_charged dispute_data in
    bindE (resolution_fees escrow dispute_data charge_fees w1)
      (\<lambda>(arbitration_fee, resolver_fee).
    bindE (if fees_already_charged then Inr None
           else bindE (ok_or_err (g_fee_collector (read_global_config w1)) NotInitialized)
                  (\<lambda>c. Inr (Some c))) (\<lambda>fee_collector.
    let prev_state = e_state escrow in
    bindE (if \<not> fees_already_charged \<and> charge_fees
           then deduct_fees escrow arbitration_fee resolver_fee w1
           else Inr (escrow, w1)) (\<lambda>(updated_escrow, w2).
    let now = env_now env in
    if now < d_disputed_at dispute_data then fail TimestampInvariantViolated
    else bindE (ok_or_err (word_checked_add now APPEAL_WINDOW) ArithmeticError)
      (\<lambda>appeal_deadline.
    let dispute1 = (set_resolution final_resolution dispute_data)
          \<lparr>d_resolved_by := Some caller, d_resolved_at := now,
           d_arbitration_fee := arbitration_fee, d_resolver_fee := resolver_fee,
           d_fees_charged := True\<rparr>;
        escrow1 = updated_escrow\<lparr>e_state := PendingFinalization\<rparr>;
        w3 = save_escrow env escrow_id escrow1 (Some prev_state) w2;
        w4 = save_dispute escrow_id dispute1 w3;
        w5 = save_resolver_votes escrow_id votes w4
    in
    bindE (case fee_collector of
             None \<Rightarrow> Inr w5
           | Some collector \<Rightarrow>
               bindE (payout env (e_token escrow1) collector arbitration_fee w5)
                 (payout env (e_token escrow1) caller resolver_fee)) (\<lambda>w6.
    Inr (publish (emit_dispute_pending_finalization env escrow_id caller final_resolution
           (e_amount escrow1) appeal_deadline) w6)))))))"

section \<open>Votes\<close>

definition resolve_or_vote_internal ::
  "env \<Rightarrow> address \<Rightarrow> u64 \<Rightarrow> ResolutionType \<Rightarrow> world \<Rightarrow> world res" where
  "resolve_or_vote_internal env caller escrow_id resolution w =
    bindE (ensure_action_not_paused ''RESOLVE'' w) (\<lambda>_.
    bindE (load_escrow escrow_id w) (\<lambda>(escrow, w1).
    if e_state escrow \<noteq> Disputed then fail (terminal_state_error (e_state escrow) InvalidState)
    else if \<not> can_resolve_now (e_resolvers escrow) caller (env_now env) then fail NotAuthorized
    else
    let votes = add_or_update_vote env escrow_id caller resolution w1;
        threshold = rs_threshold (e_resolvers escrow);
        w2 = publish (emit_resolver_vote_recorded env escrow_id caller resolution
               (of_nat (length votes)) (of_nat threshold)) w1
    in
    bindE (tally_votes votes threshold) (\<lambda>outcome.
    case outcome of
      Some final_resolution \<Rightarrow>
        execute_resolution_transition env escrow_id escrow caller final_resolution votes True w2
    | None \<Rightarrow> Inr (save_resolver_votes escrow_id votes w2))))"

definition resolve_dispute ::
  "env \<Rightarrow> address \<Rightarrow> u64 \<Rightarrow> ResolutionType \<Rightarrow> world \<Rightarrow> world res" where
  "resolve_dispute env caller escrow_id resolution w =
    bindE (require_auth env caller) (\<lambda>_.
    resolve_or_vote_internal env caller escrow_id resolution w)"

definition vote :: "env \<Rightarrow> address \<Rightarrow> u64 \<Rightarrow> ResolutionType \<Rightarrow> world \<Rightarrow> world res" where
  "vote env caller escrow_id resolution w =
    bindE (require_auth env caller) (\<lambda>_.
    resolve_or_vote_internal env caller escrow_id resolution w)"

definition get_resolver_votes :: "u64 \<Rightarrow> world \<Rightarrow> ResolverVote list" where
  "get_resolver_votes escrow_id w = load_resolver_votes escrow_id w"

section \<open>Finalization\<close>

definition resolution_recipient :: "Escrow \<Rightarrow> ResolutionType \<Rightarrow> address res" where
  "resolution_recipient escrow resolution =
    (case resolution of
       Release \<Rightarrow> bindE (ok_or_err (vec_get (e_payees escrow) 0) IndexOutOfBounds)
                    (\<lambda>payee. Inr (p_address payee))
     | Refund \<Rightarrow> ok_or_err (e_buyer escrow) EscrowHasNoBuyer)"

definition finalize_dispute :: "env \<Rightarrow> address \<Rightarrow> u64 \<Rightarrow> world \<Rightarrow> world res" where
  "finalize_dispute env caller escrow_id w =
    bindE (require_auth env caller) (\<lambda>_.
    bindE (ensure_action_not_paused ''finalize_dispute'' w) (\<lambda>_.
    bindE (load_escrow escrow_id w) (\<lambda>(escrow, w1).
    if e_state escrow \<noteq> PendingFinalization then fail NotPendingFinalization
    else bindE (load_dispute escrow_id w1) (\<lambda>(dispute_data, w2).
    let now = env_now env in
    bindE (ok_or_err (get_resolution dispute_data) InvalidState) (\<lambda>resolution.
    bindE (ok_or_err (d_resolved_by dispute_data) InvalidState) (\<lambda>resolved_by.
    bindE (ok_or_err (word_checked_add (d_resolved_at dispute_data) APPEAL_WINDOW)
             ArithmeticError) (\<lambda>appeal_deadline.
    if now < appeal_deadline then fail AppealWindowActive
    else
    let prev_state = e_state escrow in
    bindE (resolution_recipient escrow resolution) (\<lambda>recipient.
    bindE (ok_or_err (g_fee_collector (read_global_config w2)) NotInitialized) (\<lambda>fee_collector.
    let platform_fee_bps = read_platform_fee_bps w2 in
    bindE (ok_or_err (i128_checked_add (e_amount escrow) (d_arbitration_fee dispute_data))
             ArithmeticError) (\<lambda>basis1.
    bindE (ok_or_err (i128_checked_add basis1 (d_resolver_fee dispute_data)) ArithmeticError)
      (\<lambda>fee_basis.
    bindE (if 0 < platform_fee_bps then calculate_fee fee_basis platform_fee_bps else Inr 0)
      (\<lambda>platform_fee.
    bindE (if 0 < platform_fee then bindE (read_treasury w2) (\<lambda>t. Inr (Some t)) else Inr None)
      (\<lambda>treasury.
    bindE (calculate_fee fee_basis (e_fee_bps escrow)) (\<lambda>protocol_fee.
    bindE (ok_or_err (i128_checked_sub (e_amount escrow) platform_fee) ArithmeticError) (\<lambda>p1.
    bindE (ok_or_err (i128_checked_sub p1 protocol_fee) ArithmeticError) (\<lambda>payout_amount.
    let new_state = (case resolution of Release \<Rightarrow> Completed | Refund \<Rightarrow> Refunded);
        escrow1 = escrow\<lparr>e_state := new_state\<rparr>;
        w3 = save_escrow env escrow_id escrow1 (Some prev_state) w2;
        dispute1 = dispute_data\<lparr>d_status := Resolved\<rparr>;
        w4 = save_dispute escrow_id dispute1 w3
    in
    bindE (case resolution of
             Release \<Rightarrow> record_escrow_completed escrow_id w4
           | Refund \<Rightarrow> record_escrow_refunded escrow_id w4) (\<lambda>w5.
    bindE (case treasury of
             None \<Rightarrow> Inr w5
           | Some treasury_addr \<Rightarrow> payout env (e_token escrow1) treasury_addr platform_fee w5) (\<lambda>w6.
    bindE (payout env (e_token escrow1) recipient payout_amount w6) (\<lambda>w7.
    bindE (payout env (e_token escrow1) fee_collector protocol_fee w7) (\<lambda>w8.
    bindE (payout_basket_tokens env escrow_id recipient w8) (\<lambda>w9.
    Inr (publish (emit_dispute_resolved env escrow_id resolved_by resolution recipient
           (e_amount escrow1) (d_arbitration_fee dispute1) (d_resolver_fee dispute1) platform_fee
           prev_state new_state) w9))))))))))))))))))))))"

section \<open>Appeals\<close>

definition appeal_dispute :: "env \<Rightarrow> address \<Rightarrow> u64 \<Rightarrow> world \<Rightarrow> world res" where
  "appeal_dispute env caller escrow_id w =
    bindE (require_auth env caller) (\<lambda>_.
    bindE (ensure_action_not_paused ''appeal_dispute'' w) (\<lambda>_.
    bindE (load_escrow escrow_id w) (\<lambda>(escrow, w1).
    if e_state escrow \<noteq> PendingFinalization then fail NotPendingFinalization
    else bindE (load_dispute escrow_id w1) (\<lambda>(dispute_data, w2).
    let now = env_now env in
    if read_max_appeals w2 \<le> d_appeal_count dispute_data then fail MaxAppealsReached
    else bindE (ok_or_err (word_checked_add (d_resolved_at dispute_data) APPEAL_WINDOW)
                  ArithmeticError) (\<lambda>appeal_deadline.
    if appeal_deadline \<le> now then fail DisputeWindowStillOpen
    else bindE (ok_or_err (e_buyer escrow) EscrowHasNoBuyer) (\<lambda>buyer.
    bindE (ok_or_err (vec_get (e_payees escrow) 0) IndexOutOfBounds) (\<lambda>payee.
    let seller_addr = p_address payee in
    if caller \<noteq> buyer \<and> caller \<noteq> seller_addr then fail NotAuthorized
    else
    let appeal_fee_bps = read_appeal_fee_bps w2 in
    bindE (calculate_fee (e_amount escrow) appeal_fee_bps) (\<lambda>appeal_fee.
    bindE (if 0 < appeal_fee
           then bindE (ok_or_err (g_fee_collector (read_global_config w2)) NotInitialized)
                  (\<lambda>c. Inr (Some c))
           else Inr None) (\<lambda>fee_collector.
    let prev_state = e_state escrow;
        escrow1 = escrow\<lparr>e_state := Disputed\<rparr>;
        updated = clear_resolution (dispute_data\<lparr>d_status := Active\<rparr>)
    in
    bindE (ok_or_err (word_checked_add (d_appeal_count updated) 1) MaxAppealsReached)
      (\<lambda>appeal_count.
    let updated1 = updated\<lparr>d_appeal_count := appeal_count\<rparr>;
        w3 = pers_update (p_votes_update (\<lambda>m. m(escrow_id := None))) w2;
        w4 = save_escrow env escrow_id escrow1 (Some prev_state) w3;
        w5 = save_dispute escrow_id updated1 w4
    in
    bindE (case fee_collector of
             None \<Rightarrow> Inr w5
           | Some collector \<Rightarrow>
               transfer_helper env (e_token escrow1) caller collector appeal_fee w5) (\<lambda>w6.
    Inr (publish (emit_dispute_appealed env escrow_id caller) w6))))))))))))"

definition get_dispute :: "u64 \<Rightarrow> world \<Rightarrow> DisputeData option \<times> world" where
  "get_dispute escrow_id w =
    (case load_dispute escrow_id w of
       Inl _ \<Rightarrow> (None, w)
     | Inr (dispute, w1) \<Rightarrow> (Some dispute, w1))"

section \<open>Escape hatches\<close>

definition claim_dispute_timeout :: "env \<Rightarrow> address \<Rightarrow> u64 \<Rightarrow> world \<Rightarrow> world res" where
  "claim_dispute_timeout env caller escrow_id w =
    bindE (require_auth env caller) (\<lambda>_.
    bindE (ensure_action_not_paused ''claim_dispute_timeout'' w) (\<lambda>_.
    bindE (load_escrow escrow_id w) (\<lambda>(escrow, w1).
    if e_state escrow \<noteq> Disputed then fail InvalidState
    else bindE (buyer_and_seller escrow) (\<lambda>(buyer, seller).
    if caller \<noteq> buyer \<and> caller \<noteq> seller then fail NotAuthorized
    else bindE (load_dispute escrow_id w1) (\<lambda>(dispute_data, w2).
    bindE (ok_or_err (word_checked_add (d_disputed_at dispute_data) (read_dispute_timeout w2))
             ArithmeticOverflow) (\<lambda>deadline.
    if env_now env < deadline then fail DisputeTimeoutNotElapsed
    else
      execute_resolution_transition env escrow_id escrow caller Refund
        (load_resolver_votes escrow_id w2) False w2))))))"

definition resolve_deadlocked_dispute :: "env \<Rightarrow> u64 \<Rightarrow> world \<Rightarrow> world res" where
  "resolve_deadlocked_dispute env escrow_id w =
    bindE (ensure_action_not_paused ''resolve_deadlocked_dispute'' w) (\<lambda>_.
    bindE (load_escrow escrow_id w) (\<lambda>(escrow, w1).
    if e_state escrow \<noteq> Disputed then fail InvalidState
    else bindE (load_dispute escrow_id w1) (\<lambda>(dispute_data, w2).
    bindE (ok_or_err (word_checked_add (d_disputed_at dispute_data) DISPUTE_DEADLOCK_WINDOW)
             ArithmeticOverflow) (\<lambda>deadline.
    if env_now env < deadline then fail DisputeNotDeadlocked
    else
    let votes = load_resolver_votes escrow_id w2 in
    if votes = [] then fail NoResolverVotes
    else bindE (tally_votes votes (rs_threshold (e_resolvers escrow))) (\<lambda>outcome.
    if outcome \<noteq> None then fail DisputeNotDeadlocked
    else
    let resolution = tally_votes_majority votes in
    bindE (ok_or_err (voter_for votes resolution) NoResolverVotes) (\<lambda>actor.
    execute_resolution_transition env escrow_id escrow actor resolution votes True w2))))))"

text \<open>\<open>ResolutionType::Refund as u32\<close>: the position of the variant in the enum.\<close>

fun resolution_discriminant :: "ResolutionType \<Rightarrow> u32" where
  "resolution_discriminant Release = 0"
| "resolution_discriminant Refund = 1"

definition cancel_pending_finalization :: "env \<Rightarrow> address \<Rightarrow> u64 \<Rightarrow> world \<Rightarrow> world res" where
  "cancel_pending_finalization env caller escrow_id w =
    bindE (require_auth env caller) (\<lambda>_.
    bindE (ensure_action_not_paused ''cancel_pending_finalization'' w) (\<lambda>_.
    bindE (require_admin_caller caller w) (\<lambda>_.
    bindE (load_escrow escrow_id w) (\<lambda>(escrow, w1).
    if e_state escrow \<noteq> PendingFinalization then fail NotPendingFinalization
    else bindE (ok_or_err (e_buyer escrow) EscrowHasNoBuyer) (\<lambda>buyer.
    let prev_state = e_state escrow;
        escrow1 = escrow\<lparr>e_state := Refunded\<rparr>
    in
    bindE (record_escrow_refunded escrow_id w1) (\<lambda>w2.
    let w3 = (case load_dispute escrow_id w2 of
                Inl _ \<Rightarrow> w2
              | Inr (dispute, w) \<Rightarrow>
                  save_dispute escrow_id
                    (dispute\<lparr>d_status := Resolved, d_resolved_by := Some caller,
                             d_resolution := resolution_discriminant Refund,
                             d_resolved_at := env_now env\<rparr>) w);
        w4 = save_escrow env escrow_id escrow1 (Some prev_state) w3
    in
    bindE (payout env (e_token escrow1) buyer (e_amount escrow1) w4) (\<lambda>w5.
    bindE (payout_basket_tokens env escrow_id buyer w5) (\<lambda>w6.
    bindE (ok_or_err (vec_get (e_payees escrow1) 0) IndexOutOfBounds) (\<lambda>first_payee.
    Inr (publish (emit_escrow_canceled env escrow_id (p_address first_payee) caller prev_state
           (e_state escrow1)) w6))))))))))"

definition admin_cancel_finalization :: "env \<Rightarrow> address \<Rightarrow> u64 \<Rightarrow> world \<Rightarrow> world res" where
  "admin_cancel_finalization env caller escrow_id w =
    cancel_pending_finalization env caller escrow_id w"

end
