(* ===== verification/Timelock.thy ===== *)
theory Timelock
  imports Settlement
begin

text \<open>
  The two-step timelock of \<open>src/contracts/escrow/src/admin.rs\<close>: \<open>queue_timelock_op\<close>,
  \<open>execute_timelock_op\<close> and \<open>cancel_timelock_op\<close>.  The digest of the parameters is
  \<open>env_params_hash\<close>; nothing is assumed of it here.
\<close>

definition ADMIN_TIMELOCK_DELAY_SECONDS :: u64 where
  [const_defs]: "ADMIN_TIMELOCK_DELAY_SECONDS = 24 * 60 * 60"
definition MIN_TIMELOCK_DELAY_SECONDS :: u64 where
  [const_defs]: "MIN_TIMELOCK_DELAY_SECONDS = 12 * 60 * 60"
definition MAX_TIMELOCK_DELAY_SECONDS :: u64 where
  [const_defs]: "MAX_TIMELOCK_DELAY_SECONDS = 30 * 24 * 60 * 60"
definition MAX_TIMELOCK_PARAMS :: nat where [const_defs]: "MAX_TIMELOCK_PARAMS = 5"

definition queue_timelock_op ::
  "env \<Rightarrow> address \<Rightarrow> u32 \<Rightarrow> val list \<Rightarrow> world \<Rightarrow> world res" where
  "queue_timelock_op env caller operation_id params w =
    bindE (ok_or_err (timelock_from_u32 operation_id) InvalidOperation) (\<lambda>operation.
    bindE (require_auth env caller) (\<lambda>_.
    bindE (require_admin_caller caller w) (\<lambda>_.
    if MAX_TIMELOCK_PARAMS < length params then fail InputTooLong
    else
    let now = env_now env;
        delay = unwrap_or (i_admin_timelock_delay (w_inst w)) ADMIN_TIMELOCK_DELAY_SECONDS
    in (case word_checked_add now delay of
          None \<Rightarrow> panic Overflow
        | Some ready_at \<Rightarrow>
            let proposal = \<lparr>tp_operation = operation, tp_proposer = caller,
                  tp_params_hash = env_params_hash env params, tp_queued_at = now,
                  tp_ready_at = ready_at\<rparr>;
                w1 = write_timelock_proposal (timelock_code operation) proposal w
            in Inr (publish (emit_timelock_queued env (timelock_code operation) caller now
                      ready_at) w1)))))"

definition execute_timelock_op ::
  "env \<Rightarrow> address \<Rightarrow> TimelockOperation \<Rightarrow> val list \<Rightarrow> world \<Rightarrow> (TimelockProposal \<times> world) res" where
  "execute_timelock_op env caller operation params w =
    (let (stored, w1) = read_timelock_proposal (timelock_code operation) w in
     bindE (ok_or_err stored InvalidState) (\<lambda>proposal.
     let now = env_now env in
     if now < tp_ready_at proposal then fail InvalidState
     else if caller \<noteq> tp_proposer proposal then fail NotAuthorized
     else if env_params_hash env params \<noteq> tp_params_hash proposal then fail InvalidProposalHash
     else
     let w2 = remove_timelock_proposal (timelock_code operation) w1
     in Inr (proposal, publish (emit_timelock_executed env (timelock_code operation)
               (tp_proposer proposal) caller params) w2)))"

definition cancel_timelock_op :: "env \<Rightarrow> address \<Rightarrow> u32 \<Rightarrow> world \<Rightarrow> world res" where
  "cancel_timelock_op env caller operation w =
    bindE (require_auth env caller) (\<lambda>_.
    bindE (require_admin w) (\<lambda>admin.
    if caller \<noteq> admin then fail NotAuthorized
    else
    let (stored, w1) = read_timelock_proposal operation w in
    bindE (ok_or_err stored InvalidState) (\<lambda>proposal.
    Inr (publish (emit_timelock_cancelled env operation (tp_proposer proposal) caller)
           (remove_timelock_proposal operation w1)))))"

end
