(* ===== verification/Admin.thy ===== *)
theory Admin
  imports Timelock
begin

text \<open>
  The administration entry points of \<open>src/contracts/escrow/src/admin.rs\<close> that are part of a
  production build: initialization and migration, fee collector and treasury, fees,
  recovery mode, the token allowlist, the timelocked operations, the emergency exits and
  per-action pausing.  The setters compiled only under \<open>cfg(test)\<close> or \<open>testutils\<close> are not part
  of the contract; they are in \<open>Test_Setters\<close>.
\<close>

section \<open>Initialization and migration\<close>

definition initialize :: "env \<Rightarrow> address \<Rightarrow> address \<Rightarrow> u32 \<Rightarrow> world \<Rightarrow> world res" where
  "initialize env admin fee_collector arbitration_fee_bps w =
    (if i_admin (w_inst w) \<noteq> None then fail AlreadyInitialized
     else if admin = fee_collector then fail InvalidAddress
     else bindE (validate_arbitration_fee_bps arbitration_fee_bps) (\<lambda>_.
     if admin = zero_address \<or> fee_collector = zero_address then fail InvalidAddress
     else
     let w1 = inst_update (i_admin_update (\<lambda>_. Some admin)) w;
         w2 = write_global_config (default_global_config
                \<lparr>g_fee_collector := Some fee_collector,
                 g_arbitration_fee_bps := arbitration_fee_bps\<rparr>) w1;
         w3 = inst_update (i_escrow_counter_update (\<lambda>_. Some 1)) w2;
         w4 = inst_update (i_storage_version_update (\<lambda>_. Some STORAGE_VERSION)) w3
     in Inr (publish (emit_contract_initialized env admin fee_collector arbitration_fee_bps)
               w4)))"

definition get_storage_version :: "world \<Rightarrow> u32" where
  "get_storage_version w = unwrap_or (i_storage_version (w_inst w)) 0"

definition migrate :: "env \<Rightarrow> address \<Rightarrow> world \<Rightarrow> world res" where
  "migrate env caller w =
    bindE (require_auth env caller) (\<lambda>_.
    bindE (require_admin_caller caller w) (\<lambda>admin.
    let from_version = get_storage_version w in
    if STORAGE_VERSION \<le> from_version then fail AlreadyInitialized
    else
    let w1 = (if from_version < 2 then migrate_legacy_global_config w else w);
        w2 = inst_update (i_storage_version_update (\<lambda>_. Some STORAGE_VERSION)) w1;
        w3 = extend_instance_ttl w2
    in Inr (publish (emit_storage_migrated env admin from_version STORAGE_VERSION) w3)))"

definition is_paused :: "world \<Rightarrow> bool" where
  "is_paused w = flag_set (g_state_flags (read_global_config w)) GLOBAL_CONFIG_FLAG_PAUSED"

definition is_action_paused :: "symbol \<Rightarrow> world \<Rightarrow> bool" where
  "is_action_paused action w = unwrap_or (i_action_paused (w_inst w) action) False"

section \<open>Fee collector and treasury\<close>

definition set_fee_collector :: "env \<Rightarrow> address \<Rightarrow> world \<Rightarrow> world res" where
  "set_fee_collector env new_collector w =
    bindE (require_admin w) (\<lambda>admin.
    bindE (require_auth env admin) (\<lambda>_.
    bindE (validate_fee_collector_change new_collector w) (\<lambda>old_collector.
    Inr (publish (emit_fee_collector_pending env old_collector new_collector)
           (inst_update (i_pending_fee_collector_update (\<lambda>_. Some new_collector)) w)))))"

definition accept_fee_collector :: "env \<Rightarrow> address \<Rightarrow> world \<Rightarrow> world res" where
  "accept_fee_collector env caller w =
    bindE (require_auth env caller) (\<lambda>_.
    bindE (ok_or_err (i_pending_fee_collector (w_inst w)) NoPendingFeeCollector) (\<lambda>pending.
    if caller \<noteq> pending then fail NotAuthorized
    else bindE (ok_or_err (g_fee_collector (read_global_config w)) NotAuthorized)
      (\<lambda>old_collector.
    let w1 = inst_update (i_fee_collector_update (\<lambda>_. Some pending)) w;
        w2 = inst_update (i_pending_fee_collector_update (\<lambda>_. None)) w1;
        w3 = publish (emit_fee_collector_accepted env old_collector pending) w2;
        w4 = update_global_config (\<lambda>c. c\<lparr>g_fee_collector := Some pending\<rparr>) w3
    in Inr (publish (emit_fee_collector_updated env old_collector pending) w4))))"

definition set_treasury :: "env \<Rightarrow> address \<Rightarrow> world \<Rightarrow> world res" where
  "set_treasury env new_treasury w =
    bindE (require_admin w) (\<lambda>admin.
    bindE (require_auth env admin) (\<lambda>_.
    bindE (validate_treasury_change new_treasury w) (\<lambda>old_treasury.
    Inr (publish (emit_treasury_pending env old_treasury new_treasury)
           (inst_update (i_pending_treasury_update (\<lambda>_. Some new_treasury)) w)))))"

definition accept_treasury :: "env \<Rightarrow> address \<Rightarrow> world \<Rightarrow> world res" where
  "accept_treasury env caller w =
    bindE (require_auth env caller) (\<lambda>_.
    bindE (ok_or_err (i_pending_treasury (w_inst w)) NoPendingTreasury) (\<lambda>pending.
    if caller \<noteq> pending then fail NotAuthorized
    else
    let old_treasury = (case read_treasury w of Inl _ \<Rightarrow> zero_address | Inr t \<Rightarrow> t);
        w1 = write_treasury pending w;
        w2 = inst_update (i_pending_treasury_update (\<lambda>_. None)) w1;
        w3 = publish (emit_treasury_accepted env old_treasury pending) w2
    in Inr (publish (emit_treasury_updated env old_treasury pending) w3)))"

section \<open>Immediate settings\<close>

definition set_arbitration_fee :: "env \<Rightarrow> address \<Rightarrow> u32 \<Rightarrow> world \<Rightarrow> world res" where
  "set_arbitration_fee env caller fee_bps w =
    bindE (require_auth env caller) (\<lambda>_.
    bindE (update_arbitration_fee caller fee_bps w) (\<lambda>(old_fee_bps, w1).
    Inr (publish (emit_arbitration_fee_updated env old_fee_bps fee_bps) w1)))"

definition get_arbitration_fee :: "world \<Rightarrow> u32" where
  "get_arbitration_fee w = f_arbitration_fee_bps (read_fee_config w)"

definition get_total_arbitration_fees :: "address \<Rightarrow> world \<Rightarrow> int" where
  "get_total_arbitration_fees token w =
    unwrap_or (i_total_arbitration_fees (w_inst w) token) 0"

definition get_appeal_fee :: "world \<Rightarrow> u32" where
  "get_appeal_fee w = read_appeal_fee_bps w"

text \<open>\<open>caller.require_auth()\<close> and the comparison with the stored admin.\<close>

definition authenticated_admin :: "env \<Rightarrow> address \<Rightarrow> world \<Rightarrow> address res" where
  "authenticated_admin env caller w =
    bindE (require_auth env caller) (\<lambda>_.
    bindE (require_admin w) (\<lambda>admin.
    if caller \<noteq> admin then fail NotAuthorized else Inr admin))"

definition enable_recovery_mode :: "env \<Rightarrow> address \<Rightarrow> world \<Rightarrow> world res" where
  "enable_recovery_mode env caller w =
    bindE (authenticated_admin env caller w) (\<lambda>_.
    Inr (publish (emit_recovery_mode_updated env True caller) (write_recovery_mode True w)))"

definition disable_recovery_mode :: "env \<Rightarrow> address \<Rightarrow> world \<Rightarrow> world res" where
  "disable_recovery_mode env caller w =
    bindE (authenticated_admin env caller w) (\<lambda>_.
    Inr (publish (emit_recovery_mode_updated env False caller) (write_recovery_mode False w)))"

definition set_flag :: "u32 \<Rightarrow> bool \<Rightarrow> world \<Rightarrow> world" where
  "set_flag f enabled = update_global_config (\<lambda>c. c\<lparr>g_state_flags :=
     (if enabled then g_state_flags c OR f else g_state_flags c AND NOT f)\<rparr>)"

definition set_token_allowlist_enabled :: "env \<Rightarrow> address \<Rightarrow> bool \<Rightarrow> world \<Rightarrow> world res" where
  "set_token_allowlist_enabled env caller enabled w =
    bindE (authenticated_admin env caller w) (\<lambda>_.
    Inr (publish (emit_allowlist_toggled env enabled)
           (set_flag GLOBAL_CONFIG_FLAG_TOKEN_ALLOWLIST_ENABLED enabled w)))"

definition get_allowed_tokens :: "world \<Rightarrow> address list" where
  "get_allowed_tokens w = unwrap_or (i_token_allowlist (w_inst w)) []"

definition get_platform_fee_bps :: "world \<Rightarrow> u32" where
  "get_platform_fee_bps w = read_platform_fee_bps w"

text \<open>Bodies shared by the immediate and the timelocked allowlist operations.\<close>

definition push_allowed_token :: "env \<Rightarrow> address \<Rightarrow> world \<Rightarrow> world res" where
  "push_allowed_token env token w =
    (let allowlist = unwrap_or (i_token_allowlist (w_inst w)) [] in
     if contains allowlist token then Inr w
     else Inr (publish (emit_token_allowlist_updated env token True)
            (inst_update (i_token_allowlist_update (\<lambda>_. Some (allowlist @ [token]))) w)))"

definition drop_allowed_token :: "env \<Rightarrow> address \<Rightarrow> world \<Rightarrow> world res" where
  "drop_allowed_token env token w =
    (let allowlist = unwrap_or (i_token_allowlist (w_inst w)) [] in
     if \<not> contains allowlist token then fail TokenNotAllowed
     else Inr (publish (emit_token_allowlist_updated env token False)
            (inst_update (i_token_allowlist_update
               (\<lambda>_. Some (filter (\<lambda>t. t \<noteq> token) allowlist))) w)))"

definition add_allowed_token :: "env \<Rightarrow> address \<Rightarrow> address \<Rightarrow> world \<Rightarrow> world res" where
  "add_allowed_token env caller token w =
    bindE (authenticated_admin env caller w) (\<lambda>_. push_allowed_token env token w)"

definition remove_allowed_token :: "env \<Rightarrow> address \<Rightarrow> address \<Rightarrow> world \<Rightarrow> world res" where
  "remove_allowed_token env caller token w =
    bindE (authenticated_admin env caller w) (\<lambda>_. drop_allowed_token env token w)"

definition set_dispute_timeout :: "env \<Rightarrow> address \<Rightarrow> u64 \<Rightarrow> world \<Rightarrow> world res" where
  "set_dispute_timeout env caller timeout_seconds w =
    bindE (authenticated_admin env caller w) (\<lambda>_.
    if \<not> (MIN_DISPUTE_TIMEOUT \<le> timeout_seconds \<and> timeout_seconds \<le> MAX_DISPUTE_TIMEOUT)
    then fail InvalidDisputeTimeout
    else Inr (write_dispute_timeout timeout_seconds w))"

definition get_dispute_timeout :: "world \<Rightarrow> u64" where
  "get_dispute_timeout w = read_dispute_timeout w"

text \<open>These three read the admin before authenticating the caller.\<close>

definition admin_then_auth :: "env \<Rightarrow> address \<Rightarrow> world \<Rightarrow> address res" where
  "admin_then_auth env caller w =
    bindE (require_admin w) (\<lambda>admin.
    bindE (require_auth env caller) (\<lambda>_.
    if caller \<noteq> admin then fail NotAuthorized else Inr admin))"

definition pause_action :: "env \<Rightarrow> address \<Rightarrow> symbol \<Rightarrow> world \<Rightarrow> world res" where
  "pause_action env caller action w =
    bindE (admin_then_auth env caller w) (\<lambda>_.
    Inr (publish (emit_action_paused env action caller)
           (inst_update (i_action_paused_update (\<lambda>m. m(action \<mapsto> True))) w)))"

definition unpause_action :: "env \<Rightarrow> address \<Rightarrow> symbol \<Rightarrow> world \<Rightarrow> world res" where
  "unpause_action env caller action w =
    bindE (admin_then_auth env caller w) (\<lambda>_.
    Inr (publish (emit_action_unpaused env action caller)
           (inst_update (i_action_paused_update (\<lambda>m. m(action \<mapsto> False))) w)))"

definition set_platform_fee :: "env \<Rightarrow> address \<Rightarrow> u32 \<Rightarrow> world \<Rightarrow> world res" where
  "set_platform_fee env caller fee w =
    bindE (admin_then_auth env caller w) (\<lambda>_.
    if MAX_PLATFORM_FEE_BPS < fee then fail PlatformFeeExceedsMax
    else Inr (update_global_config (\<lambda>c. c\<lparr>g_platform_fee_bps := fee\<rparr>) w))"

section \<open>Emergency exits\<close>

definition recovery_withdraw :: "env \<Rightarrow> address \<Rightarrow> u64 \<Rightarrow> world \<Rightarrow> world res" where
  "recovery_withdraw env caller escrow_id w =
    bindE (require_auth env caller) (\<lambda>_.
    if \<not> is_recovery_mode w then fail NotInRecoveryMode
    else bindE (load_escrow escrow_id w) (\<lambda>(escrow, w1).
    if e_state escrow \<notin> {Funded, Shipped, Disputed, PendingFinalization, RefundRequested}
    then fail (terminal_state_error (e_state escrow) InvalidState)
    else bindE (ok_or_err (e_buyer escrow) EscrowHasNoBuyer) (\<lambda>buyer.
    if caller \<noteq> buyer then fail NotAuthorizedBuyer
    else
    let prev_state = e_state escrow;
        escrow1 = escrow\<lparr>e_state := Refunded\<rparr>;
        w2 = save_escrow env escrow_id escrow1 (Some prev_state) w1;
        w3 = clear_delivery_proposal env escrow_id w2
    in
    bindE (record_escrow_refunded escrow_id w3) (\<lambda>w4.
    bindE (payout env (e_token escrow1) buyer (e_amount escrow1) w4) (\<lambda>w5.
    bindE (payout_basket_tokens env escrow_id buyer w5) (\<lambda>w6.
    Inr (publish (emit_recovery_withdraw env escrow_id buyer (e_amount escrow1)) w6)))))))"

definition emergency_drain :: "env \<Rightarrow> u64 \<Rightarrow> world \<Rightarrow> world res" where
  "emergency_drain env escrow_id w =
    (if \<not> is_paused w then fail ContractNotPaused
     else bindE (load_escrow escrow_id w) (\<lambda>(escrow, w1).
     if e_state escrow \<notin> {Funded, Shipped, Disputed, PendingFinalization}
     then fail (terminal_state_error (e_state escrow) InvalidState)
     else bindE (ok_or_err (e_buyer escrow) EscrowHasNoBuyer) (\<lambda>buyer.
     bindE (ok_or_err (vec_get (e_payees escrow) 0) IndexOutOfBounds) (\<lambda>payee.
     let seller = p_address payee in
     bindE (require_auth env buyer) (\<lambda>_.
     bindE (require_auth (after_auth env [buyer]) seller) (\<lambda>_.
     let prev_state = e_state escrow;
         escrow1 = escrow\<lparr>e_state := Refunded\<rparr>;
         w2 = save_escrow env escrow_id escrow1 (Some prev_state) w1;
         w3 = clear_delivery_proposal env escrow_id w2
     in
     bindE (record_escrow_refunded escrow_id w3) (\<lambda>w4.
     bindE (payout env (e_token escrow1) buyer (e_amount escrow1) w4) (\<lambda>w5.
     bindE (payout_basket_tokens env escrow_id buyer w5) (\<lambda>w6.
     Inr (publish (emit_emergency_drain env escrow_id (e_token escrow1) (e_amount escrow1))
            w6))))))))))"

section \<open>Timelocked operations: queue\<close>

definition queue_set_appeal_fee :: "env \<Rightarrow> address \<Rightarrow> u32 \<Rightarrow> world \<Rightarrow> world res" where
  "queue_set_appeal_fee env caller fee_bps w =
    queue_timelock_op env caller (timelock_code SetAppealFee) [VU32 fee_bps] w"

definition queue_set_admin :: "env \<Rightarrow> address \<Rightarrow> address \<Rightarrow> world \<Rightarrow> world res" where
  "queue_set_admin env caller new_admin w =
    queue_timelock_op env caller (timelock_code SetAdmin) [VAddress new_admin] w"

definition queue_upgrade :: "env \<Rightarrow> address \<Rightarrow> bytes \<Rightarrow> world \<Rightarrow> world res" where
  "queue_upgrade env caller new_wasm_hash w =
    queue_timelock_op env caller (timelock_code Upgrade) [VBytes new_wasm_hash] w"

definition queue_set_arbitration_fee :: "env \<Rightarrow> address \<Rightarrow> u32 \<Rightarrow> world \<Rightarrow> world res" where
  "queue_set_arbitration_fee env caller fee_bps w =
    queue_timelock_op env caller (timelock_code SetArbitrationFee) [VU32 fee_bps] w"

definition queue_set_platform_fee :: "env \<Rightarrow> address \<Rightarrow> u32 \<Rightarrow> world \<Rightarrow> world res" where
  "queue_set_platform_fee env caller fee_bps w =
    queue_timelock_op env caller (timelock_code SetPlatformFee) [VU32 fee_bps] w"

definition queue_set_treasury :: "env \<Rightarrow> address \<Rightarrow> address \<Rightarrow> world \<Rightarrow> world res" where
  "queue_set_treasury env caller treasury w =
    queue_timelock_op env caller (timelock_code SetTreasury) [VAddress treasury] w"

definition queue_set_fee_collector :: "env \<Rightarrow> address \<Rightarrow> address \<Rightarrow> world \<Rightarrow> world res" where
  "queue_set_fee_collector env caller new_collector w =
    queue_timelock_op env caller (timelock_code SetFeeCollector) [VAddress new_collector] w"

definition queue_set_ttl_extension :: "env \<Rightarrow> address \<Rightarrow> u32 \<Rightarrow> world \<Rightarrow> world res" where
  "queue_set_ttl_extension env caller ledgers w =
    queue_timelock_op env caller (timelock_code SetTtlExtension) [VU32 ledgers] w"

definition queue_set_amount_limits :: "env \<Rightarrow> address \<Rightarrow> int \<Rightarrow> int \<Rightarrow> world \<Rightarrow> world res" where
  "queue_set_amount_limits env caller min_amount max_amount w =
    queue_timelock_op env caller (timelock_code SetAmountLimits) [VI128 min_amount, VI128 max_amount] w"

definition queue_add_approved_resolver :: "env \<Rightarrow> address \<Rightarrow> address \<Rightarrow> world \<Rightarrow> world res" where
  "queue_add_approved_resolver env caller resolver w =
    queue_timelock_op env caller (timelock_code AddApprovedResolver) [VAddress resolver] w"

definition queue_remove_approved_resolver :: "env \<Rightarrow> address \<Rightarrow> address \<Rightarrow> world \<Rightarrow> world res" where
  "queue_remove_approved_resolver env caller resolver w =
    queue_timelock_op env caller (timelock_code RemoveApprovedResolver) [VAddress resolver] w"

definition queue_set_resolver_strict :: "env \<Rightarrow> address \<Rightarrow> bool \<Rightarrow> world \<Rightarrow> world res" where
  "queue_set_resolver_strict env caller strict w =
    queue_timelock_op env caller (timelock_code SetResolverStrict) [VBool strict] w"

definition queue_set_allowlist_enabled :: "env \<Rightarrow> address \<Rightarrow> bool \<Rightarrow> world \<Rightarrow> world res" where
  "queue_set_allowlist_enabled env caller enabled w =
    queue_timelock_op env caller (timelock_code SetTokenAllowlistEnabled) [VBool enabled] w"

definition queue_add_allowed_token :: "env \<Rightarrow> address \<Rightarrow> address \<Rightarrow> world \<Rightarrow> world res" where
  "queue_add_allowed_token env caller token w =
    queue_timelock_op env caller (timelock_code AddAllowedToken) [VAddress token] w"

definition queue_remove_allowed_token :: "env \<Rightarrow> address \<Rightarrow> address \<Rightarrow> world \<Rightarrow> world res" where
  "queue_remove_allowed_token env caller token w =
    queue_timelock_op env caller (timelock_code RemoveAllowedToken) [VAddress token] w"

definition queue_pause_contract :: "env \<Rightarrow> address \<Rightarrow> world \<Rightarrow> world res" where
  "queue_pause_contract env caller w =
    queue_timelock_op env caller (timelock_code PauseContract) [] w"

definition queue_unpause_contract :: "env \<Rightarrow> address \<Rightarrow> world \<Rightarrow> world res" where
  "queue_unpause_contract env caller w =
    queue_timelock_op env caller (timelock_code UnpauseContract) [] w"

definition queue_set_max_appeals :: "env \<Rightarrow> address \<Rightarrow> u32 \<Rightarrow> world \<Rightarrow> world res" where
  "queue_set_max_appeals env caller max_appeals w =
    queue_timelock_op env caller (timelock_code SetMaxAppeals) [VU32 max_appeals] w"

definition queue_set_max_basket_size :: "env \<Rightarrow> address \<Rightarrow> u32 \<Rightarrow> world \<Rightarrow> world res" where
  "queue_set_max_basket_size env caller max_basket_size w =
    queue_timelock_op env caller (timelock_code SetMaxBasketSize) [VU32 max_basket_size] w"

definition queue_set_timelock_delay :: "env \<Rightarrow> address \<Rightarrow> u64 \<Rightarrow> world \<Rightarrow> world res" where
  "queue_set_timelock_delay env caller delay_seconds w =
    (if \<not> (MIN_TIMELOCK_DELAY_SECONDS \<le> delay_seconds \<and>
           delay_seconds \<le> MAX_TIMELOCK_DELAY_SECONDS)
     then fail InvalidTimelockDelay
     else queue_timelock_op env caller (timelock_code SetTimelockDelay) [VU64 delay_seconds] w)"

section \<open>Timelocked operations: execute\<close>

text \<open>
  Each \<open>execute_x\<close> consumes the proposal and then applies the change; \<open>apply_x\<close> is the part
  after \<open>execute_timelock_op\<close>.
\<close>

definition apply_set_appeal_fee :: "env \<Rightarrow> address \<Rightarrow> u32 \<Rightarrow> world \<Rightarrow> world res" where
  "apply_set_appeal_fee env caller fee_bps w =
    bindE (validate_appeal_fee_bps fee_bps) (\<lambda>_.
    let old_fee = read_appeal_fee_bps w
    in Inr (publish (emit_appeal_fee_updated env old_fee fee_bps)
              (write_appeal_fee_bps fee_bps w)))"

definition execute_set_appeal_fee :: "env \<Rightarrow> address \<Rightarrow> u32 \<Rightarrow> world \<Rightarrow> world res" where
  "execute_set_appeal_fee env caller fee_bps w =
    bindE (require_auth env caller) (\<lambda>_.
    bindE (execute_timelock_op env caller SetAppealFee [VU32 fee_bps] w) (\<lambda>(_, w1).
    apply_set_appeal_fee env caller fee_bps w1))"

definition apply_set_admin :: "env \<Rightarrow> address \<Rightarrow> address \<Rightarrow> world \<Rightarrow> world res" where
  "apply_set_admin env caller new_admin w =
    bindE (require_admin w) (\<lambda>old_admin.
    if new_admin = old_admin then fail SameAddress
    else Inr (publish (emit_admin_rotated env old_admin new_admin)
                (inst_update (i_admin_update (\<lambda>_. Some new_admin)) w)))"

definition execute_set_admin :: "env \<Rightarrow> address \<Rightarrow> address \<Rightarrow> world \<Rightarrow> world res" where
  "execute_set_admin env caller new_admin w =
    bindE (execute_timelock_op env caller SetAdmin [VAddress new_admin] w) (\<lambda>(_, w1).
    apply_set_admin env caller new_admin w1)"

definition apply_upgrade :: "env \<Rightarrow> address \<Rightarrow> bytes \<Rightarrow> world \<Rightarrow> world res" where
  "apply_upgrade env caller new_wasm_hash w =
    (if new_wasm_hash = replicate 32 0 then fail InvalidWasmHash
     else bindE (require_admin w) (\<lambda>admin.
     if \<not> env_wasm_ok env new_wasm_hash then panic HostError
     else Inr (publish (emit_contract_upgraded env admin new_wasm_hash)
                 (w\<lparr>w_wasm := w_wasm w @ [new_wasm_hash]\<rparr>))))"

definition execute_upgrade :: "env \<Rightarrow> address \<Rightarrow> bytes \<Rightarrow> world \<Rightarrow> world res" where
  "execute_upgrade env caller new_wasm_hash w =
    bindE (execute_timelock_op env caller Upgrade [VBytes new_wasm_hash] w) (\<lambda>(_, w1).
    apply_upgrade env caller new_wasm_hash w1)"

definition apply_set_arbitration_fee :: "env \<Rightarrow> address \<Rightarrow> u32 \<Rightarrow> world \<Rightarrow> world res" where
  "apply_set_arbitration_fee env caller fee_bps w =
    bindE (update_arbitration_fee caller fee_bps w) (\<lambda>(old_fee_bps, w1).
    Inr (publish (emit_arbitration_fee_updated env old_fee_bps fee_bps) w1))"

definition execute_set_arbitration_fee :: "env \<Rightarrow> address \<Rightarrow> u32 \<Rightarrow> world \<Rightarrow> world res" where
  "execute_set_arbitration_fee env caller fee_bps w =
    bindE (require_auth env caller) (\<lambda>_.
    bindE (execute_timelock_op env caller SetArbitrationFee [VU32 fee_bps] w) (\<lambda>(_, w1).
    apply_set_arbitration_fee env caller fee_bps w1))"

definition apply_set_platform_fee :: "env \<Rightarrow> address \<Rightarrow> u32 \<Rightarrow> world \<Rightarrow> world res" where
  "apply_set_platform_fee env caller fee_bps w =
    (if MAX_PLATFORM_FEE_BPS < fee_bps then fail PlatformFeeExceedsMax
     else
     let old_fee = read_platform_fee_bps w
     in Inr (publish (emit_platform_fee_updated env old_fee fee_bps)
               (write_platform_fee_bps fee_bps w)))"

definition execute_set_platform_fee :: "env \<Rightarrow> address \<Rightarrow> u32 \<Rightarrow> world \<Rightarrow> world res" where
  "execute_set_platform_fee env caller fee_bps w =
    bindE (execute_timelock_op env caller SetPlatformFee [VU32 fee_bps] w) (\<lambda>(_, w1).
    apply_set_platform_fee env caller fee_bps w1)"

definition apply_set_treasury :: "env \<Rightarrow> address \<Rightarrow> address \<Rightarrow> world \<Rightarrow> world res" where
  "apply_set_treasury env caller treasury w =
    bindE (validate_treasury_change treasury w) (\<lambda>old_treasury.
    Inr (publish (emit_treasury_pending env old_treasury treasury)
           (inst_update (i_pending_treasury_update (\<lambda>_. Some treasury)) w)))"

definition execute_set_treasury :: "env \<Rightarrow> address \<Rightarrow> address \<Rightarrow> world \<Rightarrow> world res" where
  "execute_set_treasury env caller treasury w =
    bindE (execute_timelock_op env caller SetTreasury [VAddress treasury] w) (\<lambda>(_, w1).
    apply_set_treasury env caller treasury w1)"

definition apply_set_fee_collector :: "env \<Rightarrow> address \<Rightarrow> address \<Rightarrow> world \<Rightarrow> world res" where
  "apply_set_fee_collector env caller new_collector w =
    bindE (validate_fee_collector_change new_collector w) (\<lambda>old_collector.
    Inr (publish (emit_fee_collector_pending env old_collector new_collector)
           (inst_update (i_pending_fee_collector_update (\<lambda>_. Some new_collector)) w)))"

definition execute_set_fee_collector :: "env \<Rightarrow> address \<Rightarrow> address \<Rightarrow> world \<Rightarrow> world res" where
  "execute_set_fee_collector env caller new_collector w =
    bindE (execute_timelock_op env caller SetFeeCollector [VAddress new_collector] w) (\<lambda>(_, w1).
    apply_set_fee_collector env caller new_collector w1)"

definition apply_set_ttl_extension :: "env \<Rightarrow> address \<Rightarrow> u32 \<Rightarrow> world \<Rightarrow> world res" where
  "apply_set_ttl_extension env caller ledgers w =
    (if \<not> (MIN_TTL_EXTENSION \<le> ledgers \<and> ledgers \<le> MAX_TTL_EXTENSION)
     then fail InvalidTtlExtension
     else
     let old_ledgers = get_ttl_extension w
     in Inr (publish (emit_ttl_extension_updated env old_ledgers ledgers caller)
               (update_global_config (\<lambda>c. c\<lparr>g_ttl_extension_ledgers := ledgers\<rparr>) w)))"

definition execute_set_ttl_extension :: "env \<Rightarrow> address \<Rightarrow> u32 \<Rightarrow> world \<Rightarrow> world res" where
  "execute_set_ttl_extension env caller ledgers w =
    bindE (execute_timelock_op env caller SetTtlExtension [VU32 ledgers] w) (\<lambda>(_, w1).
    apply_set_ttl_extension env caller ledgers w1)"

definition apply_set_amount_limits :: "env \<Rightarrow> address \<Rightarrow> int \<Rightarrow> int \<Rightarrow> world \<Rightarrow> world res" where
  "apply_set_amount_limits env caller min_amount max_amount w =
    (if min_amount \<le> 0 \<or> max_amount \<le> min_amount then fail InvalidAmount
     else
     let config = read_global_config w
     in Inr (publish (emit_amount_limits_updated env (g_min_amount config) min_amount
                        (g_max_amount config) max_amount caller)
               (write_global_config
                  (config\<lparr>g_min_amount := min_amount, g_max_amount := max_amount\<rparr>) w)))"

definition execute_set_amount_limits :: "env \<Rightarrow> address \<Rightarrow> int \<Rightarrow> int \<Rightarrow> world \<Rightarrow> world res" where
  "execute_set_amount_limits env caller min_amount max_amount w =
    bindE (execute_timelock_op env caller SetAmountLimits [VI128 min_amount, VI128 max_amount] w) (\<lambda>(_, w1).
    apply_set_amount_limits env caller min_amount max_amount w1)"

definition apply_add_approved_resolver :: "env \<Rightarrow> address \<Rightarrow> address \<Rightarrow> world \<Rightarrow> world res" where
  "apply_add_approved_resolver env caller resolver w =
    (let approved = unwrap_or (i_approved_resolvers (w_inst w)) [] in
     if contains approved resolver then Inr w
     else Inr (publish (emit_resolver_approved env resolver caller)
            (inst_update (i_approved_resolvers_update (\<lambda>_. Some (approved @ [resolver]))) w)))"

definition execute_add_approved_resolver :: "env \<Rightarrow> address \<Rightarrow> address \<Rightarrow> world \<Rightarrow> world res" where
  "execute_add_approved_resolver env caller resolver w =
    bindE (execute_timelock_op env caller AddApprovedResolver [VAddress resolver] w) (\<lambda>(_, w1).
    apply_add_approved_resolver env caller resolver w1)"

definition apply_remove_approved_resolver :: "env \<Rightarrow> address \<Rightarrow> address \<Rightarrow> world \<Rightarrow> world res" where
  "apply_remove_approved_resolver env caller resolver w =
    (let approved = unwrap_or (i_approved_resolvers (w_inst w)) [] in
     if \<not> contains approved resolver then fail InvalidAddress
     else Inr (publish (emit_resolver_removed env resolver caller)
            (inst_update (i_approved_resolvers_update
               (\<lambda>_. Some (filter (\<lambda>a. a \<noteq> resolver) approved))) w)))"

definition execute_remove_approved_resolver :: "env \<Rightarrow> address \<Rightarrow> address \<Rightarrow> world \<Rightarrow> world res" where
  "execute_remove_approved_resolver env caller resolver w =
    bindE (execute_timelock_op env caller RemoveApprovedResolver [VAddress resolver] w) (\<lambda>(_, w1).
    apply_remove_approved_resolver env caller resolver w1)"

definition apply_set_resolver_strict :: "env \<Rightarrow> address \<Rightarrow> bool \<Rightarrow> world \<Rightarrow> world res" where
  "apply_set_resolver_strict env caller strict w =
    (let old_strict = flag_set (g_state_flags (read_global_config w))
                        GLOBAL_CONFIG_FLAG_RESOLVER_STRICT
     in Inr (publish (emit_resolver_strict_updated env old_strict strict caller)
               (set_flag GLOBAL_CONFIG_FLAG_RESOLVER_STRICT strict w)))"

definition execute_set_resolver_strict :: "env \<Rightarrow> address \<Rightarrow> bool \<Rightarrow> world \<Rightarrow> world res" where
  "execute_set_resolver_strict env caller strict w =
    bindE (execute_timelock_op env caller SetResolverStrict [VBool strict] w) (\<lambda>(_, w1).
    apply_set_resolver_strict env caller strict w1)"

definition apply_set_allowlist_enabled :: "env \<Rightarrow> address \<Rightarrow> bool \<Rightarrow> world \<Rightarrow> world res" where
  "apply_set_allowlist_enabled env caller enabled w =
    Inr (publish (emit_allowlist_toggled env enabled)
           (set_flag GLOBAL_CONFIG_FLAG_TOKEN_ALLOWLIST_ENABLED enabled w))"

definition execute_set_allowlist_enabled :: "env \<Rightarrow> address \<Rightarrow> bool \<Rightarrow> world \<Rightarrow> world res" where
  "execute_set_allowlist_enabled env caller enabled w =
    bindE (execute_timelock_op env caller SetTokenAllowlistEnabled [VBool enabled] w) (\<lambda>(_, w1).
    apply_set_allowlist_enabled env caller enabled w1)"

definition apply_add_allowed_token :: "env \<Rightarrow> address \<Rightarrow> address \<Rightarrow> world \<Rightarrow> world res" where
  "apply_add_allowed_token env caller token w =
    push_allowed_token env token w"

definition execute_add_allowed_token :: "env \<Rightarrow> address \<Rightarrow> address \<Rightarrow> world \<Rightarrow> world res" where
  "execute_add_allowed_token env caller token w =
    bindE (execute_timelock_op env caller AddAllowedToken [VAddress token] w) (\<lambda>(_, w1).
    apply_add_allowed_token env caller token w1)"

definition apply_remove_allowed_token :: "env \<Rightarrow> address \<Rightarrow> address \<Rightarrow> world \<Rightarrow> world res" where
  "apply_remove_allowed_token env caller token w =
    drop_allowed_token env token w"

definition execute_remove_allowed_token :: "env \<Rightarrow> address \<Rightarrow> address \<Rightarrow> world \<Rightarrow> world res" where
  "execute_remove_allowed_token env caller token w =
    bindE (execute_timelock_op env caller RemoveAllowedToken [VAddress token] w) (\<lambda>(_, w1).
    apply_remove_allowed_token env caller token w1)"

definition apply_pause_contract :: "env \<Rightarrow> address \<Rightarrow> world \<Rightarrow> world res" where
  "apply_pause_contract env caller w =
    bindE (require_admin w) (\<lambda>admin.
    Inr (publish (emit_contract_paused env admin)
           (set_flag GLOBAL_CONFIG_FLAG_PAUSED True w)))"

definition execute_pause_contract :: "env \<Rightarrow> address \<Rightarrow> world \<Rightarrow> world res" where
  "execute_pause_contract env caller w =
    bindE (execute_timelock_op env caller PauseContract [] w) (\<lambda>(_, w1).
    apply_pause_contract env caller w1)"

definition apply_unpause_contract :: "env \<Rightarrow> address \<Rightarrow> world \<Rightarrow> world res" where
  "apply_unpause_contract env caller w =
    bindE (require_admin w) (\<lambda>admin.
    Inr (publish (emit_contract_unpaused env admin)
           (set_flag GLOBAL_CONFIG_FLAG_PAUSED False w)))"

definition execute_unpause_contract :: "env \<Rightarrow> address \<Rightarrow> world \<Rightarrow> world res" where
  "execute_unpause_contract env caller w =
    bindE (execute_timelock_op env caller UnpauseContract [] w) (\<lambda>(_, w1).
    apply_unpause_contract env caller w1)"

definition apply_set_max_appeals :: "env \<Rightarrow> address \<Rightarrow> u32 \<Rightarrow> world \<Rightarrow> world res" where
  "apply_set_max_appeals env caller max_appeals w =
    (if \<not> (MIN_MAX_APPEALS \<le> max_appeals \<and> max_appeals \<le> MAX_MAX_APPEALS)
     then fail InvalidMaxAppeals
     else
     let old_max = read_max_appeals w
     in Inr (publish (emit_max_appeals_updated env old_max max_appeals)
               (inst_update (i_max_appeals_update (\<lambda>_. Some max_appeals)) w)))"

definition execute_set_max_appeals :: "env \<Rightarrow> address \<Rightarrow> u32 \<Rightarrow> world \<Rightarrow> world res" where
  "execute_set_max_appeals env caller max_appeals w =
    bindE (execute_timelock_op env caller SetMaxAppeals [VU32 max_appeals] w) (\<lambda>(_, w1).
    apply_set_max_appeals env caller max_appeals w1)"

definition apply_set_max_basket_size :: "env \<Rightarrow> address \<Rightarrow> u32 \<Rightarrow> world \<Rightarrow> world res" where
  "apply_set_max_basket_size env caller max_basket_size w =
    (if \<not> (MIN_MAX_BASKET_SIZE \<le> max_basket_size \<and>
           max_basket_size \<le> of_nat MAX_BASKET_SIZE)
     then fail InvalidMaxBasketSize
     else
     let old_max = read_max_basket_size w
     in Inr (publish (emit_max_basket_size_updated env old_max max_basket_size)
               (inst_update (i_max_basket_size_update (\<lambda>_. Some max_basket_size)) w)))"

definition execute_set_max_basket_size :: "env \<Rightarrow> address \<Rightarrow> u32 \<Rightarrow> world \<Rightarrow> world res" where
  "execute_set_max_basket_size env caller max_basket_size w =
    bindE (execute_timelock_op env caller SetMaxBasketSize [VU32 max_basket_size] w) (\<lambda>(_, w1).
    apply_set_max_basket_size env caller max_basket_size w1)"

definition apply_set_timelock_delay :: "env \<Rightarrow> address \<Rightarrow> u64 \<Rightarrow> world \<Rightarrow> world res" where
  "apply_set_timelock_delay env caller delay_seconds w =
    (if \<not> (MIN_TIMELOCK_DELAY_SECONDS \<le> delay_seconds \<and>
           delay_seconds \<le> MAX_TIMELOCK_DELAY_SECONDS)
     then fail InvalidTimelockDelay
     else
     let old_delay = unwrap_or (i_admin_timelock_delay (w_inst w)) ADMIN_TIMELOCK_DELAY_SECONDS
     in Inr (publish (emit_timelock_delay_updated env old_delay delay_seconds caller)
               (inst_update (i_admin_timelock_delay_update (\<lambda>_. Some delay_seconds)) w)))"

definition execute_set_timelock_delay :: "env \<Rightarrow> address \<Rightarrow> u64 \<Rightarrow> world \<Rightarrow> world res" where
  "execute_set_timelock_delay env caller delay_seconds w =
    bindE (execute_timelock_op env caller SetTimelockDelay [VU64 delay_seconds] w) (\<lambda>(_, w1).
    apply_set_timelock_delay env caller delay_seconds w1)"

section \<open>Getters\<close>

definition get_treasury :: "world \<Rightarrow> address res" where
  "get_treasury w = read_treasury w"

definition get_max_appeals :: "world \<Rightarrow> u32" where
  "get_max_appeals w = read_max_appeals w"

definition get_max_basket_size :: "world \<Rightarrow> u32" where
  "get_max_basket_size w = read_max_basket_size w"

end
