(* ===== verification/Effects.thy ===== *)
theory Effects
  imports Disputes Admin
begin

text \<open>
  What the shared helpers do to the ledger: closed forms for the storage writes, and \<open>pay\<close>,
  the world after a group of payouts (a list of token, recipient and amount).  The snapshot
  stored with each transfer is the storage at that moment, so \<open>pay\<close> also says that no
  storage write happens between the payouts.
\<close>

section \<open>Storage writes\<close>

lemma save_escrow_frame [simp]:
  "w_inst (save_escrow env i e prev w) = w_inst w"
  "w_xfers (save_escrow env i e prev w) = w_xfers w"
  "w_wasm (save_escrow env i e prev w) = w_wasm w"
  "w_events (save_escrow env i e prev w) = w_events w"
  by (simp_all add: save_escrow_def append_state_history_def Let_def split: option.split)

definition pushed_history :: "env \<Rightarrow> u64 \<Rightarrow> EscrowState \<Rightarrow> persistent_storage \<Rightarrow> u64 list" where
  "pushed_history env i s p =
    (let h = unwrap_or (p_history p i) [] @ [pack_history_entry s (env_now env)]
     in drop (length h - MAX_STATE_HISTORY_ENTRIES) h)"

text \<open>Writing an escrow whose state changed, with its history entry.\<close>

definition put_escrow ::
  "env \<Rightarrow> u64 \<Rightarrow> Escrow \<Rightarrow> persistent_storage \<Rightarrow> persistent_storage" where
  "put_escrow env i e p = p\<lparr>p_escrow := (p_escrow p)(i \<mapsto> e),
     p_history := (p_history p)(i \<mapsto> pushed_history env i (e_state e) p)\<rparr>"

lemma put_escrow_fields [simp]:
  "p_escrow (put_escrow env i e p) = (p_escrow p)(i \<mapsto> e)"
  "p_history (put_escrow env i e p) =
    (p_history p)(i \<mapsto> pushed_history env i (e_state e) p)"
  "p_dispute (put_escrow env i e p) = p_dispute p" "p_votes (put_escrow env i e p) = p_votes p"
  "p_basket (put_escrow env i e p) = p_basket p"
  "p_pending_expiry (put_escrow env i e p) = p_pending_expiry p"
  "p_delivery_proposal (put_escrow env i e p) = p_delivery_proposal p"
  "p_message (put_escrow env i e p) = p_message p"
  "p_legacy_messages (put_escrow env i e p) = p_legacy_messages p"
  "p_shard (put_escrow env i e p) = p_shard p"
  "p_ids (put_escrow env i e p) = p_ids p" "p_counts (put_escrow env i e p) = p_counts p"
  by (simp_all add: put_escrow_def)

lemma pushed_history_cong:
  "p_history p = p_history q \<Longrightarrow> pushed_history env i s p = pushed_history env i s q"
  by (simp add: pushed_history_def)

lemma save_escrow_pers [simp]:
  "w_pers (save_escrow env i e (Some prev) w) =
    (if prev \<noteq> e_state e then put_escrow env i e (w_pers w)
     else (w_pers w)\<lparr>p_escrow := (p_escrow (w_pers w))(i \<mapsto> e)\<rparr>)"
  by (simp add: save_escrow_def append_state_history_def pushed_history_def
      put_escrow_def Let_def)

lemma save_new_escrow_pers:
  "p_escrow (w_pers w) i = None \<Longrightarrow>
   w_pers (save_escrow env i e None w) = put_escrow env i e (w_pers w)"
  by (simp add: save_escrow_def append_state_history_def pushed_history_def put_escrow_def
      Let_def)

lemma save_dispute_frame [simp]:
  "w_inst (save_dispute i d w) = w_inst w" "w_xfers (save_dispute i d w) = w_xfers w"
  "w_wasm (save_dispute i d w) = w_wasm w" "w_events (save_dispute i d w) = w_events w"
  "w_pers (save_dispute i d w) = (w_pers w)\<lparr>p_dispute := (p_dispute (w_pers w))(i \<mapsto> d)\<rparr>"
  by (simp_all add: save_dispute_def)

lemma save_resolver_votes_frame [simp]:
  "w_inst (save_resolver_votes i v w) = w_inst w"
  "w_xfers (save_resolver_votes i v w) = w_xfers w"
  "w_wasm (save_resolver_votes i v w) = w_wasm w"
  "w_events (save_resolver_votes i v w) = w_events w"
  "w_pers (save_resolver_votes i v w) = (w_pers w)\<lparr>p_votes := (p_votes (w_pers w))(i \<mapsto> v)\<rparr>"
  by (simp_all add: save_resolver_votes_def)

lemma save_basket_tokens_frame [simp]:
  "w_inst (save_basket_tokens i t w) = w_inst w"
  "w_xfers (save_basket_tokens i t w) = w_xfers w"
  "w_wasm (save_basket_tokens i t w) = w_wasm w"
  "w_events (save_basket_tokens i t w) = w_events w"
  "w_pers (save_basket_tokens i t w) = (w_pers w)\<lparr>p_basket := (p_basket (w_pers w))(i \<mapsto> t)\<rparr>"
  by (simp_all add: save_basket_tokens_def)

lemma save_pending_expiry_frame [simp]:
  "w_inst (save_pending_expiry i x g w) = w_inst w"
  "w_xfers (save_pending_expiry i x g w) = w_xfers w"
  "w_wasm (save_pending_expiry i x g w) = w_wasm w"
  "w_events (save_pending_expiry i x g w) = w_events w"
  "w_pers (save_pending_expiry i x g w) = (w_pers w)\<lparr>p_pending_expiry :=
    (p_pending_expiry (w_pers w))(i \<mapsto> \<lparr>x_expires_at = x, x_grace_period = g\<rparr>)\<rparr>"
  by (simp_all add: save_pending_expiry_def)

lemma remove_pending_expiry_frame [simp]:
  "w_inst (remove_pending_expiry i w) = w_inst w"
  "w_xfers (remove_pending_expiry i w) = w_xfers w"
  "w_wasm (remove_pending_expiry i w) = w_wasm w"
  "w_events (remove_pending_expiry i w) = w_events w"
  "w_pers (remove_pending_expiry i w) = (w_pers w)\<lparr>p_pending_expiry :=
    (p_pending_expiry (w_pers w))(i := None)\<rparr>"
  by (simp_all add: remove_pending_expiry_def)

lemma remove_delivery_proposal_frame [simp]:
  "w_inst (remove_delivery_proposal i w) = w_inst w"
  "w_xfers (remove_delivery_proposal i w) = w_xfers w"
  "w_wasm (remove_delivery_proposal i w) = w_wasm w"
  "w_events (remove_delivery_proposal i w) = w_events w"
  "w_pers (remove_delivery_proposal i w) = (w_pers w)\<lparr>p_delivery_proposal :=
    (p_delivery_proposal (w_pers w))(i := None)\<rparr>"
  by (simp_all add: remove_delivery_proposal_def)

lemma clear_delivery_proposal_frame [simp]:
  "w_inst (clear_delivery_proposal env i w) = w_inst w"
  "w_xfers (clear_delivery_proposal env i w) = w_xfers w"
  "w_wasm (clear_delivery_proposal env i w) = w_wasm w"
  "w_pers (clear_delivery_proposal env i w) = (w_pers w)\<lparr>p_delivery_proposal :=
    (p_delivery_proposal (w_pers w))(i := None)\<rparr>"
  by (auto simp: clear_delivery_proposal_def fun_upd_idem intro!: persistent_storage.equality)

lemma load_escrow_Inr [simp]:
  "load_escrow i w = Inr (e, w') \<longleftrightarrow>
    p_escrow (w_pers w) i = Some e \<and> w' = extend_ttl_for_key (DK_Escrow i) w"
  by (auto simp: load_escrow_def)

lemma load_dispute_Inr [simp]:
  "load_dispute i w = Inr (d, w') \<longleftrightarrow>
    p_dispute (w_pers w) i = Some d \<and> w' = extend_ttl_for_key (DK_Dispute i) w"
  by (auto simp: load_dispute_def)

lemma is_ok_load_dispute [simp]:
  "is_ok (load_dispute i w) \<longleftrightarrow> p_dispute (w_pers w) i \<noteq> None"
  by (cases "p_dispute (w_pers w) i") (simp_all add: load_dispute_def)

lemma load_basket_tokens_frame [simp]:
  "fst (load_basket_tokens i w) = unwrap_or (p_basket (w_pers w) i) []"
  "w_inst (snd (load_basket_tokens i w)) = w_inst w"
  "w_pers (snd (load_basket_tokens i w)) = w_pers w"
  "w_xfers (snd (load_basket_tokens i w)) = w_xfers w"
  "w_wasm (snd (load_basket_tokens i w)) = w_wasm w"
  "w_events (snd (load_basket_tokens i w)) = w_events w"
  by (simp_all add: load_basket_tokens_def split: option.split)

lemma escrow_created_at_frame [simp]:
  "w_inst (snd (escrow_created_at i w)) = w_inst w"
  "w_pers (snd (escrow_created_at i w)) = w_pers w"
  "w_xfers (snd (escrow_created_at i w)) = w_xfers w"
  "w_wasm (snd (escrow_created_at i w)) = w_wasm w"
  "w_events (snd (escrow_created_at i w)) = w_events w"
  by (simp_all add: escrow_created_at_def load_state_history_def Let_def)

text \<open>The configuration is read off the instance storage.\<close>

definition config_of :: "instance_storage \<Rightarrow> GlobalConfig" where
  "config_of s = read_global_config (fresh_world\<lparr>w_inst := s\<rparr>)"

lemma read_global_config_of: "read_global_config w = config_of (w_inst w)"
  by (simp add: config_of_def read_global_config_def read_legacy_global_config_def
      split: option.split)

section \<open>Counters and ids\<close>

definition shard_bucket :: "u64 \<Rightarrow> u32" where
  "shard_bucket s = ucast (s mod ucast COUNTER_SHARDS)"

definition bump_shard :: "u32 \<Rightarrow> u64 \<Rightarrow> persistent_storage \<Rightarrow> persistent_storage" where
  "bump_shard k s p = p_shard_update (\<lambda>m. m(k := (m k)
     (shard_bucket s \<mapsto> unwrap_or (p_shard p k (shard_bucket s)) 0 + 1))) p"

lemma bump_shard_fields [simp]:
  "p_escrow (bump_shard k s p) = p_escrow p" "p_history (bump_shard k s p) = p_history p"
  "p_dispute (bump_shard k s p) = p_dispute p" "p_votes (bump_shard k s p) = p_votes p"
  "p_basket (bump_shard k s p) = p_basket p"
  "p_pending_expiry (bump_shard k s p) = p_pending_expiry p"
  "p_delivery_proposal (bump_shard k s p) = p_delivery_proposal p"
  "p_message (bump_shard k s p) = p_message p"
  "p_legacy_messages (bump_shard k s p) = p_legacy_messages p"
  "p_ids (bump_shard k s p) = p_ids p" "p_counts (bump_shard k s p) = p_counts p"
  by (simp_all add: bump_shard_def)

lemma pushed_history_frame [simp]:
  "pushed_history env i s (bump_shard k n p) = pushed_history env i s p"
  "pushed_history env i s (p_votes_update f p) = pushed_history env i s p"
  "pushed_history env i s (p_dispute_update g p) = pushed_history env i s p"
  "pushed_history env i s (p_delivery_proposal_update h p) = pushed_history env i s p"
  by (simp_all add: pushed_history_def)

section \<open>Payouts\<close>

type_synonym out = "address \<times> address \<times> int"

definition xfers_of :: "env \<Rightarrow> out list \<Rightarrow> transfer list" where
  "xfers_of env outs =
    map (\<lambda>(tk, r, n). \<lparr>tr_token = tk, tr_from = env_self env, tr_to = r, tr_amount = n\<rparr>)
      (filter (\<lambda>(tk, r, n). 0 < n) outs)"

definition log_with ::
  "instance_storage \<times> persistent_storage \<Rightarrow> transfer list
    \<Rightarrow> (transfer \<times> (instance_storage \<times> persistent_storage)) list" where
  "log_with snap ts = map (\<lambda>t. (t, snap)) ts"

lemma xfers_of_simps [simp]:
  "xfers_of env [] = []"
  "xfers_of env (xs @ ys) = xfers_of env xs @ xfers_of env ys"
  "xfers_of env ((tk, r, n) # xs) =
    (if 0 < n
     then \<lparr>tr_token = tk, tr_from = env_self env, tr_to = r, tr_amount = n\<rparr> # xfers_of env xs
     else xfers_of env xs)"
  by (simp_all add: xfers_of_def)

lemma log_with_simps [simp]:
  "log_with snap [] = []" "log_with snap (xs @ ys) = log_with snap xs @ log_with snap ys"
  "log_with snap (x # xs) = (x, snap) # log_with snap xs"
  "map fst (log_with snap xs) = xs"
  by (simp_all add: log_with_def comp_def)

text \<open>The world after a group of payouts.\<close>

definition pay :: "env \<Rightarrow> out list \<Rightarrow> world \<Rightarrow> world" where
  "pay env outs w =
    w\<lparr>w_xfers := w_xfers w @ log_with (w_inst w, w_pers w) (xfers_of env outs)\<rparr>"

lemma pay_frame [simp]:
  "w_inst (pay env outs w) = w_inst w" "w_pers (pay env outs w) = w_pers w"
  "w_events (pay env outs w) = w_events w" "w_rent (pay env outs w) = w_rent w"
  "w_wasm (pay env outs w) = w_wasm w"
  "w_xfers (pay env outs w) =
    w_xfers w @ log_with (w_inst w, w_pers w) (xfers_of env outs)"
  by (simp_all add: pay_def)

lemma pay_pay [simp]:
  "pay env [] w = w" "pay env ys (pay env xs w) = pay env (xs @ ys) w"
  by (simp_all add: pay_def)

lemma payout_pay: "payout env tk r n w = Inr w' \<Longrightarrow> w' = pay env [(tk, r, n)] w"
  by (auto simp: payout_def transfer_helper_Inr pay_def split: if_splits)

text \<open>How much of a token a group of payouts sends.\<close>

definition total_out :: "address \<Rightarrow> out list \<Rightarrow> int" where
  "total_out tk outs = sum_list (map (\<lambda>(t, r, n). if t = tk \<and> 0 < n then n else 0) outs)"

lemma total_out_simps [simp]:
  "total_out tk [] = 0"
  "total_out tk ((t, r, n) # xs) = (if t = tk \<and> 0 < n then n else 0) + total_out tk xs"
  "total_out tk (xs @ ys) = total_out tk xs + total_out tk ys"
  by (simp_all add: total_out_def)

lemma total_out_nonneg: "0 \<le> total_out tk outs"
  by (induction outs) auto

text \<open>Paying costs at most what it sends (less when the contract pays itself).\<close>

lemma custody_xfers_of:
  "custody_of (env_self env) tk (xfers_of env outs) \<ge> - total_out tk outs"
  by (induction outs) (auto simp: xfer_delta_def)

lemma custody_pay: "custody env tk (pay env outs w) \<ge> custody env tk w - total_out tk outs"
  using custody_xfers_of [where env = env and tk = tk and outs = outs]
  by (simp add: custody_def)

text \<open>Conversely, when no payout is to the contract itself, it costs exactly that.\<close>

lemma custody_pay_eq:
  assumes "\<And>t r n. (t, r, n) \<in> set outs \<Longrightarrow> r \<noteq> env_self env"
  shows "custody env tk (pay env outs w) = custody env tk w - total_out tk outs"
proof -
  have "custody_of (env_self env) tk (xfers_of env outs) = - total_out tk outs"
    using assms
  proof (induction outs)
    case (Cons x outs)
    obtain t r n where x: "x = (t, r, n)" by (cases x)
    have "r \<noteq> env_self env" using Cons.prems x by auto
    moreover have "custody_of (env_self env) tk (xfers_of env outs) = - total_out tk outs"
      by (rule Cons.IH) (use Cons.prems in auto)
    ultimately show ?case by (simp add: x xfer_delta_def)
  qed simp
  then show ?thesis by (simp add: custody_def)
qed

section \<open>Distribution over the payees\<close>

definition share_of :: "int \<Rightarrow> Payee \<Rightarrow> int" where
  "share_of amount p = amount * uint (p_bps p) div 10000"

definition payee_outs :: "address \<Rightarrow> int \<Rightarrow> Payee list \<Rightarrow> out list" where
  "payee_outs tk amount ps = map (\<lambda>p. (tk, p_address p, share_of amount p)) ps"

text \<open>The secondary payees' floored shares, then everything that is left to the first.\<close>

definition distribution :: "address \<Rightarrow> int \<Rightarrow> Payee list \<Rightarrow> out list" where
  "distribution tk amount payees = (case payees of
     [] \<Rightarrow> []
   | p # ps \<Rightarrow> payee_outs tk amount ps @
       [(tk, p_address p, amount - sum_list (map (share_of amount) ps))])"

lemma i128_checked_div_pos:
  "0 < d \<Longrightarrow> 0 \<le> a \<Longrightarrow> a \<le> i128_max \<Longrightarrow> i128_checked_div a d = Some (a div d)"
proof -
  assume d: "0 < d" "0 \<le> a" "a \<le> i128_max"
  have "a div d \<le> a" using zdiv_mono2 [of a 1 d] d by simp
  moreover have "0 \<le> a div d" using d by (simp add: pos_imp_zdiv_nonneg_iff)
  ultimately show "i128_checked_div a d = Some (a div d)"
    using d by (simp add: i128_checked_div_def i128_ok_def i128_min_def)
qed

lemma payee_share_Inr:
  assumes "payee_share amount bps = Inr s" "0 \<le> amount"
  shows "s = amount * uint bps div 10000"
  using assms i128_checked_div_pos [of 10000 "amount * uint bps"]
  by (auto simp: payee_share_def i128_ok_def)

lemma pay_share_Inr:
  "pay_share env tk amount p (rest, w) = Inr (rest', w') \<longleftrightarrow>
    (\<exists>s. payee_share amount (p_bps p) = Inr s \<and> payout env tk (p_address p) s w = Inr w' \<and>
      rest' = rest - s \<and> i128_ok (rest - s))"
  by (auto simp: pay_share_def)

lemma pay_shares_pay:
  assumes "foldE (pay_share env tk amount) ps (rest, w) = Inr (rest', w')" "0 \<le> amount"
  shows "w' = pay env (payee_outs tk amount ps) w"
    "rest' = rest - sum_list (map (share_of amount) ps)"
proof -
  have "w' = pay env (payee_outs tk amount ps) w \<and>
      rest' = rest - sum_list (map (share_of amount) ps)"
    using assms(1)
  proof (induction ps arbitrary: rest w)
    case Nil
    then show ?case by (simp add: payee_outs_def)
  next
    case (Cons p ps)
    from Cons.prems obtain s w1 where s: "payee_share amount (p_bps p) = Inr s"
      "payout env tk (p_address p) s w = Inr w1"
      "foldE (pay_share env tk amount) ps (rest - s, w1) = Inr (rest', w')"
      by (auto simp: pay_share_Inr)
    have "s = share_of amount p"
      using payee_share_Inr [OF s(1) assms(2)] by (simp add: share_of_def)
    with Cons.IH [OF s(3)] payout_pay [OF s(2)] show ?case
      by (simp add: payee_outs_def)
  qed
  then show "w' = pay env (payee_outs tk amount ps) w"
    "rest' = rest - sum_list (map (share_of amount) ps)" by auto
qed

lemma distribute_to_payees_pay:
  assumes "distribute_to_payees env tk payees amount w = Inr w'"
  shows "w' = pay env (distribution tk amount payees) w" "payees \<noteq> []" "0 \<le> amount"
proof -
  from assms obtain rest w1 p where a: "0 \<le> amount"
    "foldE (pay_share env tk amount) (drop 1 payees) (amount, w) = Inr (rest, w1)"
    "vec_get payees 0 = Some p" "payout env tk (p_address p) rest w1 = Inr w'"
    by (auto simp: distribute_to_payees_def split: if_splits)
  from a(3) obtain ps where ps: "payees = p # ps" by (auto simp: vec_get_0)
  note q = pay_shares_pay [OF a(2,1)]
  show "w' = pay env (distribution tk amount payees) w"
    using q payout_pay [OF a(4)] by (simp add: ps distribution_def)
  show "payees \<noteq> []" "0 \<le> amount" using a(1) ps by auto
qed

section \<open>Basket payouts\<close>

definition basket_of :: "persistent_storage \<Rightarrow> u64 \<Rightarrow> TokenEntry list" where
  "basket_of p i = unwrap_or (p_basket p i) []"

definition basket_outs :: "address \<Rightarrow> address \<Rightarrow> TokenEntry list \<Rightarrow> out list" where
  "basket_outs primary recipient tokens =
    map (\<lambda>t. (te_token t, recipient, te_amount t))
      (filter (\<lambda>t. is_transferable_basket_entry t primary) tokens)"

lemma payout_basket_entries_pay:
  "foldE (payout_basket_entry env primary r) ts w = Inr w' \<Longrightarrow>
    w' = pay env (basket_outs primary r ts) w"
proof (induction ts arbitrary: w)
  case (Cons t ts)
  then obtain w1 where w1: "payout_basket_entry env primary r t w = Inr w1"
    "foldE (payout_basket_entry env primary r) ts w1 = Inr w'" by auto
  show ?case
  proof (cases "is_transferable_basket_entry t primary")
    case True
    then have "w1 = pay env [(te_token t, r, te_amount t)] w"
      using w1(1) payout_pay by (simp add: payout_basket_entry_def)
    with Cons.IH [OF w1(2)] True show ?thesis by (simp add: basket_outs_def)
  next
    case False
    with w1(1) have "w1 = w" by (simp add: payout_basket_entry_def)
    with Cons.IH [OF w1(2)] False show ?thesis by (simp add: basket_outs_def)
  qed
qed (simp add: basket_outs_def)

text \<open>The world after reading an escrow and its basket.\<close>

definition read_basket :: "u64 \<Rightarrow> world \<Rightarrow> world" where
  "read_basket i w = snd (load_basket_tokens i (extend_ttl_for_key (DK_Escrow i) w))"

lemma read_basket_frame [simp]:
  "w_inst (read_basket i w) = w_inst w" "w_pers (read_basket i w) = w_pers w"
  "w_xfers (read_basket i w) = w_xfers w" "w_events (read_basket i w) = w_events w"
  "w_wasm (read_basket i w) = w_wasm w"
  by (simp_all add: read_basket_def)

lemma payout_basket_tokens_pay:
  assumes "payout_basket_tokens env i r w = Inr w'" "p_escrow (w_pers w) i = Some e"
  shows "w' = pay env (basket_outs (e_token e) r (basket_of (w_pers w) i)) (read_basket i w)"
  using assms payout_basket_entries_pay
  by (auto simp: payout_basket_tokens_def case_prod_beta basket_of_def read_basket_def)

text \<open>What the contract sends to one recipient when it gives everything back.\<close>

definition refund_outs :: "Escrow \<Rightarrow> address \<Rightarrow> TokenEntry list \<Rightarrow> out list" where
  "refund_outs e r tokens = (e_token e, r, e_amount e) # basket_outs (e_token e) r tokens"

section \<open>Postconditions of successful runs\<close>

text \<open>
  \<open>post r P\<close>: if \<open>r\<close> succeeds, its value satisfies \<open>P\<close>.  The equations compute through the
  control flow of an operation and replace each helper by the world it leaves.
\<close>

definition post :: "'a res \<Rightarrow> ('a \<Rightarrow> bool) \<Rightarrow> bool" where
  "post r P = (case r of Inl _ \<Rightarrow> True | Inr x \<Rightarrow> P x)"

lemma post_iff: "post r P \<longleftrightarrow> (\<forall>x. r = Inr x \<longrightarrow> P x)"
  by (cases r) (simp_all add: post_def)

lemma postD: "post r P \<Longrightarrow> r = Inr x \<Longrightarrow> P x"
  by (simp add: post_iff)

named_theorems wp

lemma post_control [wp]:
  "post (Inr x) P = P x"
  "post (Inl err) P = True"
  "post (bindE m f) P = post m (\<lambda>x. post (f x) P)"
  "post (if b then r else s) P = ((b \<longrightarrow> post r P) \<and> (\<not> b \<longrightarrow> post s P))"
  "post (ok_or_err v e) P = (\<forall>x. v = Some x \<longrightarrow> P x)"
  "post (require_auth env a) Q = (env_auth env a \<longrightarrow> Q ())"
  by (auto simp: post_def bindE_def require_auth_def ok_or_err_def ok_or_def split: sum.split option.split)

lemma post_case_prod [wp]:
  "post (case xy of (x, y) \<Rightarrow> f x y) P = post (f (fst xy) (snd xy)) P"
  by (simp add: case_prod_beta)

lemma post_case_option [wp]:
  "post (case v of None \<Rightarrow> r | Some x \<Rightarrow> f x) P =
    ((v = None \<longrightarrow> post r P) \<and> (\<forall>x. v = Some x \<longrightarrow> post (f x) P))"
  by (cases v) simp_all

lemma post_case_resolution [wp]:
  "post (case r of Release \<Rightarrow> a | Refund \<Rightarrow> b) P =
    ((r = Release \<longrightarrow> post a P) \<and> (r = Refund \<longrightarrow> post b P))"
  by (cases r) simp_all

lemma post_load_escrow [wp]:
  "post (load_escrow i w) P =
    (\<forall>e. p_escrow (w_pers w) i = Some e \<longrightarrow> P (e, extend_ttl_for_key (DK_Escrow i) w))"
  by (auto simp: post_iff)

lemma post_load_dispute [wp]:
  "post (load_dispute i w) P =
    (\<forall>d. p_dispute (w_pers w) i = Some d \<longrightarrow> P (d, extend_ttl_for_key (DK_Dispute i) w))"
  by (auto simp: post_iff)

lemma post_ensure_action_not_paused [wp]:
  "post (ensure_action_not_paused a w) P = (ensure_action_not_paused a w = Inr () \<longrightarrow> P ())"
  by (simp add: post_iff)

text \<open>The pending-expiry check, as a condition on the escrow.\<close>

definition unexpired :: "env \<Rightarrow> u64 \<Rightarrow> persistent_storage \<Rightarrow> bool" where
  "unexpired env i p \<longleftrightarrow>
    (\<forall>e x. p_escrow p i = Some e \<longrightarrow> e_expires_at e = Some x \<longrightarrow> env_now env < x) \<and>
    (\<forall>s. p_pending_expiry p i = Some s \<longrightarrow> env_now env < x_expires_at s)"

lemma post_ensure_not_expired [wp]:
  "post (ensure_not_expired env i w) P =
    (p_escrow (w_pers w) i \<noteq> None \<longrightarrow> unexpired env i (w_pers w) \<longrightarrow>
      P (extend_ttl_for_key (DK_Escrow i) w))"
  by (auto simp: ensure_not_expired_def unexpired_def wp not_le split: option.splits)

lemma post_ensure_funding_not_expired [wp]:
  "post (ensure_funding_not_expired env i w) P =
    (p_escrow (w_pers w) i \<noteq> None \<longrightarrow> unexpired env i (w_pers w) \<longrightarrow>
      (\<forall>x. word_checked_add (fst (escrow_created_at i (extend_ttl_for_key (DK_Escrow i) w)))
             PENDING_EXPIRY_WINDOW = Some x \<longrightarrow> env_now env \<le> x \<longrightarrow>
        P (snd (escrow_created_at i (extend_ttl_for_key (DK_Escrow i) w)))))"
  by (auto simp: ensure_funding_not_expired_def wp pending_expiry_deadline_def Let_def not_less)

lemma post_pending_expiry_deadline [wp]:
  "post (pending_expiry_deadline t) P =
    (\<forall>x. word_checked_add t PENDING_EXPIRY_WINDOW = Some x \<longrightarrow> P x)"
  by (simp add: pending_expiry_deadline_def wp)

lemma post_payout [wp]:
  "post (payout env tk r n w) P = (is_ok (payout env tk r n w) \<longrightarrow> P (pay env [(tk, r, n)] w))"
  using payout_pay [of env tk r n w] by (cases "payout env tk r n w") (auto simp: post_def)

lemma post_payout_basket_tokens [wp]:
  "post (payout_basket_tokens env i r w) P =
    (\<forall>e. p_escrow (w_pers w) i = Some e \<longrightarrow> is_ok (payout_basket_tokens env i r w) \<longrightarrow>
      P (pay env (basket_outs (e_token e) r (basket_of (w_pers w) i)) (read_basket i w)))"
proof (cases "p_escrow (w_pers w) i")
  case None
  then show ?thesis by (simp add: payout_basket_tokens_def load_escrow_def post_def)
next
  case (Some e)
  then show ?thesis
    using payout_basket_tokens_pay [OF _ Some, of env r]
    by (cases "payout_basket_tokens env i r w") (auto simp: post_def)
qed

lemma post_distribute_to_payees [wp]:
  "post (distribute_to_payees env tk payees amount w) P =
    (payees \<noteq> [] \<longrightarrow> 0 \<le> amount \<longrightarrow> is_ok (distribute_to_payees env tk payees amount w) \<longrightarrow>
      P (pay env (distribution tk amount payees) w))"
  using distribute_to_payees_pay [of env tk payees amount w]
  by (cases "distribute_to_payees env tk payees amount w") (auto simp: post_def)

definition count :: "u32 \<Rightarrow> u64 \<Rightarrow> world \<Rightarrow> world" where
  "count k i w = extend_ttl_for_key (DK_ShardedCounter k (shard_bucket i))
    (pers_update (bump_shard k i) w)"

lemma count_frame [simp]:
  "w_inst (count k i w) = w_inst w" "w_xfers (count k i w) = w_xfers w"
  "w_events (count k i w) = w_events w" "w_wasm (count k i w) = w_wasm w"
  "w_pers (count k i w) = bump_shard k i (w_pers w)"
  by (simp_all add: count_def)

lemma post_counters [wp]:
  "post (increment_sharded_counter k i w) P =
    (is_ok (increment_sharded_counter k i w) \<longrightarrow> P (count k i w))"
  "post (record_escrow_completed i w) P =
    (is_ok (record_escrow_completed i w) \<longrightarrow> P (count COUNTER_KIND_COMPLETED i w))"
  "post (record_escrow_refunded i w) P =
    (is_ok (record_escrow_refunded i w) \<longrightarrow> P (count COUNTER_KIND_REFUNDED i w))"
proof -
  show "post (increment_sharded_counter k i w) P =
      (is_ok (increment_sharded_counter k i w) \<longrightarrow> P (count k i w))" for k
  proof -
    have "\<And>w'. increment_sharded_counter k i w = Inr w' \<Longrightarrow> w' = count k i w"
      by (auto simp: increment_sharded_counter_def Let_def count_def bump_shard_def
          shard_bucket_def pers_update_def)
    then show ?thesis by (cases "increment_sharded_counter k i w") (auto simp: post_def)
  qed
  then show "post (record_escrow_completed i w) P =
    (is_ok (record_escrow_completed i w) \<longrightarrow> P (count COUNTER_KIND_COMPLETED i w))"
    "post (record_escrow_refunded i w) P =
    (is_ok (record_escrow_refunded i w) \<longrightarrow> P (count COUNTER_KIND_REFUNDED i w))"
    by (simp_all add: record_escrow_completed_def record_escrow_refunded_def)
qed

text \<open>An id appended to an index: only index entries change.\<close>

definition indexed :: "index_keys \<Rightarrow> u64 \<Rightarrow> world \<Rightarrow> world" where
  "indexed K i w = (case append_escrow_index K i w of Inl _ \<Rightarrow> w | Inr w' \<Rightarrow> w')"

lemma indexed_step: "index_step (own_keys K) w (indexed K i w)"
  using append_escrow_index_step [of K i w]
  by (cases "append_escrow_index K i w") (simp_all add: indexed_def)

lemmas index_frame [simp] =
  index_step_fields [OF indexed_step]
  index_step_fields [OF index_step_write_index]
  index_step_fields [OF read_escrow_index_step]

lemma post_append_index [wp]:
  "post (append_vendor_escrow_index v i w) P =
    (is_ok (append_vendor_escrow_index v i w) \<longrightarrow> P (indexed (vendor_keys v) i w))"
  "post (append_buyer_escrow_index b i w) P =
    (is_ok (append_buyer_escrow_index b i w) \<longrightarrow> P (indexed (buyer_keys b) i w))"
  by (auto simp: append_vendor_escrow_index_def append_buyer_escrow_index_def indexed_def post_def
      split: sum.split)

text \<open>A fee rate applied to an amount, rounded down.\<close>

definition bps_of :: "int \<Rightarrow> u32 \<Rightarrow> int" where
  "bps_of amount bps = amount * uint bps div 10000"

lemma post_calculate_fee [wp]:
  assumes "amount \<le> i128_max"
  shows "post (calculate_fee amount bps) P =
    (0 \<le> amount \<longrightarrow> bps \<le> BASIS_POINTS \<longrightarrow> P (bps_of amount bps))"
proof (cases "calculate_fee amount bps")
  case (Inr fee)
  with calculate_fee_Inr [OF Inr assms] show ?thesis by (simp add: post_def bps_of_def)
next
  case (Inl x)
  with calculate_fee_eq [OF _ assms, of bps] show ?thesis by (auto simp: post_def)
qed

lemma post_calculate_protocol_fee [wp]:
  assumes "amount \<le> i128_max"
  shows "post (calculate_protocol_fee amount bps) P = (0 \<le> amount \<longrightarrow> bps \<le> BASIS_POINTS \<longrightarrow>
     P (bps_of amount bps, amount - bps_of amount bps))"
proof (cases "calculate_protocol_fee amount bps")
  case (Inr x)
  obtain fee net where fn: "x = (fee, net)" by (cases x)
  note f = calculate_protocol_fee_Inr [OF Inr [unfolded fn] assms(1)]
  have "net = amount - bps_of amount bps" using f(1,2) by (simp add: bps_of_def)
  with f Inr show ?thesis by (simp add: fn bps_of_def post_def)
next
  case (Inl x)
  with calculate_protocol_fee_eq [OF _ assms, of bps] show ?thesis by (auto simp: post_def)
qed

lemma bps_of_bounds:
  assumes "0 \<le> amount" "uint bps \<le> k" "0 \<le> k"
  shows "0 \<le> bps_of amount bps" "10000 * bps_of amount bps \<le> amount * k"
proof -
  show "0 \<le> bps_of amount bps" using assms by (simp add: bps_of_def pos_imp_zdiv_nonneg_iff)
  have "10000 * bps_of amount bps \<le> amount * uint bps" by (simp add: bps_of_def)
  also have "\<dots> \<le> amount * k" using assms by (intro mult_left_mono) auto
  finally show "10000 * bps_of amount bps \<le> amount * k" .
qed

section \<open>The escrow an invocation is about\<close>

definition escrow_at :: "world \<Rightarrow> u64 \<Rightarrow> Escrow" where
  "escrow_at w i = the (p_escrow (w_pers w) i)"

definition buyer_at :: "world \<Rightarrow> u64 \<Rightarrow> address" where
  "buyer_at w i = the (e_buyer (escrow_at w i))"

definition payee_at :: "world \<Rightarrow> u64 \<Rightarrow> address" where
  "payee_at w i = p_address (hd (e_payees (escrow_at w i)))"

text \<open>The instance storage without the running totals of arbitration fees.\<close>

definition settings :: "instance_storage \<Rightarrow> instance_storage" where
  "settings s = s\<lparr>i_total_arbitration_fees := (\<lambda>_. None)\<rparr>"

text \<open>
  One escrow rewritten, with a history entry when its state changed; every other escrow,
  all baskets and the settings are kept.
\<close>

definition alters :: "env \<Rightarrow> u64 \<Rightarrow> Escrow \<Rightarrow> world \<Rightarrow> world \<Rightarrow> bool" where
  "alters env i e' w w' \<longleftrightarrow> p_escrow (w_pers w) i \<noteq> None \<and>
    p_escrow (w_pers w') = (p_escrow (w_pers w))(i \<mapsto> e') \<and>
    p_history (w_pers w') =
      (if e_state e' = e_state (escrow_at w i) then p_history (w_pers w)
       else (p_history (w_pers w))(i \<mapsto> pushed_history env i (e_state e') (w_pers w))) \<and>
    p_basket (w_pers w') = p_basket (w_pers w) \<and>
    settings (w_inst w') = settings (w_inst w)"

text \<open>All transfers of the invocation happen last, against the final storage.\<close>

definition pays_last :: "env \<Rightarrow> out list \<Rightarrow> world \<Rightarrow> world \<Rightarrow> bool" where
  "pays_last env outs w w' \<longleftrightarrow>
    w_xfers w' = w_xfers w @ log_with (w_inst w', w_pers w') (xfers_of env outs)"

text \<open>Nothing an escrow is made of changes, and no money moves.\<close>

definition idle :: "world \<Rightarrow> world \<Rightarrow> bool" where
  "idle w w' \<longleftrightarrow> p_escrow (w_pers w') = p_escrow (w_pers w) \<and>
    p_history (w_pers w') = p_history (w_pers w) \<and> p_dispute (w_pers w') = p_dispute (w_pers w) \<and>
    p_basket (w_pers w') = p_basket (w_pers w) \<and> w_xfers w' = w_xfers w \<and>
    i_escrow_counter (w_inst w') = i_escrow_counter (w_inst w)"

lemmas effect_defs = Let_def read_global_config_of alters_def pays_last_def
  escrow_at_def buyer_at_def payee_at_def basket_of_def refund_outs_def settings_def

lemma vec_get_0_Some [simp]: "vec_get xs 0 = Some x \<longleftrightarrow> xs \<noteq> [] \<and> hd xs = x"
  by (cases xs) (auto simp: vec_get_0)

text \<open>Giving everything back to the buyer and closing the escrow in state \<open>s\<close>.\<close>

definition refunds_buyer :: "env \<Rightarrow> u64 \<Rightarrow> EscrowState \<Rightarrow> world \<Rightarrow> world \<Rightarrow> bool" where
  "refunds_buyer env i s w w' \<longleftrightarrow> e_buyer (escrow_at w i) \<noteq> None \<and>
    alters env i ((escrow_at w i)\<lparr>e_state := s\<rparr>) w w' \<and>
    pays_last env (refund_outs (escrow_at w i) (buyer_at w i) (basket_of (w_pers w) i)) w w'"

end
