(* ===== verification/Steps.thy ===== *)
theory Steps
  imports Effects
begin

text \<open>
  The effect of every operation on an existing escrow, as a postcondition of its successful
  runs: the new escrow, what is paid to whom, and the guards that were passed.
\<close>

section \<open>Everything back to the buyer\<close>

lemma reclaim_expired_effect:
  "post (reclaim_expired env i w) (\<lambda>w'. refunds_buyer env i Expired w w' \<and>
     e_state (escrow_at w i) \<in> {Funded, Shipped} \<and> env_auth env (buyer_at w i) \<and>
     (\<exists>x. e_expires_at (escrow_at w i) = Some x \<and> x \<le> env_now env) \<and>
     p_dispute (w_pers w') = p_dispute (w_pers w))"
  by (auto simp: reclaim_expired_def refunds_buyer_def effect_defs wp not_less)

lemma mutual_cancel_effect:
  "post (mutual_cancel env i w) (\<lambda>w'. refunds_buyer env i Canceled w w' \<and>
     e_state (escrow_at w i) \<in> {Funded, Shipped} \<and> env_auth env (buyer_at w i) \<and>
     env_auth env (payee_at w i) \<and> unexpired env i (w_pers w) \<and>
     p_dispute (w_pers w') = p_dispute (w_pers w))"
  by (auto simp: mutual_cancel_def refunds_buyer_def effect_defs wp not_less)

lemma approve_refund_effect:
  "post (approve_refund env c i w) (\<lambda>w'. refunds_buyer env i Refunded w w' \<and>
     e_state (escrow_at w i) = RefundRequested \<and> c = payee_at w i \<and> env_auth env c \<and>
     unexpired env i (w_pers w) \<and> p_dispute (w_pers w') = p_dispute (w_pers w))"
  by (auto simp: approve_refund_def refunds_buyer_def effect_defs wp not_less)

lemma recovery_withdraw_effect:
  "post (recovery_withdraw env c i w) (\<lambda>w'. refunds_buyer env i Refunded w w' \<and>
     e_state (escrow_at w i) \<in> {Funded, Shipped, Disputed, PendingFinalization, RefundRequested} \<and>
     c = buyer_at w i \<and> env_auth env c \<and> is_recovery_mode w \<and>
     p_dispute (w_pers w') = p_dispute (w_pers w))"
  by (auto simp: recovery_withdraw_def refunds_buyer_def effect_defs wp not_less)

lemma emergency_drain_effect:
  "post (emergency_drain env i w) (\<lambda>w'. refunds_buyer env i Refunded w w' \<and>
     e_state (escrow_at w i) \<in> {Funded, Shipped, Disputed, PendingFinalization} \<and>
     env_auth env (buyer_at w i) \<and> env_auth env (payee_at w i) \<and> is_paused w \<and>
     p_dispute (w_pers w') = p_dispute (w_pers w))"
  by (auto simp: emergency_drain_def refunds_buyer_def effect_defs wp not_less)

section \<open>Before funding\<close>

lemma auto_cancel_pending_effect:
  "post (auto_cancel_pending env i w) (\<lambda>w'.
     alters env i ((escrow_at w i)\<lparr>e_state := Canceled\<rparr>) w w' \<and> pays_last env [] w w' \<and>
     e_state (escrow_at w i) = Pending \<and>
     p_dispute (w_pers w') = p_dispute (w_pers w))"
  by (auto simp: auto_cancel_pending_def effect_defs wp not_less)

text \<open>\<open>cancel_escrow\<close>: an unfunded escrow is dropped, a funded one refunded to its buyer.\<close>

lemma cancel_escrow_effect:
  "post (cancel_escrow env c i w) (\<lambda>w'. env_auth env c \<and> unexpired env i (w_pers w) \<and>
     (if e_state (escrow_at w i) = Pending
      then alters env i ((escrow_at w i)\<lparr>e_state := Canceled\<rparr>) w w' \<and> pays_last env [] w w' \<and>
        (e_buyer (escrow_at w i) = Some c \<or> is_payee (escrow_at w i) c)
      else refunds_buyer env i Refunded w w' \<and> e_state (escrow_at w i) = Funded \<and>
        c = buyer_at w i) \<and>
     p_dispute (w_pers w') = p_dispute (w_pers w))"
  by (auto simp: cancel_escrow_def refunds_buyer_def effect_defs wp not_less)

section \<open>Shipment, delivery, refund requests, rotation\<close>

lemma mark_shipped_effect:
  "post (mark_shipped env c i t w) (\<lambda>w'.
     alters env i ((escrow_at w i)\<lparr>e_state := Shipped, e_shipped_at := env_now env,
        e_tracking_id := Some t\<rparr>) w w' \<and> pays_last env [] w w' \<and>
     e_state (escrow_at w i) \<in> {Funded, RefundRequested} \<and>
     is_payee (escrow_at w i) c \<and> env_auth env c \<and> unexpired env i (w_pers w) \<and>
     t \<noteq> [] \<and> length t \<le> MAX_TRACKING_ID_LEN \<and>
     p_dispute (w_pers w') = p_dispute (w_pers w))"
  by (auto simp: mark_shipped_def effect_defs wp not_less)

lemma record_delivery_effect:
  "post (record_delivery env c i w) (\<lambda>w'.
     alters env i ((escrow_at w i)\<lparr>e_delivered_at := Some (env_now env)\<rparr>) w w' \<and>
     pays_last env [] w w' \<and> e_state (escrow_at w i) = Shipped \<and>
     e_delivered_at (escrow_at w i) = None \<and>
     i_admin (w_inst w) = Some c \<and> env_auth env c \<and>
     (\<exists>u. p_delivery_proposal (w_pers w) i = Some u \<and> u \<le> env_now env) \<and>
     p_dispute (w_pers w') = p_dispute (w_pers w))"
  by (auto simp: record_delivery_def effect_defs wp not_less)

lemma request_refund_effect:
  "post (request_refund env c i w) (\<lambda>w'.
     alters env i ((escrow_at w i)\<lparr>e_state := RefundRequested\<rparr>) w w' \<and>
     pays_last env [] w w' \<and> e_state (escrow_at w i) = Funded \<and>
     c = buyer_at w i \<and> env_auth env c \<and> unexpired env i (w_pers w) \<and>
     p_dispute (w_pers w') = p_dispute (w_pers w))"
  by (auto simp: request_refund_def effect_defs wp not_less)

lemma post_case_resolver_set [wp]:
  "post (case s of Single r \<Rightarrow> f r | Multi m \<Rightarrow> g m | Fallback b \<Rightarrow> h b) P =
    ((\<forall>r. s = Single r \<longrightarrow> post (f r) P) \<and> (\<forall>m. s = Multi m \<longrightarrow> post (g m) P) \<and>
     (\<forall>b. s = Fallback b \<longrightarrow> post (h b) P))"
  by (cases s) simp_all

lemma rotate_resolver_effect:
  "post (rotate_resolver env c i r w) (\<lambda>w'.
     alters env i ((escrow_at w i)\<lparr>e_resolvers := Single r\<rparr>) w w' \<and> pays_last env [] w w' \<and>
     e_state (escrow_at w i) \<notin> {Completed, Refunded, Canceled, Expired} \<and>
     env_auth env c \<and> (is_payee (escrow_at w i) c \<or> i_admin (w_inst w) = Some c) \<and>
     (\<exists>old. e_resolvers (escrow_at w i) = Single old \<and> r \<noteq> old) \<and>
     \<not> is_payee (escrow_at w i) r \<and> e_buyer (escrow_at w i) \<noteq> Some r \<and>
     p_dispute (w_pers w') = p_dispute (w_pers w))"
  by (auto simp: rotate_resolver_def require_admin_def effect_defs wp not_less)

section \<open>Release to the payees\<close>

text \<open>The protocol fee, the distribution of the rest, and the basket to the first payee.\<close>

definition settle_outs :: "Escrow \<Rightarrow> u32 \<Rightarrow> address \<Rightarrow> TokenEntry list \<Rightarrow> out list" where
  "settle_outs e bps collector tokens =
    (e_token e, collector, bps_of (e_amount e) bps) #
    distribution (e_token e) (e_amount e - bps_of (e_amount e) bps) (e_payees e) @
    basket_outs (e_token e) (p_address (hd (e_payees e))) tokens"

definition collector_of :: "world \<Rightarrow> address" where
  "collector_of w = the (g_fee_collector (read_global_config w))"

lemma settle_escrow_to_payees_effect:
  assumes "e_amount e \<le> i128_max" "p_escrow (w_pers w) i = Some e"
  shows "post (settle_escrow_to_payees env e i bps w) (\<lambda>((prev, first, e'), w').
     alters env i (e\<lparr>e_state := Completed\<rparr>) w w' \<and>
     pays_last env (settle_outs e bps (collector_of w) (basket_of (w_pers w) i)) w w' \<and>
     bps \<le> BASIS_POINTS \<and> 0 \<le> e_amount e \<and> e_payees e \<noteq> [] \<and>
     g_fee_collector (read_global_config w) \<noteq> None \<and>
     prev = e_state e \<and> first = p_address (hd (e_payees e)) \<and> e' = e\<lparr>e_state := Completed\<rparr> \<and>
     p_dispute (w_pers w') = p_dispute (w_pers w))"
  using assms by (auto simp: settle_escrow_to_payees_def effect_defs settle_outs_def
      collector_of_def read_fee_config_def wp not_less)

lemma confirm_delivery_effect:
  assumes "e_amount (escrow_at w i) \<le> i128_max"
  shows "post (confirm_delivery env c i waive w) (\<lambda>w'.
     alters env i ((escrow_at w i)\<lparr>e_state := Completed\<rparr>) w w' \<and>
     pays_last env (settle_outs (escrow_at w i) (e_fee_bps (escrow_at w i)) (collector_of w)
       (basket_of (w_pers w) i)) w w' \<and>
     e_state (escrow_at w i) = Shipped \<and> e_buyer (escrow_at w i) = Some c \<and> env_auth env c \<and>
     (waive \<or> dispute_deadline (escrow_at w i) \<le> env_now env) \<and> unexpired env i (w_pers w) \<and>
     e_fee_bps (escrow_at w i) \<le> BASIS_POINTS \<and> e_payees (escrow_at w i) \<noteq> [] \<and>
     0 \<le> e_amount (escrow_at w i) \<and> p_dispute (w_pers w') = p_dispute (w_pers w))"
  using assms by (auto simp: confirm_delivery_def settle_escrow_to_payees_def effect_defs
      settle_outs_def collector_of_def read_fee_config_def wp not_less)

text \<open>When \<open>auto_release\<close> may run, as a condition on the escrow and the storage.\<close>

definition auto_releasable :: "env \<Rightarrow> Escrow \<Rightarrow> u64 \<Rightarrow> persistent_storage \<Rightarrow> bool" where
  "auto_releasable env e i p \<longleftrightarrow> e_state e \<in> {Funded, Shipped} \<and> p_dispute p i = None \<and>
    (case e_delivered_at e of
       Some t \<Rightarrow> uint t + uint DELIVERY_RELEASE_WINDOW \<le> uint (env_now env)
     | None \<Rightarrow> e_state e = Funded \<and> dispute_deadline e \<le> env_now env \<and>
         uint (if 0 < e_shipped_at e then e_shipped_at e else funded_at e)
           + uint (e_shipping_window e) \<le> uint (env_now env))"

lemma checked_deadline_iff:
  "bindE (ok_or_err (word_checked_add x y) err) (\<lambda>d. if t < d then fail err' else Inr ()) = Inr ()
    \<longleftrightarrow> uint x + uint y \<le> uint t"
  for x y t :: u64
proof (cases "uint x + uint y < 2 ^ 64")
  case True
  then have "uint (x + y) = uint x + uint y" by (simp add: uint_word_ariths)
  with True show ?thesis
    by (simp add: bindE_def ok_or_err_def ok_or_def word_checked_add_def word_less_def not_less)
next
  case False
  then show ?thesis
    using uint_lt2p [of t]
    by (simp add: bindE_def ok_or_err_def ok_or_def word_checked_add_def)
qed

lemma ensure_auto_release_eligible_iff:
  "ensure_auto_release_eligible env e i w = Inr () \<longleftrightarrow> auto_releasable env e i (w_pers w)"
  by (auto simp del: bindE_Inr simp add: ensure_auto_release_eligible_def auto_releasable_def
      checked_deadline_iff Let_def split: option.split)

lemma post_ensure_auto_release_eligible [wp]:
  "post (ensure_auto_release_eligible env e i w) P =
    (auto_releasable env e i (w_pers w) \<longrightarrow> P ())"
  using ensure_auto_release_eligible_iff [of env e i w] by (auto simp: post_iff)

lemma auto_release_effect:
  assumes "e_amount (escrow_at w i) \<le> i128_max"
  shows "post (auto_release env i w) (\<lambda>w'.
     alters env i ((escrow_at w i)\<lparr>e_state := Completed\<rparr>) w w' \<and>
     pays_last env (settle_outs (escrow_at w i) (f_protocol_fee_bps (read_fee_config w))
       (collector_of w) (basket_of (w_pers w) i)) w w' \<and>
     auto_releasable env (escrow_at w i) i (w_pers w) \<and> unexpired env i (w_pers w) \<and>
     f_protocol_fee_bps (read_fee_config w) \<le> BASIS_POINTS \<and> e_payees (escrow_at w i) \<noteq> [] \<and>
     0 \<le> e_amount (escrow_at w i) \<and> p_dispute (w_pers w') = p_dispute (w_pers w))"
  using assms by (auto simp: auto_release_def settle_escrow_to_payees_def effect_defs
      settle_outs_def collector_of_def read_fee_config_def wp not_less)

text \<open>\<open>co_signed_release\<close> pays the whole net amount to the first payee.\<close>

definition release_outs :: "Escrow \<Rightarrow> u32 \<Rightarrow> address \<Rightarrow> TokenEntry list \<Rightarrow> out list" where
  "release_outs e bps collector tokens = (let r = p_address (hd (e_payees e)) in
    [(e_token e, r, e_amount e - bps_of (e_amount e) bps),
     (e_token e, collector, bps_of (e_amount e) bps)] @ basket_outs (e_token e) r tokens)"

lemma co_signed_release_effect:
  assumes "e_amount (escrow_at w i) \<le> i128_max"
  shows "post (co_signed_release env c i w) (\<lambda>w'.
     alters env i ((escrow_at w i)\<lparr>e_state := Completed\<rparr>) w w' \<and>
     pays_last env (release_outs (escrow_at w i) (f_protocol_fee_bps (read_fee_config w))
       (collector_of w) (basket_of (w_pers w) i)) w w' \<and>
     e_state (escrow_at w i) \<in> {Funded, Shipped} \<and> e_buyer (escrow_at w i) \<noteq> None \<and>
     env_auth env c \<and> env_auth env (buyer_at w i) \<and> env_auth env (payee_at w i) \<and>
     f_protocol_fee_bps (read_fee_config w) \<le> BASIS_POINTS \<and>
     e_payees (escrow_at w i) \<noteq> [] \<and> 0 \<le> e_amount (escrow_at w i) \<and>
     p_dispute (w_pers w') = p_dispute (w_pers w))"
  using assms by (auto simp: co_signed_release_def transfer_with_protocol_fee_def effect_defs
      release_outs_def collector_of_def read_fee_config_def wp not_less)

section \<open>Funding\<close>

lemma pushed_history_indexed [simp]:
  "pushed_history env i s (w_pers (indexed K j w)) = pushed_history env i s (w_pers w)"
  by (simp add: pushed_history_def)

text \<open>Deposits: tokens and amounts the buyer sends to the contract.\<close>

definition deposits :: "env \<Rightarrow> address \<Rightarrow> (address \<times> int) list \<Rightarrow> transfer list" where
  "deposits env buyer ins = map (\<lambda>(tk, n).
     \<lparr>tr_token = tk, tr_from = buyer, tr_to = env_self env, tr_amount = n\<rparr>) ins"

definition basket_ins :: "address \<Rightarrow> TokenEntry list \<Rightarrow> (address \<times> int) list" where
  "basket_ins primary tokens = map (\<lambda>t. (te_token t, te_amount t))
     (filter (\<lambda>t. is_transferable_basket_entry t primary) tokens)"

definition positive_ins :: "TokenEntry list \<Rightarrow> (address \<times> int) list" where
  "positive_ins tokens = map (\<lambda>t. (te_token t, te_amount t)) (filter (\<lambda>t. 0 < te_amount t) tokens)"

definition sent :: "transfer list \<Rightarrow> world \<Rightarrow> world" where
  "sent ts w = w\<lparr>w_xfers := w_xfers w @ log_with (w_inst w, w_pers w) ts\<rparr>"

lemma sent_frame [simp]:
  "w_inst (sent ts w) = w_inst w" "w_pers (sent ts w) = w_pers w"
  "w_events (sent ts w) = w_events w" "w_wasm (sent ts w) = w_wasm w"
  "w_xfers (sent ts w) = w_xfers w @ log_with (w_inst w, w_pers w) ts"
  "sent [] w = w" "sent us (sent ts w) = sent (ts @ us) w"
  by (simp_all add: sent_def)

lemma transfer_helper_sent:
  "transfer_helper env tk a b n w = Inr w' \<Longrightarrow>
    w' = sent [\<lparr>tr_token = tk, tr_from = a, tr_to = b, tr_amount = n\<rparr>] w"
  by (simp add: transfer_helper_Inr sent_def)

lemma post_transfer_helper [wp]:
  "post (transfer_helper env tk a b n w) P = (is_ok (transfer_helper env tk a b n w) \<longrightarrow>
    P (sent [\<lparr>tr_token = tk, tr_from = a, tr_to = b, tr_amount = n\<rparr>] w))"
  using transfer_helper_sent [of env tk a b n w]
  by (cases "transfer_helper env tk a b n w") (auto simp: post_def)

lemma fund_entries_sent:
  assumes "\<And>t w w'. f t w = Inr w' \<Longrightarrow>
      w' = (if sel t then sent (deposits env b [(te_token t, te_amount t)]) w else w)"
  shows "foldE f ts w = Inr w' \<Longrightarrow>
      w' = sent (deposits env b (map (\<lambda>t. (te_token t, te_amount t)) (filter sel ts))) w"
proof (induction ts arbitrary: w)
  case (Cons t ts)
  then obtain w1 where w1: "f t w = Inr w1" "foldE f ts w1 = Inr w'" by auto
  from assms [OF w1(1)] Cons.IH [OF w1(2)] show ?case by (simp add: deposits_def)
qed (simp add: deposits_def)

lemma post_fund_entries [wp]:
  "post (foldE (fund_basket_entry env primary b) ts w) P =
    (is_ok (foldE (fund_basket_entry env primary b) ts w) \<longrightarrow>
      P (sent (deposits env b (basket_ins primary ts)) w))"
  "post (foldE (fund_any_entry env b) ts w) P =
    (is_ok (foldE (fund_any_entry env b) ts w) \<longrightarrow>
      P (sent (deposits env b (positive_ins ts)) w))"
proof -
  have "fund_basket_entry env primary b t w = Inr w' \<Longrightarrow>
      w' = (if is_transferable_basket_entry t primary
            then sent (deposits env b [(te_token t, te_amount t)]) w else w)" for t w w'
    using transfer_helper_sent by (auto simp: fund_basket_entry_def deposits_def)
  note f = fund_entries_sent [OF this, folded basket_ins_def]
  show "post (foldE (fund_basket_entry env primary b) ts w) P =
    (is_ok (foldE (fund_basket_entry env primary b) ts w) \<longrightarrow>
      P (sent (deposits env b (basket_ins primary ts)) w))"
    using f by (cases "foldE (fund_basket_entry env primary b) ts w") (auto simp: post_def)
  have "fund_any_entry env b t w = Inr w' \<Longrightarrow>
      w' = (if 0 < te_amount t
            then sent (deposits env b [(te_token t, te_amount t)]) w else w)" for t w w'
    using transfer_helper_sent by (auto simp: fund_any_entry_def deposits_def)
  note g = fund_entries_sent [OF this, folded positive_ins_def]
  show "post (foldE (fund_any_entry env b) ts w) P =
    (is_ok (foldE (fund_any_entry env b) ts w) \<longrightarrow>
      P (sent (deposits env b (positive_ins ts)) w))"
    using g by (cases "foldE (fund_any_entry env b) ts w") (auto simp: post_def)
qed

text \<open>The blanket deadline of an unfunded escrow.\<close>

definition funding_open :: "env \<Rightarrow> u64 \<Rightarrow> world \<Rightarrow> bool" where
  "funding_open env i w \<longleftrightarrow>
    uint (env_now env) \<le> uint (fst (escrow_created_at i w)) + uint PENDING_EXPIRY_WINDOW"

lemma escrow_created_at_reads [simp]:
  "fst (escrow_created_at i (extend_ttl_for_key k w)) = fst (escrow_created_at i w)"
  by (simp add: escrow_created_at_def load_state_history_def Let_def split: option.split)

lemma funding_open_word:
  "uint (fst (escrow_created_at i w)) + uint PENDING_EXPIRY_WINDOW < 18446744073709551616 \<Longrightarrow>
    env_now env \<le> fst (escrow_created_at i w) + PENDING_EXPIRY_WINDOW \<Longrightarrow> funding_open env i w"
  by (simp add: funding_open_def word_le_def uint_word_ariths)

text \<open>
  Funding: deposits first, against the storage the invocation started with, then the
  escrow is written.
\<close>

definition funds :: "env \<Rightarrow> u64 \<Rightarrow> address \<Rightarrow> (address \<times> int) list \<Rightarrow> world \<Rightarrow> world \<Rightarrow> bool" where
  "funds env i b ins w w' \<longleftrightarrow>
    alters env i ((escrow_at w i)\<lparr>e_buyer := Some b, e_state := Funded,
      e_packed_timestamps := push_bit 32 (env_now env) OR
        ((env_now env + DISPUTE_WINDOW) AND 0xFFFFFFFF)\<rparr>) w w' \<and>
    w_xfers w' = w_xfers w @ log_with (w_inst w, w_pers w) (deposits env b ins) \<and>
    e_state (escrow_at w i) = Pending \<and> env_auth env b \<and>
    (e_buyer (escrow_at w i) = None \<or> e_buyer (escrow_at w i) = Some b) \<and>
    \<not> is_payee (escrow_at w i) b \<and> \<not> rs_contains (e_resolvers (escrow_at w i)) b \<and>
    unexpired env i (w_pers w) \<and> funding_open env i w \<and>
    p_dispute (w_pers w') = p_dispute (w_pers w)"

lemma designated_buyer [wp]:
  "(case v of None \<Rightarrow> False | Some x \<Rightarrow> b \<noteq> x) \<longleftrightarrow> v \<noteq> None \<and> v \<noteq> Some b"
  by (cases v) auto

lemma fund_escrow_effect:
  "post (fund_escrow env i b w) (\<lambda>w'. funds env i b
     ((e_token (escrow_at w i), e_amount (escrow_at w i)) #
      basket_ins (e_token (escrow_at w i)) (basket_of (w_pers w) i)) w w')"
  by (auto simp: fund_escrow_def funds_def effect_defs deposits_def wp not_less intro: funding_open_word)

lemma fund_basket_escrow_effect:
  "post (fund_basket_escrow env i b w) (\<lambda>w'. basket_of (w_pers w) i \<noteq> [] \<and>
     funds env i b (positive_ins (basket_of (w_pers w) i)) w w')"
  by (auto simp: fund_basket_escrow_def funds_def effect_defs wp not_less intro: funding_open_word)

end
