(* ===== verification/Dispute_Steps.thy ===== *)
theory Dispute_Steps
  imports Steps
begin

text \<open>
  The effect of the dispute operations: raising, resolver votes and the resolution
  transition with its fees, finalization, appeals, and the escape hatches.
\<close>

section \<open>Raising\<close>

definition dispute_at :: "world \<Rightarrow> u64 \<Rightarrow> DisputeData" where
  "dispute_at w i = the (p_dispute (w_pers w) i)"

definition opened_dispute :: "env \<Rightarrow> u64 \<Rightarrow> Escrow \<Rightarrow> symbol \<Rightarrow> bytes \<Rightarrow> bytes \<Rightarrow> DisputeData" where
  "opened_dispute env i e reason description evidence_hash = \<lparr>
     d_escrow_id = i, d_reason = reason, d_description = description,
     d_evidence_hash = evidence_hash, d_status = Active, d_disputed_at = env_now env,
     d_tracking_id = e_tracking_id e, d_resolution = 0, d_resolved_by = None,
     d_appeal_count = 0, d_resolved_at = 0, d_arbitration_fee = 0, d_resolver_fee = 0,
     d_fees_charged = False\<rparr>"

lemma raise_dispute_effect:
  "post (raise_dispute env c i reason description evidence_hash w) (\<lambda>w'.
     alters env i ((escrow_at w i)\<lparr>e_state := Disputed\<rparr>) w w' \<and> pays_last env [] w w' \<and>
     e_state (escrow_at w i) \<in> {Funded, Shipped} \<and> e_buyer (escrow_at w i) = Some c \<and>
     env_auth env c \<and> env_now env < dispute_deadline (escrow_at w i) \<and>
     p_dispute (w_pers w') = (p_dispute (w_pers w))(i \<mapsto>
       opened_dispute env i (escrow_at w i) reason description evidence_hash))"
  by (auto simp: raise_dispute_def opened_dispute_def effect_defs wp not_less not_le)

section \<open>Resolution\<close>

text \<open>What a resolution round deducts: nothing once fees were charged, or on a timeout.\<close>

definition round_arbitration_fee :: "bool \<Rightarrow> u64 \<Rightarrow> world \<Rightarrow> int" where
  "round_arbitration_fee charge i w =
    (if d_fees_charged (dispute_at w i) \<or> \<not> charge then 0
     else bps_of (e_amount (escrow_at w i)) (f_arbitration_fee_bps (read_fee_config w)))"

definition round_resolver_fee :: "bool \<Rightarrow> u64 \<Rightarrow> world \<Rightarrow> int" where
  "round_resolver_fee charge i w =
    (if d_fees_charged (dispute_at w i) \<or> \<not> charge then 0
     else bps_of (e_amount (escrow_at w i)) (e_resolver_fee_bps (escrow_at w i)))"

definition resolved_dispute ::
  "env \<Rightarrow> u64 \<Rightarrow> address \<Rightarrow> ResolutionType \<Rightarrow> bool \<Rightarrow> world \<Rightarrow> DisputeData" where
  "resolved_dispute env i c r charge w = (let d = dispute_at w i in
     (set_resolution r d)\<lparr>d_resolved_by := Some c, d_resolved_at := env_now env,
       d_arbitration_fee := (if d_fees_charged d then d_arbitration_fee d
                             else round_arbitration_fee charge i w),
       d_resolver_fee := (if d_fees_charged d then d_resolver_fee d
                          else round_resolver_fee charge i w),
       d_fees_charged := True\<rparr>)"

definition resolves ::
  "env \<Rightarrow> u64 \<Rightarrow> address \<Rightarrow> ResolutionType \<Rightarrow> bool \<Rightarrow> world \<Rightarrow> world \<Rightarrow> bool" where
  "resolves env i c r charge w w' \<longleftrightarrow>
    alters env i ((escrow_at w i)\<lparr>e_amount := e_amount (escrow_at w i)
        - round_arbitration_fee charge i w - round_resolver_fee charge i w,
      e_state := PendingFinalization\<rparr>) w w' \<and>
    pays_last env [(e_token (escrow_at w i), collector_of w, round_arbitration_fee charge i w),
      (e_token (escrow_at w i), c, round_resolver_fee charge i w)] w w' \<and>
    p_dispute (w_pers w) i \<noteq> None \<and>
    p_dispute (w_pers w') =
      (p_dispute (w_pers w))(i \<mapsto> resolved_dispute env i c r charge w) \<and>
    round_arbitration_fee charge i w + round_resolver_fee charge i w \<le>
      max 0 (e_amount (escrow_at w i)) \<and>
    d_disputed_at (dispute_at w i) \<le> env_now env"

lemmas resolve_defs = execute_resolution_transition_def resolution_fees_def deduct_fees_def
  resolves_def resolved_dispute_def round_arbitration_fee_def round_resolver_fee_def
  dispute_at_def collector_of_def read_fee_config_def

lemma execute_resolution_transition_effect:
  assumes "p_escrow (w_pers w) i = Some e" "e_amount e \<le> i128_max"
  shows "post (execute_resolution_transition env i e c r votes charge w)
    (\<lambda>w'. resolves env i c r charge w w')"
  using assms by (auto simp: resolve_defs effect_defs wp not_less not_le)

text \<open>The transition depends on the storage only, and so does its effect.\<close>

lemma resolves_cong:
  "w_inst v = w_inst w \<Longrightarrow> w_pers v = w_pers w \<Longrightarrow> w_xfers v = w_xfers w \<Longrightarrow>
   resolves env i c r charge v w' = resolves env i c r charge w w'"
  by (simp add: resolve_defs effect_defs)

lemma resolves_reads [simp]:
  "resolves env i c r charge (publish ev w) w' = resolves env i c r charge w w'"
  "resolves env i c r charge (extend_ttl_for_key k w) w' = resolves env i c r charge w w'"
  by (rule resolves_cong; simp)+

lemma execute_resolution_transition_Inr:
  assumes "execute_resolution_transition env i e c r votes charge w = Inr w'"
    "p_escrow (w_pers w) i = Some e" "e_amount e \<le> i128_max"
  shows "resolves env i c r charge w w'"
  using postD [OF execute_resolution_transition_effect [OF assms(2,3)] assms(1)] .

definition votes_at :: "world \<Rightarrow> u64 \<Rightarrow> ResolverVote list" where
  "votes_at w i = unwrap_or (p_votes (w_pers w) i) []"

text \<open>A vote either decides the dispute or is only recorded.\<close>

definition votes_or_resolves ::
  "env \<Rightarrow> address \<Rightarrow> u64 \<Rightarrow> ResolutionType \<Rightarrow> world \<Rightarrow> world \<Rightarrow> bool" where
  "votes_or_resolves env c i r w w' \<longleftrightarrow>
    p_escrow (w_pers w) i \<noteq> None \<and> e_state (escrow_at w i) = Disputed \<and>
    can_resolve_now (e_resolvers (escrow_at w i)) c (env_now env) \<and>
    (let votes = update_vote c r (env_now env) (votes_at w i) in
     case tally_votes votes (rs_threshold (e_resolvers (escrow_at w i))) of
       Inl _ \<Rightarrow> False
     | Inr None \<Rightarrow> idle w w' \<and> settings (w_inst w') = settings (w_inst w) \<and>
         p_votes (w_pers w') = (p_votes (w_pers w))(i \<mapsto> votes)
     | Inr (Some decided) \<Rightarrow> resolves env i c decided True w w')"

lemma resolve_or_vote_effect:
  assumes "e_amount (escrow_at w i) \<le> i128_max"
  shows "post (resolve_or_vote_internal env c i r w) (\<lambda>w'. votes_or_resolves env c i r w w')"
  using assms
  by (auto simp: resolve_or_vote_internal_def votes_or_resolves_def add_or_update_vote_def
      load_resolver_votes_def votes_at_def idle_def Let_def escrow_at_def settings_def post_iff
      dest!: execute_resolution_transition_Inr split: sum.splits option.splits)

lemma claim_dispute_timeout_effect:
  assumes "e_amount (escrow_at w i) \<le> i128_max"
  shows "post (claim_dispute_timeout env c i w) (\<lambda>w'. resolves env i c Refund False w w' \<and>
    e_state (escrow_at w i) = Disputed \<and> (c = buyer_at w i \<or> c = payee_at w i) \<and> env_auth env c \<and>
    uint (d_disputed_at (dispute_at w i)) + uint (read_dispute_timeout w) \<le> uint (env_now env))"
  using assms
  by (auto simp: claim_dispute_timeout_def buyer_and_seller_def dispute_at_def effect_defs
      read_dispute_timeout_def post_iff not_less word_le_def uint_word_ariths
      dest!: execute_resolution_transition_Inr)

text \<open>The deadlock fallback: the majority decides, and its first voter is the actor.\<close>

lemma resolve_deadlocked_dispute_effect:
  assumes "e_amount (escrow_at w i) \<le> i128_max"
  shows "post (resolve_deadlocked_dispute env i w) (\<lambda>w'.
    (\<exists>actor. voter_for (votes_at w i) (tally_votes_majority (votes_at w i)) = Some actor \<and>
      resolves env i actor (tally_votes_majority (votes_at w i)) True w w') \<and>
    e_state (escrow_at w i) = Disputed \<and>
    tally_votes (votes_at w i) (rs_threshold (e_resolvers (escrow_at w i))) = Inr None \<and>
    uint (d_disputed_at (dispute_at w i)) + uint DISPUTE_DEADLOCK_WINDOW \<le> uint (env_now env))"
  using assms
  by (auto simp: resolve_deadlocked_dispute_def dispute_at_def votes_at_def load_resolver_votes_def
      escrow_at_def Let_def post_iff not_less word_le_def uint_word_ariths
      dest!: execute_resolution_transition_Inr)

section \<open>Finalization\<close>

definition final_basis :: "u64 \<Rightarrow> world \<Rightarrow> int" where
  "final_basis i w = e_amount (escrow_at w i) + d_arbitration_fee (dispute_at w i)
     + d_resolver_fee (dispute_at w i)"

definition final_platform_fee :: "u64 \<Rightarrow> world \<Rightarrow> int" where
  "final_platform_fee i w = bps_of (final_basis i w) (read_platform_fee_bps w)"

definition final_protocol_fee :: "u64 \<Rightarrow> world \<Rightarrow> int" where
  "final_protocol_fee i w = bps_of (final_basis i w) (e_fee_bps (escrow_at w i))"

definition final_recipient :: "ResolutionType \<Rightarrow> u64 \<Rightarrow> world \<Rightarrow> address" where
  "final_recipient r i w = (case r of Release \<Rightarrow> payee_at w i | Refund \<Rightarrow> buyer_at w i)"

definition final_state :: "ResolutionType \<Rightarrow> EscrowState" where
  "final_state r = (case r of Release \<Rightarrow> Completed | Refund \<Rightarrow> Refunded)"

definition final_outs :: "ResolutionType \<Rightarrow> u64 \<Rightarrow> world \<Rightarrow> out list" where
  "final_outs r i w = (let e = escrow_at w i; tk = e_token e in
    [(tk, the (g_treasury (read_global_config w)), final_platform_fee i w),
     (tk, final_recipient r i w,
      e_amount e - final_platform_fee i w - final_protocol_fee i w),
     (tk, collector_of w, final_protocol_fee i w)] @
    basket_outs tk (final_recipient r i w) (basket_of (w_pers w) i))"

lemma bps_of_0 [simp]: "bps_of a 0 = 0"
  by (simp add: bps_of_def)

lemma no_fee_bps [simp]: "\<not> 0 < (b::u32) \<longleftrightarrow> b = 0"
  using word_neq_0_conv by blast

lemma i128_ok_max [simp]: "i128_ok x \<Longrightarrow> x \<le> i128_max"
  by (simp add: i128_ok_def)

definition finalizes ::
  "env \<Rightarrow> address \<Rightarrow> u64 \<Rightarrow> ResolutionType \<Rightarrow> world \<Rightarrow> world \<Rightarrow> bool" where
  "finalizes env c i r w w' \<longleftrightarrow>
     alters env i ((escrow_at w i)\<lparr>e_state := final_state r\<rparr>) w w' \<and>
     pays_last env (final_outs r i w) w w' \<and>
     e_state (escrow_at w i) = PendingFinalization \<and>
     env_auth env c \<and> (r = Refund \<longrightarrow> e_buyer (escrow_at w i) \<noteq> None) \<and>
     e_fee_bps (escrow_at w i) \<le> BASIS_POINTS \<and>
     uint (d_resolved_at (dispute_at w i)) + uint APPEAL_WINDOW \<le> uint (env_now env) \<and>
     p_dispute (w_pers w) i \<noteq> None \<and> get_resolution (dispute_at w i) = Some r \<and>
     p_dispute (w_pers w') = (p_dispute (w_pers w))(i \<mapsto> (dispute_at w i)\<lparr>d_status := Resolved\<rparr>)"

lemma finalize_dispute_resolution:
  assumes "p_escrow (w_pers w) i = Some e" "p_dispute (w_pers w) i = Some d"
    "get_resolution d = Some r"
  shows "post (finalize_dispute env c i w) (finalizes env c i r w)"
  using assms
  apply (simp add: finalize_dispute_def resolution_recipient_def Let_def read_global_config_of
      read_platform_fee_bps_def read_treasury_def wp not_less cong: if_cong)
  apply (intro impI conjI allI)
   apply (simp_all add: finalizes_def final_basis_def final_platform_fee_def
      final_protocol_fee_def final_recipient_def final_state_def final_outs_def dispute_at_def
      effect_defs read_platform_fee_bps_def collector_of_def word_le_def uint_word_ariths)
  done

lemma finalize_dispute_effect:
  "post (finalize_dispute env c i w) (\<lambda>w'. \<exists>r. finalizes env c i r w w')"
proof (cases "p_escrow (w_pers w) i \<noteq> None \<and> p_dispute (w_pers w) i \<noteq> None \<and>
    get_resolution (the (p_dispute (w_pers w) i)) \<noteq> None")
  case True
  then obtain e d r where "p_escrow (w_pers w) i = Some e" "p_dispute (w_pers w) i = Some d"
    "get_resolution d = Some r" by auto
  from finalize_dispute_resolution [OF this] show ?thesis by (auto simp: post_iff)
next
  case False
  then show ?thesis by (auto simp: finalize_dispute_def wp)
qed

section \<open>Appeals\<close>

text \<open>The fee of an appeal is a transfer from the appellant to the collector.\<close>

definition appeal_xfers :: "u64 \<Rightarrow> address \<Rightarrow> world \<Rightarrow> transfer list" where
  "appeal_xfers i c w = (let fee = bps_of (e_amount (escrow_at w i)) (read_appeal_fee_bps w) in
    if 0 < fee then [\<lparr>tr_token = e_token (escrow_at w i), tr_from = c, tr_to = collector_of w,
                      tr_amount = fee\<rparr>] else [])"

definition appeals :: "env \<Rightarrow> address \<Rightarrow> u64 \<Rightarrow> world \<Rightarrow> world \<Rightarrow> bool" where
  "appeals env c i w w' \<longleftrightarrow>
     alters env i ((escrow_at w i)\<lparr>e_state := Disputed\<rparr>) w w' \<and>
     w_xfers w' = w_xfers w @ log_with (w_inst w', w_pers w') (appeal_xfers i c w) \<and>
     e_state (escrow_at w i) = PendingFinalization \<and> env_auth env c \<and>
     (e_buyer (escrow_at w i) = Some c \<or> c = payee_at w i) \<and>
     env_now env < d_resolved_at (dispute_at w i) + APPEAL_WINDOW \<and>
     d_appeal_count (dispute_at w i) < read_max_appeals w \<and>
     p_dispute (w_pers w) i \<noteq> None \<and> p_votes (w_pers w') i = None \<and>
     p_dispute (w_pers w') = (p_dispute (w_pers w))(i \<mapsto>
       (clear_resolution ((dispute_at w i)\<lparr>d_status := Active\<rparr>))\<lparr>d_appeal_count := d_appeal_count (dispute_at w i) + 1\<rparr>)"

lemma appeal_dispute_effect:
  assumes "e_amount (escrow_at w i) \<le> i128_max"
  shows "post (appeal_dispute env c i w) (appeals env c i w)"
proof (cases "p_escrow (w_pers w) i \<noteq> None \<and> p_dispute (w_pers w) i \<noteq> None")
  case True
  then obtain e d where "p_escrow (w_pers w) i = Some e" "p_dispute (w_pers w) i = Some d"
    by auto
  with assms show ?thesis
    apply (simp add: appeal_dispute_def Let_def read_global_config_of escrow_at_def
        read_appeal_fee_bps_def read_max_appeals_def wp not_le cong: if_cong)
    apply (intro impI conjI allI)
      apply (simp_all add: appeals_def appeal_xfers_def dispute_at_def effect_defs clear_resolution_def
        read_appeal_fee_bps_def read_max_appeals_def collector_of_def)
    done
next
  case False
  then show ?thesis by (auto simp: appeal_dispute_def wp)
qed

section \<open>Administrative cancellation\<close>

definition annulled :: "env \<Rightarrow> address \<Rightarrow> DisputeData \<Rightarrow> DisputeData" where
  "annulled env c d = d\<lparr>d_status := Resolved, d_resolved_by := Some c,
     d_resolution := resolution_discriminant Refund, d_resolved_at := env_now env\<rparr>"

lemma cancel_pending_finalization_effect:
  "post (cancel_pending_finalization env c i w) (\<lambda>w'. refunds_buyer env i Refunded w w' \<and>
     e_state (escrow_at w i) = PendingFinalization \<and> env_auth env c \<and>
     i_admin (w_inst w) = Some c \<and>
     p_dispute (w_pers w') = (if p_dispute (w_pers w) i = None then p_dispute (w_pers w)
       else (p_dispute (w_pers w))(i \<mapsto> annulled env c (dispute_at w i))))"
  by (auto simp: cancel_pending_finalization_def require_admin_caller_def require_admin_def
      refunds_buyer_def annulled_def dispute_at_def load_dispute_def effect_defs wp not_less)

end
