(* ===== verification/Creation_Steps.thy ===== *)
theory Creation_Steps
  imports Effects
begin

text \<open>
  The effect of the creation entry points: one fresh \<open>Pending\<close> escrow under the next id,
  and what the validations guarantee about it.
\<close>

section \<open>Validated parameters\<close>

definition total_bps :: "Payee list \<Rightarrow> int" where
  "total_bps payees = sum_list (map (\<lambda>p. uint (p_bps p)) payees)"

lemma total_bps_simps [simp]:
  "total_bps [] = 0" "total_bps (p # ps) = uint (p_bps p) + total_bps ps"
  by (simp_all add: total_bps_def)

lemma total_bps_nonneg: "0 \<le> total_bps ps"
  by (induction ps) simp_all

lemma add_payee_bps_total:
  "foldE add_payee_bps ps acc = Inr t \<Longrightarrow>
    uint t = uint acc + total_bps ps \<and> (\<forall>p \<in> set ps. p_address p \<noteq> zero_address)"
proof (induction ps arbitrary: acc)
  case (Cons p ps)
  from Cons.prems obtain a where a: "add_payee_bps p acc = Inr a" "foldE add_payee_bps ps a = Inr t"
    by auto
  from a(1) have "uint a = uint acc + uint (p_bps p)" "p_address p \<noteq> zero_address"
    by (auto simp: add_payee_bps_def uint_word_ariths)
  with Cons.IH [OF a(2)] show ?case by auto
qed simp

lemma validate_payees_Inr:
  assumes "validate_payees payees = Inr u"
  shows "payees \<noteq> []" "length payees \<le> MAX_PAYEES" "total_bps payees = 10000"
    "\<forall>p \<in> set payees. p_address p \<noteq> zero_address"
  using assms add_payee_bps_total [of payees 0]
  by (auto simp: validate_payees_def not_less)

text \<open>What every stored escrow satisfies from its creation on.\<close>

definition escrow_ok :: "Escrow \<Rightarrow> bool" where
  "escrow_ok e \<longleftrightarrow> 0 \<le> e_amount e \<and> e_amount e \<le> i128_max \<and>
    uint (e_fee_bps e) \<le> 300 \<and> uint (e_resolver_fee_bps e) \<le> 300 \<and>
    e_payees e \<noteq> [] \<and> total_bps (e_payees e) = 10000"

lemma escrow_okD:
  assumes "escrow_ok e"
  shows "0 \<le> e_amount e" "e_amount e \<le> i128_max" "uint (e_fee_bps e) \<le> 300"
    "uint (e_resolver_fee_bps e) \<le> 300" "e_payees e \<noteq> []" "total_bps (e_payees e) = 10000"
  using assms by (auto simp: escrow_ok_def)

lemma escrow_ok_keep [simp]:
  "escrow_ok (e\<lparr>e_state := s\<rparr>) = escrow_ok e"
  "escrow_ok (e\<lparr>e_buyer := b\<rparr>) = escrow_ok e"
  "escrow_ok (e\<lparr>e_packed_timestamps := t\<rparr>) = escrow_ok e"
  "escrow_ok (e\<lparr>e_shipped_at := u\<rparr>) = escrow_ok e"
  "escrow_ok (e\<lparr>e_delivered_at := v\<rparr>) = escrow_ok e"
  "escrow_ok (e\<lparr>e_tracking_id := x\<rparr>) = escrow_ok e"
  "escrow_ok (e\<lparr>e_resolvers := r\<rparr>) = escrow_ok e"
  by (simp_all add: escrow_ok_def)

section \<open>One new escrow\<close>

definition next_id :: "world \<Rightarrow> u64" where
  "next_id w = unwrap_or (i_escrow_counter (w_inst w)) 1"

definition creates ::
  "env \<Rightarrow> u64 \<Rightarrow> Escrow \<Rightarrow> (u64 \<Rightarrow> TokenEntry list option) \<Rightarrow> world \<Rightarrow> world \<Rightarrow> bool" where
  "creates env i e baskets w w' \<longleftrightarrow> i = next_id w \<and> uint i + 1 < 2 ^ 64 \<and>
    w_inst w' = (w_inst w)\<lparr>i_escrow_counter := Some (i + 1)\<rparr> \<and>
    p_escrow (w_pers w') = (p_escrow (w_pers w))(i \<mapsto> e) \<and>
    (p_escrow (w_pers w) i = None \<longrightarrow> p_history (w_pers w') =
      (p_history (w_pers w))(i \<mapsto> pushed_history env i Pending (w_pers w))) \<and>
    (\<forall>j. j \<noteq> i \<longrightarrow> p_history (w_pers w') j = p_history (w_pers w) j) \<and>
    p_dispute (w_pers w') = p_dispute (w_pers w) \<and> p_basket (w_pers w') = baskets \<and>
    w_xfers w' = w_xfers w \<and> escrow_ok e \<and> 0 < e_amount e \<and> e_state e = Pending \<and>
    e_packed_timestamps e = 0 \<and> e_delivered_at e = None \<and> e_shipped_at e = 0"

lemma save_new_escrow_fields [simp]:
  "p_escrow (w_pers (save_escrow env i e None w)) = (p_escrow (w_pers w))(i \<mapsto> e)"
  "p_dispute (w_pers (save_escrow env i e None w)) = p_dispute (w_pers w)"
  "p_basket (w_pers (save_escrow env i e None w)) = p_basket (w_pers w)"
  "j \<noteq> i \<Longrightarrow> p_history (w_pers (save_escrow env i e None w)) j = p_history (w_pers w) j"
  "p_escrow (w_pers w) i = None \<Longrightarrow> p_history (w_pers (save_escrow env i e None w)) =
    (p_history (w_pers w))(i \<mapsto> pushed_history env i (e_state e) (w_pers w))"
  by (auto simp: save_escrow_def append_state_history_def pushed_history_def Let_def
      split: option.split)

lemma post_next_escrow_id [wp]:
  "post (next_escrow_id w) P = (uint (next_id w) + 1 < 2 ^ 64 \<longrightarrow>
     P (next_id w, extend_instance_ttl (inst_update
       (i_escrow_counter_update (\<lambda>_. Some (next_id w + 1))) w)))"
  by (auto simp: next_escrow_id_def next_id_def wp Let_def)

lemma post_validate [wp]:
  "post (validate_shipping_window sw) Q = (validate_shipping_window sw = Inr () \<longrightarrow> Q ())"
  "post (validate_escrow_fee_bps b) Q = (uint b \<le> 300 \<longrightarrow> Q ())"
  "post (validate_resolver_fee_bps b) Q = (uint b \<le> 300 \<longrightarrow> Q ())"
  "post (validate_payees ps) Q = (validate_payees ps = Inr () \<longrightarrow> Q ())"
  "post (check_resolver_registry r w) Q = (check_resolver_registry r w = Inr () \<longrightarrow> Q ())"
  "post (is_token_allowed t w) Q = (is_token_allowed t w = Inr () \<longrightarrow> Q ())"
  "post (validate_resolvers env rs s buyer) Q = (validate_resolvers env rs s buyer = Inr () \<longrightarrow> Q ())"
  "post (check_expiration env x g) Q = (check_expiration env x g = Inr () \<longrightarrow> Q ())"
  "post (check_amounts cfg as) Q = (check_amounts cfg as = Inr () \<longrightarrow> Q ())"
  "post (check_positive_amounts M m as) Q = (check_positive_amounts M m as = Inr () \<longrightarrow> Q ())"
  "post (foldE (\<lambda>token _. is_token_allowed token w) ts ()) Q =
    (foldE (\<lambda>token _. is_token_allowed token w) ts () = Inr () \<longrightarrow> Q ())"
  by (auto simp: post_iff validate_escrow_fee_bps_def validate_resolver_fee_bps_def
      MAX_ESCROW_FEE_BPS_def word_le_def word_less_def not_less)

lemma create_escrow_internal_effect:
  assumes "amount \<le> i128_max"
  shows "post (create_escrow_internal env payees buyer resolver token amount fee_bps resolver_fee_bps
      shipping_window notes expires_at grace w) (\<lambda>(i, w').
    creates env i (new_escrow payees buyer (Single resolver) token amount fee_bps resolver_fee_bps
      shipping_window notes expires_at grace) (p_basket (w_pers w)) w w' \<and>
    \<not> payee_conflict resolver buyer payees \<and> buyer \<noteq> Some resolver \<and>
    check_resolver_registry resolver w = Inr () \<and> is_token_allowed token w = Inr ())"
  using assms validate_payees_Inr [of payees]
  apply (simp add: create_escrow_internal_def Let_def wp not_less cong: if_cong)
  apply (intro impI conjI allI)
       apply (simp_all add: creates_def new_escrow_def escrow_ok_def next_id_def)
  done

text \<open>The entry points on top of the shared path: exactly one escrow is created.\<close>

definition creates_one :: "env \<Rightarrow> world \<Rightarrow> u64 \<times> world \<Rightarrow> bool" where
  "creates_one env w = (\<lambda>(i, w'). creates env i (escrow_at w' i) (p_basket (w_pers w)) w w')"

lemmas creates_one_defs = creates_one_def creates_def new_escrow_def escrow_ok_def next_id_def
  escrow_at_def

lemma create_escrow_internal_one:
  "amount \<le> i128_max \<Longrightarrow> post (create_escrow_internal env payees buyer resolver token amount
     fee_bps resolver_fee_bps shipping_window notes expires_at grace w) (creates_one env w)"
  using validate_payees_Inr [of payees]
  apply (simp add: create_escrow_internal_def Let_def wp not_less cong: if_cong)
  apply (intro impI conjI allI)
  apply (simp_all add: creates_one_defs)
  done

lemma create_escrow_one:
  "amount \<le> i128_max \<Longrightarrow> post (create_escrow env sp buyer resolver token amount fee_bps
     resolver_fee_bps shipping_window notes w) (creates_one env w)"
  using create_escrow_internal_one by (simp add: create_escrow_def wp)

lemma create_escrow_8_one:
  "amount \<le> i128_max \<Longrightarrow> post (create_escrow_8 env sp buyer resolver token amount fee_bps
     shipping_window w) (creates_one env w)"
  by (simp add: create_escrow_8_def create_escrow_one)

lemma create_escrow_7_one:
  "amount \<le> i128_max \<Longrightarrow> post (create_escrow_7 env sp buyer resolver token amount fee_bps w)
     (creates_one env w)"
  by (simp add: create_escrow_7_def create_escrow_one)

lemma create_escrow_with_expiration_one:
  assumes "amount \<le> i128_max"
  shows "post (create_escrow_with_expiration env seller buyer resolver token amount fee_bps
     shipping_window expires_at grace w) (creates_one env w)"
proof -
  let ?run = "create_escrow_internal env [\<lparr>p_address = seller, p_bps = 10000\<rparr>] buyer resolver token
    amount fee_bps 0 shipping_window [] expires_at grace w"
  have "post ?run (\<lambda>x. creates_one env w (fst x, case expires_at of None \<Rightarrow> snd x
      | Some t \<Rightarrow> save_pending_expiry (fst x) t grace (snd x)))"
    using create_escrow_internal_one [OF assms] by (auto simp: post_iff creates_one_defs split: option.split)
  then show ?thesis
    by (cases expires_at) (auto simp: create_escrow_with_expiration_def wp post_iff case_prod_beta)
qed

lemma create_escrow_multi_one:
  "amount \<le> i128_max \<Longrightarrow> post (create_escrow_multi env seller buyer resolvers threshold token
     amount fee_bps shipping_window w) (creates_one env w)"
  apply (simp add: create_escrow_multi_def Let_def wp not_less cong: if_cong)
  apply (intro impI conjI allI)
  apply (simp add: creates_one_defs)
  done

lemma create_escrow_with_fallback_one:
  "amount \<le> i128_max \<Longrightarrow> post (create_escrow_with_fallback env seller buyer primary backup
     deadline token amount fee_bps shipping_window w) (creates_one env w)"
  apply (simp add: create_escrow_with_fallback_def Let_def wp not_less cong: if_cong)
  apply (intro impI conjI allI)
  apply (simp add: creates_one_defs)
  done

section \<open>Baskets\<close>

lemma check_positive_amounts_Inr:
  "check_positive_amounts M m as = Inr u \<Longrightarrow> a \<in> set as \<Longrightarrow> 0 < a \<and> a \<le> M \<and> m \<le> a"
  by (induction M m as rule: check_positive_amounts.induct) (auto split: if_splits)

lemma has_duplicate_iff: "has_duplicate xs \<longleftrightarrow> \<not> distinct xs"
  by (induction xs) auto

definition basket_entries :: "address list \<Rightarrow> int list \<Rightarrow> TokenEntry list" where
  "basket_entries tokens amounts = map2 (\<lambda>t a. \<lparr>te_token = t, te_amount = a\<rparr>) tokens amounts"

text \<open>
  A basket belongs to its escrow: distinct tokens, positive amounts, and the escrow's own
  token and amount first.
\<close>

definition basket_ok :: "Escrow \<Rightarrow> TokenEntry list \<Rightarrow> bool" where
  "basket_ok e tokens \<longleftrightarrow> distinct (map te_token tokens) \<and> (\<forall>t \<in> set tokens. 0 < te_amount t) \<and>
    tokens \<noteq> [] \<and> te_token (hd tokens) = e_token e \<and> length tokens \<le> MAX_BASKET_SIZE"

lemma hd_basket_entries [simp]:
  "tokens \<noteq> [] \<Longrightarrow> amounts \<noteq> [] \<Longrightarrow> te_amount (hd (basket_entries tokens amounts)) = hd amounts"
  "tokens \<noteq> [] \<Longrightarrow> amounts \<noteq> [] \<Longrightarrow> te_token (hd (basket_entries tokens amounts)) = hd tokens"
  "tokens \<noteq> [] \<Longrightarrow> amounts \<noteq> [] \<Longrightarrow> basket_entries tokens amounts \<noteq> []"
  by (cases tokens; cases amounts; simp add: basket_entries_def)+

lemma basket_entries_ok:
  assumes "check_positive_amounts M m amounts = Inr u" "length tokens = length amounts"
    "\<not> has_duplicate tokens" "tokens \<noteq> []" "length amounts \<le> MAX_BASKET_SIZE"
    "e_token e = hd tokens"
  shows "basket_ok e (basket_entries tokens amounts)"
proof -
  have "map te_token (basket_entries tokens amounts) = tokens"
    using assms(2) by (simp add: basket_entries_def comp_def case_prod_beta)
  moreover have "t \<in> set (basket_entries tokens amounts) \<Longrightarrow> 0 < te_amount t" for t
    using check_positive_amounts_Inr [OF assms(1)]
    by (auto simp: basket_entries_def dest: set_zip_rightD)
  moreover have "length (basket_entries tokens amounts) \<le> MAX_BASKET_SIZE"
    using assms(2,5) by (simp add: basket_entries_def)
  moreover have "amounts \<noteq> []" using assms(2,4) by auto
  ultimately show ?thesis
    using assms(3,4,6) by (simp add: basket_ok_def has_duplicate_iff)
qed

definition creates_basket ::
  "env \<Rightarrow> world \<Rightarrow> TokenEntry list \<Rightarrow> u64 \<times> world \<Rightarrow> bool" where
  "creates_basket env w entries = (\<lambda>(i, w').
    creates env i (escrow_at w' i) ((p_basket (w_pers w))(i \<mapsto> entries)) w w' \<and>
    basket_ok (escrow_at w' i) entries \<and> e_amount (escrow_at w' i) = te_amount (hd entries))"

lemma create_basket_escrow_effect:
  assumes "list_all (\<lambda>a. a \<le> i128_max) amounts"
  shows "post (create_basket_escrow env seller buyer resolver tokens amounts fee_bps shipping_window
      notes expires_at grace w) (creates_basket env w (basket_entries tokens amounts))"
proof -
  have hd: "amounts \<noteq> [] \<Longrightarrow> hd amounts \<le> i128_max" using assms by (cases amounts) auto
  have pos: "amounts \<noteq> [] \<Longrightarrow> check_positive_amounts (g_max_amount (read_global_config w))
      (g_min_amount (read_global_config w)) amounts = Inr () \<Longrightarrow> 0 < hd amounts \<and> 0 \<le> hd amounts"
    using check_positive_amounts_Inr [of _ _ amounts "()" "hd amounts"] by fastforce
  show ?thesis
    apply (simp add: create_basket_escrow_def Let_def wp not_less read_vendor_escrow_index_def
        write_vendor_escrow_index_def basket_entries_def [symmetric] cong: if_cong)
    apply (intro impI conjI allI)
    using hd pos
     apply (auto simp: creates_basket_def creates_one_defs intro!: basket_entries_ok split: option.splits)
    done
qed

end
