(* ===== verification/State_Machine.thy ===== *)
theory State_Machine
  imports Effects
begin

unbundle bit_operations_syntax

text \<open>
  The state machine an escrow obeys: the legal transitions, what else of an escrow may
  change along them, and the bounded history that records them.
\<close>

section \<open>Transitions\<close>

text \<open>One rule per transition the code performs.\<close>

inductive legal :: "EscrowState \<Rightarrow> EscrowState \<Rightarrow> bool" where
  fund: "legal Pending Funded"
| drop_pending: "legal Pending Canceled"
| ship: "legal Funded Shipped"
| release_funded: "legal Funded Completed"
| cancel_funded: "legal Funded Canceled"
| refund_funded: "legal Funded Refunded"
| expire_funded: "legal Funded Expired"
| dispute_funded: "legal Funded Disputed"
| ask_refund: "legal Funded RefundRequested"
| release_shipped: "legal Shipped Completed"
| cancel_shipped: "legal Shipped Canceled"
| refund_shipped: "legal Shipped Refunded"
| expire_shipped: "legal Shipped Expired"
| dispute_shipped: "legal Shipped Disputed"
| ship_anyway: "legal RefundRequested Shipped"
| approve: "legal RefundRequested Refunded"
| resolve: "legal Disputed PendingFinalization"
| refund_disputed: "legal Disputed Refunded"
| appeal: "legal PendingFinalization Disputed"
| finalize_release: "legal PendingFinalization Completed"
| finalize_refund: "legal PendingFinalization Refunded"

inductive_simps legal_simps [simp]:
  "legal Pending s" "legal Funded s" "legal Shipped s" "legal Completed s" "legal Disputed s"
  "legal RefundRequested s" "legal Refunded s" "legal Canceled s" "legal PendingFinalization s"
  "legal Expired s"

inductive_cases legalE: "legal s t"

code_pred legal .

definition is_final :: "EscrowState \<Rightarrow> bool" where
  "is_final s \<longleftrightarrow> s \<in> {Completed, Refunded, Canceled, Expired}"

definition is_live :: "EscrowState \<Rightarrow> bool" where
  "is_live s \<longleftrightarrow> s \<in> {Funded, Shipped, RefundRequested, Disputed, PendingFinalization}"

lemma final_live_simps [simp]:
  "is_final Completed" "is_final Refunded" "is_final Canceled" "is_final Expired"
  "\<not> is_final Pending" "\<not> is_final Funded" "\<not> is_final Shipped" "\<not> is_final Disputed"
  "\<not> is_final RefundRequested" "\<not> is_final PendingFinalization"
  "is_live Funded" "is_live Shipped" "is_live RefundRequested" "is_live Disputed"
  "is_live PendingFinalization" "\<not> is_live Pending" "\<not> is_live Completed"
  "\<not> is_live Refunded" "\<not> is_live Canceled" "\<not> is_live Expired"
  by (simp_all add: is_final_def is_live_def)

lemma final_stuck: "is_final s \<Longrightarrow> \<not> legal s t"
  by (cases s) auto

lemma final_not_live: "is_final s \<Longrightarrow> \<not> is_live s"
  by (cases s) auto

section \<open>What may change of an escrow\<close>

text \<open>A panel of resolvers, or one with a fallback, is for good; a single resolver may be replaced.\<close>

definition rotates :: "ResolverSet \<Rightarrow> ResolverSet \<Rightarrow> bool" where
  "rotates r r' \<longleftrightarrow> r' = r \<or> (\<exists>a b. r = Single a \<and> r' = Single b)"

lemma rotates_simps [simp]: "rotates r r" "rotates (Single a) (Single b)"
  by (simp_all add: rotates_def)

lemma rotates_trans: "rotates q r \<Longrightarrow> rotates r s \<Longrightarrow> rotates q s"
  by (auto simp: rotates_def)

definition evolves :: "Escrow \<Rightarrow> Escrow \<Rightarrow> bool" where
  "evolves e e' \<longleftrightarrow>
    e_payees e' = e_payees e \<and> e_token e' = e_token e \<and> e_fee_bps e' = e_fee_bps e \<and>
    e_resolver_fee_bps e' = e_resolver_fee_bps e \<and> e_shipping_window e' = e_shipping_window e \<and>
    e_notes e' = e_notes e \<and> e_expires_at e' = e_expires_at e \<and>
    e_grace_period e' = e_grace_period e \<and> rotates (e_resolvers e) (e_resolvers e') \<and>
    (e_state e' = e_state e \<or> legal (e_state e) (e_state e')) \<and>
    (is_final (e_state e) \<longrightarrow> e' = e) \<and>
    e_amount e' \<le> e_amount e \<and>
    (e_amount e' = e_amount e \<or> e_state e = Disputed \<and> e_state e' = PendingFinalization) \<and>
    (e_buyer e = None \<or> e_buyer e' = e_buyer e) \<and>
    (e_delivered_at e = None \<or> e_delivered_at e' = e_delivered_at e) \<and>
    (e_packed_timestamps e' = e_packed_timestamps e \<or> e_state e = Pending \<and> e_state e' = Funded)"

lemma evolves_refl [simp]: "evolves e e"
  by (simp add: evolves_def)

section \<open>The recorded history\<close>

text \<open>An entry unpacks to its state and the low 56 bits of its time.\<close>

lemma history_timestamp_mask: "HISTORY_TIMESTAMP_MASK = mask 56"
  by (simp add: const_defs mask_eq_exp_minus_1 push_bit_eq_mult)

lemma unpack_pack_history_entry:
  "unpack_history_entry (pack_history_entry s t) = (s, take_bit 56 t)"
proof -
  let ?c = "ucast (to_history_code s) :: u64"
  have "ucast (drop_bit 56 (push_bit 56 ?c OR take_bit 56 t)) = to_history_code s"
    by (rule bit_word_eqI) (auto simp: bit_simps)
  moreover have "(push_bit 56 ?c OR take_bit 56 t) AND mask 56 = take_bit 56 t"
    by (rule bit_word_eqI) (auto simp: bit_simps)
  ultimately show ?thesis
    by (simp add: unpack_history_entry_def pack_history_entry_def history_timestamp_mask
        HISTORY_TIMESTAMP_BITS_def take_bit_eq_mask [symmetric])
qed

definition history_states :: "u64 list \<Rightarrow> EscrowState list" where
  "history_states h = map (\<lambda>x. fst (unpack_history_entry x)) h"

text \<open>Bounded, ending in the current state, and every adjacent pair a legal transition.\<close>

definition history_ok :: "EscrowState \<Rightarrow> u64 list \<Rightarrow> bool" where
  "history_ok s h \<longleftrightarrow> h \<noteq> [] \<and> length h \<le> MAX_STATE_HISTORY_ENTRIES \<and>
    last (history_states h) = s \<and> successively legal (history_states h)"

lemma successively_drop: "successively P xs \<Longrightarrow> successively P (drop n xs)"
  by (metis append_take_drop_id successively_append_iff)

lemma history_ok_new: "history_ok s [pack_history_entry s t]"
  by (simp add: history_ok_def history_states_def unpack_pack_history_entry const_defs)

lemma history_ok_push:
  assumes "history_ok s h" "legal s s'"
  shows "history_ok s' (drop (length h + 1 - MAX_STATE_HISTORY_ENTRIES)
    (h @ [pack_history_entry s' t]))"
proof -
  let ?g = "h @ [pack_history_entry s' t]" and ?n = "length h + 1 - MAX_STATE_HISTORY_ENTRIES"
  have n: "?n < length ?g" by (simp add: const_defs)
  have "successively legal (history_states ?g)"
    using assms by (simp add: history_ok_def history_states_def unpack_pack_history_entry
        successively_append_iff)
  then have "successively legal (history_states (drop ?n ?g))"
    by (simp only: history_states_def drop_map [symmetric] successively_drop)
  moreover have "last (history_states (drop ?n ?g)) = s'"
    using n by (simp add: history_states_def last_map unpack_pack_history_entry)
  moreover have "drop ?n ?g \<noteq> []" using n by simp
  moreover have "length (drop ?n ?g) \<le> MAX_STATE_HISTORY_ENTRIES" by simp
  ultimately show ?thesis unfolding history_ok_def by blast
qed

lemma pushed_history_ok:
  assumes "p_history p i = Some h" "history_ok s h" "legal s s'"
  shows "history_ok s' (pushed_history env i s' p)"
  using history_ok_push [OF assms(2,3)] assms(1) by (simp add: pushed_history_def Let_def)

lemma pushed_history_new:
  "p_history p i = None \<Longrightarrow> history_ok s (pushed_history env i s p)"
  using history_ok_new by (simp add: pushed_history_def Let_def const_defs)

end
