(* ===== verification/Governance.thy ===== *)
theory Governance
  imports Effects
begin

text \<open>
  Administration as a client sees it: the twenty operations behind the two-step timelock,
  with one contract for all of them (a locale interpreted on the model's own functions), and
  the bounds every setting keeps.
\<close>

section \<open>The timelocked operations\<close>

text \<open>One constructor per \<open>queue_x\<close>/\<open>execute_x\<close> pair, with the arguments of the pair.\<close>

datatype timelocked =
  LSetAppealFee u32
| LSetAdmin address
| LUpgrade bytes
| LSetArbitrationFee u32
| LSetPlatformFee u32
| LSetTreasury address
| LSetFeeCollector address
| LSetTtlExtension u32
| LSetAmountLimits int int
| LAddApprovedResolver address
| LRemoveApprovedResolver address
| LSetResolverStrict bool
| LSetAllowlistEnabled bool
| LAddAllowedToken address
| LRemoveAllowedToken address
| LPauseContract
| LUnpauseContract
| LSetMaxAppeals u32
| LSetMaxBasketSize u32
| LSetTimelockDelay u64

fun tl_op :: "timelocked \<Rightarrow> TimelockOperation" where
  "tl_op (LSetAppealFee x) = SetAppealFee"
| "tl_op (LSetAdmin x) = SetAdmin"
| "tl_op (LUpgrade x) = Upgrade"
| "tl_op (LSetArbitrationFee x) = SetArbitrationFee"
| "tl_op (LSetPlatformFee x) = SetPlatformFee"
| "tl_op (LSetTreasury x) = SetTreasury"
| "tl_op (LSetFeeCollector x) = SetFeeCollector"
| "tl_op (LSetTtlExtension x) = SetTtlExtension"
| "tl_op (LSetAmountLimits x y) = SetAmountLimits"
| "tl_op (LAddApprovedResolver x) = AddApprovedResolver"
| "tl_op (LRemoveApprovedResolver x) = RemoveApprovedResolver"
| "tl_op (LSetResolverStrict x) = SetResolverStrict"
| "tl_op (LSetAllowlistEnabled x) = SetTokenAllowlistEnabled"
| "tl_op (LAddAllowedToken x) = AddAllowedToken"
| "tl_op (LRemoveAllowedToken x) = RemoveAllowedToken"
| "tl_op LPauseContract = PauseContract"
| "tl_op LUnpauseContract = UnpauseContract"
| "tl_op (LSetMaxAppeals x) = SetMaxAppeals"
| "tl_op (LSetMaxBasketSize x) = SetMaxBasketSize"
| "tl_op (LSetTimelockDelay x) = SetTimelockDelay"

fun tl_params :: "timelocked \<Rightarrow> val list" where
  "tl_params (LSetAppealFee x) = [VU32 x]"
| "tl_params (LSetAdmin x) = [VAddress x]"
| "tl_params (LUpgrade x) = [VBytes x]"
| "tl_params (LSetArbitrationFee x) = [VU32 x]"
| "tl_params (LSetPlatformFee x) = [VU32 x]"
| "tl_params (LSetTreasury x) = [VAddress x]"
| "tl_params (LSetFeeCollector x) = [VAddress x]"
| "tl_params (LSetTtlExtension x) = [VU32 x]"
| "tl_params (LSetAmountLimits x y) = [VI128 x, VI128 y]"
| "tl_params (LAddApprovedResolver x) = [VAddress x]"
| "tl_params (LRemoveApprovedResolver x) = [VAddress x]"
| "tl_params (LSetResolverStrict x) = [VBool x]"
| "tl_params (LSetAllowlistEnabled x) = [VBool x]"
| "tl_params (LAddAllowedToken x) = [VAddress x]"
| "tl_params (LRemoveAllowedToken x) = [VAddress x]"
| "tl_params LPauseContract = []"
| "tl_params LUnpauseContract = []"
| "tl_params (LSetMaxAppeals x) = [VU32 x]"
| "tl_params (LSetMaxBasketSize x) = [VU32 x]"
| "tl_params (LSetTimelockDelay x) = [VU64 x]"

fun tl_queue :: "env \<Rightarrow> address \<Rightarrow> timelocked \<Rightarrow> world \<Rightarrow> world res" where
  "tl_queue env c (LSetAppealFee x) = queue_set_appeal_fee env c x"
| "tl_queue env c (LSetAdmin x) = queue_set_admin env c x"
| "tl_queue env c (LUpgrade x) = queue_upgrade env c x"
| "tl_queue env c (LSetArbitrationFee x) = queue_set_arbitration_fee env c x"
| "tl_queue env c (LSetPlatformFee x) = queue_set_platform_fee env c x"
| "tl_queue env c (LSetTreasury x) = queue_set_treasury env c x"
| "tl_queue env c (LSetFeeCollector x) = queue_set_fee_collector env c x"
| "tl_queue env c (LSetTtlExtension x) = queue_set_ttl_extension env c x"
| "tl_queue env c (LSetAmountLimits x y) = queue_set_amount_limits env c x y"
| "tl_queue env c (LAddApprovedResolver x) = queue_add_approved_resolver env c x"
| "tl_queue env c (LRemoveApprovedResolver x) = queue_remove_approved_resolver env c x"
| "tl_queue env c (LSetResolverStrict x) = queue_set_resolver_strict env c x"
| "tl_queue env c (LSetAllowlistEnabled x) = queue_set_allowlist_enabled env c x"
| "tl_queue env c (LAddAllowedToken x) = queue_add_allowed_token env c x"
| "tl_queue env c (LRemoveAllowedToken x) = queue_remove_allowed_token env c x"
| "tl_queue env c LPauseContract = queue_pause_contract env c"
| "tl_queue env c LUnpauseContract = queue_unpause_contract env c"
| "tl_queue env c (LSetMaxAppeals x) = queue_set_max_appeals env c x"
| "tl_queue env c (LSetMaxBasketSize x) = queue_set_max_basket_size env c x"
| "tl_queue env c (LSetTimelockDelay x) = queue_set_timelock_delay env c x"

fun tl_execute :: "env \<Rightarrow> address \<Rightarrow> timelocked \<Rightarrow> world \<Rightarrow> world res" where
  "tl_execute env c (LSetAppealFee x) = execute_set_appeal_fee env c x"
| "tl_execute env c (LSetAdmin x) = execute_set_admin env c x"
| "tl_execute env c (LUpgrade x) = execute_upgrade env c x"
| "tl_execute env c (LSetArbitrationFee x) = execute_set_arbitration_fee env c x"
| "tl_execute env c (LSetPlatformFee x) = execute_set_platform_fee env c x"
| "tl_execute env c (LSetTreasury x) = execute_set_treasury env c x"
| "tl_execute env c (LSetFeeCollector x) = execute_set_fee_collector env c x"
| "tl_execute env c (LSetTtlExtension x) = execute_set_ttl_extension env c x"
| "tl_execute env c (LSetAmountLimits x y) = execute_set_amount_limits env c x y"
| "tl_execute env c (LAddApprovedResolver x) = execute_add_approved_resolver env c x"
| "tl_execute env c (LRemoveApprovedResolver x) = execute_remove_approved_resolver env c x"
| "tl_execute env c (LSetResolverStrict x) = execute_set_resolver_strict env c x"
| "tl_execute env c (LSetAllowlistEnabled x) = execute_set_allowlist_enabled env c x"
| "tl_execute env c (LAddAllowedToken x) = execute_add_allowed_token env c x"
| "tl_execute env c (LRemoveAllowedToken x) = execute_remove_allowed_token env c x"
| "tl_execute env c LPauseContract = execute_pause_contract env c"
| "tl_execute env c LUnpauseContract = execute_unpause_contract env c"
| "tl_execute env c (LSetMaxAppeals x) = execute_set_max_appeals env c x"
| "tl_execute env c (LSetMaxBasketSize x) = execute_set_max_basket_size env c x"
| "tl_execute env c (LSetTimelockDelay x) = execute_set_timelock_delay env c x"

fun tl_apply :: "env \<Rightarrow> address \<Rightarrow> timelocked \<Rightarrow> world \<Rightarrow> world res" where
  "tl_apply env c (LSetAppealFee x) = apply_set_appeal_fee env c x"
| "tl_apply env c (LSetAdmin x) = apply_set_admin env c x"
| "tl_apply env c (LUpgrade x) = apply_upgrade env c x"
| "tl_apply env c (LSetArbitrationFee x) = apply_set_arbitration_fee env c x"
| "tl_apply env c (LSetPlatformFee x) = apply_set_platform_fee env c x"
| "tl_apply env c (LSetTreasury x) = apply_set_treasury env c x"
| "tl_apply env c (LSetFeeCollector x) = apply_set_fee_collector env c x"
| "tl_apply env c (LSetTtlExtension x) = apply_set_ttl_extension env c x"
| "tl_apply env c (LSetAmountLimits x y) = apply_set_amount_limits env c x y"
| "tl_apply env c (LAddApprovedResolver x) = apply_add_approved_resolver env c x"
| "tl_apply env c (LRemoveApprovedResolver x) = apply_remove_approved_resolver env c x"
| "tl_apply env c (LSetResolverStrict x) = apply_set_resolver_strict env c x"
| "tl_apply env c (LSetAllowlistEnabled x) = apply_set_allowlist_enabled env c x"
| "tl_apply env c (LAddAllowedToken x) = apply_add_allowed_token env c x"
| "tl_apply env c (LRemoveAllowedToken x) = apply_remove_allowed_token env c x"
| "tl_apply env c LPauseContract = apply_pause_contract env c"
| "tl_apply env c LUnpauseContract = apply_unpause_contract env c"
| "tl_apply env c (LSetMaxAppeals x) = apply_set_max_appeals env c x"
| "tl_apply env c (LSetMaxBasketSize x) = apply_set_max_basket_size env c x"
| "tl_apply env c (LSetTimelockDelay x) = apply_set_timelock_delay env c x"

lemmas queue_defs = queue_set_appeal_fee_def queue_set_admin_def queue_upgrade_def
  queue_set_arbitration_fee_def queue_set_platform_fee_def queue_set_treasury_def
  queue_set_fee_collector_def queue_set_ttl_extension_def queue_set_amount_limits_def
  queue_add_approved_resolver_def queue_remove_approved_resolver_def
  queue_set_resolver_strict_def queue_set_allowlist_enabled_def queue_add_allowed_token_def
  queue_remove_allowed_token_def queue_pause_contract_def queue_unpause_contract_def
  queue_set_max_appeals_def queue_set_max_basket_size_def queue_set_timelock_delay_def

lemmas execute_defs = execute_set_appeal_fee_def execute_set_admin_def execute_upgrade_def
  execute_set_arbitration_fee_def execute_set_platform_fee_def execute_set_treasury_def
  execute_set_fee_collector_def execute_set_ttl_extension_def execute_set_amount_limits_def
  execute_add_approved_resolver_def execute_remove_approved_resolver_def
  execute_set_resolver_strict_def execute_set_allowlist_enabled_def execute_add_allowed_token_def
  execute_remove_allowed_token_def execute_pause_contract_def execute_unpause_contract_def
  execute_set_max_appeals_def execute_set_max_basket_size_def execute_set_timelock_delay_def

lemmas apply_defs = apply_set_appeal_fee_def apply_set_admin_def apply_upgrade_def
  apply_set_arbitration_fee_def apply_set_platform_fee_def apply_set_treasury_def
  apply_set_fee_collector_def apply_set_ttl_extension_def apply_set_amount_limits_def
  apply_add_approved_resolver_def apply_remove_approved_resolver_def
  apply_set_resolver_strict_def apply_set_allowlist_enabled_def apply_add_allowed_token_def
  apply_remove_allowed_token_def apply_pause_contract_def apply_unpause_contract_def
  apply_set_max_appeals_def apply_set_max_basket_size_def apply_set_timelock_delay_def

section \<open>What queueing and executing do\<close>

definition proposal_of :: "env \<Rightarrow> address \<Rightarrow> TimelockOperation \<Rightarrow> val list \<Rightarrow> u64 \<Rightarrow> TimelockProposal" where
  "proposal_of env c op params delay = \<lparr>tp_operation = op, tp_proposer = c,
     tp_params_hash = env_params_hash env params, tp_queued_at = env_now env,
     tp_ready_at = env_now env + delay\<rparr>"

definition delay_of :: "world \<Rightarrow> u64" where
  "delay_of w = unwrap_or (i_admin_timelock_delay (w_inst w)) ADMIN_TIMELOCK_DELAY_SECONDS"

definition queues :: "env \<Rightarrow> address \<Rightarrow> TimelockOperation \<Rightarrow> val list \<Rightarrow> world \<Rightarrow> world \<Rightarrow> bool" where
  "queues env c op params w w' \<longleftrightarrow>
    env_auth env c \<and> i_admin (w_inst w) = Some c \<and> length params \<le> MAX_TIMELOCK_PARAMS \<and>
    uint (env_now env) + uint (delay_of w) < 2 ^ 64 \<and>
    w_inst w' = (w_inst w)\<lparr>i_timelock := (i_timelock (w_inst w))
      (timelock_code op \<mapsto> proposal_of env c op params (delay_of w))\<rparr> \<and>
    w_pers w' = w_pers w \<and> w_xfers w' = w_xfers w"

lemma write_timelock_frame [simp]:
  "w_inst (write_timelock_proposal k p w) =
    (w_inst w)\<lparr>i_timelock := (i_timelock (w_inst w))(k \<mapsto> p)\<rparr>"
  "w_inst (remove_timelock_proposal k w) =
    (w_inst w)\<lparr>i_timelock := (i_timelock (w_inst w))(k := None)\<rparr>"
  "w_pers (write_timelock_proposal k p w) = w_pers w"
  "w_xfers (write_timelock_proposal k p w) = w_xfers w"
  "w_wasm (write_timelock_proposal k p w) = w_wasm w"
  "w_pers (remove_timelock_proposal k w) = w_pers w"
  "w_xfers (remove_timelock_proposal k w) = w_xfers w"
  "w_wasm (remove_timelock_proposal k w) = w_wasm w"
  by (auto simp: write_timelock_proposal_def remove_timelock_proposal_def)

lemma queue_timelock_op_effect:
  "post (queue_timelock_op env c (timelock_code op) params w) (queues env c op params w)"
  by (auto simp: queue_timelock_op_def require_admin_caller_def require_admin_def queues_def
      proposal_of_def delay_of_def wp Let_def not_less split: option.splits)

text \<open>Executing consumes a proposal that is ready, the caller's own, and for these parameters.\<close>

definition consumes ::
  "env \<Rightarrow> address \<Rightarrow> TimelockOperation \<Rightarrow> val list \<Rightarrow> TimelockProposal \<Rightarrow> world \<Rightarrow> world \<Rightarrow> bool" where
  "consumes env c op params p w w' \<longleftrightarrow>
    i_timelock (w_inst w) (timelock_code op) = Some p \<and>
    tp_ready_at p \<le> env_now env \<and> tp_proposer p = c \<and>
    tp_params_hash p = env_params_hash env params \<and>
    w_inst w' = (w_inst w)\<lparr>i_timelock := (i_timelock (w_inst w))(timelock_code op := None)\<rparr> \<and>
    w_pers w' = w_pers w \<and> w_xfers w' = w_xfers w"

lemma execute_timelock_op_effect:
  "execute_timelock_op env c op params w = Inr (p, w') \<Longrightarrow> consumes env c op params p w w'"
  by (auto simp: execute_timelock_op_def read_timelock_proposal_def consumes_def Let_def not_less
      split: option.splits)

section \<open>The contract of a timelocked operation\<close>

text \<open>
  \<open>queue\<close> records a proposal, \<open>execute\<close> consumes it and then runs \<open>apply\<close>, which leaves the
  proposals alone.
\<close>

locale timelock_contract =
  fixes op :: "'a \<Rightarrow> TimelockOperation"
    and params :: "'a \<Rightarrow> val list"
    and queue :: "env \<Rightarrow> address \<Rightarrow> 'a \<Rightarrow> world \<Rightarrow> world res"
    and execute :: "env \<Rightarrow> address \<Rightarrow> 'a \<Rightarrow> world \<Rightarrow> world res"
    and apply_op :: "env \<Rightarrow> address \<Rightarrow> 'a \<Rightarrow> world \<Rightarrow> world res"
  assumes queue_queues: "queue env c a w = Inr w' \<Longrightarrow> queues env c (op a) (params a) w w'"
    and execute_consumes: "execute env c a w = Inr w' \<Longrightarrow>
      \<exists>p w1. execute_timelock_op env c (op a) (params a) w = Inr (p, w1) \<and>
        apply_op env c a w1 = Inr w'"
    and apply_keeps_proposals: "apply_op env c a w = Inr w' \<Longrightarrow>
      i_timelock (w_inst w') = i_timelock (w_inst w)"
begin

lemma executed:
  assumes "execute env c a w = Inr w'"
  obtains p w1 where "consumes env c (op a) (params a) p w w1" "apply_op env c a w1 = Inr w'"
  using execute_consumes [OF assms] execute_timelock_op_effect by blast

text \<open>Without a matching, mature proposal of the caller nothing is executed.\<close>

lemma needs_proposal:
  assumes "execute env c a w = Inr w'"
  shows "\<exists>p. i_timelock (w_inst w) (timelock_code (op a)) = Some p \<and> tp_proposer p = c \<and>
    tp_ready_at p \<le> env_now env \<and> tp_params_hash p = env_params_hash env (params a)"
  using executed [OF assms] by (metis consumes_def)

text \<open>A proposal is used up: a second execution needs a new one.\<close>

lemma used_up:
  assumes "execute env c a w = Inr w'"
  shows "i_timelock (w_inst w') (timelock_code (op a)) = None"
proof -
  from executed [OF assms] obtain p w1
    where "consumes env c (op a) (params a) p w w1" "apply_op env c a w1 = Inr w'" .
  with apply_keeps_proposals show ?thesis by (simp add: consumes_def)
qed

lemma not_twice:
  assumes "execute env c a w = Inr w'" "op b = op a"
  shows "\<not> is_ok (execute env' c' b w')"
proof
  assume "is_ok (execute env' c' b w')"
  then obtain w2 where "execute env' c' b w' = Inr w2" by (auto simp: is_ok_def split: sum.splits)
  from needs_proposal [OF this] used_up [OF assms(1)] assms(2) show False by simp
qed

text \<open>From the queueing to the execution the whole delay passes.\<close>

lemma delay_passes:
  assumes q: "queue env c a w = Inr w1"
    and keep: "i_timelock (w_inst w2) (timelock_code (op a)) =
      i_timelock (w_inst w1) (timelock_code (op a))"
    and x: "execute env' c' b w2 = Inr w3" "op b = op a"
  shows "c' = c" "i_admin (w_inst w) = Some c" "env_auth env c"
    "uint (env_now env) + uint (delay_of w) \<le> uint (env_now env')"
    "env_params_hash env' (params b) = env_params_hash env (params a)"
proof -
  from queue_queues [OF q] have Q: "queues env c (op a) (params a) w w1" .
  from needs_proposal [OF x(1)] obtain p where
    p: "i_timelock (w_inst w2) (timelock_code (op a)) = Some p" "tp_proposer p = c'"
      "tp_ready_at p \<le> env_now env'" "tp_params_hash p = env_params_hash env' (params b)"
    using x(2) by auto
  have "p = proposal_of env c (op a) (params a) (delay_of w)"
    using p(1) keep Q by (simp add: queues_def)
  then show "c' = c" "i_admin (w_inst w) = Some c" "env_auth env c"
    "uint (env_now env) + uint (delay_of w) \<le> uint (env_now env')"
    "env_params_hash env' (params b) = env_params_hash env (params a)"
    using Q p by (auto simp: queues_def proposal_of_def word_le_def uint_word_ariths)
qed

end

lemma tl_queue_queues:
  "tl_queue env c t w = Inr w' \<Longrightarrow> queues env c (tl_op t) (tl_params t) w w'"
  using queue_timelock_op_effect [unfolded post_iff]
  by (cases t) (auto simp: queue_defs simp del: timelock_code.simps)

lemma tl_execute_consumes:
  "tl_execute env c t w = Inr w' \<Longrightarrow>
    \<exists>p w1. execute_timelock_op env c (tl_op t) (tl_params t) w = Inr (p, w1) \<and>
      tl_apply env c t w1 = Inr w'"
  by (cases t) (auto simp: execute_defs)

lemmas setting_defs = update_arbitration_fee_def write_fee_config_def write_appeal_fee_bps_def
  write_platform_fee_bps_def write_treasury_def write_dispute_timeout_def write_recovery_mode_def
  set_flag_def push_allowed_token_def drop_allowed_token_def require_admin_def Let_def

lemma tl_apply_keeps_proposals:
  "tl_apply env c t w = Inr w' \<Longrightarrow> i_timelock (w_inst w') = i_timelock (w_inst w)"
  by (cases t) (auto simp: apply_defs setting_defs split: if_splits)

interpretation tl: timelock_contract tl_op tl_params tl_queue tl_execute tl_apply
  by unfold_locales (fact tl_queue_queues tl_execute_consumes tl_apply_keeps_proposals)+

text \<open>
  Two of the twenty \<open>execute\<close> operations ask for the signature of the address they are given as the
  caller. The other eighteen look at no signature at all: whoever submits the call, the outcome is
  the same.
\<close>

fun execution_signed :: "timelocked \<Rightarrow> bool" where
  "execution_signed (LSetAppealFee x) = True"
| "execution_signed (LSetArbitrationFee x) = True"
| "execution_signed _ = False"

lemma signed_execution: "tl_execute env c t w = Inr w' \<Longrightarrow> execution_signed t \<Longrightarrow> env_auth env c"
  by (cases t) (auto simp: execute_defs)

lemma execute_op_any_signer:
  "execute_timelock_op (env\<lparr>env_auth := f\<rparr>) c op params w = execute_timelock_op env c op params w"
  by (simp add: execute_timelock_op_def emit_timelock_executed_def case_prod_beta Let_def cong: if_cong)

lemma permissionless_execution:
  "\<not> execution_signed t \<Longrightarrow> tl_execute (env\<lparr>env_auth := f\<rparr>) c t w = tl_execute env c t w"
  by (cases t) (simp_all add: execute_defs execute_op_any_signer apply_defs emit_defs case_prod_beta
      Let_def update_arbitration_fee_def push_allowed_token_def drop_allowed_token_def cong: if_cong)

section \<open>Bounds on the settings\<close>

text \<open>
  The documented range of every setting.  The protocol fee has no production setter, and the
  treasury no first writer: every way to change it asks for the current one.
\<close>

definition config_ok :: "GlobalConfig \<Rightarrow> bool" where
  "config_ok cfg \<longleftrightarrow> g_protocol_fee_bps cfg = 0 \<and> g_treasury cfg = None \<and>
    g_arbitration_fee_bps cfg \<le> MAX_ARBITRATION_FEE_BPS \<and>
    g_platform_fee_bps cfg \<le> MAX_PLATFORM_FEE_BPS \<and>
    (g_appeal_fee_bps cfg = 0 \<or> MIN_APPEAL_FEE_BPS \<le> g_appeal_fee_bps cfg) \<and>
    g_appeal_fee_bps cfg \<le> MAX_APPEAL_FEE_BPS \<and>
    MIN_DISPUTE_TIMEOUT \<le> g_dispute_timeout cfg \<and> g_dispute_timeout cfg \<le> MAX_DISPUTE_TIMEOUT \<and>
    MIN_TTL_EXTENSION \<le> g_ttl_extension_ledgers cfg \<and>
    g_ttl_extension_ledgers cfg \<le> MAX_TTL_EXTENSION \<and>
    0 < g_min_amount cfg \<and> g_min_amount cfg < g_max_amount cfg \<and> g_fee_collector cfg \<noteq> None"

text \<open>A pending proposal sits under its own code and matures at least the minimal delay later.\<close>

definition proposal_ok :: "u32 \<Rightarrow> TimelockProposal \<Rightarrow> bool" where
  "proposal_ok k p \<longleftrightarrow> timelock_code (tp_operation p) = k \<and>
    uint (tp_queued_at p) + uint MIN_TIMELOCK_DELAY_SECONDS \<le> uint (tp_ready_at p)"

definition settings_ok :: "instance_storage \<Rightarrow> bool" where
  "settings_ok s \<longleftrightarrow> i_admin s \<noteq> None \<and> i_global_config s \<noteq> None \<and>
    config_ok (the (i_global_config s)) \<and> i_storage_version s = Some STORAGE_VERSION \<and>
    i_pending_treasury s = None \<and>
    (\<forall>d. i_admin_timelock_delay s = Some d \<longrightarrow>
       MIN_TIMELOCK_DELAY_SECONDS \<le> d \<and> d \<le> MAX_TIMELOCK_DELAY_SECONDS) \<and>
    (\<forall>n. i_max_appeals s = Some n \<longrightarrow> MIN_MAX_APPEALS \<le> n \<and> n \<le> MAX_MAX_APPEALS) \<and>
    (\<forall>n. i_max_basket_size s = Some n \<longrightarrow>
       MIN_MAX_BASKET_SIZE \<le> n \<and> n \<le> of_nat MAX_BASKET_SIZE) \<and>
    (\<forall>k p. i_timelock s k = Some p \<longrightarrow> proposal_ok k p)"

lemma settings_ok_settings [simp]: "settings_ok (settings s) = settings_ok s"
  by (simp add: settings_ok_def settings_def)

lemma settings_ok_config: "settings_ok (w_inst w) \<Longrightarrow> config_ok (read_global_config w)"
  by (auto simp: settings_ok_def read_global_config_def)

lemma initialize_settings_ok:
  assumes "initialize env admin fc bps w = Inr w'" "i_admin_timelock_delay (w_inst w) = None"
    "i_max_appeals (w_inst w) = None" "i_max_basket_size (w_inst w) = None" "\<And>k. i_timelock (w_inst w) k = None"
    "i_pending_treasury (w_inst w) = None"
  shows "settings_ok (w_inst w')"
  using assms
  by (auto simp: initialize_def settings_ok_def config_ok_def default_global_config_def
      validate_arbitration_fee_bps_def const_defs not_less i128_max_def)

lemma config_ok_updates [simp]:
  assumes "config_ok cfg"
  shows "config_ok (cfg\<lparr>g_state_flags := f\<rparr>)" 
    "config_ok (cfg\<lparr>g_fee_collector := Some a\<rparr>)"
    "b \<le> MAX_ARBITRATION_FEE_BPS \<Longrightarrow> config_ok (cfg\<lparr>g_arbitration_fee_bps := b\<rparr>)"
    "b \<le> MAX_ARBITRATION_FEE_BPS \<Longrightarrow> config_ok (cfg\<lparr>g_protocol_fee_bps := g_protocol_fee_bps cfg,
       g_arbitration_fee_bps := b\<rparr>)"
    "b \<le> MAX_PLATFORM_FEE_BPS \<Longrightarrow> config_ok (cfg\<lparr>g_platform_fee_bps := b\<rparr>)"
    "b = 0 \<or> MIN_APPEAL_FEE_BPS \<le> b \<Longrightarrow> b \<le> MAX_APPEAL_FEE_BPS \<Longrightarrow> config_ok (cfg\<lparr>g_appeal_fee_bps := b\<rparr>)"
    "MIN_DISPUTE_TIMEOUT \<le> s \<Longrightarrow> s \<le> MAX_DISPUTE_TIMEOUT \<Longrightarrow> config_ok (cfg\<lparr>g_dispute_timeout := s\<rparr>)"
    "MIN_TTL_EXTENSION \<le> l \<Longrightarrow> l \<le> MAX_TTL_EXTENSION \<Longrightarrow> config_ok (cfg\<lparr>g_ttl_extension_ledgers := l\<rparr>)"
    "0 < lo \<Longrightarrow> lo < hi \<Longrightarrow> config_ok (cfg\<lparr>g_min_amount := lo, g_max_amount := hi\<rparr>)"
  using assms by (simp_all add: config_ok_def)

lemma settings_ok_updates [simp]:
  "settings_ok s \<Longrightarrow> settings_ok (s\<lparr>i_timelock := (i_timelock s)(k := None)\<rparr>)"
  "settings_ok s \<Longrightarrow> proposal_ok k p \<Longrightarrow> settings_ok (s\<lparr>i_timelock := (i_timelock s)(k \<mapsto> p)\<rparr>)"
  "settings_ok (s\<lparr>i_pending_fee_collector := x\<rparr>) = settings_ok s"
  "settings_ok (s\<lparr>i_fee_collector := x\<rparr>) = settings_ok s"
  "settings_ok (s\<lparr>i_token_allowlist := l\<rparr>) = settings_ok s"
  "settings_ok (s\<lparr>i_approved_resolvers := l\<rparr>) = settings_ok s"
  "settings_ok (i_action_paused_update g s) = settings_ok s"
  "settings_ok s \<Longrightarrow> MIN_MAX_BASKET_SIZE \<le> b \<Longrightarrow> b \<le> of_nat MAX_BASKET_SIZE \<Longrightarrow>
    settings_ok (s\<lparr>i_max_basket_size := Some b\<rparr>)"
  "settings_ok (s\<lparr>i_escrow_counter := c\<rparr>) = settings_ok s"
  "settings_ok s \<Longrightarrow> settings_ok (s\<lparr>i_admin := Some a\<rparr>)"
  "settings_ok s \<Longrightarrow> config_ok cfg \<Longrightarrow> settings_ok (s\<lparr>i_global_config := Some cfg\<rparr>)"
  "settings_ok s \<Longrightarrow> MIN_MAX_APPEALS \<le> m \<Longrightarrow> m \<le> MAX_MAX_APPEALS \<Longrightarrow>
    settings_ok (s\<lparr>i_max_appeals := Some m\<rparr>)"
  "settings_ok s \<Longrightarrow> MIN_TIMELOCK_DELAY_SECONDS \<le> d \<Longrightarrow> d \<le> MAX_TIMELOCK_DELAY_SECONDS \<Longrightarrow>
    settings_ok (s\<lparr>i_admin_timelock_delay := Some d\<rparr>)"
  by (simp_all add: settings_ok_def)

lemma no_treasury_change:
  "settings_ok (w_inst w) \<Longrightarrow> validate_treasury_change t w \<noteq> Inr x"
  "settings_ok (w_inst w) \<Longrightarrow> i_pending_treasury (w_inst w) = None"
  using settings_ok_config [of w]
  by (auto simp: validate_treasury_change_def require_admin_def config_ok_def settings_ok_def)

text \<open>An administrative step: escrows and money are left alone and the bounds are kept.\<close>

definition admin_step :: "world \<Rightarrow> world \<Rightarrow> bool" where
  "admin_step w w' \<longleftrightarrow> idle w w' \<and>
    (settings_ok (w_inst w) \<longrightarrow> settings_ok (w_inst w'))"

lemma queued_proposal_ok:
  assumes "settings_ok (w_inst w)" "uint (env_now env) + uint (delay_of w) < 2 ^ 64"
  shows "proposal_ok (timelock_code op) (proposal_of env c op params (delay_of w))"
proof -
  have "MIN_TIMELOCK_DELAY_SECONDS \<le> delay_of w"
    using assms(1) by (cases "i_admin_timelock_delay (w_inst w)")
      (auto simp: settings_ok_def delay_of_def const_defs)
  then have "uint MIN_TIMELOCK_DELAY_SECONDS \<le> uint (delay_of w)" by (simp add: word_le_def)
  with assms(2) show ?thesis
    by (simp add: proposal_ok_def proposal_of_def uint_word_ariths)
qed

lemma tl_queue_step: "tl_queue env c t w = Inr w' \<Longrightarrow> admin_step w w'"
  using tl_queue_queues [of env c t w w'] queued_proposal_ok [of w env]
  by (simp add: admin_step_def queues_def idle_def)

lemma tl_apply_step: "tl_apply env c t w = Inr w' \<Longrightarrow> admin_step w w'"
  by (cases t)
    (auto simp: no_treasury_change admin_step_def idle_def settings_ok_config apply_defs setting_defs
      read_fee_config_def
      validate_arbitration_fee_bps_def validate_appeal_fee_bps_def not_less not_le split: if_splits)

lemma admin_step_trans: "admin_step a b \<Longrightarrow> admin_step b c \<Longrightarrow> admin_step a c"
  by (simp add: admin_step_def idle_def)

lemma tl_execute_step: "tl_execute env c t w = Inr w' \<Longrightarrow> admin_step w w'"
proof (erule tl.executed)
  fix p w1 assume "consumes env c (tl_op t) (tl_params t) p w w1"
  then have "admin_step w w1" by (simp add: consumes_def admin_step_def idle_def)
  moreover assume "tl_apply env c t w1 = Inr w'"
  ultimately show "admin_step w w'" using tl_apply_step admin_step_trans by blast
qed

section \<open>Immediate administration\<close>

text \<open>One constructor per entry point that changes settings without a timelock.\<close>

datatype admin_call =
  ASetFeeCollector address
| AAcceptFeeCollector address
| ASetTreasury address
| AAcceptTreasury address
| ASetArbitrationFee address u32
| AEnableRecovery address
| ADisableRecovery address
| ASetAllowlistEnabled address bool
| AAddAllowedToken address address
| ARemoveAllowedToken address address
| ASetDisputeTimeout address u64
| APauseAction address symbol
| AUnpauseAction address symbol
| ASetPlatformFee address u32
| AMigrate address
| AInitialize address address u32
| ACancelTimelock address u32

fun admin_exec :: "env \<Rightarrow> admin_call \<Rightarrow> world \<Rightarrow> world res" where
  "admin_exec env (ASetFeeCollector a) = set_fee_collector env a"
| "admin_exec env (AAcceptFeeCollector c) = accept_fee_collector env c"
| "admin_exec env (ASetTreasury a) = set_treasury env a"
| "admin_exec env (AAcceptTreasury c) = accept_treasury env c"
| "admin_exec env (ASetArbitrationFee c b) = set_arbitration_fee env c b"
| "admin_exec env (AEnableRecovery c) = enable_recovery_mode env c"
| "admin_exec env (ADisableRecovery c) = disable_recovery_mode env c"
| "admin_exec env (ASetAllowlistEnabled c b) = set_token_allowlist_enabled env c b"
| "admin_exec env (AAddAllowedToken c t) = add_allowed_token env c t"
| "admin_exec env (ARemoveAllowedToken c t) = remove_allowed_token env c t"
| "admin_exec env (ASetDisputeTimeout c s) = set_dispute_timeout env c s"
| "admin_exec env (APauseAction c a) = pause_action env c a"
| "admin_exec env (AUnpauseAction c a) = unpause_action env c a"
| "admin_exec env (ASetPlatformFee c b) = set_platform_fee env c b"
| "admin_exec env (AMigrate c) = migrate env c"
| "admin_exec env (AInitialize a f b) = initialize env a f b"
| "admin_exec env (ACancelTimelock c k) = cancel_timelock_op env c k"

lemmas admin_defs = set_fee_collector_def accept_fee_collector_def set_treasury_def
  accept_treasury_def set_arbitration_fee_def enable_recovery_mode_def disable_recovery_mode_def
  set_token_allowlist_enabled_def add_allowed_token_def remove_allowed_token_def
  set_dispute_timeout_def pause_action_def unpause_action_def set_platform_fee_def
  cancel_timelock_op_def authenticated_admin_def admin_then_auth_def require_admin_caller_def

text \<open>Once the contract is initialized, a second initialization or migration is rejected.\<close>

lemma initialize_once: "i_admin (w_inst w) \<noteq> None \<Longrightarrow> initialize env a f b w = fail AlreadyInitialized"
  by (simp add: initialize_def)

lemma migrate_current:
  "i_storage_version (w_inst w) = Some STORAGE_VERSION \<Longrightarrow> migrate env c w \<noteq> Inr w'"
  by (simp add: migrate_def get_storage_version_def)

lemma admin_exec_step:
  assumes "admin_exec env a w = Inr w'" "settings_ok (w_inst w)"
  shows "admin_step w w'"
proof -
  have "i_admin (w_inst w) \<noteq> None" "i_storage_version (w_inst w) = Some STORAGE_VERSION"
    using assms(2) by (auto simp: settings_ok_def)
  with assms show ?thesis
    using migrate_current [of w env] initialize_once [of w env]
    by (cases a)
      (auto simp: no_treasury_change admin_step_def idle_def settings_ok_config admin_defs setting_defs
        read_fee_config_def
        validate_arbitration_fee_bps_def read_timelock_proposal_def not_less not_le
        split: if_splits option.splits)
qed

end
