(* ===== verification/Claims.thy ===== *)
theory Claims
  imports Dispute_Steps Creation_Steps State_Machine Governance
begin

text \<open>
  What the contract owes: the amount and the basket of every live escrow.  The second part
  bounds what each kind of payout sends by what it releases.
\<close>

section \<open>Claims\<close>

definition basket_claim :: "address \<Rightarrow> address \<Rightarrow> TokenEntry list \<Rightarrow> int" where
  "basket_claim tk primary tokens =
    sum_list (map (\<lambda>t. if te_token t = tk then te_amount t else 0)
      (filter (\<lambda>t. is_transferable_basket_entry t primary) tokens))"

definition claim_of :: "address \<Rightarrow> Escrow \<Rightarrow> TokenEntry list \<Rightarrow> int" where
  "claim_of tk e tokens = (if is_live (e_state e)
     then (if e_token e = tk then e_amount e else 0) + basket_claim tk (e_token e) tokens else 0)"

definition claim_at :: "address \<Rightarrow> world \<Rightarrow> u64 \<Rightarrow> int" where
  "claim_at tk w i = (case p_escrow (w_pers w) i of None \<Rightarrow> 0
     | Some e \<Rightarrow> claim_of tk e (basket_of (w_pers w) i))"

definition owed :: "address \<Rightarrow> world \<Rightarrow> int" where
  "owed tk w = (\<Sum>i\<in>UNIV. claim_at tk w i)"

lemma basket_claim_simps [simp]:
  "basket_claim tk primary [] = 0"
  "basket_claim tk primary (t # ts) =
    (if is_transferable_basket_entry t primary \<and> te_token t = tk then te_amount t else 0)
      + basket_claim tk primary ts"
  by (simp_all add: basket_claim_def)

lemma basket_claim_nonneg: "0 \<le> basket_claim tk primary ts"
  by (induction ts) (auto simp: is_transferable_basket_entry_def)

lemma claim_of_nonneg: "0 \<le> e_amount e \<Longrightarrow> 0 \<le> claim_of tk e ts"
  using basket_claim_nonneg [of tk "e_token e" ts] by (simp add: claim_of_def)

text \<open>A change at one escrow changes what is owed by the change of its claim.\<close>

lemma owed_change:
  assumes "\<And>j. j \<noteq> i \<Longrightarrow> claim_at tk w' j = claim_at tk w j"
  shows "owed tk w' = owed tk w + (claim_at tk w' i - claim_at tk w i)"
proof -
  have "(\<Sum>j\<in>UNIV - {i}. claim_at tk w' j) = (\<Sum>j\<in>UNIV - {i}. claim_at tk w j)"
    by (rule sum.cong) (use assms in auto)
  then show ?thesis
    by (simp add: owed_def sum.remove [of UNIV i])
qed

lemma owed_cong:
  assumes "\<And>j. claim_at tk w' j = claim_at tk w j"
  shows "owed tk w' = owed tk w"
  unfolding owed_def by (rule sum.cong) (use assms in auto)

section \<open>What the payouts send\<close>

lemma total_out_basket [simp]:
  "total_out tk (basket_outs primary r ts) = basket_claim tk primary ts"
  by (induction ts) (auto simp: basket_outs_def is_transferable_basket_entry_def)

lemma total_out_refund:
  "0 \<le> e_amount e \<Longrightarrow> is_live (e_state e) \<Longrightarrow> total_out tk (refund_outs e r ts) = claim_of tk e ts"
  by (auto simp: refund_outs_def claim_of_def)

text \<open>The distribution sends exactly the amount: floored shares, the rest to the first payee.\<close>

lemma share_of_nonneg: "0 \<le> amount \<Longrightarrow> 0 \<le> share_of amount p"
  by (simp add: share_of_def pos_imp_zdiv_nonneg_iff)

lemma sum_shares_le:
  assumes "0 \<le> amount"
  shows "10000 * sum_list (map (share_of amount) ps) \<le> amount * total_bps ps"
proof (induction ps)
  case (Cons p ps)
  have "10000 * share_of amount p \<le> amount * uint (p_bps p)"
    by (simp add: share_of_def)
  with Cons show ?case by (simp add: algebra_simps)
qed simp

lemma first_share_nonneg:
  assumes "0 \<le> amount" "total_bps (p # ps) = 10000"
  shows "sum_list (map (share_of amount) ps) \<le> amount"
proof -
  have "total_bps ps \<le> 10000"
    using assms(2) uint_ge_0 [of "p_bps p"] unfolding total_bps_simps by linarith
  then have "amount * total_bps ps \<le> amount * 10000"
    using assms(1) by (intro mult_left_mono)
  with sum_shares_le [OF assms(1), of ps] show ?thesis by simp
qed

lemma total_out_payees:
  "0 \<le> amount \<Longrightarrow> total_out tk (payee_outs t amount ps) =
    (if t = tk then sum_list (map (share_of amount) ps) else 0)"
proof (induction ps)
  case (Cons p ps)
  with share_of_nonneg [of amount p] show ?case by (auto simp: payee_outs_def)
qed (simp add: payee_outs_def)

lemma total_out_distribution:
  assumes "0 \<le> amount" "payees \<noteq> []" "total_bps payees = 10000"
  shows "total_out tk (distribution t amount payees) = (if t = tk then amount else 0)"
proof -
  obtain p ps where ps: "payees = p # ps" using assms(2) by (cases payees) auto
  show ?thesis
    using first_share_nonneg [of amount p ps] assms total_out_payees [OF assms(1)]
    by (auto simp: distribution_def ps)
qed

lemma bps_of_le: "0 \<le> a \<Longrightarrow> b \<le> BASIS_POINTS \<Longrightarrow> 0 \<le> bps_of a b \<and> bps_of a b \<le> a"
  using bps_of_bounds [of a b 10000] by (simp add: le_BASIS_POINTS)

lemma total_out_settle:
  assumes "escrow_ok e" "bps \<le> BASIS_POINTS" "is_live (e_state e)"
  shows "total_out tk (settle_outs e bps collector ts) = claim_of tk e ts"
  using bps_of_le [OF escrow_okD(1) [OF assms(1)] assms(2)] assms(3) escrow_okD [OF assms(1)]
  by (auto simp: settle_outs_def claim_of_def total_out_distribution)

lemma total_out_release:
  assumes "escrow_ok e" "bps \<le> BASIS_POINTS" "is_live (e_state e)"
  shows "total_out tk (release_outs e bps collector ts) = claim_of tk e ts"
  using bps_of_le [OF escrow_okD(1) [OF assms(1)] assms(2)] assms(3) escrow_okD [OF assms(1)]
  by (auto simp: release_outs_def claim_of_def Let_def)

section \<open>Dispute fees\<close>

text \<open>The recorded fees are at most 8% of the disputed amount (5% arbitration, 3% resolver).\<close>

definition fees_ok :: "Escrow \<Rightarrow> DisputeData \<Rightarrow> bool" where
  "fees_ok e d \<longleftrightarrow> (d_fees_charged d \<longrightarrow>
    0 \<le> d_arbitration_fee d \<and> 0 \<le> d_resolver_fee d \<and>
    100 * (d_arbitration_fee d + d_resolver_fee d) \<le>
      8 * (e_amount e + d_arbitration_fee d + d_resolver_fee d))"

lemma config_ok_bounds:
  assumes "config_ok cfg"
  shows "uint (g_arbitration_fee_bps cfg) \<le> 500" "uint (g_platform_fee_bps cfg) \<le> 200"
    "g_protocol_fee_bps cfg = 0"
  using assms
  by (simp_all add: config_ok_def MAX_ARBITRATION_FEE_BPS_def MAX_PLATFORM_FEE_BPS_def word_le_def)

lemma round_fees_bounds:
  assumes "escrow_ok (escrow_at w i)" "config_ok (read_global_config w)"
  shows "0 \<le> round_arbitration_fee charge i w" "0 \<le> round_resolver_fee charge i w"
    "100 * (round_arbitration_fee charge i w + round_resolver_fee charge i w)
      \<le> 8 * e_amount (escrow_at w i)"
proof -
  note e = escrow_okD [OF assms(1)]
  note a = bps_of_bounds [OF e(1) config_ok_bounds(1) [OF assms(2)]]
  note r = bps_of_bounds [OF e(1) e(4)]
  show "0 \<le> round_arbitration_fee charge i w" "0 \<le> round_resolver_fee charge i w"
    "100 * (round_arbitration_fee charge i w + round_resolver_fee charge i w)
      \<le> 8 * e_amount (escrow_at w i)"
    using a r e(1)
    by (simp_all add: round_arbitration_fee_def round_resolver_fee_def read_fee_config_def Let_def)
qed

text \<open>After the dispute fees, the platform fee and the protocol fee still fit.\<close>

lemma final_fees_fit:
  assumes "escrow_ok (escrow_at w i)" "config_ok (read_global_config w)"
    "fees_ok (escrow_at w i) (dispute_at w i)" "d_fees_charged (dispute_at w i)"
  shows "0 \<le> final_platform_fee i w" "0 \<le> final_protocol_fee i w"
    "final_platform_fee i w + final_protocol_fee i w \<le> e_amount (escrow_at w i)"
proof -
  note e = escrow_okD [OF assms(1)]
  have B: "0 \<le> final_basis i w"
    using assms(3,4) e(1) by (auto simp: fees_ok_def final_basis_def)
  note pf = bps_of_bounds [OF B, of "read_platform_fee_bps w" 200]
  note pr = bps_of_bounds [OF B e(3)]
  show "0 \<le> final_platform_fee i w" "0 \<le> final_protocol_fee i w"
    using pf pr config_ok_bounds(2) [OF assms(2)]
    by (simp_all add: final_platform_fee_def final_protocol_fee_def read_platform_fee_bps_def)
  have "10000 * (final_platform_fee i w + final_protocol_fee i w) \<le> 500 * final_basis i w"
    using pf pr config_ok_bounds(2) [OF assms(2)]
    by (simp add: final_platform_fee_def final_protocol_fee_def read_platform_fee_bps_def)
  moreover have "92 * final_basis i w \<le> 100 * e_amount (escrow_at w i)"
    using assms(3,4) by (simp add: fees_ok_def final_basis_def)
  moreover have "x \<le> a" if "10000 * x \<le> 500 * b" "92 * b \<le> 100 * a" "0 \<le> b" for x a b :: int
    using that by linarith
  ultimately show "final_platform_fee i w + final_protocol_fee i w \<le> e_amount (escrow_at w i)"
    using B by blast
qed

lemma total_out_final:
  assumes "escrow_ok (escrow_at w i)" "config_ok (read_global_config w)"
    "fees_ok (escrow_at w i) (dispute_at w i)" "d_fees_charged (dispute_at w i)"
    "is_live (e_state (escrow_at w i))"
  shows "total_out tk (final_outs r i w) = claim_of tk (escrow_at w i) (basket_of (w_pers w) i)"
  using final_fees_fit [OF assms(1-4)] assms(5)
  by (auto simp: final_outs_def claim_of_def Let_def)

end
