(* ===== verification/Invariant.thy ===== *)
theory Invariant
  imports Claims
begin

text \<open>
  The invariant of the contract, and the two shapes of steps that touch escrows: \<open>moves\<close>
  (one existing escrow) and \<open>creates\<close> (one new one).  Each operation is shown to be such a
  step from its effect; the steps keep the invariant.
\<close>

section \<open>Soundness of one escrow\<close>

definition dispute_sound :: "Escrow \<Rightarrow> DisputeData option \<Rightarrow> bool" where
  "dispute_sound e v \<longleftrightarrow>
    (\<forall>d. v = Some d \<longrightarrow> fees_ok e d \<and> d_appeal_count d \<le> MAX_MAX_APPEALS \<and>
      e_state e \<notin> {Pending, Funded, Shipped, RefundRequested}) \<and>
    (e_state e \<in> {Disputed, PendingFinalization} \<longrightarrow> v \<noteq> None) \<and>
    (e_state e = PendingFinalization \<longrightarrow> d_fees_charged (the v) \<and>
      get_resolution (the v) \<noteq> None \<and> d_resolved_by (the v) \<noteq> None)"

definition basket_sound :: "Escrow \<Rightarrow> TokenEntry list \<Rightarrow> bool" where
  "basket_sound e tokens \<longleftrightarrow> tokens = [] \<or>
    basket_ok e tokens \<and> (e_state e = Pending \<longrightarrow> te_amount (hd tokens) = e_amount e)"

text \<open>Until a dispute is resolved the escrow holds the positive amount it was created with.\<close>

definition amount_sound :: "Escrow \<Rightarrow> bool" where
  "amount_sound e \<longleftrightarrow>
    (e_state e \<in> {Pending, Funded, Shipped, RefundRequested} \<longrightarrow> 0 < e_amount e)"

definition sound :: "persistent_storage \<Rightarrow> u64 \<Rightarrow> bool" where
  "sound p i \<longleftrightarrow> (case p_escrow p i of
     None \<Rightarrow> p_dispute p i = None \<and> p_basket p i = None \<and> p_history p i = None
   | Some e \<Rightarrow> escrow_ok e \<and> dispute_sound e (p_dispute p i) \<and> basket_sound e (basket_of p i) \<and>
       (is_live (e_state e) \<longrightarrow> e_buyer e \<noteq> None) \<and> amount_sound e \<and>
       p_history p i \<noteq> None \<and> history_ok (e_state e) (the (p_history p i)))"

lemma sound_cong:
  "p_escrow p i = p_escrow q i \<Longrightarrow> p_dispute p i = p_dispute q i \<Longrightarrow> p_basket p i = p_basket q i \<Longrightarrow>
    p_history p i = p_history q i \<Longrightarrow> sound p i = sound q i"
  by (simp add: sound_def basket_of_def cong: option.case_cong)

lemma claim_at_cong:
  "p_escrow (w_pers w') i = p_escrow (w_pers w) i \<Longrightarrow> p_basket (w_pers w') i = p_basket (w_pers w) i \<Longrightarrow>
    claim_at tk w' i = claim_at tk w i"
  by (simp add: claim_at_def basket_of_def cong: option.case_cong)

definition inv :: "address \<Rightarrow> world \<Rightarrow> bool" where
  "inv self w \<longleftrightarrow> settings_ok (w_inst w) \<and> (\<forall>i. sound (w_pers w) i) \<and>
    0 < next_id w \<and> p_escrow (w_pers w) 0 = None \<and>
    (\<forall>i. next_id w \<le> i \<longrightarrow> p_escrow (w_pers w) i = None) \<and>
    (\<forall>tk. owed tk w \<le> custody_of self tk (map fst (w_xfers w)))"

lemma invD:
  assumes "inv self w"
  shows "settings_ok (w_inst w)" "sound (w_pers w) i" "config_ok (read_global_config w)"
    "owed tk w \<le> custody_of self tk (map fst (w_xfers w))"
  using assms by (auto simp: inv_def settings_ok_config)

lemma inv_escrow:
  assumes "inv self w" "p_escrow (w_pers w) i = Some e"
  shows "escrow_ok e" "dispute_sound e (p_dispute (w_pers w) i)"
    "basket_sound e (basket_of (w_pers w) i)" "is_live (e_state e) \<longrightarrow> e_buyer e \<noteq> None"
    "p_history (w_pers w) i \<noteq> None" "history_ok (e_state e) (the (p_history (w_pers w) i))"
    "e_amount e \<le> i128_max" "amount_sound e"
  using invD(2) [OF assms(1), of i] assms(2) by (auto simp: sound_def escrow_ok_def)

lemma amount_sound_evolves: "amount_sound e \<Longrightarrow> evolves e e' \<Longrightarrow> amount_sound e'"
  by (cases "e_state e'"; cases "e_state e") (auto simp: amount_sound_def evolves_def)

section \<open>A step of one escrow\<close>

text \<open>How often a dispute was appealed; only an appeal reopens a dispute, and it is counted.\<close>

definition appeals_at :: "world \<Rightarrow> u64 \<Rightarrow> nat" where
  "appeals_at w i = (case p_dispute (w_pers w) i of None \<Rightarrow> 0 | Some d \<Rightarrow> unat (d_appeal_count d))"

definition appeal_step :: "Escrow \<Rightarrow> Escrow \<Rightarrow> nat" where
  "appeal_step e e' = (if e_state e = PendingFinalization \<and> e_state e' = Disputed then 1 else 0)"

lemma appeals_same:
  "p_dispute (w_pers w') i = p_dispute (w_pers w) i \<Longrightarrow>
    e_state e \<noteq> PendingFinalization \<or> e_state e' \<noteq> Disputed \<Longrightarrow>
    appeals_at w' i = appeals_at w i + appeal_step e e'"
  by (auto simp: appeals_at_def appeal_step_def)

definition moves :: "env \<Rightarrow> u64 \<Rightarrow> world \<Rightarrow> world \<Rightarrow> bool" where
  "moves env i w w' \<longleftrightarrow> p_escrow (w_pers w) i \<noteq> None \<and>
    p_escrow (w_pers w') = (p_escrow (w_pers w))(i \<mapsto> escrow_at w' i) \<and>
    evolves (escrow_at w i) (escrow_at w' i) \<and> sound (w_pers w') i \<and>
    p_basket (w_pers w') = p_basket (w_pers w) \<and>
    (\<forall>j. j \<noteq> i \<longrightarrow> p_dispute (w_pers w') j = p_dispute (w_pers w) j \<and>
      p_history (w_pers w') j = p_history (w_pers w) j) \<and>
    settings (w_inst w') = settings (w_inst w) \<and>
    appeals_at w' i = appeals_at w i + appeal_step (escrow_at w i) (escrow_at w' i) \<and>
    (\<forall>tk. claim_at tk w' i - claim_at tk w i \<le> custody env tk w' - custody env tk w)"

lemma next_id_settings: "settings s = settings s' \<Longrightarrow> i_escrow_counter s = i_escrow_counter s'"
  by (drule arg_cong [of _ _ i_escrow_counter]) (simp add: settings_def)

lemma settings_ok_cong: "settings s = settings s' \<Longrightarrow> settings_ok s = settings_ok s'"
  using settings_ok_settings by metis

lemma moves_inv:
  assumes "moves env i w w'" "inv (env_self env) w"
  shows "inv (env_self env) w'"
proof -
  have s: "settings (w_inst w') = settings (w_inst w)" using assms(1) by (simp add: moves_def)
  have p: "p_escrow (w_pers w') j = p_escrow (w_pers w) j" if "j \<noteq> i" for j
    using assms(1) that by (simp add: moves_def)
  have "claim_at tk w' j = claim_at tk w j" if "j \<noteq> i" for tk j
    using assms(1) p [OF that] by (intro claim_at_cong) (simp_all add: moves_def)
  from owed_change [OF this] have o: "owed tk w' = owed tk w + (claim_at tk w' i - claim_at tk w i)"
    for tk .
  have "owed tk w' \<le> custody env tk w'" for tk
  proof -
    have "claim_at tk w' i - claim_at tk w i \<le> custody env tk w' - custody env tk w"
      using assms(1) by (simp add: moves_def)
    with o [of tk] invD(4) [OF assms(2), of tk] show ?thesis unfolding custody_def by linarith
  qed
  moreover have "sound (w_pers w') j" for j
  proof (cases "j = i")
    case False
    then have "sound (w_pers w') j = sound (w_pers w) j"
      using assms(1) by (intro sound_cong) (simp_all add: moves_def)
    then show ?thesis using invD(2) [OF assms(2)] by simp
  qed (use assms(1) in \<open>simp add: moves_def\<close>)
  moreover have "next_id w' = next_id w" using next_id_settings [OF s] by (simp add: next_id_def)
  moreover have "settings_ok (w_inst w')" using assms(2) settings_ok_cong [OF s] by (simp add: inv_def)
  moreover have "p_escrow (w_pers w') j = None" if "p_escrow (w_pers w) j = None" for j
    using p [of j] assms(1) that by (cases "j = i") (simp_all add: moves_def)
  ultimately show ?thesis
    using assms(2) by (simp add: inv_def custody_def)
qed

section \<open>Writing an escrow, then paying out\<close>

lemma history_sound:
  assumes "inv self w" "alters env i e' w w'" "evolves (escrow_at w i) e'"
  shows "p_history (w_pers w') i \<noteq> None" "history_ok (e_state e') (the (p_history (w_pers w') i))"
    "j \<noteq> i \<Longrightarrow> p_history (w_pers w') j = p_history (w_pers w) j"
proof -
  obtain e where e: "p_escrow (w_pers w) i = Some e" using assms(2) by (auto simp: alters_def)
  note h = inv_escrow(5,6) [OF assms(1) e]
  have "e_state e' = e_state e \<or> legal (e_state e) (e_state e')"
    using assms(3) e by (simp add: evolves_def escrow_at_def)
  then show "p_history (w_pers w') i \<noteq> None" "history_ok (e_state e') (the (p_history (w_pers w') i))"
    "j \<noteq> i \<Longrightarrow> p_history (w_pers w') j = p_history (w_pers w) j"
    using assms(2) e h pushed_history_ok [of "w_pers w" i _ "e_state e" "e_state e'"]
    by (auto simp: alters_def escrow_at_def)
qed

lemma basket_sound_evolves:
  assumes "basket_sound e ts" "evolves e e'"
  shows "basket_sound e' ts"
proof -
  have "e_state e' = Pending \<Longrightarrow> e_state e = Pending \<and> e_amount e' = e_amount e"
    using assms(2) by (cases "e_state e") (auto simp: evolves_def)
  then show ?thesis using assms by (auto simp: basket_sound_def basket_ok_def evolves_def)
qed

lemma escrow_ok_evolves:
  "escrow_ok e \<Longrightarrow> evolves e e' \<Longrightarrow> 0 \<le> e_amount e' \<Longrightarrow> escrow_ok e'"
  by (auto simp: escrow_ok_def evolves_def)

text \<open>The rule every operation on an existing escrow goes through.\<close>

lemma alters_moves:
  assumes "inv self w" "alters env i e' w w'" "evolves (escrow_at w i) e'" "0 \<le> e_amount e'"
    and "dispute_sound e' (p_dispute (w_pers w') i)"
    and "\<And>j. j \<noteq> i \<Longrightarrow> p_dispute (w_pers w') j = p_dispute (w_pers w) j"
    and "is_live (e_state e') \<Longrightarrow> e_buyer e' \<noteq> None"
    and "appeals_at w' i = appeals_at w i + appeal_step (escrow_at w i) e'"
    and "\<And>tk. claim_of tk e' (basket_of (w_pers w) i)
           - claim_of tk (escrow_at w i) (basket_of (w_pers w) i)
         \<le> custody env tk w' - custody env tk w"
  shows "moves env i w w'"
proof -
  obtain e where e: "p_escrow (w_pers w) i = Some e" using assms(2) by (auto simp: alters_def)
  have e': "p_escrow (w_pers w') i = Some e'" "escrow_at w' i = e'" "escrow_at w i = e"
    and b: "basket_of (w_pers w') i = basket_of (w_pers w) i"
    using assms(2) e by (simp_all add: alters_def escrow_at_def basket_of_def)
  have "sound (w_pers w') i"
    using e' b history_sound [OF assms(1-3)] assms(3-5,7) inv_escrow [OF assms(1) e]
      escrow_ok_evolves [of e e'] basket_sound_evolves [of e _ e'] amount_sound_evolves [of e e']
    by (simp add: sound_def)
  then show ?thesis
    using assms e e' b history_sound(3) [OF assms(1-3)]
    by (auto simp: moves_def alters_def claim_at_def)
qed

lemma pays_last_custody:
  "pays_last env outs w w' \<Longrightarrow> - total_out tk outs \<le> custody env tk w' - custody env tk w"
  using custody_xfers_of [where env = env and tk = tk and outs = outs]
  by (simp add: pays_last_def custody_def)

lemma pays_last_Nil: "pays_last env [] w w' \<Longrightarrow> custody env tk w' = custody env tk w"
  by (simp add: pays_last_def custody_def)

end
