(* ===== verification/Exits.thy ===== *)
theory Exits
  imports Invariant
begin

text \<open>
  The twelve ways out of an escrow.  Each closes it in a final state and pays out exactly what
  the escrow claims, after the last storage write; the consequences are proved once, in a
  locale, for all of them together.
\<close>

section \<open>Closing an escrow\<close>

definition same_fees :: "DisputeData \<Rightarrow> DisputeData \<Rightarrow> bool" where
  "same_fees d d' \<longleftrightarrow> d_fees_charged d' = d_fees_charged d \<and>
    d_arbitration_fee d' = d_arbitration_fee d \<and> d_resolver_fee d' = d_resolver_fee d \<and>
    d_appeal_count d' = d_appeal_count d"

definition keeps_fees :: "u64 \<Rightarrow> world \<Rightarrow> world \<Rightarrow> bool" where
  "keeps_fees i w w' \<longleftrightarrow>
    rel_option same_fees (p_dispute (w_pers w) i) (p_dispute (w_pers w') i) \<and>
    (\<forall>j. j \<noteq> i \<longrightarrow> p_dispute (w_pers w') j = p_dispute (w_pers w) j)"

lemma keeps_fees_same: "p_dispute (w_pers w') = p_dispute (w_pers w) \<Longrightarrow> keeps_fees i w w'"
  by (simp add: keeps_fees_def option.rel_refl same_fees_def)

definition closes :: "env \<Rightarrow> u64 \<Rightarrow> out list \<Rightarrow> world \<Rightarrow> world \<Rightarrow> bool" where
  "closes env i outs w w' \<longleftrightarrow> p_escrow (w_pers w) i \<noteq> None \<and>
    is_final (e_state (escrow_at w' i)) \<and>
    legal (e_state (escrow_at w i)) (e_state (escrow_at w' i)) \<and>
    alters env i ((escrow_at w i)\<lparr>e_state := e_state (escrow_at w' i)\<rparr>) w w' \<and>
    pays_last env outs w w' \<and> keeps_fees i w w' \<and>
    (\<forall>tk. total_out tk outs = claim_at tk w i)"

lemma closesI:
  assumes "alters env i ((escrow_at w i)\<lparr>e_state := s\<rparr>) w w'" "is_final s"
    "legal (e_state (escrow_at w i)) s" "pays_last env outs w w'" "keeps_fees i w w'"
    "\<And>tk. total_out tk outs = claim_of tk (escrow_at w i) (basket_of (w_pers w) i)"
  shows "closes env i outs w w'"
  using assms by (auto simp: closes_def alters_def escrow_at_def claim_at_def)

lemma closes_moves:
  assumes "closes env i outs w w'" "inv (env_self env) w"
  shows "moves env i w w'"
proof -
  let ?s = "e_state (escrow_at w' i)" and ?b = "basket_of (w_pers w) i"
  obtain e where e: "p_escrow (w_pers w) i = Some e" "escrow_at w i = e"
    using assms(1) by (auto simp: closes_def escrow_at_def)
  note I = inv_escrow [OF assms(2) e(1)]
  note C = assms(1) [unfolded closes_def e(2)]
  have nf: "\<not> is_final (e_state e)" and fin: "\<not> is_live ?s"
    using C final_stuck final_not_live by auto
  have "dispute_sound (e\<lparr>e_state := ?s\<rparr>) (p_dispute (w_pers w') i)"
    using C I(2) by (cases ?s; cases "p_dispute (w_pers w) i"; cases "p_dispute (w_pers w') i")
      (auto simp: dispute_sound_def fees_ok_def keeps_fees_def same_fees_def)
  moreover have "evolves e (e\<lparr>e_state := ?s\<rparr>)" using C nf by (simp add: evolves_def)
  moreover have "claim_of tk (e\<lparr>e_state := ?s\<rparr>) ?b - claim_of tk e ?b
      \<le> custody env tk w' - custody env tk w" for tk
    using pays_last_custody [of env outs w w' tk] C fin e
    by (simp add: claim_of_def [of _ "_\<lparr>e_state := ?s\<rparr>"] claim_at_def)
  moreover have "appeals_at w' i = appeals_at w i + appeal_step e (e\<lparr>e_state := ?s\<rparr>)"
    using C by (cases ?s; cases "p_dispute (w_pers w) i"; cases "p_dispute (w_pers w') i")
      (auto simp: appeals_at_def appeal_step_def keeps_fees_def same_fees_def)
  ultimately show ?thesis
    using assms(2) C escrow_okD(1) [OF I(1)] fin e(2)
    by (intro alters_moves [where env = env and i = i and e' = "e\<lparr>e_state := ?s\<rparr>"])
      (simp_all add: keeps_fees_def)
qed

lemma claim_at_final: "is_final (e_state (escrow_at w i)) \<Longrightarrow> claim_at tk w i = 0"
  using final_not_live by (auto simp: claim_at_def claim_of_def escrow_at_def split: option.split)

section \<open>The interface of the exits\<close>

locale exit_path =
  fixes run :: "env \<Rightarrow> 'a \<Rightarrow> u64 \<Rightarrow> world \<Rightarrow> world res"
    and outs :: "'a \<Rightarrow> u64 \<Rightarrow> world \<Rightarrow> out list"
  assumes run_closes: "run env a i w = Inr w' \<Longrightarrow> inv (env_self env) w \<Longrightarrow>
    closes env i (outs a i w) w w'"
begin

text \<open>The invariant is kept, so the exits compose.\<close>

lemma run_moves: "run env a i w = Inr w' \<Longrightarrow> inv (env_self env) w \<Longrightarrow> moves env i w w'"
  using closes_moves [OF run_closes] by blast

text \<open>What leaves is what the escrow held, token by token.\<close>

lemma pays_claim:
  "run env a i w = Inr w' \<Longrightarrow> inv (env_self env) w \<Longrightarrow>
    total_out tk (outs a i w) = claim_at tk w i \<and> claim_at tk w' i = 0"
  using run_closes [of env a i w w'] claim_at_final by (simp add: closes_def)

text \<open>Effects before interactions: a receiver called back sees the escrow closed.\<close>

lemma pays_after_writing:
  assumes "run env a i w = Inr w'" "inv (env_self env) w"
  shows "w_xfers w' = w_xfers w @ log_with (w_inst w', w_pers w') (xfers_of env (outs a i w))"
  using run_closes [OF assms] by (simp add: closes_def pays_last_def)

text \<open>An escrow is left once: whatever exit was taken, no other follows.\<close>

lemma once:
  assumes "run env a i w = Inr w'" "inv (env_self env) w" "inv (env_self env') v"
    "p_escrow (w_pers v) i = p_escrow (w_pers w') i"
  shows "\<not> is_ok (run env' b i v)"
proof
  assume "is_ok (run env' b i v)"
  then obtain v' where "run env' b i v = Inr v'" by (auto simp: is_ok_def split: sum.splits)
  from run_closes [OF this assms(3)] run_closes [OF assms(1,2)] assms(4)
  show False using final_stuck by (simp add: closes_def escrow_at_def)
qed

end

section \<open>The exits of the contract\<close>

datatype exit_call =
  XReclaimExpired
| XMutualCancel
| XApproveRefund address
| XRecoveryWithdraw address
| XEmergencyDrain
| XCancelEscrow address
| XAutoCancelPending
| XConfirmDelivery address bool
| XAutoRelease
| XCoSignedRelease address
| XFinalizeDispute address
| XCancelPendingFinalization address

fun exit_run :: "env \<Rightarrow> exit_call \<Rightarrow> u64 \<Rightarrow> world \<Rightarrow> world res" where
  "exit_run env XReclaimExpired i w = reclaim_expired env i w"
| "exit_run env XMutualCancel i w = mutual_cancel env i w"
| "exit_run env (XApproveRefund c) i w = approve_refund env c i w"
| "exit_run env (XRecoveryWithdraw c) i w = recovery_withdraw env c i w"
| "exit_run env XEmergencyDrain i w = emergency_drain env i w"
| "exit_run env (XCancelEscrow c) i w = cancel_escrow env c i w"
| "exit_run env XAutoCancelPending i w = auto_cancel_pending env i w"
| "exit_run env (XConfirmDelivery c waive) i w = confirm_delivery env c i waive w"
| "exit_run env XAutoRelease i w = auto_release env i w"
| "exit_run env (XCoSignedRelease c) i w = co_signed_release env c i w"
| "exit_run env (XFinalizeDispute c) i w = finalize_dispute env c i w"
| "exit_run env (XCancelPendingFinalization c) i w = cancel_pending_finalization env c i w"

text \<open>What each of them sends, read off the storage before the call.\<close>

definition refund_of :: "u64 \<Rightarrow> world \<Rightarrow> out list" where
  "refund_of i w = (if e_state (escrow_at w i) = Pending then []
     else refund_outs (escrow_at w i) (buyer_at w i) (basket_of (w_pers w) i))"

fun exit_outs :: "exit_call \<Rightarrow> u64 \<Rightarrow> world \<Rightarrow> out list" where
  "exit_outs (XConfirmDelivery c waive) i w = settle_outs (escrow_at w i)
     (e_fee_bps (escrow_at w i)) (collector_of w) (basket_of (w_pers w) i)"
| "exit_outs XAutoRelease i w = settle_outs (escrow_at w i)
     (f_protocol_fee_bps (read_fee_config w)) (collector_of w) (basket_of (w_pers w) i)"
| "exit_outs (XCoSignedRelease c) i w = release_outs (escrow_at w i)
     (f_protocol_fee_bps (read_fee_config w)) (collector_of w) (basket_of (w_pers w) i)"
| "exit_outs (XFinalizeDispute c) i w = final_outs (the (get_resolution (dispute_at w i))) i w"
| "exit_outs _ i w = refund_of i w"

lemma closes_refund:
  assumes "refunds_buyer env i s w w'" "inv (env_self env) w" "is_final s"
    "legal (e_state (escrow_at w i)) s" "is_live (e_state (escrow_at w i))" "keeps_fees i w w'"
  shows "closes env i (refund_of i w) w w'"
proof -
  from assms(1) obtain e where e: "p_escrow (w_pers w) i = Some e" "escrow_at w i = e"
    by (auto simp: refunds_buyer_def alters_def escrow_at_def)
  note I = inv_escrow(1) [OF assms(2) e(1)]
  have r: "refund_of i w = refund_outs e (buyer_at w i) (basket_of (w_pers w) i)"
    using assms(5) e by (auto simp: refund_of_def)
  show ?thesis
    using assms e r escrow_okD(1) [OF I]
    by (intro closesI [where s = s]) (simp_all add: refunds_buyer_def total_out_refund)
qed

lemma exit_escrow:
  assumes "alters env i e' w w'" "inv self w"
  shows "escrow_ok (escrow_at w i)" "dispute_sound (escrow_at w i) (p_dispute (w_pers w) i)"
    "e_amount (escrow_at w i) \<le> i128_max"
proof -
  obtain e where e: "p_escrow (w_pers w) i = Some e" "escrow_at w i = e"
    using assms(1) by (auto simp: alters_def escrow_at_def)
  show "escrow_ok (escrow_at w i)" "dispute_sound (escrow_at w i) (p_dispute (w_pers w) i)"
    "e_amount (escrow_at w i) \<le> i128_max"
    using inv_escrow [OF assms(2) e(1)] e(2) by simp_all
qed

lemma no_escrow:
  assumes "p_escrow (w_pers w) i = None"
  shows "post (confirm_delivery env c i waive w) P" "post (auto_release env i w) P"
    "post (co_signed_release env c i w) P" "post (claim_dispute_timeout env c i w) P"
    "post (resolve_deadlocked_dispute env i w) P" "post (resolve_or_vote_internal env c i r w) P"
    "post (appeal_dispute env c i w) P"
  using assms by (simp_all add: confirm_delivery_def auto_release_def co_signed_release_def
      claim_dispute_timeout_def resolve_deadlocked_dispute_def resolve_or_vote_internal_def
      appeal_dispute_def wp)

lemma inv_amount:
  assumes "inv self w" "r = Inr x" "\<And>P. p_escrow (w_pers w) i = None \<Longrightarrow> post r P"
  shows "e_amount (escrow_at w i) \<le> i128_max"
proof (cases "p_escrow (w_pers w) i")
  case None
  from assms(3) [OF this, of "\<lambda>_. False"] assms(2) show ?thesis by (simp add: post_def)
next
  case (Some e)
  with inv_escrow(7) [OF assms(1) Some] show ?thesis by (simp add: escrow_at_def)
qed

lemma run_amount:
  assumes "inv self w"
  shows "confirm_delivery env c i waive w = Inr w' \<Longrightarrow> e_amount (escrow_at w i) \<le> i128_max"
    "auto_release env i w = Inr w' \<Longrightarrow> e_amount (escrow_at w i) \<le> i128_max"
    "co_signed_release env c i w = Inr w' \<Longrightarrow> e_amount (escrow_at w i) \<le> i128_max"
    "claim_dispute_timeout env c i w = Inr w' \<Longrightarrow> e_amount (escrow_at w i) \<le> i128_max"
    "resolve_deadlocked_dispute env i w = Inr w' \<Longrightarrow> e_amount (escrow_at w i) \<le> i128_max"
    "resolve_or_vote_internal env c i r w = Inr w' \<Longrightarrow> e_amount (escrow_at w i) \<le> i128_max"
    "appeal_dispute env c i w = Inr w' \<Longrightarrow> e_amount (escrow_at w i) \<le> i128_max"
  by (erule inv_amount [OF assms], erule no_escrow)+

lemma refunding_exits:
  assumes "inv (env_self env) w"
  shows "reclaim_expired env i w = Inr w' \<Longrightarrow> closes env i (refund_of i w) w w'"
    "mutual_cancel env i w = Inr w' \<Longrightarrow> closes env i (refund_of i w) w w'"
    "approve_refund env c i w = Inr w' \<Longrightarrow> closes env i (refund_of i w) w w'"
    "recovery_withdraw env c i w = Inr w' \<Longrightarrow> closes env i (refund_of i w) w w'"
    "emergency_drain env i w = Inr w' \<Longrightarrow> closes env i (refund_of i w) w w'"
  using assms by (auto dest!: postD [OF reclaim_expired_effect] postD [OF mutual_cancel_effect]
    postD [OF approve_refund_effect] postD [OF recovery_withdraw_effect]
    postD [OF emergency_drain_effect] intro!: closes_refund keeps_fees_same)

lemma closes_pending:
  assumes "alters env i ((escrow_at w i)\<lparr>e_state := Canceled\<rparr>) w w'" "pays_last env [] w w'"
    "e_state (escrow_at w i) = Pending" "p_dispute (w_pers w') = p_dispute (w_pers w)"
  shows "closes env i (refund_of i w) w w'"
  using assms by (intro closesI) (auto simp: refund_of_def claim_of_def intro: keeps_fees_same)

lemma canceling_exits:
  assumes "inv (env_self env) w"
  shows "auto_cancel_pending env i w = Inr w' \<Longrightarrow> closes env i (refund_of i w) w w'"
    "cancel_escrow env c i w = Inr w' \<Longrightarrow> closes env i (refund_of i w) w w'"
proof -
  show "auto_cancel_pending env i w = Inr w' \<Longrightarrow> closes env i (refund_of i w) w w'"
    using postD [OF auto_cancel_pending_effect] closes_pending by blast
  show "closes env i (refund_of i w) w w'" if "cancel_escrow env c i w = Inr w'"
  proof (cases "e_state (escrow_at w i) = Pending")
    case True
    with postD [OF cancel_escrow_effect that] show ?thesis by (intro closes_pending) simp_all
  next
    case False
    with postD [OF cancel_escrow_effect that] assms show ?thesis
      by (intro closes_refund [where s = Refunded]) (simp_all add: keeps_fees_same)
  qed
qed

lemma cancel_pending_finalization_closes:
  assumes "inv (env_self env) w" "cancel_pending_finalization env c i w = Inr w'"
  shows "closes env i (refund_of i w) w w'"
proof -
  note C = postD [OF cancel_pending_finalization_effect assms(2)]
  have "keeps_fees i w w'"
    using C by (auto simp: keeps_fees_def option.rel_refl same_fees_def annulled_def dispute_at_def)
  with C assms(1) show ?thesis by (auto intro!: closes_refund)
qed

lemma closes_release:
  assumes "inv (env_self env) w" "alters env i ((escrow_at w i)\<lparr>e_state := Completed\<rparr>) w w'"
    "p_dispute (w_pers w') = p_dispute (w_pers w)" "e_state (escrow_at w i) \<in> {Funded, Shipped}"
    "bps \<le> BASIS_POINTS"
  shows "pays_last env (settle_outs (escrow_at w i) bps a (basket_of (w_pers w) i)) w w' \<Longrightarrow>
      closes env i (settle_outs (escrow_at w i) bps a (basket_of (w_pers w) i)) w w'"
    "pays_last env (release_outs (escrow_at w i) bps a (basket_of (w_pers w) i)) w w' \<Longrightarrow>
      closes env i (release_outs (escrow_at w i) bps a (basket_of (w_pers w) i)) w w'"
  using assms exit_escrow(1) [OF assms(2,1)]
  by (auto intro!: closesI [where s = Completed] total_out_settle total_out_release keeps_fees_same)

lemma releasing_exits:
  assumes "inv (env_self env) w"
  shows "confirm_delivery env c i waive w = Inr w' \<Longrightarrow>
      closes env i (exit_outs (XConfirmDelivery c waive) i w) w w'"
    "auto_release env i w = Inr w' \<Longrightarrow> closes env i (exit_outs XAutoRelease i w) w w'"
    "co_signed_release env c i w = Inr w' \<Longrightarrow>
      closes env i (exit_outs (XCoSignedRelease c) i w) w w'"
proof -
  note A = run_amount [OF assms] and R = closes_release [OF assms]
  show "confirm_delivery env c i waive w = Inr w' \<Longrightarrow>
      closes env i (exit_outs (XConfirmDelivery c waive) i w) w w'"
    using postD [OF confirm_delivery_effect [OF A(1)]] R(1) by simp
  show "auto_release env i w = Inr w' \<Longrightarrow> closes env i (exit_outs XAutoRelease i w) w w'"
    using postD [OF auto_release_effect [OF A(2)]] R(1) by (simp add: auto_releasable_def)
  show "co_signed_release env c i w = Inr w' \<Longrightarrow>
      closes env i (exit_outs (XCoSignedRelease c) i w) w w'"
    using postD [OF co_signed_release_effect [OF A(3)]] R(2) by simp
qed

lemma finalize_dispute_closes:
  assumes "inv (env_self env) w" "finalize_dispute env c i w = Inr w'"
  shows "closes env i (exit_outs (XFinalizeDispute c) i w) w w'"
proof -
  obtain r where F: "finalizes env c i r w w'"
    using postD [OF finalize_dispute_effect assms(2)] by blast
  have k: "keeps_fees i w w'"
    using F by (auto simp: finalizes_def keeps_fees_def same_fees_def dispute_at_def)
  have a: "alters env i ((escrow_at w i)\<lparr>e_state := final_state r\<rparr>) w w'"
    using F by (simp add: finalizes_def)
  have "total_out tk (final_outs r i w) = claim_of tk (escrow_at w i) (basket_of (w_pers w) i)" for tk
    using exit_escrow [OF a assms(1)] F invD(3) [OF assms(1)]
    by (intro total_out_final) (auto simp: finalizes_def dispute_sound_def dispute_at_def)
  with F k show ?thesis
    by (intro closesI [where s = "final_state r"])
      (auto simp: finalizes_def final_state_def split: ResolutionType.split)
qed

lemma exit_run_closes:
  "exit_run env a i w = Inr w' \<Longrightarrow> inv (env_self env) w \<Longrightarrow>
    closes env i (exit_outs a i w) w w'"
  by (cases a) (simp_all del: exit_outs.simps add: exit_outs.simps(5-) refunding_exits
      canceling_exits cancel_pending_finalization_closes releasing_exits finalize_dispute_closes)

interpretation exits: exit_path exit_run exit_outs
  by unfold_locales (fact exit_run_closes)

end
