(* ===== verification/Moves.thy ===== *)
theory Moves
  imports Exits
begin

text \<open>
  The steps that keep an escrow open: funding, shipment, refund requests, rotation, and the
  rounds of a dispute; then the creation of escrows and the steps that touch none.
\<close>

section \<open>Deposits\<close>

definition total_in :: "address \<Rightarrow> (address \<times> int) list \<Rightarrow> int" where
  "total_in tk ins = sum_list (map (\<lambda>(t, n). if t = tk then n else 0) ins)"

lemma total_in_simps [simp]:
  "total_in tk [] = 0"
  "total_in tk ((t, n) # ins) = (if t = tk then n else 0) + total_in tk ins"
  by (simp_all add: total_in_def)

lemma custody_deposits:
  "b \<noteq> env_self env \<Longrightarrow> custody_of (env_self env) tk (deposits env b ins) = total_in tk ins"
proof (induction ins)
  case (Cons x ins)
  then show ?case by (cases x) (simp add: deposits_def xfer_delta_def)
qed (simp add: deposits_def)

lemma total_in_basket [simp]: "total_in tk (basket_ins primary ts) = basket_claim tk primary ts"
  by (induction ts) (auto simp: basket_ins_def)

text \<open>In a well-formed basket only the first entry is the escrow's own token.\<close>

lemma total_in_positive:
  "\<forall>t \<in> set ts. 0 < te_amount t \<and> te_token t \<noteq> primary \<Longrightarrow>
    total_in tk (positive_ins ts) = basket_claim tk primary ts"
  by (induction ts) (auto simp: positive_ins_def is_transferable_basket_entry_def)

lemma total_in_whole_basket:
  assumes "basket_ok e ts" "te_amount (hd ts) = e_amount e"
  shows "total_in tk (positive_ins ts) =
    (if e_token e = tk then e_amount e else 0) + basket_claim tk (e_token e) ts"
proof -
  from assms(1) obtain t us where ts: "ts = t # us" by (cases ts) (auto simp: basket_ok_def)
  have "total_in tk (positive_ins us) = basket_claim tk (e_token e) us"
    using assms(1) by (intro total_in_positive) (force simp: basket_ok_def ts)
  moreover have "0 < te_amount t" "te_token t = e_token e" "te_amount t = e_amount e"
    using assms by (auto simp: basket_ok_def ts)
  ultimately show ?thesis
    by (simp add: ts positive_ins_def is_transferable_basket_entry_def)
qed

text \<open>The contract authorises nothing by itself, so no deposit comes from it.\<close>

definition legit :: "address \<Rightarrow> env \<Rightarrow> bool" where
  "legit self env \<longleftrightarrow> env_self env = self \<and> \<not> env_auth env self"

lemma funds_moves:
  assumes "funds env i b ins w w'" "inv (env_self env) w" "legit (env_self env) env"
    and ins: "\<And>tk. basket_sound (escrow_at w i) (basket_of (w_pers w) i) \<Longrightarrow>
      e_state (escrow_at w i) = Pending \<Longrightarrow> total_in tk ins =
      (if e_token (escrow_at w i) = tk then e_amount (escrow_at w i) else 0)
        + basket_claim tk (e_token (escrow_at w i)) (basket_of (w_pers w) i)"
  shows "moves env i w w'"
proof -
  note F = assms(1) [unfolded funds_def]
  let ?e = "escrow_at w i"
  let ?e' = "?e\<lparr>e_buyer := Some b, e_state := Funded,
      e_packed_timestamps := push_bit 32 (env_now env) OR
        ((env_now env + DISPUTE_WINDOW) AND 0xFFFFFFFF)\<rparr>"
  obtain e where e: "p_escrow (w_pers w) i = Some e" "?e = e"
    using F by (auto simp: alters_def escrow_at_def)
  note I = inv_escrow [OF assms(2) e(1)]
  have "b \<noteq> env_self env" using F assms(3) by (auto simp: legit_def)
  then have "custody env tk w' - custody env tk w = total_in tk ins" for tk
    using F custody_deposits [of b env tk ins] by (simp add: custody_def)
  moreover have "claim_of tk ?e' (basket_of (w_pers w) i) - claim_of tk ?e (basket_of (w_pers w) i)
      = total_in tk ins" for tk
    using F ins [of tk] I(3) e(2) by (simp add: claim_of_def)
  moreover have "evolves ?e ?e'" using F by (auto simp: evolves_def)
  moreover have "dispute_sound ?e' (p_dispute (w_pers w') i)"
    using F I(2) e by (auto simp: dispute_sound_def)
  moreover have "appeals_at w' i = appeals_at w i + appeal_step ?e ?e'"
    using F by (intro appeals_same) simp_all
  ultimately show ?thesis
    using F I(1) e escrow_okD(1)
    by (intro alters_moves [where e' = ?e']) (use assms(2) in simp_all)
qed

lemma fund_escrow_moves:
  assumes "fund_escrow env i b w = Inr w'" "inv (env_self env) w" "legit (env_self env) env"
  shows "moves env i w w'"
  using funds_moves [OF postD [OF fund_escrow_effect assms(1)] assms(2,3)] by simp

lemma fund_basket_escrow_moves:
  assumes "fund_basket_escrow env i b w = Inr w'" "inv (env_self env) w" "legit (env_self env) env"
  shows "moves env i w w'"
proof -
  note F = postD [OF fund_basket_escrow_effect assms(1)]
  show ?thesis
    by (rule funds_moves [OF conjunct2 [OF F] assms(2,3)])
      (use F in \<open>simp add: basket_sound_def total_in_whole_basket\<close>)
qed

section \<open>Steps without money\<close>

lemma quiet_moves:
  assumes "inv (env_self env) w" "alters env i e' w w'" "pays_last env [] w w'"
    "evolves (escrow_at w i) e'" "is_live (e_state e') \<longleftrightarrow> is_live (e_state (escrow_at w i))"
    "e_amount e' = e_amount (escrow_at w i)" "e_buyer e' = e_buyer (escrow_at w i)"
    "dispute_sound e' (p_dispute (w_pers w') i)"
    "appeals_at w' i = appeals_at w i + appeal_step (escrow_at w i) e'"
    "\<And>j. j \<noteq> i \<Longrightarrow> p_dispute (w_pers w') j = p_dispute (w_pers w) j"
  shows "moves env i w w'"
proof -
  obtain e where e: "p_escrow (w_pers w) i = Some e" "escrow_at w i = e"
    using assms(2) by (auto simp: alters_def escrow_at_def)
  note I = inv_escrow [OF assms(1) e(1)]
  have "e_token e' = e_token e" using assms(4) e by (simp add: evolves_def)
  then have "claim_of tk e' ts = claim_of tk e ts" for tk ts
    using assms(5,6) e(2) by (simp add: claim_of_def)
  then show ?thesis
    using assms(5-10) I(1,4) e(2) escrow_okD(1) pays_last_Nil [OF assms(3)]
    by (intro alters_moves [OF assms(1,2,4)]) simp_all
qed

lemma dispute_sound_keep:
  "dispute_sound e v \<Longrightarrow> e_state e' = e_state e \<Longrightarrow> e_amount e' = e_amount e \<Longrightarrow> dispute_sound e' v"
  "v = None \<Longrightarrow> e_state e' \<notin> {Disputed, PendingFinalization} \<Longrightarrow> dispute_sound e' v"
  by (auto simp: dispute_sound_def fees_ok_def)

lemma no_dispute_yet:
  "dispute_sound e v \<Longrightarrow> e_state e \<in> {Pending, Funded, Shipped, RefundRequested} \<Longrightarrow> v = None"
  by (cases v) (auto simp: dispute_sound_def)

lemma mark_shipped_moves:
  assumes "mark_shipped env c i t w = Inr w'" "inv (env_self env) w"
  shows "moves env i w w'"
proof -
  note M = postD [OF mark_shipped_effect assms(1)]
  note I = exit_escrow [OF conjunct1 [OF M] assms(2)]
  have "p_dispute (w_pers w) i = None" using M no_dispute_yet [OF I(2)] by auto
  with M show ?thesis
    by (intro quiet_moves [OF assms(2) conjunct1 [OF M]])
      (auto simp: evolves_def intro: dispute_sound_keep(2) appeals_same)
qed

lemma record_delivery_moves:
  assumes "record_delivery env c i w = Inr w'" "inv (env_self env) w"
  shows "moves env i w w'"
proof -
  note M = postD [OF record_delivery_effect assms(1)]
  note I = exit_escrow [OF conjunct1 [OF M] assms(2)]
  from M show ?thesis
    by (intro quiet_moves [OF assms(2) conjunct1 [OF M]])
      (auto simp: evolves_def intro: dispute_sound_keep(1) [OF I(2)] appeals_same)
qed

lemma request_refund_moves:
  assumes "request_refund env c i w = Inr w'" "inv (env_self env) w"
  shows "moves env i w w'"
proof -
  note M = postD [OF request_refund_effect assms(1)]
  note I = exit_escrow [OF conjunct1 [OF M] assms(2)]
  have "p_dispute (w_pers w) i = None" using M no_dispute_yet [OF I(2)] by auto
  with M show ?thesis
    by (intro quiet_moves [OF assms(2) conjunct1 [OF M]])
      (auto simp: evolves_def intro: dispute_sound_keep(2) appeals_same)
qed

lemma rotate_resolver_moves:
  assumes "rotate_resolver env c i r w = Inr w'" "inv (env_self env) w"
  shows "moves env i w w'"
proof -
  note M = postD [OF rotate_resolver_effect assms(1)]
  note I = exit_escrow [OF conjunct1 [OF M] assms(2)]
  from M show ?thesis
    by (intro quiet_moves [OF assms(2) conjunct1 [OF M]])
      (auto simp: evolves_def is_final_def intro: dispute_sound_keep(1) [OF I(2)] appeals_same)
qed

lemma raise_dispute_moves:
  assumes "raise_dispute env c i reason description evidence w = Inr w'" "inv (env_self env) w"
  shows "moves env i w w'"
proof -
  note M = postD [OF raise_dispute_effect assms(1)]
  note I = exit_escrow [OF conjunct1 [OF M] assms(2)]
  have "p_dispute (w_pers w) i = None" using M no_dispute_yet [OF I(2)] by auto
  then have "appeals_at w' i = appeals_at w i + appeal_step (escrow_at w i) ((escrow_at w i)\<lparr>e_state := Disputed\<rparr>)"
    using M by (auto simp: appeals_at_def appeal_step_def opened_dispute_def)
  with M show ?thesis
    by (intro quiet_moves [OF assms(2) conjunct1 [OF M]])
      (auto simp: evolves_def dispute_sound_def fees_ok_def opened_dispute_def const_defs)
qed

section \<open>Rounds of a dispute\<close>

lemma resolves_moves:
  assumes "resolves env i c r charge w w'" "inv (env_self env) w"
    "e_state (escrow_at w i) = Disputed"
  shows "moves env i w w'"
proof -
  let ?a = "round_arbitration_fee charge i w" and ?r = "round_resolver_fee charge i w"
  let ?e = "escrow_at w i" and ?d = "dispute_at w i"
  let ?e' = "?e\<lparr>e_amount := e_amount ?e - ?a - ?r, e_state := PendingFinalization\<rparr>"
  note R = assms(1) [unfolded resolves_def]
  note I = exit_escrow [OF conjunct1 [OF R] assms(2)]
  note b = round_fees_bounds [OF I(1) invD(3) [OF assms(2)], of charge]
  obtain e where e: "p_escrow (w_pers w) i = Some e" "?e = e"
    using R by (auto simp: alters_def escrow_at_def)
  note J = inv_escrow [OF assms(2) e(1)]
  have d: "p_dispute (w_pers w) i = Some ?d" using R by (auto simp: dispute_at_def)
  have fees: "fees_ok ?e ?d" "d_appeal_count ?d \<le> MAX_MAX_APPEALS"
    using I(2) d by (simp_all add: dispute_sound_def)
  have a: "?a + ?r \<le> e_amount ?e" using R escrow_okD(1) [OF I(1)] by simp
  have "fees_ok ?e' (resolved_dispute env i c r charge w)"
    using fees(1) b by (auto simp: fees_ok_def resolved_dispute_def Let_def round_arbitration_fee_def
        round_resolver_fee_def set_resolution_def)
  then have "dispute_sound ?e' (p_dispute (w_pers w') i)"
    using R fees(2) by (auto simp: dispute_sound_def resolved_dispute_def Let_def set_resolution_def
        get_resolution_def split: ResolutionType.split)
  moreover have "evolves ?e ?e'" using assms(3) a b by (simp add: evolves_def)
  moreover have "claim_of tk ?e' ts - claim_of tk ?e ts \<le> custody env tk w' - custody env tk w" for tk ts
    using pays_last_custody [OF conjunct1 [OF conjunct2 [OF R]], of tk] b assms(3)
    by (auto simp: claim_of_def split: if_splits)
  ultimately show ?thesis
    using R a J(4) e(2) assms(3) d
    by (intro alters_moves [OF assms(2) conjunct1 [OF R]])
      (simp_all add: appeals_at_def appeal_step_def resolved_dispute_def set_resolution_def Let_def)
qed

lemma max_appeals_le: "settings_ok (w_inst w) \<Longrightarrow> read_max_appeals w \<le> MAX_MAX_APPEALS"
  by (cases "i_max_appeals (w_inst w)")
    (auto simp: settings_ok_def read_max_appeals_def const_defs)

lemma appeals_moves:
  assumes "appeals env c i w w'" "inv (env_self env) w" "legit (env_self env) env"
  shows "moves env i w w'"
proof -
  let ?e = "escrow_at w i" and ?e' = "(escrow_at w i)\<lparr>e_state := Disputed\<rparr>"
  note R = assms(1) [unfolded appeals_def]
  note I = exit_escrow [OF conjunct1 [OF R] assms(2)]
  obtain e where e: "p_escrow (w_pers w) i = Some e" "?e = e"
    using R by (auto simp: alters_def escrow_at_def)
  note J = inv_escrow [OF assms(2) e(1)]
  have d: "p_dispute (w_pers w) i = Some (dispute_at w i)" using R by (auto simp: dispute_at_def)
  have "c \<noteq> env_self env" using R assms(3) by (auto simp: legit_def)
  then have "0 \<le> custody_of (env_self env) tk (appeal_xfers i c w)" for tk
    by (auto simp: appeal_xfers_def Let_def xfer_delta_def)
  then have "0 \<le> custody env tk w' - custody env tk w" for tk
    using R by (simp add: custody_def)
  moreover have "d_appeal_count (dispute_at w i) + 1 \<le> MAX_MAX_APPEALS"
    using R max_appeals_le [OF invD(1) [OF assms(2)]] inc_le order.strict_trans2 by blast
  then have "dispute_sound ?e' (p_dispute (w_pers w') i)"
    using R I(2) d by (auto simp: dispute_sound_def fees_ok_def clear_resolution_def)
  moreover have "appeals_at w' i = appeals_at w i + appeal_step ?e ?e'"
  proof -
    have "d_appeal_count (dispute_at w i) < MAX_MAX_APPEALS"
      using R max_appeals_le [OF invD(1) [OF assms(2)]] order.strict_trans2 by blast
    then have "unat (d_appeal_count (dispute_at w i) + 1) = unat (d_appeal_count (dispute_at w i)) + 1"
      by (simp add: word_less_nat_alt unat_word_ariths const_defs)
    with R d show ?thesis by (simp add: appeals_at_def appeal_step_def clear_resolution_def)
  qed
  ultimately show ?thesis
    using R J(4) e(2) escrow_okD(1) [OF I(1)]
    by (intro alters_moves [OF assms(2) conjunct1 [OF R]]) (simp_all add: evolves_def claim_of_def)
qed

section \<open>Steps that touch no escrow, and new escrows\<close>

lemma idle_sound:
  "idle w w' \<Longrightarrow> sound (w_pers w') j = sound (w_pers w) j"
  by (rule sound_cong) (simp_all add: idle_def)

lemma idle_claim:
  "idle w w' \<Longrightarrow> claim_at tk w' j = claim_at tk w j"
  by (rule claim_at_cong) (simp_all add: idle_def)

lemma idle_inv:
  assumes "idle w w'" "inv self w" "settings_ok (w_inst w')"
  shows "inv self w'"
proof -
  have "next_id w' = next_id w" using assms(1) by (simp add: idle_def next_id_def)
  moreover have "owed tk w' = owed tk w" for tk by (rule owed_cong) (rule idle_claim [OF assms(1)])
  ultimately show ?thesis
    using assms idle_sound [OF assms(1)] by (simp add: inv_def idle_def)
qed

lemma creates_sound:
  assumes "creates env i e bs w w'" "inv self w" "bs = p_basket (w_pers w) \<or>
      bs = (p_basket (w_pers w))(i \<mapsto> ts) \<and> basket_ok e ts \<and> e_amount e = te_amount (hd ts)"
  shows "sound (w_pers w') j"
proof (cases "j = i")
  case False
  then have "sound (w_pers w') j = sound (w_pers w) j"
    using assms by (intro sound_cong) (auto simp: creates_def)
  then show ?thesis using invD(2) [OF assms(2)] by simp
next
  case True
  have n: "p_escrow (w_pers w) i = None" using assms(1,2) by (simp add: creates_def inv_def)
  then have d: "p_dispute (w_pers w) i = None" "p_basket (w_pers w) i = None"
    "p_history (w_pers w) i = None"
    using invD(2) [OF assms(2), of i] by (simp_all add: sound_def)
  note C = assms(1) [unfolded creates_def]
  have "basket_sound e (unwrap_or (bs i) [])"
    using assms(3) d by (auto simp: basket_sound_def)
  with C n d True pushed_history_new [OF d(3), of Pending env] show ?thesis
    by (simp add: sound_def dispute_sound_def amount_sound_def basket_of_def)
qed

lemma creates_owed:
  assumes "creates env i e bs w w'" "inv self w" "\<And>j. j \<noteq> i \<Longrightarrow> bs j = p_basket (w_pers w) j"
  shows "owed tk w' = owed tk w"
proof (rule owed_cong)
  fix j
  note C = assms(1) [unfolded creates_def]
  show "claim_at tk w' j = claim_at tk w j"
  proof (cases "j = i")
    case True
    with C assms(2) show ?thesis by (auto simp: claim_at_def claim_of_def inv_def)
  next
    case False
    with C assms(3) [OF False] show ?thesis by (intro claim_at_cong) simp_all
  qed
qed

lemma creates_inv:
  assumes "creates env i e bs w w'" "inv self w" "bs = p_basket (w_pers w) \<or>
      bs = (p_basket (w_pers w))(i \<mapsto> ts) \<and> basket_ok e ts \<and> e_amount e = te_amount (hd ts)"
  shows "inv self w'"
proof -
  note C = assms(1) [unfolded creates_def]
  have n: "p_escrow (w_pers w) i = None" "0 < i" using C assms(2) by (auto simp: inv_def)
  have "uint i + 1 < 2 ^ 64" using C by blast
  then have "uint (i + 1) = uint i + 1"
    by (simp add: uint_word_ariths mod_pos_pos_trivial)
  then have s: "i < i + 1" by (simp add: word_less_def)
  have "owed tk w' = owed tk w" for tk
    using assms(3) by (intro creates_owed [OF assms(1,2)]) auto
  moreover have "p_escrow (w_pers w') j = None" if "i + 1 \<le> j" for j
    using that s C assms(2) by (auto simp: inv_def)
  moreover have "0 < i + 1" using s by (meson le_less_trans word_zero_le)
  ultimately show ?thesis
    using C assms(2) n s creates_sound [OF assms] by (auto simp: inv_def next_id_def)
qed

end
