(* ===== verification/Queries.thy ===== *)
theory Queries
  imports Disputes Admin
begin

text \<open>
  The read-only views of \<open>src/contracts/escrow/src/queries.rs\<close>.  A view returns its answer
  with the world it leaves: reading an entry may request rent for it, nothing else changes.
\<close>

section \<open>Messages\<close>

definition collect_message ::
  "u64 \<Rightarrow> nat \<Rightarrow> Message list \<times> world \<Rightarrow> Message list \<times> world" where
  "collect_message escrow_id i = (\<lambda>(result, w).
    let (found, w1) = read_message_at escrow_id i w
    in (case found of None \<Rightarrow> (result, w1) | Some message \<Rightarrow> (result @ [message], w1)))"

definition get_messages ::
  "u64 \<Rightarrow> u64 \<Rightarrow> u64 \<Rightarrow> world \<Rightarrow> (Message list \<times> world) res" where
  "get_messages escrow_id start limit w =
    bindE (load_escrow escrow_id w) (\<lambda>(_, w1).
    let max_limit = (if MAX_MESSAGES_PER_PAGE < limit then MAX_MESSAGES_PER_PAGE else limit);
        n = read_message_count escrow_id w1
    in if n \<le> unat start then Inr ([], w1)
       else if 2 ^ 64 \<le> unat start + unat max_limit then panic Overflow
       else
       let end_at = min (unat start + unat max_limit) n
       in Inr (fold (collect_message escrow_id) [unat start..<end_at] ([], w1)))"

section \<open>Escrows\<close>

definition get_basket_tokens :: "u64 \<Rightarrow> world \<Rightarrow> TokenEntry list option \<times> world" where
  "get_basket_tokens escrow_id w =
    (case load_escrow escrow_id w of
       Inl _ \<Rightarrow> (None, w)
     | Inr (_, w1) \<Rightarrow> let (tokens, w2) = load_basket_tokens escrow_id w1 in (Some tokens, w2))"

definition get_escrow :: "u64 \<Rightarrow> world \<Rightarrow> (Escrow \<times> world) res" where
  "get_escrow escrow_id w = load_escrow escrow_id w"

definition get_state_history ::
  "u64 \<Rightarrow> world \<Rightarrow> ((EscrowState \<times> u64) list \<times> world) res" where
  "get_state_history escrow_id w =
    bindE (load_escrow escrow_id w) (\<lambda>(_, w1).
    Inr (load_state_history_no_ttl escrow_id w1, w1))"

definition scan_buyer_escrow ::
  "address \<Rightarrow> u64 \<Rightarrow> u64 list \<times> world \<Rightarrow> u64 list \<times> world" where
  "scan_buyer_escrow buyer escrow_id = (\<lambda>(result, w).
    (case load_escrow escrow_id w of
       Inl _ \<Rightarrow> (result, w)
     | Inr (escrow, w1) \<Rightarrow>
         (if e_buyer escrow = Some buyer then result @ [escrow_id] else result, w1)))"

text \<open>The ids \<open>counter - 1\<close> down to \<open>1\<close>, at most 1000 of them.\<close>

definition recent_ids :: "u64 \<Rightarrow> u64 list" where
  "recent_ids counter = map of_nat (take 1000 (rev [1..<unat counter]))"

definition get_escrows_by_buyer :: "address \<Rightarrow> world \<Rightarrow> u64 list \<times> world" where
  "get_escrows_by_buyer buyer w =
    (let (indexed, w1) = read_buyer_escrow_index buyer w
     in if indexed \<noteq> [] then (indexed, w1)
        else
        let counter = unwrap_or (i_escrow_counter (w_inst w1)) 1;
            (result, w2) = fold (scan_buyer_escrow buyer) (recent_ids counter) ([], w1)
        in (rev result, w2))"

definition lookup_escrow ::
  "u64 \<Rightarrow> Escrow option list \<times> world \<Rightarrow> Escrow option list \<times> world" where
  "lookup_escrow escrow_id = (\<lambda>(result, w).
    (case load_escrow escrow_id w of
       Inl _ \<Rightarrow> (result @ [None], w)
     | Inr (escrow, w1) \<Rightarrow> (result @ [Some escrow], w1)))"

definition get_escrows_by_ids :: "u64 list \<Rightarrow> world \<Rightarrow> Escrow option list \<times> world" where
  "get_escrows_by_ids ids w = fold lookup_escrow (take MAX_IDS_PER_QUERY ids) ([], w)"

definition get_fee_config :: "world \<Rightarrow> FeeConfig" where
  "get_fee_config w = read_fee_config w"

definition get_escrows_by_vendor :: "address \<Rightarrow> u64 \<Rightarrow> u64 \<Rightarrow> world \<Rightarrow> u64 list \<times> world" where
  "get_escrows_by_vendor vendor start limit w =
    read_vendor_escrow_index_page vendor start (min limit MAX_ESCROWS_PER_PAGE) w"

definition get_escrows_by_seller :: "address \<Rightarrow> u64 \<Rightarrow> u64 \<Rightarrow> world \<Rightarrow> u64 list \<times> world" where
  "get_escrows_by_seller seller start limit w =
    read_vendor_escrow_index_page seller start (min limit MAX_ESCROWS_PER_PAGE) w"

section \<open>Statistics and configuration\<close>

definition get_stats :: "world \<Rightarrow> ContractStats" where
  "get_stats w = \<lparr>
    st_total_created = read_counter_total COUNTER_KIND_CREATED DK_TotalCreated w,
    st_total_completed = read_counter_total COUNTER_KIND_COMPLETED DK_TotalCompleted w,
    st_total_disputed = read_counter_total COUNTER_KIND_DISPUTED DK_TotalDisputed w,
    st_total_refunded = read_counter_total COUNTER_KIND_REFUNDED DK_TotalRefunded w\<rparr>"

definition escrow_count :: "world \<Rightarrow> u64" where
  "escrow_count w =
    (let counter = unwrap_or (i_escrow_counter (w_inst w)) 1
     in if counter = 0 then 0 else counter - 1)"

definition get_public_config :: "world \<Rightarrow> PublicContractConfig \<times> world" where
  "get_public_config w =
    (let w1 = extend_instance_ttl w;
         fee_config = read_fee_config w1
     in (\<lparr>pc_fee_bps = f_protocol_fee_bps fee_config,
          pc_arbitration_fee_bps = f_arbitration_fee_bps fee_config,
          pc_paused = is_paused w1,
          pc_escrow_count = escrow_count w1\<rparr>, w1))"

definition get_contract_config :: "env \<Rightarrow> world \<Rightarrow> ContractConfig res" where
  "get_contract_config env w =
    bindE (require_admin w) (\<lambda>admin.
    bindE (require_auth env admin) (\<lambda>_.
    let fee_config = read_fee_config w in
    bindE (ok_or_err (g_fee_collector (read_global_config w)) NotInitialized) (\<lambda>fee_collector.
    Inr \<lparr>cc_admin = admin, cc_fee_bps = f_protocol_fee_bps fee_config,
         cc_arbitration_fee_bps = f_arbitration_fee_bps fee_config,
         cc_fee_collector = fee_collector, cc_escrow_count = escrow_count w\<rparr>)))"

end
