(* ===== verification/Multicall.thy ===== *)
theory Multicall
  imports Queries
begin

text \<open>
  \<open>multicall\<close> of \<open>src/contracts/escrow/src/instructions.rs\<close>: a bounded batch of calls to a
  fixed set of entry points, with arguments decoded from host values.  The answers of the
  views are structs of the host's value type, which the model keeps as they are
  (\<open>call_result\<close>).
\<close>

record ContractCall =
  cl_function :: symbol
  cl_args :: "val list"

datatype call_result = RUnit | RId u64 | REscrow Escrow | RDispute "DisputeData option"
  | RFeeConfig FeeConfig | RU32 u32

section \<open>Decoding arguments\<close>

fun as_u64 :: "val \<Rightarrow> u64 option" where
  "as_u64 (VU64 x) = Some x" | "as_u64 _ = None"
fun as_u32 :: "val \<Rightarrow> u32 option" where
  "as_u32 (VU32 x) = Some x" | "as_u32 _ = None"
fun as_i128 :: "val \<Rightarrow> int option" where
  "as_i128 (VI128 x) = Some x" | "as_i128 _ = None"
fun as_bool :: "val \<Rightarrow> bool option" where
  "as_bool (VBool x) = Some x" | "as_bool _ = None"
fun as_address :: "val \<Rightarrow> address option" where
  "as_address (VAddress x) = Some x" | "as_address _ = None"
fun as_symbol :: "val \<Rightarrow> symbol option" where
  "as_symbol (VSymbol x) = Some x" | "as_symbol _ = None"
fun as_string :: "val \<Rightarrow> string option" where
  "as_string (VString x) = Some x" | "as_string _ = None"
fun as_bytes :: "val \<Rightarrow> bytes option" where
  "as_bytes (VBytes x) = Some x" | "as_bytes _ = None"
fun as_resolution :: "val \<Rightarrow> ResolutionType option" where
  "as_resolution (VResolution x) = Some x" | "as_resolution _ = None"
fun as_payees :: "val \<Rightarrow> Payee list option" where
  "as_payees (VPayees x) = Some x" | "as_payees (VVec []) = Some []" | "as_payees _ = None"

text \<open>\<open>BytesN<32>\<close> and \<open>Option<Address>\<close>.\<close>

definition as_bytes32 :: "val \<Rightarrow> bytes option" where
  "as_bytes32 v = (case as_bytes v of
     None \<Rightarrow> None | Some b \<Rightarrow> if length b = 32 then Some b else None)"

fun as_opt_address :: "val \<Rightarrow> address option option" where
  "as_opt_address VVoid = Some None"
| "as_opt_address (VOption None) = Some None"
| "as_opt_address (VOption (Some v)) = map_option Some (as_address v)"
| "as_opt_address (VAddress a) = Some (Some a)"
| "as_opt_address _ = None"

definition parse_arg :: "(val \<Rightarrow> 'a option) \<Rightarrow> val list \<Rightarrow> nat \<Rightarrow> 'a res" where
  "parse_arg decode args idx =
    bindE (ok_or_err (vec_get args idx) InvalidMulticallArg) (\<lambda>v.
    ok_or_err (decode v) InvalidMulticallArg)"

section \<open>Dispatch\<close>

definition unit_result :: "world res \<Rightarrow> (call_result \<times> world) res" where
  "unit_result r = bindE r (\<lambda>w. Inr (RUnit, w))"

definition dispatch_fund_escrow :: "env \<Rightarrow> val list \<Rightarrow> world \<Rightarrow> (call_result \<times> world) res" where
  "dispatch_fund_escrow env args w =
    bindE (parse_arg as_u64 args 0) (\<lambda>escrow_id.
    bindE (parse_arg as_address args 1) (\<lambda>buyer.
    unit_result (fund_escrow env escrow_id buyer w)))"

definition dispatch_get_escrow :: "env \<Rightarrow> val list \<Rightarrow> world \<Rightarrow> (call_result \<times> world) res" where
  "dispatch_get_escrow env args w =
    bindE (parse_arg as_u64 args 0) (\<lambda>escrow_id.
    bindE (get_escrow escrow_id w) (\<lambda>(escrow, w1). Inr (REscrow escrow, w1)))"

definition dispatch_mark_shipped :: "env \<Rightarrow> val list \<Rightarrow> world \<Rightarrow> (call_result \<times> world) res" where
  "dispatch_mark_shipped env args w =
    bindE (parse_arg as_address args 0) (\<lambda>caller.
    bindE (parse_arg as_u64 args 1) (\<lambda>escrow_id.
    bindE (parse_arg as_string args 2) (\<lambda>tracking_id.
    unit_result (mark_shipped env caller escrow_id tracking_id w))))"

definition dispatch_confirm_delivery ::
  "env \<Rightarrow> val list \<Rightarrow> world \<Rightarrow> (call_result \<times> world) res" where
  "dispatch_confirm_delivery env args w =
    bindE (parse_arg as_address args 0) (\<lambda>caller.
    bindE (parse_arg as_u64 args 1) (\<lambda>escrow_id.
    bindE (if 2 < length args then parse_arg as_bool args 2 else Inr False)
      (\<lambda>waive_shipping_window.
    unit_result (confirm_delivery env caller escrow_id waive_shipping_window w))))"

definition dispatch_raise_dispute ::
  "env \<Rightarrow> val list \<Rightarrow> world \<Rightarrow> (call_result \<times> world) res" where
  "dispatch_raise_dispute env args w =
    bindE (parse_arg as_address args 0) (\<lambda>caller.
    bindE (parse_arg as_u64 args 1) (\<lambda>escrow_id.
    bindE (parse_arg as_symbol args 2) (\<lambda>reason.
    bindE (parse_arg as_bytes args 3) (\<lambda>description.
    bindE (parse_arg as_bytes32 args 4) (\<lambda>evidence_hash.
    unit_result (raise_dispute env caller escrow_id reason description evidence_hash w))))))"

definition dispatch_resolve_dispute ::
  "env \<Rightarrow> val list \<Rightarrow> world \<Rightarrow> (call_result \<times> world) res" where
  "dispatch_resolve_dispute env args w =
    bindE (parse_arg as_address args 0) (\<lambda>caller.
    bindE (parse_arg as_u64 args 1) (\<lambda>escrow_id.
    bindE (parse_arg as_resolution args 2) (\<lambda>resolution.
    unit_result (resolve_dispute env caller escrow_id resolution w))))"

definition dispatch_auto_release :: "env \<Rightarrow> val list \<Rightarrow> world \<Rightarrow> (call_result \<times> world) res" where
  "dispatch_auto_release env args w =
    bindE (parse_arg as_u64 args 0) (\<lambda>escrow_id.
    unit_result (auto_release env escrow_id w))"

definition dispatch_cancel_escrow ::
  "env \<Rightarrow> val list \<Rightarrow> world \<Rightarrow> (call_result \<times> world) res" where
  "dispatch_cancel_escrow env args w =
    bindE (parse_arg as_address args 0) (\<lambda>caller.
    bindE (parse_arg as_u64 args 1) (\<lambda>escrow_id.
    unit_result (cancel_escrow env caller escrow_id w)))"

definition dispatch_rotate_resolver ::
  "env \<Rightarrow> val list \<Rightarrow> world \<Rightarrow> (call_result \<times> world) res" where
  "dispatch_rotate_resolver env args w =
    bindE (parse_arg as_address args 0) (\<lambda>caller.
    bindE (parse_arg as_u64 args 1) (\<lambda>escrow_id.
    bindE (parse_arg as_address args 2) (\<lambda>new_resolver.
    unit_result (rotate_resolver env caller escrow_id new_resolver w))))"

definition dispatch_initialize :: "env \<Rightarrow> val list \<Rightarrow> world \<Rightarrow> (call_result \<times> world) res" where
  "dispatch_initialize env args w =
    bindE (parse_arg as_address args 0) (\<lambda>admin.
    bindE (parse_arg as_address args 1) (\<lambda>fee_collector.
    bindE (parse_arg as_u32 args 2) (\<lambda>arbitration_fee_bps.
    unit_result (initialize env admin fee_collector arbitration_fee_bps w))))"

definition dispatch_pause_contract ::
  "env \<Rightarrow> val list \<Rightarrow> world \<Rightarrow> (call_result \<times> world) res" where
  "dispatch_pause_contract env args w =
    bindE (parse_arg as_address args 0) (\<lambda>caller.
    unit_result (queue_pause_contract env caller w))"

definition dispatch_unpause_contract ::
  "env \<Rightarrow> val list \<Rightarrow> world \<Rightarrow> (call_result \<times> world) res" where
  "dispatch_unpause_contract env args w =
    bindE (parse_arg as_address args 0) (\<lambda>caller.
    unit_result (queue_unpause_contract env caller w))"

definition dispatch_get_dispute :: "env \<Rightarrow> val list \<Rightarrow> world \<Rightarrow> (call_result \<times> world) res" where
  "dispatch_get_dispute env args w =
    bindE (parse_arg as_u64 args 0) (\<lambda>escrow_id.
    let (dispute, w1) = get_dispute escrow_id w in Inr (RDispute dispute, w1))"

definition dispatch_get_fee_config ::
  "env \<Rightarrow> val list \<Rightarrow> world \<Rightarrow> (call_result \<times> world) res" where
  "dispatch_get_fee_config env args w = Inr (RFeeConfig (get_fee_config w), w)"

definition dispatch_set_arbitration_fee ::
  "env \<Rightarrow> val list \<Rightarrow> world \<Rightarrow> (call_result \<times> world) res" where
  "dispatch_set_arbitration_fee env args w =
    bindE (parse_arg as_address args 0) (\<lambda>caller.
    bindE (parse_arg as_u32 args 1) (\<lambda>fee_bps.
    unit_result (set_arbitration_fee env caller fee_bps w)))"

definition dispatch_get_arbitration_fee ::
  "env \<Rightarrow> val list \<Rightarrow> world \<Rightarrow> (call_result \<times> world) res" where
  "dispatch_get_arbitration_fee env args w = Inr (RU32 (get_arbitration_fee w), w)"

definition dispatch_create_escrow ::
  "env \<Rightarrow> val list \<Rightarrow> world \<Rightarrow> (call_result \<times> world) res" where
  "dispatch_create_escrow env args w =
    bindE (parse_arg as_payees args 0) (\<lambda>payees.
    bindE (parse_arg as_opt_address args 1) (\<lambda>buyer.
    bindE (parse_arg as_address args 2) (\<lambda>resolver.
    bindE (parse_arg as_address args 3) (\<lambda>token.
    bindE (parse_arg as_i128 args 4) (\<lambda>amount.
    bindE (parse_arg as_u32 args 5) (\<lambda>fee_bps.
    bindE (parse_arg as_u32 args 6) (\<lambda>resolver_fee_bps.
    bindE (parse_arg as_u64 args 7) (\<lambda>shipping_window.
    bindE (create_escrow env (VPayees payees) buyer resolver token amount fee_bps
             resolver_fee_bps shipping_window None w) (\<lambda>(escrow_id, w1).
    Inr (RId escrow_id, w1))))))))))"

text \<open>The chain of comparisons on the function name, in the order of the code.\<close>

definition dispatch_call :: "env \<Rightarrow> ContractCall \<Rightarrow> world \<Rightarrow> (call_result \<times> world) res" where
  "dispatch_call env call w =
    (if cl_function call = ''fund_escrow'' then dispatch_fund_escrow env (cl_args call) w
     else if cl_function call = ''get_escrow'' then dispatch_get_escrow env (cl_args call) w
     else if cl_function call = ''mark_shipped'' then dispatch_mark_shipped env (cl_args call) w
     else if cl_function call = ''confirm_delivery''
     then dispatch_confirm_delivery env (cl_args call) w
     else if cl_function call = ''raise_dispute'' then dispatch_raise_dispute env (cl_args call) w
     else if cl_function call = ''resolve_dispute''
     then dispatch_resolve_dispute env (cl_args call) w
     else if cl_function call = ''auto_release'' then dispatch_auto_release env (cl_args call) w
     else if cl_function call = ''cancel_escrow'' then dispatch_cancel_escrow env (cl_args call) w
     else if cl_function call = ''rotate_resolver''
     then dispatch_rotate_resolver env (cl_args call) w
     else if cl_function call = ''initialize'' then dispatch_initialize env (cl_args call) w
     else if cl_function call = ''pause_contract''
     then dispatch_pause_contract env (cl_args call) w
     else if cl_function call = ''unpause_contract''
     then dispatch_unpause_contract env (cl_args call) w
     else if cl_function call = ''get_dispute'' then dispatch_get_dispute env (cl_args call) w
     else if cl_function call = ''get_fee_config''
     then dispatch_get_fee_config env (cl_args call) w
     else if cl_function call = ''set_arbitration_fee''
     then dispatch_set_arbitration_fee env (cl_args call) w
     else if cl_function call = ''get_arbitration_fee''
     then dispatch_get_arbitration_fee env (cl_args call) w
     else if cl_function call = ''create_escrow'' then dispatch_create_escrow env (cl_args call) w
     else fail NotAuthorized)"

text \<open>
  The entries run in one frame of the host, so an address that an entry authenticated counts as
  used for the entries after it (see \<open>after_auth\<close>): the caller, the buyer or the first payee named
  in the arguments; \<open>initialize\<close>, \<open>auto_release\<close> and the views authenticate nobody.
\<close>

definition signer_arg :: "val list \<Rightarrow> nat \<Rightarrow> address list" where
  "signer_arg args n = (case parse_arg as_address args n of Inl e \<Rightarrow> [] | Inr a \<Rightarrow> [a])"

definition entry_signers :: "ContractCall \<Rightarrow> address list" where
  "entry_signers call =
    (if cl_function call = ''fund_escrow'' then signer_arg (cl_args call) 1
     else if cl_function call \<in> {''mark_shipped'', ''confirm_delivery'', ''raise_dispute'',
       ''resolve_dispute'', ''cancel_escrow'', ''rotate_resolver'', ''pause_contract'',
       ''unpause_contract'', ''set_arbitration_fee''} then signer_arg (cl_args call) 0
     else if cl_function call = ''create_escrow''
     then (case parse_arg as_payees (cl_args call) 0 of
             Inl e \<Rightarrow> [] | Inr payees \<Rightarrow> map p_address (take 1 payees))
     else [])"

definition multicall_step ::
  "env \<Rightarrow> ContractCall \<Rightarrow> (call_result list \<times> address list) \<times> world
    \<Rightarrow> ((call_result list \<times> address list) \<times> world) res" where
  "multicall_step env call = (\<lambda>((results, used), w).
    bindE (dispatch_call (after_auth env used) call w)
      (\<lambda>(r, w1). Inr ((results @ [r], used @ entry_signers call), w1)))"

definition multicall ::
  "env \<Rightarrow> ContractCall list \<Rightarrow> world \<Rightarrow> (call_result list \<times> world) res" where
  "multicall env calls w =
    bindE (ensure_action_not_paused ''multicall'' w) (\<lambda>_.
    if MAX_MULTICALL_BATCH_SIZE < length calls then fail MulticallBatchTooLarge
    else bindE (foldE (multicall_step env) calls (([], []), w))
      (\<lambda>((results, used), w1). Inr (results, w1)))"

end
