(* ===== verification/Views.thy ===== *)
theory Views
  imports Effects Queries
begin

text \<open>
  The read-only views of \<open>queries.rs\<close> and \<open>disputes.rs\<close> as calls: whatever a view answers,
  storage, transfers and events are those of before, and only rent may have been requested.
\<close>

section \<open>Only rent\<close>

definition only_rent :: "world \<Rightarrow> world \<Rightarrow> bool" where
  "only_rent w w' \<longleftrightarrow> w_inst w' = w_inst w \<and> w_pers w' = w_pers w \<and> w_xfers w' = w_xfers w \<and>
    w_events w' = w_events w \<and> w_wasm w' = w_wasm w"

lemma only_rent_refl [simp]: "only_rent w w"
  by (simp add: only_rent_def)

lemma only_rent_ttl [simp]:
  "only_rent w (extend_ttl_for_key k v) = only_rent w v"
  "only_rent w (extend_instance_ttl v) = only_rent w v"
  by (simp_all add: only_rent_def)

lemma only_rent_trans: "only_rent a b \<Longrightarrow> only_rent b c \<Longrightarrow> only_rent a c"
  by (simp add: only_rent_def)

lemma index_step_nothing:
  assumes "index_step {} w w'"
  shows "only_rent w w'"
proof -
  have "p_ids (w_pers w') = p_ids (w_pers w)" "p_counts (w_pers w') = p_counts (w_pers w)"
    using assms by (auto simp: index_step_def)
  moreover have "index_free (w_pers w') = index_free (w_pers w)"
    using assms by (simp add: index_step_def)
  ultimately have "w_pers w' = w_pers w"
    by (cases "w_pers w"; cases "w_pers w'") (simp add: index_free_def)
  then show ?thesis using assms by (simp add: index_step_def only_rent_def)
qed

lemma only_rent_index: "only_rent w (snd (read_escrow_index K w))"
  by (rule index_step_nothing [OF read_escrow_index_step])

lemma only_rent_window: "only_rent w (snd (read_window K i j (ids, w)))"
proof (induction K i j "(ids, w)" arbitrary: ids w rule: read_window.induct)
  case (1 K i j ids w)
  let ?p = "i div ESCROW_INDEX_PAGE_SIZE"
  show ?case
  proof (cases "p_ids (w_pers w) (ik_page K ?p)")
    case None
    with 1 show ?thesis by (subst read_window.simps) (simp add: Let_def)
  next
    case (Some page)
    with 1 show ?thesis
      using only_rent_trans [of w "extend_ttl_for_key (ik_page K ?p) w"]
      by (subst read_window.simps) (simp add: Let_def)
  qed
qed

lemma only_rent_index_page: "only_rent w (snd (read_escrow_index_page K start limit w))"
  using only_rent_window [of w K]
  by (simp add: read_escrow_index_page_def read_legacy_index_def Let_def split: option.split)

text \<open>A list of entries read one after the other.\<close>

lemma only_rent_fold:
  assumes "\<And>x a v. only_rent v (snd (f x (a, v)))"
  shows "only_rent w (snd (fold f xs (a, w)))"
proof (induction xs arbitrary: a w)
  case (Cons x xs)
  obtain b v where v: "f x (a, w) = (b, v)" by (cases "f x (a, w)")
  have "only_rent w v" using assms [of w x a] v by simp
  from only_rent_trans [OF this Cons.IH [where a = b]] v show ?case by simp
qed simp

lemma only_rent_scan: "only_rent w (snd (scan_buyer_escrow b i (ids, w)))"
  by (cases "p_escrow (w_pers w) i") (simp_all add: scan_buyer_escrow_def load_escrow_def)

lemma only_rent_lookup: "only_rent w (snd (lookup_escrow i (es, w)))"
  by (cases "p_escrow (w_pers w) i") (simp_all add: lookup_escrow_def load_escrow_def)

lemma only_rent_message: "only_rent w (snd (collect_message i n (ms, w)))"
  by (simp add: collect_message_def read_message_at_def Let_def split: option.split)

lemma only_rent_messages: "only_rent w v \<Longrightarrow> only_rent w (snd (fold (collect_message i) ns (ms, v)))"
  using only_rent_trans only_rent_fold [of "collect_message i"] only_rent_message by blast

lemma lookup_escrows:
  "fst (fold lookup_escrow ids (es, w)) = es @ map (p_escrow (w_pers w)) ids"
proof (induction ids arbitrary: es w)
  case (Cons i ids)
  then show ?case by (cases "p_escrow (w_pers w) i") (simp_all add: lookup_escrow_def load_escrow_def)
qed simp

lemma views_only_rent:
  "post (get_messages i start limit w) (only_rent w \<circ> snd)"
  "only_rent w (snd (get_basket_tokens i w))"
  "post (get_escrow i w) (only_rent w \<circ> snd)"
  "post (get_state_history i w) (only_rent w \<circ> snd)"
  "only_rent w (snd (get_escrows_by_buyer a w))"
  "only_rent w (snd (get_escrows_by_ids ids w))"
  "only_rent w (snd (get_escrows_by_vendor a start limit w))"
  "only_rent w (snd (get_escrows_by_seller a start limit w))"
  "only_rent w (snd (get_dispute i w))"
  "only_rent w (snd (get_public_config w))"
proof -
  show "post (get_messages i start limit w) (only_rent w \<circ> snd)"
    by (auto simp: get_messages_def Let_def wp case_prod_beta only_rent_messages)
  show "only_rent w (snd (get_escrows_by_buyer a w))"
    using only_rent_trans [OF only_rent_index only_rent_fold [OF only_rent_scan]] only_rent_index
    by (auto simp: get_escrows_by_buyer_def read_buyer_escrow_index_def Let_def case_prod_beta)
  show "only_rent w (snd (get_escrows_by_ids ids w))"
    by (simp add: get_escrows_by_ids_def only_rent_fold [OF only_rent_lookup])
qed (auto simp: get_basket_tokens_def get_escrow_def get_state_history_def load_escrow_def wp
    get_escrows_by_vendor_def get_escrows_by_seller_def
    read_vendor_escrow_index_page_def only_rent_index_page get_dispute_def load_dispute_def
    get_public_config_def load_basket_tokens_def Let_def ok_or_err_def ok_or_def const_defs
    post_def split: option.splits)

text \<open>A lookup by ids answers every one of the first 50 ids with the stored escrow, if any.\<close>

lemma get_escrows_by_ids_answers:
  "fst (get_escrows_by_ids ids w) = map (p_escrow (w_pers w)) (take MAX_IDS_PER_QUERY ids)"
  by (simp add: get_escrows_by_ids_def lookup_escrows)

section \<open>Views as calls\<close>

text \<open>The views that touch the ledger; their answer is dropped, the world they leave is kept.\<close>

datatype view_call =
  VGetMessages u64 u64 u64
| VGetBasketTokens u64
| VGetEscrow u64
| VGetStateHistory u64
| VGetEscrowsByBuyer address
| VGetEscrowsByIds "u64 list"
| VGetEscrowsByVendor address u64 u64
| VGetEscrowsBySeller address u64 u64
| VGetDispute u64
| VGetPublicConfig

fun view_run :: "view_call \<Rightarrow> world \<Rightarrow> world res" where
  "view_run (VGetMessages i start limit) w = map_sum id snd (get_messages i start limit w)"
| "view_run (VGetBasketTokens i) w = Inr (snd (get_basket_tokens i w))"
| "view_run (VGetEscrow i) w = map_sum id snd (get_escrow i w)"
| "view_run (VGetStateHistory i) w = map_sum id snd (get_state_history i w)"
| "view_run (VGetEscrowsByBuyer a) w = Inr (snd (get_escrows_by_buyer a w))"
| "view_run (VGetEscrowsByIds is) w = Inr (snd (get_escrows_by_ids is w))"
| "view_run (VGetEscrowsByVendor a start limit) w = Inr (snd (get_escrows_by_vendor a start limit w))"
| "view_run (VGetEscrowsBySeller a start limit) w = Inr (snd (get_escrows_by_seller a start limit w))"
| "view_run (VGetDispute i) w = Inr (snd (get_dispute i w))"
| "view_run VGetPublicConfig w = Inr (snd (get_public_config w))"

lemma post_map_sum: "post (map_sum f g r) P = post r (P \<circ> g)"
  by (cases r) (simp_all add: post_def)

lemma view_run_only_rent: "post (view_run q w) (only_rent w)"
  by (cases q) (simp_all add: post_map_sum views_only_rent wp)

lemma only_rent_idle: "only_rent w w' \<Longrightarrow> idle w w' \<and> w_inst w' = w_inst w"
  by (simp add: only_rent_def idle_def)

end
