(* ===== verification/System.thy ===== *)
theory System
  imports Moves Multicall Views
begin

text \<open>
  The contract as one machine: every entry point that touches the ledger is a \<open>call\<close>, each successful
  call is a sequence of the three kinds of steps, and the worlds reachable from the
  deployment satisfy the invariant.
\<close>

section \<open>Calls\<close>

datatype create_call =
  CCreate val "address option" address address int u32 u32 u64 "string option"
| CCreate8 val "address option" address address int u32 u64
| CCreate7 val "address option" address address int u32
| CWithExpiration address "address option" address address int u32 u64 "u64 option" u64
| CMulti address "address option" "address list" nat address int u32 u64
| CWithFallback address "address option" address address u64 address int u32 u64
| CBasket address "address option" address "address list" "int list" u32 u64 "string option"
    "u64 option" u64

datatype escrow_call =
  EFund address
| EFundBasket address
| EMarkShipped address string
| ERecordDelivery address
| ERequestRefund address
| ERotateResolver address address
| ERaiseDispute address symbol bytes bytes
| EResolveDispute address ResolutionType
| EVote address ResolutionType
| EClaimDisputeTimeout address
| EResolveDeadlocked
| EAppealDispute address
| EPostMessage address string
| EProposeDelivery address
| ECancelProposal address
| ERejectProposal address
| EExtendTtl

datatype call =
  Create create_call
| BatchCreate address "EscrowInput list"
| OnEscrow escrow_call u64
| Leave exit_call u64
| QueueOp address timelocked
| ExecuteOp address timelocked
| Administer admin_call
| Batch "ContractCall list"
| View view_call

fun create_run :: "env \<Rightarrow> create_call \<Rightarrow> world \<Rightarrow> (u64 \<times> world) res" where
  "create_run env (CCreate sp b r tk a f rf sw n) w = create_escrow env sp b r tk a f rf sw n w"
| "create_run env (CCreate8 sp b r tk a f sw) w = create_escrow_8 env sp b r tk a f sw w"
| "create_run env (CCreate7 sp b r tk a f) w = create_escrow_7 env sp b r tk a f w"
| "create_run env (CWithExpiration s b r tk a f sw x g) w =
    create_escrow_with_expiration env s b r tk a f sw x g w"
| "create_run env (CMulti s b rs t tk a f sw) w = create_escrow_multi env s b rs t tk a f sw w"
| "create_run env (CWithFallback s b p u d tk a f sw) w =
    create_escrow_with_fallback env s b p u d tk a f sw w"
| "create_run env (CBasket s b r tks as f sw n x g) w =
    create_basket_escrow env s b r tks as f sw n x g w"

fun escrow_run :: "env \<Rightarrow> escrow_call \<Rightarrow> u64 \<Rightarrow> world \<Rightarrow> world res" where
  "escrow_run env (EFund b) i w = fund_escrow env i b w"
| "escrow_run env (EFundBasket b) i w = fund_basket_escrow env i b w"
| "escrow_run env (EMarkShipped c t) i w = mark_shipped env c i t w"
| "escrow_run env (ERecordDelivery c) i w = record_delivery env c i w"
| "escrow_run env (ERequestRefund c) i w = request_refund env c i w"
| "escrow_run env (ERotateResolver c r) i w = rotate_resolver env c i r w"
| "escrow_run env (ERaiseDispute c r d h) i w = raise_dispute env c i r d h w"
| "escrow_run env (EResolveDispute c r) i w = resolve_dispute env c i r w"
| "escrow_run env (EVote c r) i w = vote env c i r w"
| "escrow_run env (EClaimDisputeTimeout c) i w = claim_dispute_timeout env c i w"
| "escrow_run env EResolveDeadlocked i w = resolve_deadlocked_dispute env i w"
| "escrow_run env (EAppealDispute c) i w = appeal_dispute env c i w"
| "escrow_run env (EPostMessage c m) i w = post_message env i c m w"
| "escrow_run env (EProposeDelivery c) i w = propose_record_delivery env c i w"
| "escrow_run env (ECancelProposal c) i w = cancel_delivery_proposal env c i w"
| "escrow_run env (ERejectProposal c) i w = reject_delivery_proposal env c i w"
| "escrow_run env EExtendTtl i w = extend_escrow_ttl env i w"

fun exec :: "env \<Rightarrow> call \<Rightarrow> world \<Rightarrow> world res" where
  "exec env (Create c) w = map_sum id snd (create_run env c w)"
| "exec env (BatchCreate s xs) w = map_sum id snd (batch_create_escrow env s xs w)"
| "exec env (OnEscrow c i) w = escrow_run env c i w"
| "exec env (Leave c i) w = exit_run env c i w"
| "exec env (QueueOp c t) w = tl_queue env c t w"
| "exec env (ExecuteOp c t) w = tl_execute env c t w"
| "exec env (Administer a) w = admin_exec env a w"
| "exec env (Batch cs) w = map_sum id snd (multicall env cs w)"
| "exec env (View q) w = view_run q w"

text \<open>Arguments of type \<open>i128\<close> are in range.\<close>

fun val_ok :: "val \<Rightarrow> bool" where
  "val_ok (VI128 n) = (n \<le> i128_max)" | "val_ok _ = True"

fun create_ok :: "create_call \<Rightarrow> bool" where
  "create_ok (CCreate sp b r tk a f rf sw n) = (a \<le> i128_max)"
| "create_ok (CCreate8 sp b r tk a f sw) = (a \<le> i128_max)"
| "create_ok (CCreate7 sp b r tk a f) = (a \<le> i128_max)"
| "create_ok (CWithExpiration s b r tk a f sw x g) = (a \<le> i128_max)"
| "create_ok (CMulti s b rs t tk a f sw) = (a \<le> i128_max)"
| "create_ok (CWithFallback s b p u d tk a f sw) = (a \<le> i128_max)"
| "create_ok (CBasket s b r tks as f sw n x g) = list_all (\<lambda>a. a \<le> i128_max) as"

fun call_ok :: "call \<Rightarrow> bool" where
  "call_ok (Create c) = create_ok c"
| "call_ok (BatchCreate s xs) = list_all (\<lambda>x. in_amount x \<le> i128_max) xs"
| "call_ok (Batch cs) = list_all (\<lambda>c. list_all val_ok (cl_args c)) cs"
| "call_ok _ = True"

section \<open>Whose money moves\<close>

text \<open>
  Every new transfer is of a positive amount, and leaves the contract itself or an address that
  signed the call.
\<close>

definition debits :: "env \<Rightarrow> world \<Rightarrow> world \<Rightarrow> bool" where
  "debits env w w' \<longleftrightarrow> (\<exists>ts. w_xfers w' = w_xfers w @ ts \<and>
    (\<forall>t \<in> set ts. 0 < tr_amount (fst t) \<and>
      (tr_from (fst t) = env_self env \<or> env_auth env (tr_from (fst t)))))"

lemma debits_same: "w_xfers w' = w_xfers w \<Longrightarrow> debits env w w'"
  by (simp add: debits_def)

lemma debits_trans: "debits env u v \<Longrightarrow> debits env v w \<Longrightarrow> debits env u w"
  unfolding debits_def by (elim exE conjE) (rule exI, rule conjI, simp, auto)

lemma debits_log:
  assumes "w_xfers w' = w_xfers w @ log_with st ts"
    "\<And>t. t \<in> set ts \<Longrightarrow> 0 < tr_amount t \<and> (tr_from t = env_self env \<or> env_auth env (tr_from t))"
  shows "debits env w w'"
  using assms by (auto simp: debits_def log_with_def)

lemma debits_pays: "pays_last env outs w w' \<Longrightarrow> debits env w w'"
  unfolding pays_last_def by (erule debits_log) (auto simp: xfers_of_def)

lemma debits_funds:
  assumes "funds env i b ins w w'" "\<And>tk n. (tk, n) \<in> set ins \<Longrightarrow> 0 < n"
  shows "debits env w w'"
  using assms by (intro debits_log [of _ _ "(w_inst w, w_pers w)" "deposits env b ins"])
    (auto simp: funds_def deposits_def)

lemma ins_positive:
  "(tk, n) \<in> set (basket_ins primary ts) \<Longrightarrow> 0 < n" "(tk, n) \<in> set (positive_ins ts) \<Longrightarrow> 0 < n"
  by (auto simp: basket_ins_def positive_ins_def is_transferable_basket_entry_def)

lemma fund_debits:
  assumes "inv self w"
  shows "fund_escrow env i b w = Inr w' \<Longrightarrow> debits env w w'"
    "fund_basket_escrow env i b w = Inr w' \<Longrightarrow> debits env w w'"
proof -
  show "debits env w w'" if "fund_escrow env i b w = Inr w'"
  proof -
    note F = postD [OF fund_escrow_effect that]
    obtain e where e: "p_escrow (w_pers w) i = Some e" "escrow_at w i = e"
      using F by (auto simp: funds_def alters_def escrow_at_def)
    have "e_state e = Pending" using F e(2) by (simp add: funds_def)
    then have "0 < e_amount e" using inv_escrow(8) [OF assms e(1)] by (simp add: amount_sound_def)
    with e(2) show ?thesis
      using ins_positive by (intro debits_funds [OF F]) auto
  qed
  show "fund_basket_escrow env i b w = Inr w' \<Longrightarrow> debits env w w'"
    using postD [OF fund_basket_escrow_effect] ins_positive by (blast intro: debits_funds)
qed

lemma debits_appeals: "appeals env c i w w' \<Longrightarrow> debits env w w'"
  by (rule debits_log [of _ _ "(w_inst w', w_pers w')" "appeal_xfers i c w"])
    (auto simp: appeals_def appeal_xfers_def Let_def split: if_splits)

section \<open>The three kinds of steps\<close>

inductive step :: "env \<Rightarrow> world \<Rightarrow> world \<Rightarrow> bool" for env where
  admin: "idle w w' \<Longrightarrow> (settings_ok (w_inst w) \<Longrightarrow> settings_ok (w_inst w')) \<Longrightarrow> step env w w'"
| move: "moves env i w w' \<Longrightarrow> debits env w w' \<Longrightarrow> step env w w'"
| create: "creates env i e (p_basket (w_pers w)) w w' \<Longrightarrow> step env w w'"
| create_basket: "creates env i e ((p_basket (w_pers w))(i \<mapsto> ts)) w w' \<Longrightarrow> basket_ok e ts \<Longrightarrow>
    e_amount e = te_amount (hd ts) \<Longrightarrow> step env w w'"

inductive_cases stepE: "step env w w'"

lemma step_inv: "step env w w' \<Longrightarrow> inv (env_self env) w \<Longrightarrow> inv (env_self env) w'"
proof (induction rule: step.induct)
  case (admin w w')
  then show ?case by (intro idle_inv [OF admin(1)]) (auto dest: invD(1))
next
  case (move i w w')
  from moves_inv [OF move(1,3)] show ?case .
next
  case (create i e w w')
  then show ?case by (intro creates_inv [OF create(1)]) auto
next
  case (create_basket i e w ts w')
  then show ?case by (intro creates_inv [OF create_basket(1), where ts = ts]) auto
qed

text \<open>A step of an invocation some of whose signatures are used up is a step of the invocation.\<close>

lemma creates_after_auth: "creates (after_auth env used) = creates env"
proof -
  have "pushed_history (after_auth env used) = pushed_history env"
    by (simp add: pushed_history_def fun_eq_iff)
  then show ?thesis unfolding creates_def fun_eq_iff by simp
qed

lemma step_after_auth: "step (after_auth env used) w w' \<Longrightarrow> step env w w'"
proof (induction rule: step.induct)
  case (move i w w')
  then have "moves env i w w'" "debits env w w'" by (auto simp: moves_def custody_def debits_def)
  then show ?case by (rule step.move)
next
  case (create i e w w')
  then show ?case unfolding creates_after_auth by (rule step.create)
next
  case (create_basket i e w ts w')
  then show ?case unfolding creates_after_auth by (rule step.create_basket)
qed (auto intro: step.admin)

lemma steps_inv: "(step env)\<^sup>*\<^sup>* w w' \<Longrightarrow> inv (env_self env) w \<Longrightarrow> inv (env_self env) w'"
  by (induction rule: rtranclp_induct) (auto intro: step_inv)

lemma step_debits: "step env w w' \<Longrightarrow> debits env w w'"
  by (induction rule: step.induct) (simp_all add: idle_def creates_def debits_same)

lemma steps_debits: "(step env)\<^sup>*\<^sup>* w w' \<Longrightarrow> debits env w w'"
  by (induction rule: rtranclp_induct) (auto intro: debits_same debits_trans step_debits)

section \<open>Every call is made of steps\<close>

lemma create_run_creates:
  assumes "create_run env c w = Inr (i, w')" "create_ok c"
  shows "creates env i (escrow_at w' i) (p_basket (w_pers w)) w w' \<or>
    (\<exists>ts. creates env i (escrow_at w' i) ((p_basket (w_pers w))(i \<mapsto> ts)) w w' \<and>
      basket_ok (escrow_at w' i) ts \<and> e_amount (escrow_at w' i) = te_amount (hd ts))"
proof (cases c)
  case (CBasket s b r tks as f sw n x g)
  with assms have "creates_basket env w (basket_entries tks as) (i, w')"
    using postD [OF create_basket_escrow_effect] by fastforce
  then show ?thesis by (auto simp: creates_basket_def)
qed (use assms in \<open>auto simp: creates_one_def
      dest!: postD [OF create_escrow_one, rotated] postD [OF create_escrow_8_one, rotated]
        postD [OF create_escrow_7_one, rotated] postD [OF create_escrow_with_expiration_one, rotated]
        postD [OF create_escrow_multi_one, rotated]
        postD [OF create_escrow_with_fallback_one, rotated]\<close>)

lemma create_run_step:
  "create_run env c w = Inr (i, w') \<Longrightarrow> create_ok c \<Longrightarrow> step env w w'"
  using create_run_creates [of env c w i w'] by (auto intro: step.create step.create_basket)

text \<open>Calls that write no escrow: messages, delivery proposals, rent.\<close>

lemma append_message_idle:
  assumes "append_message i m cap w = Inr w'"
  shows "idle w w'" "w_inst w' = w_inst w"
proof -
  have "w_inst (store_messages i n ms v) = w_inst v \<and> w_xfers (store_messages i n ms v) = w_xfers v"
    for n ms v by (induction ms arbitrary: n v) simp_all
  then have "idle v (migrate_legacy_messages i v)"
    "w_inst (migrate_legacy_messages i v) = w_inst v" for v
    by (auto simp: migrate_legacy_messages_def idle_def store_messages_pers split: option.split)
  with assms show "idle w w'" "w_inst w' = w_inst w"
    by (auto simp: append_message_def Let_def idle_def split: if_splits)
qed

lemma idle_step: "idle w w' \<Longrightarrow> w_inst w' = w_inst w \<Longrightarrow> step env w w'"
  by (rule step.admin) simp_all

lemma fold_extend_frame [simp]:
  "w_inst (fold (extend_if_present ext) ks w) = w_inst w"
  "w_pers (fold (extend_if_present ext) ks w) = w_pers w"
  "w_xfers (fold (extend_if_present ext) ks w) = w_xfers w"
  by (induction ks arbitrary: w) (simp_all add: extend_if_present_def)

text \<open>A call on escrow \<open>i\<close> leaves everything alone, or is a step of \<open>i\<close>.\<close>

definition local_to :: "env \<Rightarrow> u64 \<Rightarrow> world \<Rightarrow> world \<Rightarrow> bool" where
  "local_to env i w w' \<longleftrightarrow>
    idle w w' \<and> settings (w_inst w') = settings (w_inst w) \<or> moves env i w w'"

lemma quiet_local: "idle w w' \<and> w_inst w' = w_inst w \<Longrightarrow> local_to env i w w'"
  by (simp add: local_to_def)

lemma moves_local: "moves env i w w' \<Longrightarrow> local_to env i w w'"
  by (simp add: local_to_def)

lemma local_step: "local_to env i w w' \<Longrightarrow> debits env w w' \<Longrightarrow> step env w w'"
  unfolding local_to_def using settings_ok_cong [of "w_inst w'" "w_inst w"]
  by (elim disjE conjE) (simp_all add: step.admin step.move)

lemma quiet_run_idle:
  "post_message env i c m w = Inr w' \<Longrightarrow> idle w w' \<and> w_inst w' = w_inst w"
  "propose_record_delivery env c i w = Inr w' \<Longrightarrow> idle w w' \<and> w_inst w' = w_inst w"
  "cancel_delivery_proposal env c i w = Inr w' \<Longrightarrow> idle w w' \<and> w_inst w' = w_inst w"
  "reject_delivery_proposal env c i w = Inr w' \<Longrightarrow> idle w w' \<and> w_inst w' = w_inst w"
  "extend_escrow_ttl env i w = Inr w' \<Longrightarrow> idle w w' \<and> w_inst w' = w_inst w"
proof -
  show "idle w w' \<and> w_inst w' = w_inst w" if "post_message env i c m w = Inr w'"
  proof -
    from that obtain x cap v where
      "append_message i x cap (extend_ttl_for_key (DK_Escrow i) w) = Inr v"
      "w' = publish (emit_message_posted env i c) v"
      by (auto simp: post_message_def Let_def split: if_splits)
    with append_message_idle [of i x cap _ v] show ?thesis
      by (auto simp: idle_def)
  qed
qed (auto simp: propose_record_delivery_def cancel_delivery_proposal_def Let_def idle_def
    reject_delivery_proposal_def extend_escrow_ttl_def extend_escrow_ttl_internal_def split: if_splits)

lemmas quiet_run_local = quiet_run_idle [THEN quiet_local]

lemma idle_debits: "idle w w' \<and> P \<Longrightarrow> debits env w w'"
  by (rule debits_same) (simp add: idle_def)

lemmas quiet_run_debits = quiet_run_idle [THEN idle_debits]

lemma votes_or_resolves_cases:
  assumes "votes_or_resolves env c i r w w'"
  shows "e_state (escrow_at w i) = Disputed" "idle w w' \<and> settings (w_inst w') = settings (w_inst w)
    \<or> (\<exists>d. resolves env i c d True w w')"
  using assms unfolding votes_or_resolves_def Let_def
  by (simp_all split: sum.split_asm option.split_asm) blast

lemma vote_local:
  assumes "resolve_or_vote_internal env c i r w = Inr w'" "inv (env_self env) w"
  shows "local_to env i w w'"
proof -
  have V: "votes_or_resolves env c i r w w'"
    using postD [OF resolve_or_vote_effect [OF run_amount(6) [OF assms(2,1)]] assms(1)] .
  from votes_or_resolves_cases [OF V] resolves_moves [OF _ assms(2)] show ?thesis
    unfolding local_to_def by blast
qed

lemma claim_dispute_timeout_moves:
  assumes "claim_dispute_timeout env c i w = Inr w'" "inv (env_self env) w"
  shows "moves env i w w'"
proof -
  note R = postD [OF claim_dispute_timeout_effect [OF run_amount(4) [OF assms(2,1)]] assms(1)]
  show ?thesis
    by (rule resolves_moves [OF conjunct1 [OF R] assms(2)]) (use R in simp)
qed

lemma resolve_deadlocked_dispute_moves:
  assumes "resolve_deadlocked_dispute env i w = Inr w'" "inv (env_self env) w"
  shows "moves env i w w'"
proof -
  note R = postD [OF resolve_deadlocked_dispute_effect [OF run_amount(5) [OF assms(2,1)]] assms(1)]
  then obtain actor r where "resolves env i actor r True w w'" by blast
  then show ?thesis by (rule resolves_moves [OF _ assms(2)]) (use R in simp)
qed

lemma appeal_dispute_moves:
  assumes "appeal_dispute env c i w = Inr w'" "inv (env_self env) w" "legit (env_self env) env"
  shows "moves env i w w'"
  using appeals_moves [OF postD [OF appeal_dispute_effect [OF run_amount(7) [OF assms(2,1)]]
      assms(1)] assms(2,3)] .

lemma escrow_run_local:
  assumes "escrow_run env c i w = Inr w'" "inv (env_self env) w" "legit (env_self env) env"
  shows "local_to env i w w'"
  using assms
  by (cases c) (auto simp: resolve_dispute_def vote_def intro: quiet_run_local vote_local
    moves_local fund_escrow_moves fund_basket_escrow_moves mark_shipped_moves record_delivery_moves
    request_refund_moves rotate_resolver_moves raise_dispute_moves claim_dispute_timeout_moves
    resolve_deadlocked_dispute_moves appeal_dispute_moves)

lemma vote_debits:
  assumes "resolve_or_vote_internal env c i r w = Inr w'" "inv self w"
  shows "debits env w w'"
proof -
  have V: "votes_or_resolves env c i r w w'"
    using postD [OF resolve_or_vote_effect [OF run_amount(6) [OF assms(2,1)]] assms(1)] .
  from votes_or_resolves_cases(2) [OF V] show ?thesis
    by (auto simp: idle_def resolves_def intro: debits_same debits_pays)
qed

lemma escrow_run_debits:
  assumes "escrow_run env c i w = Inr w'" "inv (env_self env) w"
  shows "debits env w w'"
proof (cases c)
  case (EClaimDisputeTimeout a)
  with assms have "claim_dispute_timeout env a i w = Inr w'" by simp
  from postD [OF claim_dispute_timeout_effect [OF run_amount(4) [OF assms(2) this]] this]
  show ?thesis by (auto simp: resolves_def intro: debits_pays)
next
  case EResolveDeadlocked
  with assms have "resolve_deadlocked_dispute env i w = Inr w'" by simp
  from postD [OF resolve_deadlocked_dispute_effect [OF run_amount(5) [OF assms(2) this]] this]
  show ?thesis by (auto simp: resolves_def intro: debits_pays)
next
  case (EAppealDispute a)
  with assms have "appeal_dispute env a i w = Inr w'" by simp
  from postD [OF appeal_dispute_effect [OF run_amount(7) [OF assms(2) this]] this]
  show ?thesis by (rule debits_appeals)
qed (use assms in \<open>auto simp: resolve_dispute_def vote_def idle_def
    dest: vote_debits intro: quiet_run_debits fund_debits
    dest!: postD [OF mark_shipped_effect] postD [OF record_delivery_effect] postD [OF request_refund_effect]
      postD [OF rotate_resolver_effect] postD [OF raise_dispute_effect]
    intro: debits_pays debits_same\<close>)

lemma exit_run_debits:
  "exit_run env c i w = Inr w' \<Longrightarrow> inv (env_self env) w \<Longrightarrow> debits env w w'"
  using exits.run_closes debits_pays by (fastforce simp: closes_def)

lemma escrow_run_step:
  "escrow_run env c i w = Inr w' \<Longrightarrow> inv (env_self env) w \<Longrightarrow> legit (env_self env) env \<Longrightarrow>
    step env w w'"
  using local_step [OF escrow_run_local escrow_run_debits] .

lemma exit_run_step:
  "exit_run env c i w = Inr w' \<Longrightarrow> inv (env_self env) w \<Longrightarrow> step env w w'"
  using exits.run_moves exit_run_debits step.move by blast

lemma admin_step_step: "admin_step w w' \<Longrightarrow> step env w w'"
  by (rule step.admin) (simp_all add: admin_step_def)

section \<open>Batches\<close>

lemma foldE_steps:
  assumes "\<And>x a v a' v'. P x \<Longrightarrow> f x (a, v) = Inr (a', v') \<Longrightarrow> inv (env_self env) v \<Longrightarrow>
      (step env)\<^sup>*\<^sup>* v v'"
  shows "foldE f xs (a, w) = Inr (a', w') \<Longrightarrow> inv (env_self env) w \<Longrightarrow> list_all P xs \<Longrightarrow>
    (step env)\<^sup>*\<^sup>* w w'"
proof (induction xs arbitrary: a w)
  case (Cons x xs)
  then obtain b v where s: "f x (a, w) = Inr (b, v)" "foldE f xs (b, v) = Inr (a', w')" by auto
  have one: "(step env)\<^sup>*\<^sup>* w v" using assms [OF _ s(1) Cons.prems(2)] Cons.prems(3) by simp
  moreover have "(step env)\<^sup>*\<^sup>* v w'"
    using Cons.IH [OF s(2) steps_inv [OF one Cons.prems(2)]] Cons.prems(3) by simp
  ultimately show ?case by simp
qed simp

lemma create_batch_entry_step:
  assumes "create_batch_entry env s x (a, v) = Inr (a', v')" "in_amount x \<le> i128_max"
  shows "step env v v'"
  using assms by (auto simp: create_batch_entry_def creates_one_def intro: step.create
      dest!: postD [OF create_escrow_internal_one, rotated])

lemma batch_create_steps:
  assumes "batch_create_escrow env s xs w = Inr (is, w')" "inv (env_self env) w"
    "list_all (\<lambda>x. in_amount x \<le> i128_max) xs"
  shows "(step env)\<^sup>*\<^sup>* w w'"
proof -
  have "foldE (create_batch_entry env s) xs ([], w) = Inr (is, w')"
    using assms(1) by (auto simp: batch_create_escrow_def)
  from foldE_steps [OF _ this assms(2,3)] show ?thesis
    using create_batch_entry_step by blast
qed

text \<open>A multicall entry is one of the calls above, or a view.\<close>

lemma parse_arg_Inr: "parse_arg decode args n = Inr x \<Longrightarrow> \<exists>v \<in> set args. decode v = Some x"
  by (auto simp: parse_arg_def vec_get_def split: if_splits)

lemma as_i128_ok: "val_ok v \<Longrightarrow> as_i128 v = Some n \<Longrightarrow> n \<le> i128_max"
  by (cases v) auto

lemma unit_result_Inr: "unit_result r = Inr (x, w') \<Longrightarrow> r = Inr w'"
  by (auto simp: unit_result_def)

lemma get_dispute_idle: "idle w (snd (get_dispute i w)) \<and> w_inst (snd (get_dispute i w)) = w_inst w"
  by (cases "p_dispute (w_pers w) i") (simp_all add: get_dispute_def load_dispute_def idle_def)

lemma dispatch_create_step:
  assumes "dispatch_create_escrow env args w = Inr (x, w')" "list_all val_ok args"
  shows "step env w w'"
proof -
  from assms(1) obtain payees b r tk a f rf sw i where
    a: "parse_arg as_i128 args 4 = Inr a" and
    c: "create_escrow env (VPayees payees) b r tk a f rf sw None w = Inr (i, w')"
    unfolding dispatch_create_escrow_def by auto
  from parse_arg_Inr [OF a] assms(2) have "a \<le> i128_max"
    using as_i128_ok by (auto simp: list_all_iff)
  with c show ?thesis
    by (intro create_run_step [of env "CCreate (VPayees payees) b r tk a f rf sw None"]) simp_all
qed

lemmas dispatch_defs = dispatch_fund_escrow_def dispatch_get_escrow_def dispatch_mark_shipped_def
  dispatch_confirm_delivery_def dispatch_raise_dispute_def dispatch_resolve_dispute_def
  dispatch_auto_release_def dispatch_cancel_escrow_def dispatch_rotate_resolver_def
  dispatch_initialize_def dispatch_pause_contract_def dispatch_unpause_contract_def
  dispatch_get_dispute_def dispatch_get_fee_config_def dispatch_set_arbitration_fee_def
  dispatch_get_arbitration_fee_def

text \<open>The entries that write, as calls.\<close>

lemma entry_steps:
  assumes "inv (env_self env) w" "legit (env_self env) env"
  shows "fund_escrow env i c w = Inr w' \<Longrightarrow> step env w w'"
    "mark_shipped env c i t w = Inr w' \<Longrightarrow> step env w w'"
    "confirm_delivery env c i b w = Inr w' \<Longrightarrow> step env w w'"
    "raise_dispute env c i s d h w = Inr w' \<Longrightarrow> step env w w'"
    "resolve_dispute env c i r w = Inr w' \<Longrightarrow> step env w w'"
    "auto_release env i w = Inr w' \<Longrightarrow> step env w w'"
    "cancel_escrow env c i w = Inr w' \<Longrightarrow> step env w w'"
    "rotate_resolver env c i a w = Inr w' \<Longrightarrow> step env w w'"
    "initialize env c a k w = Inr w' \<Longrightarrow> step env w w'"
    "queue_pause_contract env c w = Inr w' \<Longrightarrow> step env w w'"
    "queue_unpause_contract env c w = Inr w' \<Longrightarrow> step env w w'"
    "set_arbitration_fee env c k w = Inr w' \<Longrightarrow> step env w w'"
  using escrow_run_step [of env "EFund c" i w w'] escrow_run_step [of env "EMarkShipped c t" i w w']
    escrow_run_step [of env "ERaiseDispute c s d h" i w w']
    escrow_run_step [of env "EResolveDispute c r" i w w']
    escrow_run_step [of env "ERotateResolver c a" i w w']
    exit_run_step [of env "XConfirmDelivery c b" i w w'] exit_run_step [of env XAutoRelease i w w']
    exit_run_step [of env "XCancelEscrow c" i w w']
    admin_step_step [OF admin_exec_step, of env "AInitialize c a k" w w']
    admin_step_step [OF admin_exec_step, of env "ASetArbitrationFee c k" w w']
    admin_step_step [OF tl_queue_step, of env c LPauseContract w w']
    admin_step_step [OF tl_queue_step, of env c LUnpauseContract w w']
    assms invD(1) [OF assms(1)]
  by simp_all

lemma dispatch_step:
  assumes "dispatch_call env call w = Inr (x, w')" "inv (env_self env) w"
    "legit (env_self env) env" "list_all val_ok (cl_args call)"
  shows "step env w w'"
proof -
  note E = entry_steps [OF assms(2,3)] and U = unit_result_Inr
  have g: "get_escrow i w = Inr (e, w') \<Longrightarrow> step env w w'" for i e
    by (auto simp: get_escrow_def idle_def intro!: idle_step)
  have d: "step env w (snd (get_dispute i w))" for i
    using get_dispute_idle [of w i] by (auto intro: idle_step)
  have r: "step env v v" for v by (rule idle_step) (simp_all add: idle_def)
  show ?thesis
    using assms(1) unfolding dispatch_call_def
    by (auto split: if_split_asm simp: dispatch_defs Let_def case_prod_beta
        intro: r g d E dest!: U dispatch_create_step [OF _ assms(4)])
qed

lemma multicall_steps:
  assumes "multicall env cs w = Inr (rs, w')" "inv (env_self env) w"
    "legit (env_self env) env" "list_all (\<lambda>c. list_all val_ok (cl_args c)) cs"
  shows "(step env)\<^sup>*\<^sup>* w w'"
proof -
  obtain a where f: "foldE (multicall_step env) cs (([], []), w) = Inr (a, w')"
    using assms(1) by (auto simp: multicall_def split: if_splits)
  have "step env v v'" if m: "multicall_step env c (xs, v) = Inr (ys, v')"
    and I: "inv (env_self env) v" "list_all val_ok (cl_args c)" for c xs ys v v'
  proof -
    obtain r where "dispatch_call (after_auth env (snd xs)) c v = Inr (r, v')"
      using m by (cases xs) (auto simp: multicall_step_def)
    from dispatch_step [OF this] I assms(3) show ?thesis
      by (auto simp: legit_def intro: step_after_auth)
  qed
  then show ?thesis by (intro foldE_steps [OF _ f assms(2,4)]) blast
qed

theorem exec_steps:
  assumes "exec env c w = Inr w'" "inv (env_self env) w" "legit (env_self env) env" "call_ok c"
  shows "(step env)\<^sup>*\<^sup>* w w'"
proof (cases c)
  case (Create a)
  then obtain i where "create_run env a w = Inr (i, w')"
    using assms(1) by (cases "create_run env a w") auto
  with Create assms(4) show ?thesis by (auto intro!: create_run_step r_into_rtranclp)
next
  case (BatchCreate s xs)
  then obtain "is" where "batch_create_escrow env s xs w = Inr (is, w')"
    using assms(1) by (cases "batch_create_escrow env s xs w") auto
  from batch_create_steps [OF this assms(2)] BatchCreate assms(4) show ?thesis by simp
next
  case (Batch cs)
  then obtain rs where "multicall env cs w = Inr (rs, w')"
    using assms(1) by (cases "multicall env cs w") auto
  from multicall_steps [OF this assms(2,3)] Batch assms(4) show ?thesis by simp
next
  case (View q)
  with assms(1) only_rent_idle postD [OF view_run_only_rent, of q w w'] show ?thesis
    by (intro r_into_rtranclp idle_step) simp_all
qed (use assms invD(1) [OF assms(2)] in \<open>auto intro!: r_into_rtranclp
    intro: escrow_run_step exit_run_step admin_step_step tl_queue_step tl_execute_step admin_exec_step\<close>)

section \<open>Reachable worlds\<close>

text \<open>
  Everything that can follow the initialization of a fresh deployment, one committed call at
  a time, in any order, at any ledger time, under any authorisations but the contract's own.
\<close>

inductive reachable :: "address \<Rightarrow> world \<Rightarrow> bool" for self where
  deployed: "initialize env admin fee_collector bps fresh_world = Inr w \<Longrightarrow> reachable self w"
| called: "reachable self w \<Longrightarrow> legit self env \<Longrightarrow> call_ok c \<Longrightarrow> exec env c w = Inr w' \<Longrightarrow>
    reachable self w'"

lemma legit_self: "legit self env \<Longrightarrow> env_self env = self"
  by (simp add: legit_def)

lemma initialize_inv:
  assumes "initialize env admin fc bps fresh_world = Inr w"
  shows "inv self w"
proof -
  have w: "w_pers w = empty_persistent" "w_xfers w = []" "i_escrow_counter (w_inst w) = Some 1"
    using assms by (auto simp: initialize_def Let_def fresh_world_def split: if_splits)
  moreover have "owed tk w = 0" for tk
    by (simp add: owed_def claim_at_def w empty_persistent_def)
  moreover have "settings_ok (w_inst w)"
    using assms by (rule initialize_settings_ok) (simp_all add: fresh_world_def empty_instance_def)
  ultimately show ?thesis
    by (simp add: inv_def sound_def next_id_def empty_persistent_def)
qed

theorem reachable_inv: "reachable self w \<Longrightarrow> inv self w"
proof (induction rule: reachable.induct)
  case (deployed env admin fc bps w)
  then show ?case by (rule initialize_inv)
next
  case (called w env c w')
  then show ?case
    using exec_steps [of env c w w'] steps_inv [of env w w'] legit_self [of self env] by auto
qed

section \<open>What a run preserves\<close>

text \<open>The parts of an escrow that are agreed at creation.\<close>

definition terms_of where
  "terms_of e = (e_payees e, e_token e, e_fee_bps e, e_resolver_fee_bps e, e_shipping_window e,
     e_notes e, e_expires_at e, e_grace_period e)"

definition descends :: "Escrow \<Rightarrow> Escrow \<Rightarrow> bool" where
  "descends e e' \<longleftrightarrow> legal\<^sup>*\<^sup>* (e_state e) (e_state e') \<and> terms_of e' = terms_of e \<and>
    rotates (e_resolvers e) (e_resolvers e') \<and> e_amount e' \<le> e_amount e \<and> (e_buyer e = None \<or> e_buyer e' = e_buyer e) \<and>
    (is_final (e_state e) \<longrightarrow> e' = e)"

lemma descends_refl [simp]: "descends e e"
  by (simp add: descends_def)

lemma descends_trans: "descends a b \<Longrightarrow> descends b c \<Longrightarrow> descends a c"
  by (auto simp: descends_def intro: rotates_trans)

lemma evolves_descends: "evolves e e' \<Longrightarrow> descends e e'"
  by (auto simp: evolves_def descends_def terms_of_def)

text \<open>
  How many more times the state of an escrow may change: every transition lowers the rank, an
  appeal because it uses up one of the ten that are allowed.
\<close>

fun state_rank :: "EscrowState \<Rightarrow> nat \<Rightarrow> nat" where
  "state_rank Pending n = 26"
| "state_rank Funded n = 25"
| "state_rank RefundRequested n = 24"
| "state_rank Shipped n = 23"
| "state_rank Disputed n = 2 + 2 * (10 - n)"
| "state_rank PendingFinalization n = 1 + 2 * (10 - n)"
| "state_rank _ n = 0"

definition rank_at :: "world \<Rightarrow> u64 \<Rightarrow> nat" where
  "rank_at w i = state_rank (e_state (escrow_at w i)) (appeals_at w i)"

definition ranks_down :: "u64 \<Rightarrow> world \<Rightarrow> world \<Rightarrow> bool" where
  "ranks_down i w w' \<longleftrightarrow> rank_at w' i \<le> rank_at w i \<and>
    (e_state (escrow_at w' i) \<noteq> e_state (escrow_at w i) \<longrightarrow> rank_at w' i < rank_at w i)"

lemma ranks_down_trans: "ranks_down i u v \<Longrightarrow> ranks_down i v w \<Longrightarrow> ranks_down i u w"
  by (cases "e_state (escrow_at v i) = e_state (escrow_at u i)") (auto simp: ranks_down_def)

lemma ranks_down_same:
  "p_escrow (w_pers w') i = p_escrow (w_pers w) i \<Longrightarrow>
    p_dispute (w_pers w') i = p_dispute (w_pers w) i \<Longrightarrow> ranks_down i w w'"
  by (simp add: ranks_down_def rank_at_def appeals_at_def escrow_at_def)

lemma appeals_at_le:
  assumes "inv self w" "p_escrow (w_pers w) i = Some e"
  shows "appeals_at w i \<le> 10" "e_state e \<in> {Pending, Funded, Shipped, RefundRequested} \<Longrightarrow> appeals_at w i = 0"
  using inv_escrow(2) [OF assms]
  by (cases "p_dispute (w_pers w) i";
      auto simp: dispute_sound_def appeals_at_def word_le_nat_alt const_defs)+

lemma moves_at:
  assumes "moves env j w w'"
  shows "p_escrow (w_pers w') i = (if i = j then Some (escrow_at w' j) else p_escrow (w_pers w) i)"
    "p_escrow (w_pers w) j = Some (escrow_at w j)" "evolves (escrow_at w j) (escrow_at w' j)"
    "i \<noteq> j \<Longrightarrow> p_dispute (w_pers w') i = p_dispute (w_pers w) i"
proof -
  have M: "p_escrow (w_pers w') = (p_escrow (w_pers w))(j \<mapsto> escrow_at w' j)"
    using assms by (simp add: moves_def)
  show "p_escrow (w_pers w') i = (if i = j then Some (escrow_at w' j) else p_escrow (w_pers w) i)"
    using fun_cong [OF M, of i] unfolding fun_upd_apply .
  show "p_escrow (w_pers w) j = Some (escrow_at w j)" "evolves (escrow_at w j) (escrow_at w' j)"
    "i \<noteq> j \<Longrightarrow> p_dispute (w_pers w') i = p_dispute (w_pers w) i"
    using assms by (auto simp: moves_def escrow_at_def)
qed

lemma moves_ranks_down:
  assumes "moves env i w w'" "inv (env_self env) w"
  shows "ranks_down i w w'"
proof -
  let ?e = "escrow_at w i" and ?e' = "escrow_at w' i"
  have e: "p_escrow (w_pers w) i = Some ?e" "p_escrow (w_pers w') i = Some ?e'"
    using moves_at(1,2) [OF assms(1)] by auto
  have a: "appeals_at w' i = appeals_at w i + appeal_step ?e ?e'"
    and l: "e_state ?e' = e_state ?e \<or> legal (e_state ?e) (e_state ?e')"
    using assms(1) by (auto simp: moves_def evolves_def)
  note b = appeals_at_le [OF assms(2) e(1)] appeals_at_le(1) [OF moves_inv [OF assms] e(2)]
  show ?thesis
    using l a b by (cases "e_state ?e")
      (auto simp: ranks_down_def rank_at_def appeal_step_def)
qed

text \<open>How a stored escrow ages.\<close>

definition ages :: "u64 \<Rightarrow> world \<Rightarrow> world \<Rightarrow> bool" where
  "ages i w w' \<longleftrightarrow> (\<forall>e. p_escrow (w_pers w) i = Some e \<longrightarrow>
    (\<exists>e'. p_escrow (w_pers w') i = Some e' \<and> descends e e') \<and> ranks_down i w w')"

lemma ages_same:
  "p_escrow (w_pers w') i = p_escrow (w_pers w) i \<Longrightarrow>
    p_dispute (w_pers w') i = p_dispute (w_pers w) i \<Longrightarrow> ages i w w'"
  by (auto simp: ages_def intro: ranks_down_same)

lemma ages_trans:
  assumes "ages i u v" "ages i v w"
  shows "ages i u w"
  unfolding ages_def
proof (intro allI impI conjI)
  fix e assume "p_escrow (w_pers u) i = Some e"
  with assms(1) obtain e1 where e1: "p_escrow (w_pers v) i = Some e1" "descends e e1" "ranks_down i u v"
    by (auto simp: ages_def)
  with assms(2) obtain e2 where "p_escrow (w_pers w) i = Some e2" "descends e1 e2" "ranks_down i v w"
    by (auto simp: ages_def)
  with e1 show "\<exists>e'. p_escrow (w_pers w) i = Some e' \<and> descends e e'" "ranks_down i u w"
    by (auto intro: descends_trans ranks_down_trans)
qed

lemma creates_ages:
  assumes "creates env j e baskets w w'" "inv (env_self env) w"
  shows "ages i w w'"
proof (cases "i = j")
  case True
  then have "p_escrow (w_pers w) i = None" using assms by (simp add: creates_def inv_def)
  then show ?thesis by (simp add: ages_def)
next
  case False
  with assms(1) show ?thesis by (intro ages_same) (simp_all add: creates_def)
qed

lemma step_ages:
  assumes "step env w w'" "inv (env_self env) w"
  shows "ages i w w'"
  using assms(1)
proof cases
  case admin
  then show ?thesis by (intro ages_same) (simp_all add: idle_def)
next
  case (move j)
  show ?thesis
  proof (cases "i = j")
    case True
    then show ?thesis
      using moves_at(1,2) [OF move(1)] evolves_descends [OF moves_at(3) [OF move(1)]]
        moves_ranks_down [OF move(1) assms(2)]
      by (simp add: ages_def)
  qed (use moves_at [OF move(1)] in \<open>auto intro!: ages_same\<close>)
qed (use assms(2) creates_ages in blast)+

lemma steps_age:
  assumes "(step env)\<^sup>*\<^sup>* w w'" "inv (env_self env) w"
  shows "ages i w w'"
  using assms
proof (induction rule: rtranclp_induct)
  case (step v v')
  with step_ages [OF step(2) steps_inv [OF step(1,4)], of i] show ?case by (blast intro: ages_trans)
qed (simp add: ages_same)

text \<open>Everything that may follow a world.\<close>

inductive later :: "address \<Rightarrow> world \<Rightarrow> world \<Rightarrow> bool" for self where
  now: "later self w w"
| call: "later self w v \<Longrightarrow> legit self env \<Longrightarrow> call_ok c \<Longrightarrow> exec env c v = Inr v' \<Longrightarrow> later self w v'"

lemma later_reachable: "later self w v \<Longrightarrow> reachable self w \<Longrightarrow> reachable self v"
  by (induction rule: later.induct) (auto intro: reachable.called)

lemma later_ages:
  assumes "later self w v" "reachable self w"
  shows "ages i w v"
  using assms
proof (induction rule: later.induct)
  case (call w v env c v')
  have "inv (env_self env) v" "legit (env_self env) env"
    using reachable_inv [OF later_reachable [OF call(1,6)]] legit_self [OF call(2)] call(2) by simp_all
  from steps_age [OF exec_steps [OF call(4) this call(3)] this(1)] call(5,6) show ?case
    using ages_trans by blast
qed (simp add: ages_same)

lemma later_descends:
  assumes "later self w v" "reachable self w" "p_escrow (w_pers w) i = Some e"
  shows "\<exists>e'. p_escrow (w_pers v) i = Some e' \<and> descends e e'"
  using later_ages [OF assms(1,2), of i] assms(3) by (simp add: ages_def)

lemma legal_rtranclp_final: "legal\<^sup>*\<^sup>* s t \<Longrightarrow> is_final s \<Longrightarrow> t = s"
  by (induction rule: rtranclp_induct) (auto dest: final_stuck)

end
