(* ===== verification/Authority.thy ===== *)
theory Authority
  imports System
begin

text \<open>
  Who may do what, and when: for every call on an escrow the signatures, roles, states and
  times a successful call requires; who administers; and what a paused contract still does.
\<close>

section \<open>Leaving an escrow\<close>

definition expired_at :: "env \<Rightarrow> Escrow \<Rightarrow> bool" where
  "expired_at env e \<longleftrightarrow> (case e_expires_at e of None \<Rightarrow> False | Some x \<Rightarrow> x \<le> env_now env)"

definition signed_by :: "env \<Rightarrow> address option \<Rightarrow> bool" where
  "signed_by env v \<longleftrightarrow> (case v of None \<Rightarrow> False | Some a \<Rightarrow> env_auth env a)"

fun exit_guard :: "env \<Rightarrow> exit_call \<Rightarrow> u64 \<Rightarrow> world \<Rightarrow> bool" where
  "exit_guard env XReclaimExpired i w = (let e = escrow_at w i in
     e_state e \<in> {Funded, Shipped} \<and> signed_by env (e_buyer e) \<and> expired_at env e)"
| "exit_guard env XMutualCancel i w = (let e = escrow_at w i in
     e_state e \<in> {Funded, Shipped} \<and> unexpired env i (w_pers w) \<and>
     signed_by env (e_buyer e) \<and> env_auth env (payee_at w i))"
| "exit_guard env (XApproveRefund c) i w = (let e = escrow_at w i in
     e_state e = RefundRequested \<and> unexpired env i (w_pers w) \<and> c = payee_at w i \<and> env_auth env c)"
| "exit_guard env (XRecoveryWithdraw c) i w = (let e = escrow_at w i in
     is_live (e_state e) \<and> e_buyer e = Some c \<and> env_auth env c \<and> is_recovery_mode w)"
| "exit_guard env XEmergencyDrain i w = (let e = escrow_at w i in
     e_state e \<in> {Funded, Shipped, Disputed, PendingFinalization} \<and>
     signed_by env (e_buyer e) \<and> env_auth env (payee_at w i) \<and> is_paused w)"
| "exit_guard env (XCancelEscrow c) i w = (let e = escrow_at w i in
     env_auth env c \<and> unexpired env i (w_pers w) \<and>
     (e_state e = Pending \<and> (e_buyer e = Some c \<or> is_payee e c) \<or>
      e_state e = Funded \<and> e_buyer e = Some c))"
| "exit_guard env XAutoCancelPending i w = (let e = escrow_at w i in
     e_state e = Pending \<and> unexpired env i (w_pers w) \<and>
     uint (fst (escrow_created_at i w)) + uint PENDING_EXPIRY_WINDOW < uint (env_now env))"
| "exit_guard env (XConfirmDelivery c waive) i w = (let e = escrow_at w i in
     e_state e = Shipped \<and> e_buyer e = Some c \<and> env_auth env c \<and>
     unexpired env i (w_pers w) \<and> (waive \<or> dispute_deadline e \<le> env_now env))"
| "exit_guard env XAutoRelease i w = (
     auto_releasable env (escrow_at w i) i (w_pers w) \<and> unexpired env i (w_pers w))"
| "exit_guard env (XCoSignedRelease c) i w = (let e = escrow_at w i in
     e_state e \<in> {Funded, Shipped} \<and> env_auth env c \<and> signed_by env (e_buyer e) \<and>
     env_auth env (payee_at w i))"
| "exit_guard env (XFinalizeDispute c) i w = (let d = dispute_at w i in
     e_state (escrow_at w i) = PendingFinalization \<and> env_auth env c \<and>
     get_resolution d \<noteq> None \<and>
     uint (d_resolved_at d) + uint APPEAL_WINDOW \<le> uint (env_now env))"
| "exit_guard env (XCancelPendingFinalization c) i w =
     (e_state (escrow_at w i) = PendingFinalization \<and> i_admin (w_inst w) = Some c \<and> env_auth env c)"

lemma buyer_signed:
  "env_auth env (buyer_at w i) \<Longrightarrow> e_buyer (escrow_at w i) \<noteq> None \<Longrightarrow>
    signed_by env (e_buyer (escrow_at w i))"
  by (auto simp: signed_by_def buyer_at_def)

lemma auto_cancel_pending_time:
  "post (auto_cancel_pending env i w) (\<lambda>w'. unexpired env i (w_pers w) \<and>
     uint (fst (escrow_created_at i w)) + uint PENDING_EXPIRY_WINDOW < uint (env_now env))"
  by (auto simp: auto_cancel_pending_def case_prod_beta wp not_le word_less_def uint_word_ariths)

lemma buyer_guards:
  "reclaim_expired env i w = Inr w' \<Longrightarrow> exit_guard env XReclaimExpired i w"
  "mutual_cancel env i w = Inr w' \<Longrightarrow> exit_guard env XMutualCancel i w"
  "approve_refund env c i w = Inr w' \<Longrightarrow> exit_guard env (XApproveRefund c) i w"
  "recovery_withdraw env c i w = Inr w' \<Longrightarrow> exit_guard env (XRecoveryWithdraw c) i w"
  "emergency_drain env i w = Inr w' \<Longrightarrow> exit_guard env XEmergencyDrain i w"
  by (auto dest!: postD [OF reclaim_expired_effect] postD [OF mutual_cancel_effect]
      postD [OF approve_refund_effect] postD [OF recovery_withdraw_effect]
      postD [OF emergency_drain_effect]
      simp: refunds_buyer_def signed_by_def expired_at_def buyer_at_def Let_def)

lemma cancel_guards:
  "cancel_escrow env c i w = Inr w' \<Longrightarrow> exit_guard env (XCancelEscrow c) i w"
  "auto_cancel_pending env i w = Inr w' \<Longrightarrow> exit_guard env XAutoCancelPending i w"
  "cancel_pending_finalization env c i w = Inr w' \<Longrightarrow>
    exit_guard env (XCancelPendingFinalization c) i w"
  using postD [OF auto_cancel_pending_time, of env i w w']
  by (auto dest!: postD [OF cancel_escrow_effect] postD [OF auto_cancel_pending_effect]
      postD [OF cancel_pending_finalization_effect]
      simp: refunds_buyer_def buyer_at_def Let_def split: if_splits)

lemma exit_run_guard:
  assumes "exit_run env a i w = Inr w'" "inv self w"
  shows "exit_guard env a i w"
proof (cases a)
  case (XConfirmDelivery c waive)
  with assms show ?thesis
    using postD [OF confirm_delivery_effect [OF run_amount(1) [OF assms(2)]]]
    by (auto simp: Let_def)
next
  case XAutoRelease
  with assms show ?thesis
    using postD [OF auto_release_effect [OF run_amount(2) [OF assms(2)]]] by auto
next
  case (XCoSignedRelease c)
  with assms show ?thesis
    using postD [OF co_signed_release_effect [OF run_amount(3) [OF assms(2)]]] buyer_signed
    by (auto simp: Let_def)
next
  case (XFinalizeDispute c)
  with assms show ?thesis
    using postD [OF finalize_dispute_effect, of env c i w w'] by (auto simp: finalizes_def Let_def)
qed (use assms in \<open>simp_all add: buyer_guards cancel_guards del: exit_guard.simps\<close>)

section \<open>Acting on an escrow\<close>

fun escrow_guard :: "env \<Rightarrow> escrow_call \<Rightarrow> u64 \<Rightarrow> world \<Rightarrow> bool" where
  "escrow_guard env (EFund b) i w = (let e = escrow_at w i in
     e_state e = Pending \<and> env_auth env b \<and> (e_buyer e = None \<or> e_buyer e = Some b) \<and>
     \<not> is_payee e b \<and> \<not> rs_contains (e_resolvers e) b \<and> unexpired env i (w_pers w) \<and>
     funding_open env i w)"
| "escrow_guard env (EFundBasket b) i w = (let e = escrow_at w i in
     e_state e = Pending \<and> env_auth env b \<and> (e_buyer e = None \<or> e_buyer e = Some b) \<and>
     \<not> is_payee e b \<and> \<not> rs_contains (e_resolvers e) b \<and> unexpired env i (w_pers w) \<and>
     funding_open env i w \<and> basket_of (w_pers w) i \<noteq> [])"
| "escrow_guard env (EMarkShipped c t) i w = (let e = escrow_at w i in
     e_state e \<in> {Funded, RefundRequested} \<and> is_payee e c \<and> env_auth env c \<and>
     unexpired env i (w_pers w) \<and> t \<noteq> [] \<and> length t \<le> MAX_TRACKING_ID_LEN)"
| "escrow_guard env (ERecordDelivery c) i w = (let e = escrow_at w i in
     e_state e = Shipped \<and> e_delivered_at e = None \<and> i_admin (w_inst w) = Some c \<and>
     env_auth env c \<and> (case p_delivery_proposal (w_pers w) i of
       None \<Rightarrow> False | Some u \<Rightarrow> u \<le> env_now env))"
| "escrow_guard env (ERequestRefund c) i w = (let e = escrow_at w i in
     e_state e = Funded \<and> c = buyer_at w i \<and> env_auth env c \<and> unexpired env i (w_pers w))"
| "escrow_guard env (ERotateResolver c r) i w = (let e = escrow_at w i in
     \<not> is_final (e_state e) \<and> env_auth env c \<and> (is_payee e c \<or> i_admin (w_inst w) = Some c) \<and>
     (\<exists>old. e_resolvers e = Single old \<and> r \<noteq> old) \<and> \<not> is_payee e r \<and> e_buyer e \<noteq> Some r)"
| "escrow_guard env (ERaiseDispute c s d h) i w = (let e = escrow_at w i in
     e_state e \<in> {Funded, Shipped} \<and> e_buyer e = Some c \<and> env_auth env c \<and>
     env_now env < dispute_deadline e)"
| "escrow_guard env (EResolveDispute c r) i w = (let e = escrow_at w i in
     e_state e = Disputed \<and> env_auth env c \<and> can_resolve_now (e_resolvers e) c (env_now env))"
| "escrow_guard env (EVote c r) i w = (let e = escrow_at w i in
     e_state e = Disputed \<and> env_auth env c \<and> can_resolve_now (e_resolvers e) c (env_now env))"
| "escrow_guard env (EClaimDisputeTimeout c) i w = (
     e_state (escrow_at w i) = Disputed \<and> (c = buyer_at w i \<or> c = payee_at w i) \<and> env_auth env c \<and>
     uint (d_disputed_at (dispute_at w i)) + uint (read_dispute_timeout w) \<le> uint (env_now env))"
| "escrow_guard env EResolveDeadlocked i w = (
     e_state (escrow_at w i) = Disputed \<and>
     tally_votes (votes_at w i) (rs_threshold (e_resolvers (escrow_at w i))) = Inr None \<and>
     uint (d_disputed_at (dispute_at w i)) + uint DISPUTE_DEADLOCK_WINDOW \<le> uint (env_now env))"
| "escrow_guard env (EAppealDispute c) i w = (let e = escrow_at w i; d = dispute_at w i in
     e_state e = PendingFinalization \<and> env_auth env c \<and> (e_buyer e = Some c \<or> c = payee_at w i) \<and>
     env_now env < d_resolved_at d + APPEAL_WINDOW \<and> d_appeal_count d < read_max_appeals w)"
| "escrow_guard env (EPostMessage c m) i w = (let e = escrow_at w i in
     env_auth env c \<and> (e_buyer e = Some c \<or> is_payee e c) \<and> m \<noteq> [] \<and> length m \<le> MAX_MESSAGE_LEN)"
| "escrow_guard env (EProposeDelivery c) i w = (let e = escrow_at w i in
     e_state e = Shipped \<and> e_delivered_at e = None \<and> i_admin (w_inst w) = Some c \<and> env_auth env c)"
| "escrow_guard env (ECancelProposal c) i w = (env_auth env c \<and>
     (i_admin (w_inst w) = Some c \<or> e_buyer (escrow_at w i) = Some c))"
| "escrow_guard env (ERejectProposal c) i w = (env_auth env c \<and> e_buyer (escrow_at w i) = Some c)"
| "escrow_guard env EExtendTtl i w = (p_escrow (w_pers w) i \<noteq> None)"

lemma proposal_guards:
  "post_message env i c m w = Inr w' \<Longrightarrow> escrow_guard env (EPostMessage c m) i w"
  "propose_record_delivery env c i w = Inr w' \<Longrightarrow> escrow_guard env (EProposeDelivery c) i w"
  "cancel_delivery_proposal env c i w = Inr w' \<Longrightarrow> escrow_guard env (ECancelProposal c) i w"
  "reject_delivery_proposal env c i w = Inr w' \<Longrightarrow> escrow_guard env (ERejectProposal c) i w"
  "extend_escrow_ttl env i w = Inr w' \<Longrightarrow> escrow_guard env EExtendTtl i w"
  by (auto simp: post_message_def propose_record_delivery_def cancel_delivery_proposal_def
      reject_delivery_proposal_def extend_escrow_ttl_def extend_escrow_ttl_internal_def Let_def
      escrow_at_def split: if_splits)

lemma shipment_guards:
  "fund_escrow env i b w = Inr w' \<Longrightarrow> escrow_guard env (EFund b) i w"
  "fund_basket_escrow env i b w = Inr w' \<Longrightarrow> escrow_guard env (EFundBasket b) i w"
  "mark_shipped env c i t w = Inr w' \<Longrightarrow> escrow_guard env (EMarkShipped c t) i w"
  "record_delivery env c i w = Inr w' \<Longrightarrow> escrow_guard env (ERecordDelivery c) i w"
  "request_refund env c i w = Inr w' \<Longrightarrow> escrow_guard env (ERequestRefund c) i w"
  "rotate_resolver env c i r w = Inr w' \<Longrightarrow> escrow_guard env (ERotateResolver c r) i w"
  "raise_dispute env c i s d h w = Inr w' \<Longrightarrow> escrow_guard env (ERaiseDispute c s d h) i w"
  by (auto dest!: postD [OF fund_escrow_effect] postD [OF fund_basket_escrow_effect]
      postD [OF mark_shipped_effect] postD [OF record_delivery_effect]
      postD [OF request_refund_effect] postD [OF rotate_resolver_effect]
      postD [OF raise_dispute_effect] simp: funds_def Let_def is_final_def)

lemma escrow_run_guard:
  assumes "escrow_run env c i w = Inr w'" "inv self w"
  shows "escrow_guard env c i w"
proof -
  have v: "e_state (escrow_at w i) = Disputed \<and>
      can_resolve_now (e_resolvers (escrow_at w i)) a (env_now env)"
    if "resolve_or_vote_internal env a i r w = Inr w'" for a r
    using postD [OF resolve_or_vote_effect [OF run_amount(6) [OF assms(2) that]] that]
    by (auto simp: votes_or_resolves_def)
  show ?thesis
  proof (cases c)
    case (EClaimDisputeTimeout a)
    with assms show ?thesis
      using postD [OF claim_dispute_timeout_effect [OF run_amount(4) [OF assms(2)]]] by auto
  next
    case EResolveDeadlocked
    with assms show ?thesis
      using postD [OF resolve_deadlocked_dispute_effect [OF run_amount(5) [OF assms(2)]]] by auto
  next
    case (EAppealDispute a)
    with assms show ?thesis
      using postD [OF appeal_dispute_effect [OF run_amount(7) [OF assms(2)]]]
      by (auto simp: appeals_def Let_def)
  next
    case (EResolveDispute a r)
    with assms show ?thesis using v by (auto simp: resolve_dispute_def Let_def)
  next
    case (EVote a r)
    with assms show ?thesis using v by (auto simp: vote_def Let_def)
  qed (use assms in \<open>simp_all add: proposal_guards shipment_guards del: escrow_guard.simps\<close>)
qed

section \<open>Administration\<close>

text \<open>
  Every change of a setting is signed by the current admin, except that a proposed fee
  collector or treasury accepts its own role, and that initialization only works once.
\<close>

fun admin_guard :: "env \<Rightarrow> admin_call \<Rightarrow> world \<Rightarrow> bool" where
  "admin_guard env (AAcceptFeeCollector c) w =
    (env_auth env c \<and> i_pending_fee_collector (w_inst w) = Some c)"
| "admin_guard env (AAcceptTreasury c) w =
    (env_auth env c \<and> i_pending_treasury (w_inst w) = Some c)"
| "admin_guard env (AInitialize a f b) w = (i_admin (w_inst w) = None)"
| "admin_guard env a w = signed_by env (i_admin (w_inst w))"

lemma admin_exec_guard: "admin_exec env a w = Inr w' \<Longrightarrow> admin_guard env a w"
  by (cases a) (auto simp: admin_defs setting_defs migrate_def initialize_def signed_by_def
      split: if_splits option.splits)

lemma tl_queue_guard: "tl_queue env c t w = Inr w' \<Longrightarrow> i_admin (w_inst w) = Some c \<and> env_auth env c"
  using tl_queue_queues [of env c t w w'] by (simp add: queues_def)

section \<open>Pausing\<close>

text \<open>What still works while the contract is paused: the two buyer rescues, the delivery record
  and its proposals, rent, and administration.\<close>

fun pause_allows :: "call \<Rightarrow> bool" where
  "pause_allows (Create c) = False"
| "pause_allows (BatchCreate s xs) = False"
| "pause_allows (Batch cs) = False"
| "pause_allows (Leave x i) = (case x of XRecoveryWithdraw c \<Rightarrow> True | XEmergencyDrain \<Rightarrow> True
     | _ \<Rightarrow> False)"
| "pause_allows (OnEscrow x i) = (case x of ERecordDelivery c \<Rightarrow> True | EProposeDelivery c \<Rightarrow> True
     | ECancelProposal c \<Rightarrow> True | ERejectProposal c \<Rightarrow> True | EExtendTtl \<Rightarrow> True | _ \<Rightarrow> False)"
| "pause_allows _ = True"

lemma paused_guard: "is_paused w \<Longrightarrow> ensure_action_not_paused a w = fail ContractPaused"
  by (simp add: is_paused_def ensure_action_not_paused_def)

lemma auth_then_fail [simp]: "\<not> is_ok (bindE (require_auth env c) (\<lambda>_. fail e))"
  by (simp add: require_auth_def)

lemma paused_exits:
  "is_paused w \<Longrightarrow> is_ok (exit_run env x i w) \<Longrightarrow> pause_allows (Leave x i)"
  by (cases x) (simp_all add: paused_guard reclaim_expired_def mutual_cancel_def approve_refund_def
      cancel_escrow_def auto_cancel_pending_def confirm_delivery_def auto_release_def
      co_signed_release_def finalize_dispute_def cancel_pending_finalization_def)

lemma paused_escrow_calls:
  "is_paused w \<Longrightarrow> is_ok (escrow_run env x i w) \<Longrightarrow> pause_allows (OnEscrow x i)"
  by (cases x) (simp_all add: paused_guard resolve_or_vote_internal_def fund_escrow_def
      fund_basket_escrow_def mark_shipped_def request_refund_def rotate_resolver_def
      raise_dispute_def resolve_dispute_def vote_def claim_dispute_timeout_def
      resolve_deadlocked_dispute_def appeal_dispute_def post_message_def)

lemma paused_creation:
  assumes "is_paused w"
  shows "\<not> is_ok (create_run env c w)" "\<not> is_ok (batch_create_escrow env s xs w)"
    "\<not> is_ok (multicall env cs w)"
proof -
  show "\<not> is_ok (create_run env c w)"
    using paused_guard [OF assms]
    by (cases c) (auto simp: create_escrow_def create_escrow_8_def create_escrow_7_def
        create_escrow_with_expiration_def create_escrow_multi_def create_escrow_with_fallback_def
        create_basket_escrow_def create_escrow_internal_def is_ok_def Let_def
        split: sum.splits if_splits)
qed (use paused_guard [OF assms] in \<open>simp_all add: batch_create_escrow_def multicall_def\<close>)

end
