(* ===== verification/Scenario.thy ===== *)
theory Scenario
  imports System
begin

unbundle bit_operations_syntax

text \<open>
  A small history of the contract, computed by the simplifier from the definitions: one
  escrow of 1000 units is created, funded, shipped and confirmed; in another branch it is
  disputed, resolved for the seller and finalized.  The general theorems are applied to
  these worlds to show that their hypotheses hold together.
\<close>

section \<open>Evaluation by rewriting\<close>

text \<open>With this congruence a continuation is opened only when its argument is known.\<close>

lemma bindE_weak_cong: "m = m' \<Longrightarrow> bindE m f = bindE m' f" by simp

lemmas run_defs = Let_def ensure_action_not_paused_def read_global_config_def flag_set_def
  validate_shipping_window_def const_defs i128_max_def i128_min_def validate_payees_def
  add_payee_bps_def word_checked_add_def zero_address_def ZERO_ADDRESS_STR_def
  check_resolver_registry_def is_token_allowed_def is_token_allowlist_enabled_def
  next_escrow_id_def append_vendor_escrow_index_def append_buyer_escrow_index_def
  append_escrow_index_def migrate_legacy_index_def read_index_count_def vendor_keys_def
  buyer_keys_def increment_sharded_counter_def vec_get_def transfer_helper_def payout_def
  store_ids_def store_count_def pers_update_def save_new_escrow_pers new_escrow_def
  put_escrow_def pushed_history_def pack_history_entry_def load_escrow_def
  load_basket_tokens_def validate_escrow_fee_bps_def validate_resolver_fee_bps_def
  require_auth_def empty_instance_def empty_persistent_def fresh_world_def
  ensure_not_expired_def ensure_funding_not_expired_def escrow_created_at_def
  load_state_history_def decode_history_def unpack_history_entry_def from_history_code_def
  pending_expiry_deadline_def is_payee_def record_escrow_completed_def
  record_escrow_refunded_def read_fee_config_def calculate_fee_def
  calculate_protocol_fee_def i128_checked_add_def i128_checked_sub_def i128_checked_mul_def
  i128_checked_div_def i128_ok_def distribute_to_payees_def pay_share_def payee_share_def
  payout_basket_tokens_def log_with_def

lemma ran: "\<exists>w. r = Inr w \<and> P w \<Longrightarrow> r = Inr (projr r) \<and> P (projr r)"
  by auto

lemma ran_id: "\<exists>w. r = Inr (i, w) \<and> P w \<Longrightarrow> r = Inr (i, snd (projr r)) \<and> P (snd (projr r))"
  by auto

section \<open>The participants\<close>

definition demo_env :: "u64 \<Rightarrow> address list \<Rightarrow> env" where
  "demo_env now signers = \<lparr>env_now = now, env_self = ''contract'',
     env_auth = (\<lambda>a. a \<in> set signers), env_reauth = False, env_token_ok = (\<lambda>_ _. True),
     env_params_hash = (\<lambda>vs. replicate (length vs) 7), env_wasm_ok = (\<lambda>_. True)\<rparr>"

lemma demo_env_fields [simp]:
  "env_now (demo_env t as) = t" "env_self (demo_env t as) = ''contract''"
  "env_auth (demo_env t as) a \<longleftrightarrow> a \<in> set as" "env_token_ok (demo_env t as) ts x"
  "env_params_hash (demo_env t as) vs = replicate (length vs) 7"
  "env_wasm_ok (demo_env t as) b"
  by (simp_all add: demo_env_def)

lemma demo_legit [simp]: "legit ''contract'' (demo_env t as) \<longleftrightarrow> ''contract'' \<notin> set as"
  by (simp add: legit_def)

definition demo_escrow :: Escrow where
  "demo_escrow = \<lparr>e_payees = [\<lparr>p_address = ''seller'', p_bps = 10000\<rparr>],
     e_buyer = Some ''buyer'', e_resolvers = Single ''resolver'', e_token = ''usdc'',
     e_amount = 1000, e_fee_bps = 100, e_resolver_fee_bps = 50, e_shipping_window = 86400,
     e_packed_timestamps = 0, e_shipped_at = 0, e_delivered_at = None, e_tracking_id = None,
     e_state = Pending, e_notes = [], e_expires_at = None, e_grace_period = 0\<rparr>"

definition demo_inst :: instance_storage where
  "demo_inst = empty_instance\<lparr>i_admin := Some ''admin'', i_escrow_counter := Some 1,
     i_storage_version := Some 2, i_global_config := Some \<lparr>g_fee_collector = Some ''collector'',
       g_treasury = None, g_protocol_fee_bps = 0, g_arbitration_fee_bps = 200,
       g_platform_fee_bps = 0, g_appeal_fee_bps = 0, g_min_amount = 1,
       g_max_amount = 17014118346046923173168730371588410, g_dispute_timeout = 2592000,
       g_ttl_extension_ledgers = 120960, g_state_flags = 0\<rparr>\<rparr>"

section \<open>From deployment to release\<close>

definition demo_init :: "world res" where
  "demo_init = initialize (demo_env 1000 []) ''admin'' ''collector'' 200 fresh_world"

definition deployed :: world where "deployed = projr demo_init"

lemma demo_init_run: "\<exists>w. demo_init = Inr w \<and> w_inst w = demo_inst \<and>
    w_pers w = empty_persistent \<and> w_xfers w = []"
  by (simp add: demo_init_def demo_inst_def initialize_def default_global_config_def
      validate_arbitration_fee_bps_def run_defs cong: bindE_weak_cong)

lemma deployed: "demo_init = Inr deployed" "w_inst deployed = demo_inst"
  "w_pers deployed = empty_persistent" "w_xfers deployed = []"
  using ran [OF demo_init_run] unfolding deployed_def by blast+

definition demo_create :: "(u64 \<times> world) res" where
  "demo_create = create_escrow (demo_env 2000 [''seller''])
     (VPayees [\<lparr>p_address = ''seller'', p_bps = 10000\<rparr>]) (Some ''buyer'') ''resolver'' ''usdc''
     1000 100 50 86400 None deployed"

definition created :: world where "created = snd (projr demo_create)"

definition created_pers :: persistent_storage where
  "created_pers = empty_persistent\<lparr>p_escrow := [1 \<mapsto> demo_escrow], p_history := [1 \<mapsto> [2000]],
     p_shard := (\<lambda>_ _. None)(0 := [1 \<mapsto> 1]), p_ids := [DK_VendorEscrow ''seller'' 0 \<mapsto> [1]],
     p_counts := [DK_VendorEscrowCount ''seller'' \<mapsto> 1]\<rparr>"

lemma demo_create_run: "\<exists>w. demo_create = Inr (1, w) \<and>
    w_inst w = demo_inst\<lparr>i_escrow_counter := Some 2\<rparr> \<and> w_pers w = created_pers \<and> w_xfers w = []"
  by (simp add: demo_create_def create_escrow_def create_escrow_internal_def run_defs deployed
      demo_escrow_def demo_inst_def created_pers_def bump_shard_def shard_bucket_def
      cong: bindE_weak_cong)

lemma created: "demo_create = Inr (1, created)"
  "w_inst created = demo_inst\<lparr>i_escrow_counter := Some 2\<rparr>" "w_pers created = created_pers"
  "w_xfers created = []"
  using ran_id [OF demo_create_run] unfolding created_def by blast+

definition demo_fund :: "world res" where
  "demo_fund = fund_escrow (demo_env 3000 [''buyer'']) 1 ''buyer'' created"

definition funded :: world where "funded = projr demo_fund"

definition demo_deposit :: transfer where
  "demo_deposit = \<lparr>tr_token = ''usdc'', tr_from = ''buyer'', tr_to = ''contract'',
     tr_amount = 1000\<rparr>"

definition funded_escrow :: Escrow where
  "funded_escrow = demo_escrow\<lparr>e_state := Funded, e_packed_timestamps := 12884901888000 + 175800\<rparr>"

definition funded_pers :: persistent_storage where
  "funded_pers = created_pers\<lparr>p_escrow := [1 \<mapsto> funded_escrow],
     p_history := [1 \<mapsto> [2000, 72057594037927936 + 3000]],
     p_ids := [DK_VendorEscrow ''seller'' 0 \<mapsto> [1], DK_BuyerEscrow ''buyer'' 0 \<mapsto> [1]],
     p_counts := [DK_VendorEscrowCount ''seller'' \<mapsto> 1, DK_BuyerEscrowCount ''buyer'' \<mapsto> 1]\<rparr>"

lemma demo_fund_run: "\<exists>w. demo_fund = Inr w \<and> w_inst w = w_inst created \<and>
    w_pers w = funded_pers \<and> map fst (w_xfers w) = [demo_deposit]"
  by (simp add: demo_fund_def fund_escrow_def run_defs created created_pers_def demo_escrow_def
      demo_inst_def funded_pers_def funded_escrow_def demo_deposit_def cong: bindE_weak_cong)

lemma funded: "demo_fund = Inr funded" "w_inst funded = demo_inst\<lparr>i_escrow_counter := Some 2\<rparr>"
  "w_pers funded = funded_pers" "map fst (w_xfers funded) = [demo_deposit]"
  using ran [OF demo_fund_run] unfolding funded_def created by blast+

definition demo_ship :: "world res" where
  "demo_ship = mark_shipped (demo_env 4000 [''seller'']) ''seller'' 1 ''track'' funded"

definition shipped :: world where "shipped = projr demo_ship"

definition shipped_pers :: persistent_storage where
  "shipped_pers = funded_pers\<lparr>p_escrow := [1 \<mapsto> funded_escrow\<lparr>e_state := Shipped,
       e_shipped_at := 4000, e_tracking_id := Some ''track''\<rparr>],
     p_history := [1 \<mapsto> [2000, 72057594037927936 + 3000, 144115188075855872 + 4000]]\<rparr>"

lemma demo_ship_run: "\<exists>w. demo_ship = Inr w \<and> w_inst w = w_inst funded \<and>
    w_pers w = shipped_pers \<and> w_xfers w = w_xfers funded"
  by (simp add: demo_ship_def mark_shipped_def run_defs funded created_pers_def demo_escrow_def
      demo_inst_def funded_pers_def shipped_pers_def funded_escrow_def cong: bindE_weak_cong)

lemma shipped: "demo_ship = Inr shipped" "w_inst shipped = demo_inst\<lparr>i_escrow_counter := Some 2\<rparr>"
  "w_pers shipped = shipped_pers" "w_xfers shipped = w_xfers funded"
  using ran [OF demo_ship_run] unfolding shipped_def funded by blast+

definition demo_confirm :: "world res" where
  "demo_confirm = confirm_delivery (demo_env 5000 [''buyer'']) ''buyer'' 1 True shipped"

definition completed :: world where "completed = projr demo_confirm"

lemma demo_confirm_run: "\<exists>w. demo_confirm = Inr w \<and> e_state (escrow_at w 1) = Completed \<and>
    map fst (w_xfers w) = [demo_deposit,
      \<lparr>tr_token = ''usdc'', tr_from = ''contract'', tr_to = ''collector'', tr_amount = 10\<rparr>,
      \<lparr>tr_token = ''usdc'', tr_from = ''contract'', tr_to = ''seller'', tr_amount = 990\<rparr>]"
  by (simp add: demo_confirm_def confirm_delivery_def settle_escrow_to_payees_def run_defs funded
      shipped created_pers_def demo_escrow_def demo_inst_def funded_pers_def shipped_pers_def
      funded_escrow_def escrow_at_def cong: bindE_weak_cong)

lemma completed: "demo_confirm = Inr completed" "e_state (escrow_at completed 1) = Completed"
  "map fst (w_xfers completed) = [demo_deposit,
      \<lparr>tr_token = ''usdc'', tr_from = ''contract'', tr_to = ''collector'', tr_amount = 10\<rparr>,
      \<lparr>tr_token = ''usdc'', tr_from = ''contract'', tr_to = ''seller'', tr_amount = 990\<rparr>]"
  using ran [OF demo_confirm_run] unfolding completed_def by blast+

section \<open>The disputed branch\<close>

definition demo_raise :: "world res" where
  "demo_raise = raise_dispute (demo_env 6000 [''buyer'']) ''buyer'' 1 ''DAMAGED'' [] [] funded"

definition disputed :: world where "disputed = projr demo_raise"

definition demo_dispute :: DisputeData where
  "demo_dispute = \<lparr>d_escrow_id = 1, d_reason = ''DAMAGED'', d_description = [],
     d_evidence_hash = [], d_status = Active, d_disputed_at = 6000, d_tracking_id = None,
     d_resolution = 0, d_resolved_by = None, d_appeal_count = 0, d_resolved_at = 0,
     d_arbitration_fee = 0, d_resolver_fee = 0, d_fees_charged = False\<rparr>"

definition disputed_pers :: persistent_storage where
  "disputed_pers = funded_pers\<lparr>p_escrow := [1 \<mapsto> funded_escrow\<lparr>e_state := Disputed\<rparr>],
     p_history := [1 \<mapsto> [2000, 72057594037927936 + 3000, 288230376151711744 + 6000]],
     p_dispute := [1 \<mapsto> demo_dispute],
     p_shard := (\<lambda>_ _. None)(0 := [1 \<mapsto> 1], 2 := [1 \<mapsto> 1])\<rparr>"

lemma demo_raise_run: "\<exists>w. demo_raise = Inr w \<and> w_inst w = w_inst funded \<and>
    w_pers w = disputed_pers \<and> w_xfers w = w_xfers funded"
  by (simp add: demo_raise_def raise_dispute_def run_defs funded created_pers_def demo_escrow_def
      demo_inst_def funded_pers_def disputed_pers_def demo_dispute_def funded_escrow_def
      is_valid_dispute_reason_def DISPUTE_REASONS_def dispute_deadline_def cong: bindE_weak_cong)

lemma disputed: "demo_raise = Inr disputed" "w_inst disputed = demo_inst\<lparr>i_escrow_counter := Some 2\<rparr>"
  "w_pers disputed = disputed_pers" "w_xfers disputed = w_xfers funded"
  using ran [OF demo_raise_run] unfolding disputed_def funded by blast+

definition demo_resolve :: "world res" where
  "demo_resolve = resolve_dispute (demo_env 7000 [''resolver'']) ''resolver'' 1 Release disputed"

definition resolved :: world where "resolved = projr demo_resolve"

definition resolved_demo_dispute :: DisputeData where
  "resolved_demo_dispute = demo_dispute\<lparr>d_resolution := 1, d_resolved_by := Some ''resolver'',
     d_resolved_at := 7000, d_arbitration_fee := 20, d_resolver_fee := 5, d_fees_charged := True\<rparr>"

definition resolved_pers :: persistent_storage where
  "resolved_pers = disputed_pers\<lparr>
     p_escrow := [1 \<mapsto> funded_escrow\<lparr>e_amount := 975, e_state := PendingFinalization\<rparr>],
     p_history := [1 \<mapsto> [2000, 72057594037927936 + 3000, 288230376151711744 + 6000,
       576460752303423488 + 7000]],
     p_dispute := [1 \<mapsto> resolved_demo_dispute],
     p_votes := [1 \<mapsto> [\<lparr>v_resolver = ''resolver'', v_resolution = Release, v_voted_at = 7000\<rparr>]]\<rparr>"

definition resolved_xfers :: "transfer list" where
  "resolved_xfers = [demo_deposit,
     \<lparr>tr_token = ''usdc'', tr_from = ''contract'', tr_to = ''collector'', tr_amount = 20\<rparr>,
     \<lparr>tr_token = ''usdc'', tr_from = ''contract'', tr_to = ''resolver'', tr_amount = 5\<rparr>]"

lemma demo_resolve_run: "\<exists>w. demo_resolve = Inr w \<and>
    w_inst w = demo_inst\<lparr>i_escrow_counter := Some 2, i_total_arbitration_fees := [''usdc'' \<mapsto> 20]\<rparr> \<and>
    w_pers w = resolved_pers \<and> map fst (w_xfers w) = resolved_xfers"
  by (simp add: demo_resolve_def resolve_dispute_def resolve_or_vote_internal_def
      add_or_update_vote_def load_resolver_votes_def tally_votes_def count_vote_def
      u32_checked_inc_def execute_resolution_transition_def resolution_fees_def deduct_fees_def
      set_resolution_def run_defs funded disputed created_pers_def demo_escrow_def demo_inst_def
      funded_pers_def disputed_pers_def demo_dispute_def funded_escrow_def resolved_pers_def
      resolved_demo_dispute_def resolved_xfers_def cong: bindE_weak_cong)

lemma resolved: "demo_resolve = Inr resolved"
  "w_inst resolved = demo_inst\<lparr>i_escrow_counter := Some 2, i_total_arbitration_fees := [''usdc'' \<mapsto> 20]\<rparr>"
  "w_pers resolved = resolved_pers" "map fst (w_xfers resolved) = resolved_xfers"
  using ran [OF demo_resolve_run] unfolding resolved_def by blast+

definition demo_finalize :: "world res" where
  "demo_finalize = finalize_dispute (demo_env 93400 [''keeper'']) ''keeper'' 1 resolved"

definition finalized :: world where "finalized = projr demo_finalize"

lemma demo_finalize_run: "\<exists>w. demo_finalize = Inr w \<and> e_state (escrow_at w 1) = Completed \<and>
    map fst (w_xfers w) = resolved_xfers @
     [\<lparr>tr_token = ''usdc'', tr_from = ''contract'', tr_to = ''seller'', tr_amount = 965\<rparr>,
      \<lparr>tr_token = ''usdc'', tr_from = ''contract'', tr_to = ''collector'', tr_amount = 10\<rparr>]"
  by (simp add: demo_finalize_def finalize_dispute_def resolution_recipient_def get_resolution_def
      read_platform_fee_bps_def run_defs funded resolved created_pers_def demo_escrow_def
      demo_inst_def funded_pers_def disputed_pers_def demo_dispute_def funded_escrow_def
      resolved_pers_def resolved_demo_dispute_def escrow_at_def cong: bindE_weak_cong)

lemma finalized: "demo_finalize = Inr finalized" "e_state (escrow_at finalized 1) = Completed"
  using ran [OF demo_finalize_run] unfolding finalized_def by blast+

section \<open>A timelocked change\<close>

definition demo_queue :: "world res" where
  "demo_queue = tl_queue (demo_env 8000 [''admin'']) ''admin'' (LSetMaxAppeals 3) funded"

definition queued :: world where "queued = projr demo_queue"

lemma demo_queue_run: "\<exists>w. demo_queue = Inr w \<and> w_inst w = demo_inst\<lparr>i_escrow_counter := Some 2,
    i_timelock := [18 \<mapsto> \<lparr>tp_operation = SetMaxAppeals, tp_proposer = ''admin'',
      tp_params_hash = [7], tp_queued_at = 8000, tp_ready_at = 94400\<rparr>]\<rparr>"
  by (simp add: demo_queue_def queue_set_max_appeals_def queue_timelock_op_def
      require_admin_caller_def require_admin_def run_defs funded demo_inst_def
      timelock_from_u32_def cong: bindE_weak_cong)

lemma queued: "demo_queue = Inr queued" "w_inst queued = demo_inst\<lparr>i_escrow_counter := Some 2,
    i_timelock := [18 \<mapsto> \<lparr>tp_operation = SetMaxAppeals, tp_proposer = ''admin'',
      tp_params_hash = [7], tp_queued_at = 8000, tp_ready_at = 94400\<rparr>]\<rparr>"
  using ran [OF demo_queue_run] unfolding queued_def by blast+

definition demo_execute :: "world res" where
  "demo_execute = tl_execute (demo_env 94400 [''admin'']) ''admin'' (LSetMaxAppeals 3) queued"

definition executed_world :: world where "executed_world = projr demo_execute"

lemma demo_execute_run: "\<exists>w. demo_execute = Inr w \<and> i_max_appeals (w_inst w) = Some 3"
  by (simp add: demo_execute_def execute_set_max_appeals_def apply_set_max_appeals_def
      execute_timelock_op_def read_timelock_proposal_def require_admin_caller_def
      require_admin_def run_defs queued demo_inst_def cong: bindE_weak_cong)

lemma executed_world: "demo_execute = Inr executed_world" "i_max_appeals (w_inst executed_world) = Some 3"
  using ran [OF demo_execute_run] unfolding executed_world_def by blast+

section \<open>The worlds follow each other\<close>

lemma later_one:
  "legit self env \<Longrightarrow> call_ok c \<Longrightarrow> exec env c w = Inr w' \<Longrightarrow> later self w w'"
  by (rule later.call [OF later.now])

lemma demo_later:
  "later ''contract'' deployed created" "later ''contract'' created funded"
  "later ''contract'' funded shipped" "later ''contract'' shipped completed"
  "later ''contract'' funded disputed" "later ''contract'' disputed resolved"
  "later ''contract'' resolved finalized" "later ''contract'' funded queued"
  "later ''contract'' queued executed_world"
proof -
  show "later ''contract'' deployed created"
    using created(1) by (intro later_one [of _ "demo_env 2000 [''seller'']"
      "Create (CCreate (VPayees [\<lparr>p_address = ''seller'', p_bps = 10000\<rparr>]) (Some ''buyer'')
         ''resolver'' ''usdc'' 1000 100 50 86400 None)"]) (simp_all add: demo_create_def i128_max_def)
  show "later ''contract'' created funded"
    using funded(1) by (intro later_one [of _ "demo_env 3000 [''buyer'']"
      "OnEscrow (EFund ''buyer'') 1"]) (simp_all add: demo_fund_def)
  show "later ''contract'' funded shipped"
    using shipped(1) by (intro later_one [of _ "demo_env 4000 [''seller'']"
      "OnEscrow (EMarkShipped ''seller'' ''track'') 1"]) (simp_all add: demo_ship_def)
  show "later ''contract'' shipped completed"
    using completed(1) by (intro later_one [of _ "demo_env 5000 [''buyer'']"
      "Leave (XConfirmDelivery ''buyer'' True) 1"]) (simp_all add: demo_confirm_def)
  show "later ''contract'' funded disputed"
    using disputed(1) by (intro later_one [of _ "demo_env 6000 [''buyer'']"
      "OnEscrow (ERaiseDispute ''buyer'' ''DAMAGED'' [] []) 1"]) (simp_all add: demo_raise_def)
  show "later ''contract'' disputed resolved"
    using resolved(1) by (intro later_one [of _ "demo_env 7000 [''resolver'']"
      "OnEscrow (EResolveDispute ''resolver'' Release) 1"]) (simp_all add: demo_resolve_def)
  show "later ''contract'' resolved finalized"
    using finalized(1) by (intro later_one [of _ "demo_env 93400 [''keeper'']"
      "Leave (XFinalizeDispute ''keeper'') 1"]) (simp_all add: demo_finalize_def)
  show "later ''contract'' funded queued"
    using queued(1) by (intro later_one [of _ "demo_env 8000 [''admin'']"
      "QueueOp ''admin'' (LSetMaxAppeals 3)"]) (simp_all add: demo_queue_def)
  show "later ''contract'' queued executed_world"
    using executed_world(1) by (intro later_one [of _ "demo_env 94400 [''admin'']"
      "ExecuteOp ''admin'' (LSetMaxAppeals 3)"]) (simp_all add: demo_execute_def)
qed

lemma demo_reachable:
  "reachable ''contract'' deployed" "reachable ''contract'' created"
  "reachable ''contract'' funded" "reachable ''contract'' shipped"
  "reachable ''contract'' completed" "reachable ''contract'' disputed"
  "reachable ''contract'' resolved" "reachable ''contract'' finalized"
  "reachable ''contract'' queued"
proof -
  show d: "reachable ''contract'' deployed"
    using deployed(1) by (auto simp: demo_init_def intro: reachable.deployed)
  note c = later_reachable [OF demo_later(1) d]
  note f = later_reachable [OF demo_later(2) c]
  note s = later_reachable [OF demo_later(3) f]
  note i = later_reachable [OF demo_later(5) f]
  note r = later_reachable [OF demo_later(6) i]
  show "reachable ''contract'' created" "reachable ''contract'' funded"
    "reachable ''contract'' shipped" "reachable ''contract'' disputed"
    "reachable ''contract'' resolved" "reachable ''contract'' completed"
    "reachable ''contract'' finalized" "reachable ''contract'' queued"
    by (fact c f s i r later_reachable [OF demo_later(4) s] later_reachable [OF demo_later(7) r]
        later_reachable [OF demo_later(8) f])+
qed

end
