(* ===== verification/Component_Facts.thy ===== *)
theory Component_Facts
  imports Authority Scenario
begin

text \<open>
  What the components that keep lists promise: the exact distribution of a payment over the
  payees, and the vendor and buyer indexes and the message threads as the lists they store.
\<close>

section \<open>Distribution\<close>

text \<open>
  C26. \<open>distribute_to_payees\<close> over validated payees sends the whole amount and nothing
  else: every secondary payee its share rounded down, the first payee all that is left,
  which is at least its own share; no storage is written on the way.
\<close>

theorem distribute_to_payees_exact:
  assumes "validate_payees (p # ps) = Inr ()"
    "distribute_to_payees env tk (p # ps) amount w = Inr w'"
  shows "total_out tk (distribution tk amount (p # ps)) = amount \<and>
    amount * uint (p_bps p) div 10000 \<le> amount - sum_list (map (share_of amount) ps) \<and>
    w_inst w' = w_inst w \<and> w_pers w' = w_pers w \<and>
    w_xfers w' = w_xfers w @ log_with (w_inst w, w_pers w)
      (xfers_of env (payee_outs tk amount ps @
         [(tk, p_address p, amount - sum_list (map (share_of amount) ps))]))"
proof -
  note v = validate_payees_Inr [OF assms(1)]
  have a: "0 \<le> amount" and w': "w' = pay env (distribution tk amount (p # ps)) w"
    using assms(2) distribute_to_payees_pay [OF assms(2)]
    by (auto simp: distribute_to_payees_def split: if_splits)
  have "total_bps ps = 10000 - uint (p_bps p)" using v(3) by simp
  then have "10000 * sum_list (map (share_of amount) ps) \<le> amount * (10000 - uint (p_bps p))"
    using sum_shares_le [OF a, of ps] by simp
  then have "amount * uint (p_bps p) div 10000 \<le> amount - sum_list (map (share_of amount) ps)"
    by (simp add: algebra_simps)
  then show ?thesis
    using total_out_distribution [OF a _ v(3), of tk tk] w' by (simp add: distribution_def)
qed

theorem distribute_to_payees_exact_witness:
  "\<exists>env w'. distribute_to_payees env ''usdc''
     [\<lparr>p_address = ''a'', p_bps = 3333\<rparr>, \<lparr>p_address = ''b'', p_bps = 6667\<rparr>] 1001 fresh_world = Inr w' \<and>
    total_out ''usdc'' (distribution ''usdc'' 1001
     [\<lparr>p_address = ''a'', p_bps = 3333\<rparr>, \<lparr>p_address = ''b'', p_bps = 6667\<rparr>]) = 1001"
proof -
  let ?env = "\<lparr>env_now = 0, env_self = ''contract'', env_auth = (\<lambda>_. False), env_reauth = False,
     env_token_ok = (\<lambda>_ _. True), env_params_hash = (\<lambda>_. []), env_wasm_ok = (\<lambda>_. False)\<rparr>"
  let ?p = "\<lparr>p_address = ''a'', p_bps = 3333\<rparr>" and ?ps = "[\<lparr>p_address = ''b'', p_bps = 6667\<rparr>]"
  let ?r = "distribute_to_payees ?env ''usdc'' (?p # ?ps) 1001 fresh_world"
  have v: "validate_payees (?p # ?ps) = Inr ()"
    by (simp add: validate_payees_def add_payee_bps_def word_checked_add_def zero_address_def
        ZERO_ADDRESS_STR_def const_defs BASIS_POINTS_def)
  have "\<exists>w'. ?r = Inr w'"
    by (simp add: distribute_to_payees_def pay_share_def payee_share_def payout_def
        transfer_helper_def i128_checked_mul_def i128_checked_div_def i128_ok_def
        i128_max_def i128_min_def)
  then obtain w' where r: "?r = Inr w'" by blast
  from distribute_to_payees_exact [OF v r] r show ?thesis by blast
qed

text \<open>
  With two payees or more, an amount whose product with a secondary share exceeds
  \<open>i128\<close> cannot be distributed at all: \<open>distribute_to_payees\<close> multiplies before it divides,
  where \<open>calculate_fee\<close> splits the amount first.
\<close>

theorem distribute_to_payees_overflow:
  assumes "0 \<le> amount" "i128_max < amount * uint (p_bps q)"
  shows "distribute_to_payees env tk (p # q # ps) amount w = fail ArithmeticError"
  using assms by (simp add: distribute_to_payees_def pay_share_def payee_share_def
      i128_checked_mul_def i128_ok_def ok_or_err_def ok_or_def)

theorem distribute_to_payees_overflow_witness:
  "distribute_to_payees (demo_env 0 []) ''usdc''
     [\<lparr>p_address = ''a'', p_bps = 5000\<rparr>, \<lparr>p_address = ''b'', p_bps = 5000\<rparr>] i128_max fresh_world =
   fail ArithmeticError"
  by (rule distribute_to_payees_overflow) (simp_all add: i128_max_def)

section \<open>Indexes\<close>

lemma fresh_index_rep:
  "index_rep (vendor_keys v) [] fresh_world" "index_rep (buyer_keys b) [] fresh_world"
  by (simp_all add: index_rep_def read_index_count_def fresh_world_def empty_persistent_def)

text \<open>
  C33. Appending to the vendor indexes of a fresh contract, for any owners in any order,
  succeeds up to \<open>2 ^ 32\<close> entries, and every owner then reads exactly the ids appended for it,
  oldest first, whole or page by page.
\<close>

theorem vendor_index_roundtrip:
  assumes "length steps < 2 ^ 32"
  shows "\<exists>w. foldE (\<lambda>(v, x). append_vendor_escrow_index v x) steps fresh_world = Inr w \<and>
    (\<forall>v. let ids = map snd (filter (\<lambda>s. fst s = v) steps) in
       fst (read_vendor_escrow_index v w) = ids \<and>
       (\<forall>start limit. fst (read_vendor_escrow_index_page v start limit w) =
         take (unat limit) (drop (unat start) ids)))"
proof -
  obtain w where w: "foldE (\<lambda>(v, x). append_vendor_escrow_index v x) steps fresh_world = Inr w"
    using vendor_index.add_many_ok [of "\<lambda>_. []" fresh_world steps] fresh_index_rep(1) assms by auto
  have r: "index_rep (vendor_keys v) (map snd (filter (\<lambda>s. fst s = v) steps)) w" for v
    using vendor_index.add_many_rep [OF w, of "\<lambda>_. []" v] fresh_index_rep(1) by simp
  have "length (map snd (filter (\<lambda>s. fst s = v) steps)) < 2 ^ 32" for v
    using le_less_trans [OF length_filter_le assms] by simp
  then show ?thesis
    using w vendor_index.get_all_rep [OF r] read_escrow_index_page_rep [OF r]
    by (auto simp: Let_def read_vendor_escrow_index_page_def)
qed

theorem vendor_index_roundtrip_witness:
  "\<exists>w. foldE (\<lambda>(v, x). append_vendor_escrow_index v x) [(''a'', 1), (''b'', 2), (''a'', 3)]
     fresh_world = Inr w \<and> fst (read_vendor_escrow_index ''a'' w) = [1, 3]"
  using vendor_index_roundtrip [of "[(''a'', 1), (''b'', 2), (''a'', 3)]"]
  by (auto simp: Let_def dest: spec [of _ "''a''"])

text \<open>The same for the buyer indexes.\<close>

theorem buyer_index_roundtrip:
  assumes "length steps < 2 ^ 32"
  shows "\<exists>w. foldE (\<lambda>(b, x). append_buyer_escrow_index b x) steps fresh_world = Inr w \<and>
    (\<forall>b. fst (read_buyer_escrow_index b w) = map snd (filter (\<lambda>s. fst s = b) steps))"
proof -
  obtain w where w: "foldE (\<lambda>(v, x). append_buyer_escrow_index v x) steps fresh_world = Inr w"
    using buyer_index.add_many_ok [of "\<lambda>_. []" fresh_world steps] fresh_index_rep(2) assms by auto
  then show ?thesis using buyer_index.add_many_read [OF w] fresh_index_rep(2) by auto
qed

section \<open>Messages\<close>

lemma collect_message_frame [simp]:
  "w_inst (snd (collect_message i n x)) = w_inst (snd x)"
  "w_pers (snd (collect_message i n x)) = w_pers (snd x)"
  "w_xfers (snd (collect_message i n x)) = w_xfers (snd x)"
  "w_events (snd (collect_message i n x)) = w_events (snd x)"
  by (auto simp: collect_message_def read_message_at_def Let_def split: prod.split option.split)

lemma fold_collect_frame [simp]:
  "w_inst (snd (fold (collect_message i) ns x)) = w_inst (snd x)"
  "w_pers (snd (fold (collect_message i) ns x)) = w_pers (snd x)"
  "w_xfers (snd (fold (collect_message i) ns x)) = w_xfers (snd x)"
  "w_events (snd (fold (collect_message i) ns x)) = w_events (snd x)"
  by (induction ns arbitrary: x) simp_all

lemma thread_rep_cong: "w_pers w' = w_pers w \<Longrightarrow> thread_rep i ms w' = thread_rep i ms w"
  by (simp add: thread_rep_def cong: option.case_cong)

lemma collect_message_step:
  assumes "thread_rep i ms (snd x)" "n < length ms"
  shows "fst (collect_message i n x) = fst x @ [ms ! n]"
  using read_message_at_rep [OF assms(1), of n] assms(2)
  by (auto simp: collect_message_def vec_get_def case_prod_beta split: option.split)

lemma fold_collect_messages:
  assumes "thread_rep i ms (snd x)" "b \<le> length ms"
  shows "fst (fold (collect_message i) [a..<b] x) = fst x @ map ((!) ms) [a..<b]"
  using assms(2)
proof (induction b)
  case (Suc b)
  show ?case
  proof (cases "a \<le> b")
    case True
    have "thread_rep i ms (snd (fold (collect_message i) [a..<b] x))"
      using assms(1) by (subst thread_rep_cong [of _ "snd x"]) simp_all
    with True Suc show ?thesis by (simp add: collect_message_step)
  qed simp
qed simp

text \<open>
  C34. A thread holding the messages \<open>ms\<close>, stored paged or as the legacy vector: a message
  is appended at its end unless the cap is reached, and a page read returns exactly the
  window of the list, at most 50 messages at a time.
\<close>

theorem message_thread_roundtrip:
  assumes "thread_rep i ms w" "p_escrow (w_pers w) i \<noteq> None"
    "unat start + unat (min limit MAX_MESSAGES_PER_PAGE) < 2 ^ 64"
  shows "(length ms < cap \<longrightarrow> (\<exists>w'. append_message i m cap w = Inr w' \<and> thread_rep i (ms @ [m]) w')) \<and>
    (cap \<le> length ms \<longrightarrow> append_message i m cap w = fail TooManyMessages) \<and>
    (\<exists>w'. get_messages i start limit w = Inr
       (take (unat (min limit MAX_MESSAGES_PER_PAGE)) (drop (unat start) ms), w') \<and>
       w_pers w' = w_pers w)"
proof (intro conjI impI)
  assume c: "length ms < cap"
  then show "\<exists>w'. append_message i m cap w = Inr w' \<and> thread_rep i (ms @ [m]) w'"
    using append_message_rep(1) [OF assms(1), of m cap] append_message_rep(2) [OF assms(1), of m cap]
    by simp
next
  assume "cap \<le> length ms"
  then show "append_message i m cap w = fail TooManyMessages"
    using append_message_rep(1) [OF assms(1), of m cap] by simp
next
  let ?k = "min limit MAX_MESSAGES_PER_PAGE" and ?w = "extend_ttl_for_key (DK_Escrow i) w"
  let ?e = "min (unat start + unat ?k) (length ms)"
  have k: "(if MAX_MESSAGES_PER_PAGE < limit then MAX_MESSAGES_PER_PAGE else limit) = ?k"
    by (auto simp: min_def not_less intro: order.antisym)
  have r: "thread_rep i ms ?w" using assms(1) by (simp add: thread_rep_cong [of ?w w])
  have win: "map ((!) ms) [unat start..<?e] = take (unat ?k) (drop (unat start) ms)"
    by (simp add: map_nth_upt min_def)
  obtain e where e: "load_escrow i w = Inr (e, ?w)" using assms(2) by (auto simp: load_escrow_def)
  show "\<exists>w'. get_messages i start limit w = Inr (take (unat ?k) (drop (unat start) ms), w') \<and>
      w_pers w' = w_pers w"
  proof (cases "length ms \<le> unat start")
    case True
    then show ?thesis
      by (simp add: get_messages_def e read_message_count_rep [OF r] Let_def)
  next
    case False
    let ?f = "fold (collect_message i) [unat start..<?e] ([], ?w)"
    have "get_messages i start limit w = Inr ?f"
      using False assms(3) by (simp add: get_messages_def e read_message_count_rep [OF r] k Let_def)
    moreover have "fst ?f = take (unat ?k) (drop (unat start) ms)"
      using fold_collect_messages [of i ms "([], ?w)" ?e "unat start"] r by (simp add: win)
    ultimately show ?thesis
      by (intro exI [of _ "snd ?f"]) (simp add: prod_eq_iff)
  qed
qed

theorem message_thread_roundtrip_witness:
  "\<exists>w'. let m = \<lparr>m_sender = ''buyer'', m_timestamp = 2500, m_content = ''hello''\<rparr> in
     append_message 1 m MAX_MESSAGES_PER_ESCROW created = Inr w' \<and> thread_rep 1 [m] w'"
proof -
  let ?m = "\<lparr>m_sender = ''buyer'', m_timestamp = 2500, m_content = ''hello''\<rparr>"
  have "thread_rep 1 [] created" "p_escrow (w_pers created) 1 \<noteq> None"
    by (simp_all add: thread_rep_def created created_pers_def empty_persistent_def)
  from message_thread_roundtrip [OF this, of 0 10 MAX_MESSAGES_PER_ESCROW ?m] show ?thesis
    by (auto simp: const_defs Let_def)
qed

section \<open>Migration\<close>

text \<open>A contract of the first storage layout, with its settings under the old keys.\<close>

definition legacy_world :: world where
  "legacy_world = fresh_world\<lparr>w_inst := empty_instance\<lparr>i_admin := Some ''admin'',
     i_fee_collector := Some ''collector'', i_paused := Some True, i_escrow_counter := Some 7,
     i_fee_config := Some \<lparr>f_protocol_fee_bps = 30, f_arbitration_fee_bps = 200\<rparr>\<rparr>\<rparr>"

text \<open>
  C32. Migration to the packed configuration loses nothing: the packed settings read as before, the
  thirteen old keys are gone, and every other entry of the instance storage is exactly what it was:
  admin, ids, registries, proposals, timelock delay, pauses per action, pending roles, the limits of
  appeals and baskets, fee totals. Escrows and money are untouched, the admin signed, and a second
  migration is refused.
\<close>

theorem migrate_keeps_settings:
  assumes "migrate env c w = Inr w'"
  shows "read_global_config w' = read_global_config w \<and>
    w_inst w' = (w_inst w)\<lparr>i_fee_collector := None, i_treasury := None, i_fee_config := None,
      i_platform_fee_bps := None, i_appeal_fee_bps := None, i_min_amount := None,
      i_max_amount := None, i_dispute_timeout := None, i_ttl_extension := None, i_paused := None,
      i_token_allowlist_enabled := None, i_resolver_strict := None, i_recovery_mode := None,
      i_storage_version := Some 2, i_global_config := Some (read_global_config w)\<rparr> \<and>
    w_pers w' = w_pers w \<and> w_xfers w' = w_xfers w \<and> w_wasm w' = w_wasm w \<and>
    get_storage_version w < 2 \<and> i_admin (w_inst w) = Some c \<and> env_auth env c \<and>
    \<not> is_ok (migrate env' c' w')"
proof -
  have v: "get_storage_version w < 2"
    and a: "i_admin (w_inst w) = Some c" "env_auth env c"
    using assms by (auto simp: migrate_def require_admin_caller_def require_admin_def ok_or_err_def
        ok_or_def const_defs Let_def split: if_splits option.splits)
  with assms have w': "w' = publish (emit_storage_migrated env c (get_storage_version w) STORAGE_VERSION)
      (extend_instance_ttl (inst_update (i_storage_version_update (\<lambda>_. Some STORAGE_VERSION))
        (migrate_legacy_global_config w)))"
    by (auto simp: migrate_def require_admin_caller_def require_admin_def ok_or_err_def ok_or_def
        Let_def split: if_splits)
  have "i_storage_version (w_inst w') = Some STORAGE_VERSION" by (simp add: w')
  then have "\<not> is_ok (migrate env' c' w')"
    using migrate_current [of w' env' c'] by (cases "migrate env' c' w'") auto
  then show ?thesis
    using a v by (simp add: w' migrate_legacy_global_config_def legacy_global_config_keys_def
        read_global_config_def write_global_config_def const_defs Let_def)
qed

theorem migrate_keeps_settings_witness:
  "\<exists>w'. migrate (demo_env 5 [''admin'']) ''admin'' legacy_world = Inr w' \<and> is_paused w' \<and>
    g_arbitration_fee_bps (read_global_config w') = 200 \<and> i_escrow_counter (w_inst w') = Some 7"
proof -
  obtain w' where m: "migrate (demo_env 5 [''admin'']) ''admin'' legacy_world = Inr w'"
    by (simp add: migrate_def legacy_world_def require_admin_caller_def require_admin_def
        get_storage_version_def fresh_world_def empty_instance_def const_defs Let_def)
  have "flag_set (g_state_flags (read_global_config legacy_world)) GLOBAL_CONFIG_FLAG_PAUSED"
    "g_arbitration_fee_bps (read_global_config legacy_world) = 200"
    "i_escrow_counter (w_inst legacy_world) = Some 7"
    by (simp_all add: legacy_world_def read_global_config_def read_legacy_global_config_def
        fresh_world_def empty_instance_def flag_set_def const_defs default_global_config_def)
  with migrate_keeps_settings [OF m] m show ?thesis by (simp add: is_paused_def)
qed

end
