(* ===== verification/Helper_Facts.thy ===== *)
theory Helper_Facts
  imports Authority Scenario
begin

unbundle bit_operations_syntax

text \<open>
  What the helpers promise: the packed history and timestamps unpack to what was put in, the
  stored votes are a map from resolvers to ballots and the tally counts it, payee validation and
  the auto-release gate accept exactly the documented inputs, and a multicall is the chain of its
  calls.
\<close>

section \<open>Packed data\<close>

lemma mask_32: "0xFFFFFFFF = (mask 32 :: u64)"
  by (simp add: mask_eq_exp_minus_1)

lemma drop_push_32: "drop_bit 32 (push_bit 32 f OR take_bit 32 d) = take_bit 32 (f :: u64)"
  by (rule bit_word_eqI) (auto simp: bit_simps)

lemma take_push_32: "(push_bit 32 f OR take_bit 32 d) AND mask 32 = take_bit 32 (d :: u64)"
  by (rule bit_word_eqI) (auto simp: bit_simps)

text \<open>
  The two timestamps packed in one word, and the state and time packed in a history entry,
  are read back; of the times only the low 32 and 56 bits are kept.
\<close>

theorem packed_fields_roundtrip:
  shows "funded_at (e\<lparr>e_packed_timestamps := pack_timestamps f d\<rparr>) = take_bit 32 f \<and>
    dispute_deadline (e\<lparr>e_packed_timestamps := pack_timestamps f d\<rparr>) = take_bit 32 d \<and>
    unpack_history_entry (pack_history_entry s t) = (s, take_bit 56 t) \<and>
    from_history_code (to_history_code s) = s"
  using drop_push_32 [of f d] take_push_32 [of f d]
  by (simp add: funded_at_def dispute_deadline_def pack_timestamps_def mask_32
      take_bit_eq_mask [symmetric] unpack_pack_history_entry from_to_history_code
      del: drop_bit_or)

section \<open>Votes\<close>

text \<open>The stored votes as a map: the vote of every resolver that has one.\<close>

definition ballots :: "ResolverVote list \<Rightarrow> address \<Rightarrow> ResolutionType option" where
  "ballots votes = map_of (map (\<lambda>v. (v_resolver v, v_resolution v)) votes)"

definition votes_for :: "ResolutionType \<Rightarrow> ResolverVote list \<Rightarrow> nat" where
  "votes_for r votes = length (filter (\<lambda>v. v_resolution v = r) votes)"

lemma ballots_simps [simp]:
  "ballots [] = Map.empty"
  "ballots (v # vs) = (ballots vs)(v_resolver v \<mapsto> v_resolution v)"
  by (simp_all add: ballots_def)

lemma votes_for_simps [simp]:
  "votes_for r [] = 0"
  "votes_for r (v # vs) = (if v_resolution v = r then 1 else 0) + votes_for r vs"
  by (simp_all add: votes_for_def)

lemma votes_for_le: "votes_for r vs \<le> length vs"
  by (simp add: votes_for_def)

lemma ballots_update: "ballots (update_vote r x now vs) = (ballots vs)(r \<mapsto> x)"
  by (induction vs) auto

lemma resolvers_update: "v_resolver ` set (update_vote r x now vs) = insert r (v_resolver ` set vs)"
  by (induction vs) auto

lemma distinct_update:
  "distinct (map v_resolver vs) \<Longrightarrow> distinct (map v_resolver (update_vote r x now vs))"
proof (induction vs)
  case (Cons v vs)
  then show ?case using resolvers_update [of r x now vs] by auto
qed simp

lemma dom_ballots: "dom (ballots vs) = v_resolver ` set vs"
  by (simp add: ballots_def dom_map_of_conv_image_fst image_image)

lemma finite_dom_ballots: "finite (dom (ballots vs))"
  by (simp add: dom_ballots)

text \<open>With one vote per resolver the number of votes for a side is the number of resolvers.\<close>

lemma votes_for_card:
  "distinct (map v_resolver vs) \<Longrightarrow> votes_for r vs = card {a. ballots vs a = Some r}"
proof (induction vs)
  case (Cons v vs)
  let ?S = "{a. ballots vs a = Some r}"
  have n: "v_resolver v \<notin> ?S" using Cons.prems dom_ballots [of vs] by auto
  have f: "finite ?S" by (rule finite_subset [of _ "dom (ballots vs)"]) (auto simp: finite_dom_ballots)
  have "{a. ballots (v # vs) a = Some r} = (if v_resolution v = r then insert (v_resolver v) ?S else ?S)"
    using n by auto
  with Cons n f show ?case by simp
qed simp

lemma count_vote_fold:
  "foldE count_vote vs (m, n) =
    (if m + votes_for Release vs < 2 ^ 32 \<and> n + votes_for Refund vs < 2 ^ 32 \<or> vs = []
     then Inr (m + votes_for Release vs, n + votes_for Refund vs) else fail ArithmeticError)"
  if "m < 2 ^ 32" "n < 2 ^ 32"
  using that
proof (induction vs arbitrary: m n)
  case (Cons v vs)
  show ?case
  proof (cases "v_resolution v")
    case Release
    show ?thesis
    proof (cases "m + 1 < 2 ^ 32")
      case True
      with Cons.IH [of "m + 1" n] Cons.prems Release show ?thesis
        by (cases vs) (simp_all add: count_vote_def u32_checked_inc_def ok_or_err_def ok_or_def)
    qed (simp add: Release count_vote_def u32_checked_inc_def ok_or_err_def ok_or_def)
  next
    case Refund
    show ?thesis
    proof (cases "n + 1 < 2 ^ 32")
      case True
      with Cons.IH [of m "n + 1"] Cons.prems Refund show ?thesis
        by (cases vs) (simp_all add: count_vote_def u32_checked_inc_def ok_or_err_def ok_or_def)
    qed (simp add: Refund count_vote_def u32_checked_inc_def ok_or_err_def ok_or_def)
  qed
qed simp

lemma count_votes_saturating_exact:
  "m + length vs < 2 ^ 32 \<Longrightarrow> n + length vs < 2 ^ 32 \<Longrightarrow>
    count_votes_saturating vs m n = (m + votes_for Release vs, n + votes_for Refund vs)"
  by (induction vs arbitrary: m n)
    (simp_all add: u32_saturating_inc_def split: ResolutionType.split)

text \<open>
  C27. Voting is a map from resolvers to ballots: a vote sets the ballot of its resolver and
  no other, and never gives a resolver two votes; the tally picks a side exactly when as many
  resolvers back it as the threshold asks, Release first; the majority used for a deadlock goes to
  Refund on a tie.
\<close>

theorem votes_refine_ballots:
  assumes "distinct (map v_resolver votes)" "length votes < 2 ^ 32"
  shows "ballots (update_vote r x now votes) = (ballots votes)(r \<mapsto> x) \<and>
    distinct (map v_resolver (update_vote r x now votes)) \<and>
    tally_votes votes threshold = Inr (
      if votes \<noteq> [] \<and> threshold \<le> card {a. ballots votes a = Some Release} then Some Release
      else if votes \<noteq> [] \<and> threshold \<le> card {a. ballots votes a = Some Refund} then Some Refund
      else None) \<and>
    tally_votes_majority votes =
      (if card {a. ballots votes a = Some Refund} < card {a. ballots votes a = Some Release}
       then Release else Refund)"
proof -
  have c: "foldE count_vote votes (0, 0) = Inr (votes_for Release votes, votes_for Refund votes)"
    using count_vote_fold [of 0 0 votes] assms(2) le_less_trans [OF votes_for_le assms(2)] by simp
  have "tally_votes_majority votes =
      (if votes_for Refund votes < votes_for Release votes then Release else Refund)"
    using count_votes_saturating_exact [of 0 votes 0] assms(2) by (simp add: tally_votes_majority_def)
  then show ?thesis
    using c assms(1) by (simp add: tally_votes_def ballots_update distinct_update votes_for_card)
qed

theorem votes_refine_ballots_witness:
  "let votes = [\<lparr>v_resolver = ''r1'', v_resolution = Release, v_voted_at = 5\<rparr>,
      \<lparr>v_resolver = ''r2'', v_resolution = Refund, v_voted_at = 6\<rparr>]
   in ballots (update_vote ''r2'' Release 7 votes) = (ballots votes)(''r2'' \<mapsto> Release) \<and>
      tally_votes_majority votes = Refund"
proof -
  let ?votes = "[\<lparr>v_resolver = ''r1'', v_resolution = Release, v_voted_at = 5\<rparr>,
      \<lparr>v_resolver = ''r2'', v_resolution = Refund, v_voted_at = 6\<rparr>]"
  have "{a. ballots ?votes a = Some Refund} = {''r2''}" "{a. ballots ?votes a = Some Release} = {''r1''}"
    by auto
  with votes_refine_ballots [of ?votes "''r2''" Release 7] show ?thesis by (simp add: Let_def)
qed

section \<open>Validation\<close>

lemma add_payee_bps_ok:
  assumes "uint acc + total_bps ps < 2 ^ 32" "\<forall>p \<in> set ps. p_address p \<noteq> zero_address"
  shows "\<exists>t. foldE add_payee_bps ps acc = Inr t"
  using assms
proof (induction ps arbitrary: acc)
  case (Cons p ps)
  have n: "uint acc + uint (p_bps p) < 2 ^ 32"
    using Cons.prems(1) total_bps_nonneg [of ps] by simp
  then have "add_payee_bps p acc = Inr (acc + p_bps p)"
    using Cons.prems(2) by (simp add: add_payee_bps_def word_checked_add_def)
  with Cons.IH [of "acc + p_bps p"] Cons.prems n show ?case by (simp add: uint_word_ariths)
qed simp

text \<open>
  Payees are accepted exactly when there are one to ten of them, none is the zero address
  and their shares, added without wrap-around, make 10000 basis points.
\<close>

theorem validate_payees_iff:
  "validate_payees payees = Inr () \<longleftrightarrow> payees \<noteq> [] \<and> length payees \<le> 10 \<and>
    total_bps payees = 10000 \<and> zero_address \<notin> p_address ` set payees"
proof
  assume "validate_payees payees = Inr ()"
  from validate_payees_Inr [OF this] show "payees \<noteq> [] \<and> length payees \<le> 10 \<and>
    total_bps payees = 10000 \<and> zero_address \<notin> p_address ` set payees"
    by (auto simp: MAX_PAYEES_def)
next
  assume a: "payees \<noteq> [] \<and> length payees \<le> 10 \<and>
    total_bps payees = 10000 \<and> zero_address \<notin> p_address ` set payees"
  then have "\<forall>p \<in> set payees. p_address p \<noteq> zero_address" by force
  with a obtain t where t: "foldE add_payee_bps payees 0 = Inr t"
    using add_payee_bps_ok [of 0 payees] by auto
  with add_payee_bps_total [OF t] a have "uint t = uint BASIS_POINTS" by (simp add: BASIS_POINTS_def)
  with a t show "validate_payees payees = Inr ()"
    by (simp add: validate_payees_def MAX_PAYEES_def word_uint_eq_iff)
qed

text \<open>
  The auto-release gate opens exactly for a Funded or Shipped escrow without a dispute:
  once delivery is recorded, when the release window has passed since; without a record only
  while Funded, after the dispute deadline and the shipping window. Deadlines that do not fit
  64 bits never pass.
\<close>

theorem auto_release_gate:
  "ensure_auto_release_eligible env e i w = Inr () \<longleftrightarrow>
    e_state e \<in> {Funded, Shipped} \<and> p_dispute (w_pers w) i = None \<and>
    (case e_delivered_at e of
       Some t \<Rightarrow> uint t + 172800 \<le> uint (env_now env)
     | None \<Rightarrow> e_state e = Funded \<and> dispute_deadline e \<le> env_now env \<and>
         uint (if 0 < e_shipped_at e then e_shipped_at e else funded_at e)
           + uint (e_shipping_window e) \<le> uint (env_now env))"
  by (simp add: ensure_auto_release_eligible_iff auto_releasable_def DELIVERY_RELEASE_WINDOW_def
      split: option.split)

section \<open>Batches\<close>

text \<open>Entry \<open>k\<close> runs with the signatures the entries before it left.\<close>

lemma multicall_trace:
  "foldE (multicall_step env) cs ((acc, used), w) = Inr ((rs, used'), w') \<longleftrightarrow>
    used' = used @ concat (map entry_signers cs) \<and>
    (\<exists>ws xs. rs = acc @ xs \<and> length xs = length cs \<and> length ws = Suc (length cs) \<and>
      ws ! 0 = w \<and> ws ! length cs = w' \<and>
      (\<forall>k < length cs. dispatch_call (after_auth env (used @ concat (map entry_signers (take k cs))))
         (cs ! k) (ws ! k) = Inr (xs ! k, ws ! Suc k)))"
proof (induction cs arbitrary: acc used w)
  case Nil
  show ?case by (auto intro!: exI [of _ "[w]"] simp: length_Suc_conv)
next
  case (Cons c cs)
  let ?u = "used @ entry_signers c"
  show ?case (is "?L = ?R")
  proof
    assume ?L
    then obtain x v where x: "dispatch_call (after_auth env used) c w = Inr (x, v)"
      "foldE (multicall_step env) cs ((acc @ [x], ?u), v) = Inr ((rs, used'), w')"
      by (auto simp: multicall_step_def [of _ c])
    from Cons.IH [THEN iffD1, OF x(2)] obtain ws xs where
      "used' = ?u @ concat (map entry_signers cs)"
      "rs = (acc @ [x]) @ xs" "length xs = length cs" "length ws = Suc (length cs)" "ws ! 0 = v"
      "ws ! length cs = w'"
      "\<forall>k < length cs. dispatch_call (after_auth env (?u @ concat (map entry_signers (take k cs))))
        (cs ! k) (ws ! k) = Inr (xs ! k, ws ! Suc k)" by blast
    with x(1) show ?R
      by (intro conjI exI [of _ "w # ws"] exI [of _ "x # xs"]) (auto simp: nth_Cons split: nat.split)
  next
    assume R: ?R
    then obtain ws xs where r: "rs = acc @ xs" "length xs = Suc (length cs)"
      "length ws = Suc (Suc (length cs))" "ws ! 0 = w" "ws ! Suc (length cs) = w'"
      "\<forall>k < Suc (length cs). dispatch_call
        (after_auth env (used @ concat (map entry_signers (take k (c # cs)))))
        ((c # cs) ! k) (ws ! k) = Inr (xs ! k, ws ! Suc k)"
      by auto
    then obtain x xs' where xs: "xs = x # xs'" by (cases xs) auto
    obtain v vs where ws: "ws = v # vs" using r(3) by (cases ws) auto
    have "dispatch_call (after_auth env (?u @ concat (map entry_signers (take k cs)))) (cs ! k) (vs ! k)
        = Inr (xs' ! k, vs ! Suc k)" if "k < length cs" for k
      using r(6) [rule_format, of "Suc k"] that xs ws by simp
    then have "foldE (multicall_step env) cs ((acc @ [x], ?u), vs ! 0) = Inr ((rs, used'), w')"
      using R r xs ws by (intro Cons.IH [THEN iffD2] conjI exI [of _ vs] exI [of _ xs']) auto
    moreover have "dispatch_call (after_auth env used) c w = Inr (x, vs ! 0)"
      using r(4,6) xs ws by (auto dest!: spec [where x = 0])
    ultimately show ?L by (simp add: multicall_step_def [of _ c])
  qed
qed

lemma auth_first: "bindE (require_auth env c) f = Inr x \<Longrightarrow> env_auth env c"
  by simp

text \<open>An entry that succeeds had its signer's signature, and every entry has at most one.\<close>

lemma entry_runs_sign:
  "fund_escrow env i c w = Inr w' \<Longrightarrow> env_auth env c"
  "mark_shipped env c i t w = Inr w' \<Longrightarrow> env_auth env c"
  "confirm_delivery env c i b w = Inr w' \<Longrightarrow> env_auth env c"
  "raise_dispute env c i s d h w = Inr w' \<Longrightarrow> env_auth env c"
  "resolve_dispute env c i r w = Inr w' \<Longrightarrow> env_auth env c"
  "cancel_escrow env c i w = Inr w' \<Longrightarrow> env_auth env c"
  "rotate_resolver env c i a w = Inr w' \<Longrightarrow> env_auth env c"
  "queue_pause_contract env c w = Inr w' \<Longrightarrow> env_auth env c"
  "queue_unpause_contract env c w = Inr w' \<Longrightarrow> env_auth env c"
  "set_arbitration_fee env c k w = Inr w' \<Longrightarrow> env_auth env c"
  "create_escrow env (VPayees ps) v rs tk n f g sw notes w = Inr x \<Longrightarrow>
    \<forall>p \<in> set (take (Suc 0) ps). env_auth env (p_address p)"
proof -
  show "fund_escrow env i c w = Inr w' \<Longrightarrow> env_auth env c"
    using shipment_guards(1) [of env i c w w'] by (simp add: Let_def)
  show "queue_pause_contract env c w = Inr w' \<Longrightarrow> env_auth env c"
    "queue_unpause_contract env c w = Inr w' \<Longrightarrow> env_auth env c"
    using tl_queue_guard [of env c LPauseContract w w'] tl_queue_guard [of env c LUnpauseContract w w']
    by simp_all
  show "create_escrow env (VPayees ps) v rs tk n f g sw notes w = Inr x \<Longrightarrow>
      \<forall>p \<in> set (take (Suc 0) ps). env_auth env (p_address p)"
    by (cases ps) (auto simp: create_escrow_def)
qed (unfold mark_shipped_def confirm_delivery_def raise_dispute_def resolve_dispute_def
  cancel_escrow_def rotate_resolver_def set_arbitration_fee_def, (erule auth_first)+)

lemma entry_signers_signed:
  assumes "dispatch_call env c w = Inr x" "a \<in> set (entry_signers c)"
  shows "env_auth env a"
proof -
  have "\<forall>a \<in> set (entry_signers c). env_auth env a"
    using assms(1) unfolding dispatch_call_def
    by (auto split: if_split_asm)
      (auto simp: entry_signers_def signer_arg_def dispatch_defs dispatch_create_escrow_def
        unit_result_def dest: entry_runs_sign(1-10) entry_runs_sign(11) [THEN bspec])
  with assms(2) show ?thesis by blast
qed

lemma entry_signers_distinct: "distinct (entry_signers c)"
proof -
  have "distinct (map p_address (take (Suc 0) ps))" for ps by (cases ps) simp_all
  then show ?thesis by (auto simp: entry_signers_def signer_arg_def split: sum.split)
qed

lemma distinct_concat_fresh:
  "(\<And>k. k < length xs \<Longrightarrow> distinct (f (xs ! k)) \<and> set (f (xs ! k)) \<inter> set (concat (map f (take k xs))) = {})
    \<Longrightarrow> distinct (concat (map f xs))"
proof (induction xs rule: rev_induct)
  case (snoc x xs)
  have "distinct (concat (map f xs))"
  proof (rule snoc.IH)
    fix k assume "k < length xs"
    with snoc.prems [of k] show "distinct (f (xs ! k)) \<and>
        set (f (xs ! k)) \<inter> set (concat (map f (take k xs))) = {}" by (simp add: nth_append)
  qed
  moreover have "distinct (f x) \<and> set (f x) \<inter> set (concat (map f xs)) = {}"
    using snoc.prems [of "length xs"] by (simp add: nth_append)
  ultimately show ?case by (simp only: map_append concat_append distinct_append) auto
qed simp

text \<open>
  C28. A multicall succeeds exactly when it is not paused, has at most ten entries and each of
  them succeeds in the world the one before left, an address that an earlier entry authenticated
  not counting as signed again unless the host accepts that; it returns one result per entry, and
  with one failing entry nothing at all is committed. On a host that rejects a second
  authentication no two entries of a batch that succeeds have the same signer.
\<close>

theorem multicall_is_chain:
  "(multicall env cs w = Inr (rs, w') \<longleftrightarrow>
    ensure_action_not_paused ''multicall'' w = Inr () \<and> length cs \<le> 10 \<and>
    (\<exists>ws. length rs = length cs \<and> length ws = Suc (length cs) \<and>
      ws ! 0 = w \<and> ws ! length cs = w' \<and>
      (\<forall>k < length cs. dispatch_call (after_auth env (concat (map entry_signers (take k cs))))
         (cs ! k) (ws ! k) = Inr (rs ! k, ws ! Suc k)))) \<and>
   (multicall env cs w = Inr (rs, w') \<longrightarrow>
      env_reauth env \<or> distinct (concat (map entry_signers cs)))"
proof -
  have "multicall env cs w = Inr (rs, w') \<longleftrightarrow> ensure_action_not_paused ''multicall'' w = Inr () \<and>
      length cs \<le> 10 \<and> (\<exists>used. foldE (multicall_step env) cs (([], []), w) = Inr ((rs, used), w'))"
    by (auto simp: multicall_def MAX_MULTICALL_BATCH_SIZE_def not_less)
  with multicall_trace [of env cs "[]" "[]" w rs _ w']
  have iff: "multicall env cs w = Inr (rs, w') \<longleftrightarrow>
    ensure_action_not_paused ''multicall'' w = Inr () \<and> length cs \<le> 10 \<and>
    (\<exists>ws. length rs = length cs \<and> length ws = Suc (length cs) \<and>
      ws ! 0 = w \<and> ws ! length cs = w' \<and>
      (\<forall>k < length cs. dispatch_call (after_auth env (concat (map entry_signers (take k cs))))
         (cs ! k) (ws ! k) = Inr (rs ! k, ws ! Suc k)))"
    by auto
  moreover have "env_reauth env \<or> distinct (concat (map entry_signers cs))"
    if ok: "multicall env cs w = Inr (rs, w')"
  proof -
    obtain ws where c: "\<forall>k < length cs. dispatch_call
        (after_auth env (concat (map entry_signers (take k cs)))) (cs ! k) (ws ! k)
        = Inr (rs ! k, ws ! Suc k)" using iff ok by blast
    have "set (entry_signers (cs ! k)) \<inter> set (concat (map entry_signers (take k cs))) = {}"
      if "\<not> env_reauth env" "k < length cs" for k
      using entry_signers_signed [OF c [rule_format, OF that(2)]] that(1) by fastforce
    then show ?thesis using distinct_concat_fresh [of cs entry_signers] entry_signers_distinct by blast
  qed
  ultimately show ?thesis by blast
qed

theorem multicall_is_chain_witness:
  "(\<exists>rs. multicall (demo_env 3000 [''buyer'']) [\<lparr>cl_function = ''fund_escrow'',
       cl_args = [VU64 1, VAddress ''buyer'']\<rparr>,
       \<lparr>cl_function = ''get_arbitration_fee'', cl_args = []\<rparr>] created = Inr (rs, funded)) \<and>
   \<not> is_ok (multicall (demo_env 3000 [''buyer'']) [\<lparr>cl_function = ''fund_escrow'',
       cl_args = [VU64 1, VAddress ''buyer'']\<rparr>,
       \<lparr>cl_function = ''fund_escrow'', cl_args = [VU64 2, VAddress ''buyer'']\<rparr>] created)"
proof
  let ?env = "demo_env 3000 [''buyer'']"
  let ?fund = "\<lambda>i. \<lparr>cl_function = ''fund_escrow'', cl_args = [VU64 i, VAddress ''buyer'']\<rparr>"
  let ?fee = "\<lparr>cl_function = ''get_arbitration_fee'', cl_args = []\<rparr>"
  have s: "entry_signers (?fund i) = [''buyer'']" for i
    by (simp add: entry_signers_def signer_arg_def parse_arg_def vec_get_def)
  have "dispatch_call ?env (?fund 1) created = Inr (RUnit, funded)"
    using funded(1) by (simp add: dispatch_call_def dispatch_fund_escrow_def parse_arg_def vec_get_def
        unit_result_def demo_fund_def)
  moreover have "dispatch_call env ?fee funded = Inr (RU32 (get_arbitration_fee funded), funded)" for env
    by (simp add: dispatch_call_def dispatch_get_arbitration_fee_def)
  moreover have "ensure_action_not_paused ''multicall'' created = Inr ()"
    by (simp add: ensure_action_not_paused_def read_global_config_def created demo_inst_def
        empty_instance_def flag_set_def const_defs)
  ultimately have "multicall ?env [?fund 1, ?fee] created =
      Inr ([RUnit, RU32 (get_arbitration_fee funded)], funded)"
    by (intro multicall_is_chain [THEN conjunct1, THEN iffD2] conjI exI [of _ "[created, funded, funded]"])
      (auto simp: less_Suc_eq)
  then show "\<exists>rs. multicall ?env [?fund 1, ?fee] created = Inr (rs, funded)" by blast
  show "\<not> is_ok (multicall ?env [?fund 1, ?fund 2] created)"
  proof
    assume "is_ok (multicall ?env [?fund 1, ?fund 2] created)"
    then obtain rs w where "multicall ?env [?fund 1, ?fund 2] created = Inr (rs, w)"
      by (cases "multicall ?env [?fund 1, ?fund 2] created") auto
    with multicall_is_chain [THEN conjunct2, rule_format, OF this] s show False
      by (simp add: demo_env_def)
  qed
qed

end
