(* ===== verification/Basket_Scenario.thy ===== *)
theory Basket_Scenario
  imports Scenario
begin

unbundle bit_operations_syntax

text \<open>
  A second small history: a basket escrow of two tokens with an expiry is created, funded and
  reclaimed.
\<close>

definition demo_basket_create :: "(u64 \<times> world) res" where
  "demo_basket_create = create_basket_escrow (demo_env 2000 [''seller'']) ''seller'' (Some ''buyer'')
     ''resolver'' [''usdc'', ''eurc''] [600, 400] 100 86400 None (Some 90000) 10 deployed"

definition basket_created :: world where "basket_created = snd (projr demo_basket_create)"

definition basket_escrow :: Escrow where
  "basket_escrow = demo_escrow\<lparr>e_amount := 600, e_resolver_fee_bps := 0, e_expires_at := Some 90000\<rparr>"

definition basket_tokens :: "TokenEntry list" where
  "basket_tokens = [\<lparr>te_token = ''usdc'', te_amount = 600\<rparr>, \<lparr>te_token = ''eurc'', te_amount = 400\<rparr>]"

definition basket_created_pers :: persistent_storage where
  "basket_created_pers = empty_persistent\<lparr>p_escrow := [1 \<mapsto> basket_escrow], p_history := [1 \<mapsto> [2000]],
     p_basket := [1 \<mapsto> basket_tokens],
     p_pending_expiry := [1 \<mapsto> \<lparr>x_expires_at = 90000, x_grace_period = 10\<rparr>],
     p_shard := (\<lambda>_ _. None)(0 := [1 \<mapsto> 1]), p_ids := [DK_VendorEscrow ''seller'' 0 \<mapsto> [1, 1]],
     p_counts := [DK_VendorEscrowCount ''seller'' \<mapsto> Suc (Suc 0)]\<rparr>"

lemmas basket_run_defs = read_vendor_escrow_index_def write_vendor_escrow_index_def
  read_escrow_index_def read_legacy_index_def write_escrow_index_def write_pages_def clear_pages_def
  write_pages_from.simps save_basket_tokens_def save_pending_expiry_def check_expiration_def
  basket_tokens_def basket_escrow_def

lemma demo_basket_create_run: "\<exists>w. demo_basket_create = Inr (1, w) \<and>
    w_inst w = demo_inst\<lparr>i_escrow_counter := Some 2\<rparr> \<and> w_pers w = basket_created_pers \<and> w_xfers w = []"
  by (simp add: demo_basket_create_def create_basket_escrow_def run_defs basket_run_defs deployed
      demo_escrow_def demo_inst_def basket_created_pers_def bump_shard_def shard_bucket_def
      cong: bindE_weak_cong)

lemma basket_created: "demo_basket_create = Inr (1, basket_created)"
  "w_inst basket_created = demo_inst\<lparr>i_escrow_counter := Some 2\<rparr>"
  "w_pers basket_created = basket_created_pers" "w_xfers basket_created = []"
  using ran_id [OF demo_basket_create_run] unfolding basket_created_def by blast+

definition demo_basket_fund :: "world res" where
  "demo_basket_fund = fund_basket_escrow (demo_env 3000 [''buyer'']) 1 ''buyer'' basket_created"

definition basket_funded :: world where "basket_funded = projr demo_basket_fund"

definition basket_funded_escrow :: Escrow where
  "basket_funded_escrow = basket_escrow\<lparr>e_state := Funded,
     e_packed_timestamps := 12884901888000 + 175800\<rparr>"

definition basket_deposits :: "transfer list" where
  "basket_deposits = [
     \<lparr>tr_token = ''usdc'', tr_from = ''buyer'', tr_to = ''contract'', tr_amount = 600\<rparr>,
     \<lparr>tr_token = ''eurc'', tr_from = ''buyer'', tr_to = ''contract'', tr_amount = 400\<rparr>]"

lemma demo_basket_fund_run: "\<exists>w. demo_basket_fund = Inr w \<and> w_inst w = w_inst basket_created \<and>
    p_escrow (w_pers w) = [1 \<mapsto> basket_funded_escrow] \<and> p_basket (w_pers w) = [1 \<mapsto> basket_tokens] \<and>
    map fst (w_xfers w) = basket_deposits"
  by (simp add: demo_basket_fund_def fund_basket_escrow_def fund_any_entry_def run_defs
      basket_run_defs basket_created basket_created_pers_def demo_escrow_def demo_inst_def
      basket_funded_escrow_def basket_deposits_def cong: bindE_weak_cong)

lemma basket_funded: "demo_basket_fund = Inr basket_funded"
  "w_inst basket_funded = demo_inst\<lparr>i_escrow_counter := Some 2\<rparr>"
  "p_escrow (w_pers basket_funded) = [1 \<mapsto> basket_funded_escrow]"
  "p_basket (w_pers basket_funded) = [1 \<mapsto> basket_tokens]"
  "map fst (w_xfers basket_funded) = basket_deposits"
  using ran [OF demo_basket_fund_run] unfolding basket_funded_def basket_created by blast+

lemma basket_reachable:
  "reachable ''contract'' basket_created" "reachable ''contract'' basket_funded"
proof -
  show c: "reachable ''contract'' basket_created"
    using basket_created(1) by (intro reachable.called [OF demo_reachable(1), of "demo_env 2000 [''seller'']"
      "Create (CBasket ''seller'' (Some ''buyer'') ''resolver'' [''usdc'', ''eurc''] [600, 400] 100 86400
         None (Some 90000) 10)"]) (simp_all add: demo_basket_create_def i128_max_def)
  show "reachable ''contract'' basket_funded"
    using basket_funded(1) by (intro reachable.called [OF c, of "demo_env 3000 [''buyer'']"
      "OnEscrow (EFundBasket ''buyer'') 1"]) (simp_all add: demo_basket_fund_def)
qed

end
