(* ===== verification/Progress.thy ===== *)
theory Progress
  imports Authority Basket_Scenario
begin

text \<open>
  Progress: the exits the contract promises can really be taken.  The token contracts are
  assumed to honour every transfer the contract's own balance covers; that it does cover
  them is the solvency part of the invariant.
\<close>

section \<open>Payouts that cannot fail\<close>

text \<open>A SEP-41 token moves what its sender holds.\<close>

definition honours :: "env \<Rightarrow> bool" where
  "honours env \<longleftrightarrow> (\<forall>ts t. tr_from t = env_self env \<longrightarrow> 0 < tr_amount t \<longrightarrow>
     tr_amount t \<le> custody_of (env_self env) (tr_token t) ts \<longrightarrow> env_token_ok env ts t)"

lemma demo_honours [simp]: "honours (demo_env t as)"
  by (simp add: honours_def)

lemma payout_ok:
  assumes "honours env" "total_out tk [(tk, r, n)] \<le> custody env tk w"
  shows "payout env tk r n w = Inr (pay env [(tk, r, n)] w)"
  using assms
  by (auto simp: payout_def transfer_helper_def pay_def honours_def custody_def Let_def)

lemma basket_payouts_ok:
  assumes "honours env" "\<And>tk. total_out tk (basket_outs primary r ts) \<le> custody env tk w"
  shows "foldE (payout_basket_entry env primary r) ts w = Inr (pay env (basket_outs primary r ts) w)"
  using assms(2)
proof (induction ts arbitrary: w)
  case (Cons t ts)
  show ?case
  proof (cases "is_transferable_basket_entry t primary")
    case True
    let ?x = "(te_token t, r, te_amount t)"
    have o: "basket_outs primary r (t # ts) = ?x # basket_outs primary r ts"
      using True by (simp add: basket_outs_def)
    have c: "total_out tk [?x] + total_out tk (basket_outs primary r ts) \<le> custody env tk w" for tk
      using Cons.prems [of tk] unfolding o by simp
    have "total_out (te_token t) [?x] \<le> custody env (te_token t) w"
      using c [of "te_token t"] total_out_nonneg [of "te_token t" "basket_outs primary r ts"]
      by linarith
    then have p: "payout_basket_entry env primary r t w = Inr (pay env [?x] w)"
      using True payout_ok [OF assms(1)] by (simp add: payout_basket_entry_def)
    have "total_out tk (basket_outs primary r ts) \<le> custody env tk (pay env [?x] w)" for tk
      using c [of tk] custody_pay [of env tk w "[?x]"] by linarith
    from Cons.IH [OF this] p o show ?thesis by simp
  next
    case False
    then have "basket_outs primary r (t # ts) = basket_outs primary r ts"
      by (simp add: basket_outs_def)
    with Cons False show ?thesis by (simp add: payout_basket_entry_def)
  qed
qed (simp add: basket_outs_def)

lemma payout_basket_tokens_ok:
  assumes "honours env" "p_escrow (w_pers w) i = Some e"
    "\<And>tk. total_out tk (basket_outs (e_token e) r (basket_of (w_pers w) i)) \<le> custody env tk w"
  shows "payout_basket_tokens env i r w =
    Inr (pay env (basket_outs (e_token e) r (basket_of (w_pers w) i)) (read_basket i w))"
proof -
  have "custody env tk (read_basket i w) = custody env tk w" for tk
    by (simp add: custody_def)
  then show ?thesis
    using basket_payouts_ok [OF assms(1), where w = "read_basket i w" and primary = "e_token e"
        and ts = "basket_of (w_pers w) i" and r = r] assms(2,3)
    by (simp add: payout_basket_tokens_def load_escrow_def read_basket_def basket_of_def
        case_prod_beta load_basket_tokens_def split: option.splits)
qed

text \<open>The whole of a refund, as the operations write it.\<close>

lemma refund_ok:
  assumes "honours env" "p_escrow (w_pers v) i = Some e"
    "\<And>tk. total_out tk ((e_token e, r, n) # basket_outs (e_token e) r (basket_of (w_pers v) i))
      \<le> custody env tk v"
  shows "\<exists>w'. bindE (payout env (e_token e) r n v) (\<lambda>v1.
      bindE (payout_basket_tokens env i r v1) (\<lambda>v2. Inr (f v2))) = Inr w'"
proof -
  let ?o = "basket_outs (e_token e) r (basket_of (w_pers v) i)" and ?x = "(e_token e, r, n)"
  have t: "total_out tk [?x] + total_out tk ?o \<le> custody env tk v" for tk
    using assms(3) [of tk] by simp
  have "total_out (e_token e) [?x] \<le> custody env (e_token e) v"
    using t [of "e_token e"] total_out_nonneg [of "e_token e" ?o] by linarith
  then have "payout env (e_token e) r n v = Inr (pay env [?x] v)" by (rule payout_ok [OF assms(1)])
  moreover have "total_out tk ?o \<le> custody env tk (pay env [?x] v)" for tk
    using t [of tk] custody_pay [of env tk v "[?x]"] by linarith
  ultimately show ?thesis
    using payout_basket_tokens_ok [OF assms(1), of "pay env [?x] v" i e r] assms(2) by simp
qed

lemma claim_nonneg: "inv self w \<Longrightarrow> 0 \<le> claim_at tk w i"
  using escrow_okD(1) [OF inv_escrow(1)] claim_of_nonneg
  by (auto simp: claim_at_def split: option.split)

lemma claim_covered: "inv (env_self env) w \<Longrightarrow> claim_at tk w i \<le> custody env tk w"
  using invD(4) [of "env_self env" w tk] claim_nonneg [of "env_self env" w tk]
    member_le_sum [of i UNIV "claim_at tk w"]
  by (simp add: owed_def custody_def)

lemma refund_covered:
  assumes "inv (env_self env) w" "p_escrow (w_pers w) i = Some e" "is_live (e_state e)"
  shows "total_out tk ((e_token e, r, e_amount e) # basket_outs (e_token e) r (basket_of (w_pers w) i))
    \<le> custody env tk w"
  using claim_covered [OF assms(1), of tk i] assms(2,3)
    total_out_refund [OF escrow_okD(1) [OF inv_escrow(1) [OF assms(1,2)]] assms(3)]
  by (simp add: claim_at_def refund_outs_def)

text \<open>The same after the escrow was rewritten, in the world the operation started from.\<close>

lemma refund_after_writing:
  assumes "honours env" "inv (env_self env) w" "p_escrow (w_pers w) i = Some e" "is_live (e_state e)"
    and "p_escrow (w_pers v) i = Some e'" "e_token e' = e_token e"
    "p_basket (w_pers v) i = p_basket (w_pers w) i" "w_xfers v = w_xfers w"
  shows "\<exists>w'. bindE (payout env (e_token e) r (e_amount e) v) (\<lambda>v1.
      bindE (payout_basket_tokens env i r v1) (\<lambda>v2. Inr (f v2))) = Inr w'"
proof -
  have "basket_of (w_pers v) i = basket_of (w_pers w) i" "custody env tk v = custody env tk w" for tk
    using assms(7,8) by (simp_all add: basket_of_def custody_def)
  with refund_covered [OF assms(2-4)] assms(6)
  have "total_out tk ((e_token e', r, e_amount e) # basket_outs (e_token e') r (basket_of (w_pers v) i))
      \<le> custody env tk v" for tk by simp
  from refund_ok [OF assms(1,5) this] show ?thesis by (simp add: assms(6))
qed

section \<open>Expiry\<close>

text \<open>
  C29. A Funded or Shipped escrow can be reclaimed by its buyer from the second of its expiry on, without
  waiting for the grace period, which the code ignores: in every reachable world in which neither the
  contract nor the action \<open>RECLAIM\<close> is paused, with the buyer's signature and tokens that
  honour covered transfers, the call succeeds, since the balance covers it.
\<close>

theorem reclaim_expired_succeeds:
  assumes "reachable (env_self env) w" "p_escrow (w_pers w) i = Some e"
    "e_state e \<in> {Funded, Shipped}" "expired_at env e" "signed_by env (e_buyer e)"
    "ensure_action_not_paused ''RECLAIM'' w = Inr ()" "honours env"
  shows "\<exists>w'. reclaim_expired env i w = Inr w' \<and> e_state (escrow_at w' i) = Expired \<and>
    claim_at tk w' i = 0"
proof -
  note I = reachable_inv [OF assms(1)]
  have live: "is_live (e_state e)" using assms(3) by auto
  obtain b x where b: "e_buyer e = Some b" "env_auth env b"
    and x: "e_expires_at e = Some x" "x \<le> env_now env"
    using assms(4,5) by (auto simp: signed_by_def expired_at_def split: option.splits)
  have "\<exists>w'. reclaim_expired env i w = Inr w'"
    using assms(3,6) b x
    by (auto simp: reclaim_expired_def load_escrow_def assms(2) require_auth_def Let_def not_less
        simp del: bindE_Inr intro!: refund_after_writing [OF assms(7) I assms(2) live])
  then obtain w' where w': "reclaim_expired env i w = Inr w'" by blast
  with exits.pays_claim [of env XReclaimExpired i w w'] I postD [OF reclaim_expired_effect w']
  show ?thesis by (auto simp: refunds_buyer_def alters_def escrow_at_def)
qed

section \<open>Disputes\<close>

lemma timeout_resolution_ok:
  assumes "p_dispute (w_pers w) i = Some d" "config_ok (read_global_config w)"
    "d_disputed_at d \<le> env_now env" "uint (env_now env) + uint APPEAL_WINDOW < 2 ^ 64"
  shows "\<exists>w'. execute_resolution_transition env i e c Refund votes False w = Inr w'"
proof -
  obtain a where "g_fee_collector (read_global_config w) = Some a"
    using assms(2) by (auto simp: config_ok_def)
  with assms show ?thesis
    by (auto simp: execute_resolution_transition_def resolution_fees_def load_dispute_def
        payout_def word_checked_add_def Let_def read_global_config_of ok_or_err_def ok_or_def
        simp del: bindE_Inr)
qed

text \<open>
  C30. A dispute nobody resolves does not hold the money for ever: once the dispute timeout has
  passed, the buyer or the first payee alone, with a signature, can move it to a refund that waits out
  the appeal window; in every reachable world in which neither the contract nor the action
  \<open>claim_dispute_timeout\<close> is paused and in which the end of that window still fits 64 bits. No token
  is asked for anything.
\<close>

theorem claim_dispute_timeout_succeeds:
  assumes "reachable self w" "p_escrow (w_pers w) i = Some e" "e_state e = Disputed"
    "c = buyer_at w i \<or> c = payee_at w i" "env_auth env c"
    "ensure_action_not_paused ''claim_dispute_timeout'' w = Inr ()"
    "uint (d_disputed_at (dispute_at w i)) + uint (read_dispute_timeout w) \<le> uint (env_now env)"
    "uint (env_now env) + uint APPEAL_WINDOW < 2 ^ 64"
  shows "\<exists>w'. claim_dispute_timeout env c i w = Inr w' \<and>
    e_state (escrow_at w' i) = PendingFinalization \<and>
    get_resolution (dispute_at w' i) = Some Refund \<and>
    d_resolved_at (dispute_at w' i) = env_now env"
proof -
  note I = reachable_inv [OF assms(1)]
  note E = inv_escrow [OF I assms(2)]
  obtain d where d: "p_dispute (w_pers w) i = Some d"
    using E(2) assms(3) by (auto simp: dispute_sound_def)
  obtain b where b: "e_buyer e = Some b" using E(4) assms(3) by auto
  obtain p ps where p: "e_payees e = p # ps" using escrow_okD(5) [OF E(1)] by (cases "e_payees e") auto
  have t: "uint (d_disputed_at d) + uint (read_dispute_timeout w) \<le> uint (env_now env)"
    using assms(7) d by (simp add: dispute_at_def)
  have n: "uint (d_disputed_at d) + uint (read_dispute_timeout w) < 2 ^ 64"
    using t uint_lt2p [of "env_now env"] by simp
  have le: "d_disputed_at d \<le> env_now env"
    using t uint_ge_0 [of "read_dispute_timeout w"] unfolding word_le_def by linarith
  have "\<exists>w'. claim_dispute_timeout env c i w = Inr w'"
    using assms(3-6) b p n t invD(3) [OF I] le assms(8)
    by (auto simp: claim_dispute_timeout_def buyer_and_seller_def load_escrow_def load_dispute_def
        assms(2) d require_auth_def Let_def buyer_at_def payee_at_def escrow_at_def
        read_dispute_timeout_def read_global_config_of word_checked_add_def ok_or_err_def ok_or_def
        word_less_def uint_word_ariths vec_get_0
        simp del: bindE_Inr intro!: timeout_resolution_ok [where d = d])
  then obtain w' where w': "claim_dispute_timeout env c i w = Inr w'" by blast
  from postD [OF claim_dispute_timeout_effect [OF run_amount(4) [OF I w']] w'] w' show ?thesis
    by (auto simp: resolves_def alters_def escrow_at_def dispute_at_def resolved_dispute_def
        get_resolution_def set_resolution_def Let_def)
qed

section \<open>Finalization\<close>

text \<open>No lifecycle counter shard is about to overflow.\<close>

definition counters_free :: "world \<Rightarrow> bool" where
  "counters_free w \<longleftrightarrow> (\<forall>k b n. p_shard (w_pers w) k b = Some n \<longrightarrow> uint n + 1 < 2 ^ 64)"

lemma counter_ok:
  assumes "p_shard (w_pers v) = p_shard (w_pers w)" "counters_free w"
  shows "record_escrow_completed i v = Inr (count COUNTER_KIND_COMPLETED i v)"
    "record_escrow_refunded i v = Inr (count COUNTER_KIND_REFUNDED i v)"
proof -
  have "increment_sharded_counter k i v = Inr (count k i v)" for k
  proof -
    have "is_ok (increment_sharded_counter k i v)"
      using assms by (auto simp: increment_sharded_counter_def Let_def word_checked_add_def
          counters_free_def ok_or_err_def ok_or_def unwrap_or_def split: option.splits)
    with post_counters(1) [of k i v "\<lambda>x. x = count k i v"] show ?thesis
      by (cases "increment_sharded_counter k i v") (auto simp: post_def)
  qed
  then show "record_escrow_completed i v = Inr (count COUNTER_KIND_COMPLETED i v)"
    "record_escrow_refunded i v = Inr (count COUNTER_KIND_REFUNDED i v)"
    by (simp_all add: record_escrow_completed_def record_escrow_refunded_def)
qed

lemma final_payouts_ok:
  assumes "honours env" "p_escrow (w_pers v) i = Some e"
    "\<And>tk. total_out tk ((e_token e, r, n) # (e_token e, c, m) #
      basket_outs (e_token e) r (basket_of (w_pers v) i)) \<le> custody env tk v"
  shows "\<exists>w'. bindE (payout env (e_token e) r n v) (\<lambda>v1. bindE (payout env (e_token e) c m v1)
      (\<lambda>v2. bindE (payout_basket_tokens env i r v2) (\<lambda>v3. Inr (f v3)))) = Inr w'"
proof -
  let ?o = "basket_outs (e_token e) r (basket_of (w_pers v) i)"
  let ?x = "(e_token e, r, n)" and ?y = "(e_token e, c, m)"
  have t: "total_out tk [?x] + total_out tk [?y] + total_out tk ?o \<le> custody env tk v" for tk
    using assms(3) [of tk] by simp
  note nn = total_out_nonneg
  have "total_out (e_token e) [?x] \<le> custody env (e_token e) v"
    using t [of "e_token e"] nn [of "e_token e" ?o] nn [of "e_token e" "[?y]"] by linarith
  then have 1: "payout env (e_token e) r n v = Inr (pay env [?x] v)" by (rule payout_ok [OF assms(1)])
  have c1: "total_out tk [?y] + total_out tk ?o \<le> custody env tk (pay env [?x] v)" for tk
    using t [of tk] custody_pay [of env tk v "[?x]"] by linarith
  have "total_out (e_token e) [?y] \<le> custody env (e_token e) (pay env [?x] v)"
    using c1 [of "e_token e"] nn [of "e_token e" ?o] by linarith
  from payout_ok [OF assms(1) this]
  have 2: "payout env (e_token e) c m (pay env [?x] v) = Inr (pay env [?x, ?y] v)" by simp
  have "total_out tk ?o \<le> custody env tk (pay env [?x, ?y] v)" for tk
    using c1 [of tk] custody_pay [of env tk "pay env [?x] v" "[?y]"] by simp
  with payout_basket_tokens_ok [OF assms(1), of "pay env [?x, ?y] v" i e r] assms(2) 1 2
  show ?thesis by simp
qed

text \<open>
  C31. After the appeal window anyone who signs can finalize: in every reachable world in which
  neither the contract nor the action \<open>finalize_dispute\<close> is paused, with no platform fee configured
  (with one it fails, see \<open>Divergences\<close>), the amount before the dispute fees within
  \<open>i128\<close>, no lifecycle counter at its maximum and tokens that honour covered transfers, the call succeeds,
  closes the escrow as the recorded resolution says and pays out everything it holds.
\<close>

theorem finalize_dispute_succeeds:
  assumes "reachable (env_self env) w" "p_escrow (w_pers w) i = Some e"
    "e_state e = PendingFinalization" "env_auth env c"
    "ensure_action_not_paused ''finalize_dispute'' w = Inr ()"
    "uint (d_resolved_at (dispute_at w i)) + uint APPEAL_WINDOW \<le> uint (env_now env)"
    "read_platform_fee_bps w = 0" "final_basis i w \<le> i128_max" "counters_free w" "honours env"
  shows "\<exists>w' r. finalize_dispute env c i w = Inr w' \<and> get_resolution (dispute_at w i) = Some r \<and>
    e_state (escrow_at w' i) = final_state r \<and>
    total_out tk (final_outs r i w) = claim_at tk w i \<and> claim_at tk w' i = 0"
proof -
  note I = reachable_inv [OF assms(1)] and E = inv_escrow [OF reachable_inv [OF assms(1)] assms(2)]
  note ok = escrow_okD [OF E(1)]
  obtain d r a where d: "p_dispute (w_pers w) i = Some d" "get_resolution d = Some r"
    "d_resolved_by d = Some a" "fees_ok e d" "d_fees_charged d"
    using E(2) assms(3) by (auto simp: dispute_sound_def)
  have at: "escrow_at w i = e" "dispute_at w i = d" using assms(2) d by (simp_all add: escrow_at_def dispute_at_def)
  obtain f where f: "g_fee_collector (read_global_config w) = Some f"
    using invD(3) [OF I] by (auto simp: config_ok_def)
  obtain b where b: "e_buyer e = Some b" using E(4) assms(3) by auto
  obtain p ps where p: "e_payees e = p # ps" using ok(5) by (cases "e_payees e") auto
  let ?B = "e_amount e + d_arbitration_fee d + d_resolver_fee d"
  let ?P = "bps_of ?B (e_fee_bps e)"
  have basis: "final_basis i w = ?B" by (simp add: final_basis_def at)
  have fee: "d_arbitration_fee d \<ge> 0" "d_resolver_fee d \<ge> 0" using d by (auto simp: fees_ok_def)
  have B: "0 \<le> ?B" "?B \<le> i128_max" using fee ok(1) assms(8) basis by auto
  have bps: "e_fee_bps e \<le> BASIS_POINTS" using ok(3) by (simp add: le_BASIS_POINTS)
  have cf: "calculate_fee ?B (e_fee_bps e) = Inr ?P"
    using calculate_fee_eq [OF B bps] by (simp add: bps_of_def)
  have fit: "0 \<le> ?P" "?P \<le> e_amount e"
    using final_fees_fit [of w i] E(1) invD(3) [OF I] d assms(7)
    by (simp_all add: at final_platform_fee_def final_protocol_fee_def basis)
  have claim: "claim_at tk w i = (if e_token e = tk then e_amount e else 0)
      + basket_claim tk (e_token e) (basket_of (w_pers w) i)" for tk
    using assms(2,3) by (simp add: claim_at_def claim_of_def)
  have pay: "\<exists>w'. bindE (payout env (e_token e) a (e_amount e - ?P) v) (\<lambda>v1.
      bindE (payout env (e_token e) f ?P v1) (\<lambda>v2.
      bindE (payout_basket_tokens env i a v2) (\<lambda>v3. Inr (g v3)))) = Inr w'"
    if "p_escrow (w_pers v) i = Some (e\<lparr>e_state := s\<rparr>)"
      "p_basket (w_pers v) i = p_basket (w_pers w) i" "w_xfers v = w_xfers w" for v a s g
  proof -
    have "total_out tk ((e_token e, a, e_amount e - ?P) # (e_token e, f, ?P) #
        basket_outs (e_token e) a (basket_of (w_pers v) i)) \<le> custody env tk v" for tk
      using claim_covered [OF I, of tk i] claim [of tk] fit that
      by (auto simp: basket_of_def custody_def split: if_splits)
    with final_payouts_ok [OF assms(10) that(1), of a "e_amount e - ?P" f ?P g] show ?thesis
      by (simp del: bindE_Inr total_out_simps)
  qed
  have oks: "i128_ok (e_amount e + d_arbitration_fee d)" "i128_ok ?B" "i128_ok (e_amount e)"
    "i128_ok (e_amount e - ?P)"
    using B fee ok(1) fit by (auto simp: i128_ok_def i128_min_def)
  have time: "uint (d_resolved_at d) + uint APPEAL_WINDOW < 2 ^ 64"
    "\<not> env_now env < d_resolved_at d + APPEAL_WINDOW"
    using assms(6) uint_lt2p [of "env_now env"] by (simp_all add: at word_less_def uint_word_ariths)
  have "\<exists>w'. finalize_dispute env c i w = Inr w'"
    using assms(3,4,5,7) d(1-3) b p f cf oks time
    by (cases r) (simp_all add: finalize_dispute_def load_escrow_def load_dispute_def assms(2)
        require_auth_def Let_def resolution_recipient_def read_global_config_of
        ok_or_err_def ok_or_def i128_checked_add_def i128_checked_sub_def word_checked_add_def
        counter_ok [OF _ assms(9)] vec_get_0 pay put_escrow_def read_platform_fee_bps_def
        del: bindE_Inr)
  then obtain w' where w': "finalize_dispute env c i w = Inr w'" by blast
  obtain r' where F: "finalizes env c i r' w w'" using postD [OF finalize_dispute_effect w'] by blast
  have r: "r' = r" using F d by (simp add: finalizes_def at)
  from exits.pays_claim [of env "XFinalizeDispute c" i w w' tk] I w'
  have "total_out tk (final_outs r i w) = claim_at tk w i" "claim_at tk w' i = 0"
    by (simp_all add: at d)
  moreover have "e_state (escrow_at w' i) = final_state r"
    using F by (simp add: finalizes_def alters_def escrow_at_def r)
  ultimately show ?thesis using w' d at by blast
qed

section \<open>The three at work\<close>

theorem reclaim_expired_succeeds_witness:
  "\<exists>w'. reclaim_expired (demo_env 90000 [''buyer'']) 1 basket_funded = Inr w' \<and>
    e_state (escrow_at w' 1) = Expired \<and> claim_at ''eurc'' w' 1 = 0"
proof -
  have "p_escrow (w_pers basket_funded) 1 = Some basket_funded_escrow" by (simp add: basket_funded)
  from reclaim_expired_succeeds [of "demo_env 90000 [''buyer'']", OF _ this] show ?thesis
    using basket_reachable(2)
    by (simp add: basket_funded basket_funded_escrow_def basket_escrow_def demo_escrow_def
        expired_at_def signed_by_def read_global_config_def demo_inst_def empty_instance_def
        ensure_action_not_paused_def flag_set_def const_defs)
qed

theorem claim_dispute_timeout_succeeds_witness:
  "\<exists>w'. claim_dispute_timeout (demo_env 2599000 [''seller'']) ''seller'' 1 disputed = Inr w' \<and>
    e_state (escrow_at w' 1) = PendingFinalization"
proof -
  have "p_escrow (w_pers disputed) 1 = Some (funded_escrow\<lparr>e_state := Disputed\<rparr>)"
    by (simp add: disputed disputed_pers_def)
  from claim_dispute_timeout_succeeds [OF demo_reachable(6) this, of "''seller''"
      "demo_env 2599000 [''seller'']"] show ?thesis
    by (auto simp: disputed disputed_pers_def funded_escrow_def demo_escrow_def payee_at_def
        escrow_at_def dispute_at_def demo_dispute_def read_dispute_timeout_def
        read_global_config_def demo_inst_def empty_instance_def ensure_action_not_paused_def
        flag_set_def const_defs)
qed

theorem finalize_dispute_succeeds_witness:
  "\<exists>w'. finalize_dispute (demo_env 93400 [''keeper'']) ''keeper'' 1 resolved = Inr w' \<and>
    e_state (escrow_at w' 1) = Completed \<and> claim_at ''usdc'' w' 1 = 0"
proof -
  have e: "p_escrow (w_pers resolved) 1 =
      Some (funded_escrow\<lparr>e_amount := 975, e_state := PendingFinalization\<rparr>)"
    by (simp add: resolved resolved_pers_def)
  have r: "get_resolution (dispute_at resolved 1) = Some Release"
    by (simp add: resolved resolved_pers_def resolved_demo_dispute_def dispute_at_def
        get_resolution_def)
  have "counters_free resolved"
    by (auto simp: counters_free_def resolved resolved_pers_def disputed_pers_def funded_pers_def
        created_pers_def split: if_splits)
  with finalize_dispute_succeeds [of "demo_env 93400 [''keeper'']" resolved, OF _ e, of "''keeper''"
      "''usdc''"] demo_reachable(7) r show ?thesis
    by (auto simp: resolved resolved_pers_def resolved_demo_dispute_def dispute_at_def final_basis_def
        read_platform_fee_bps_def read_global_config_def demo_inst_def empty_instance_def
        ensure_action_not_paused_def flag_set_def const_defs final_state_def i128_max_def
        escrow_at_def)
qed

end
