(* ===== verification/Divergences.thy ===== *)
theory Divergences
  imports Authority Basket_Scenario Helper_Facts
begin

text \<open>
  Where the code does something its own documentation does not say: proved on the model, for
  every reachable world where that applies.
\<close>

section \<open>Baskets are listed twice\<close>

lemma write_escrow_index_rep:
  assumes "keys_ok K" "index_rep K ids w" "p_ids (w_pers w) (ik_legacy K) = None" "new \<noteq> []"
  shows "index_rep K new (write_escrow_index K new w)"
proof -
  have inj: "inj (ik_page K)" and leg: "ik_legacy K \<notin> range (ik_page K)"
    using assms(1) by (auto simp: keys_ok_def)
  let ?w1 = "clear_pages (ik_page K) (read_index_count (ik_count K) w) w"
  have "p_ids (w_pers ?w1) (ik_page K j) = None" for j
    using assms(2) inj by (auto simp: clear_pages_ids index_rep_def page_at_def page_count_def
        inj_eq image_iff split: if_splits)
  moreover have "p_ids (w_pers ?w1) (ik_legacy K) = None"
    using assms(3) by (simp add: clear_pages_ids)
  ultimately show ?thesis
    using write_pages_from_ids(1) [OF inj, of 0 new ?w1] write_pages_from_ids(2) [OF inj leg, of 0 new ?w1]
      assms(4)
    by (auto simp: index_rep_def write_escrow_index_def write_pages_def read_index_count_def page_at_def)
qed

lemma indexed_rep:
  "keys_ok K \<Longrightarrow> index_rep K ids v \<Longrightarrow> is_ok (append_escrow_index K x v) \<Longrightarrow>
    index_rep K (ids @ [x]) (indexed K x v)"
  using append_escrow_index_rep [of K ids v x]
  by (auto simp: indexed_def is_ok_def split: sum.splits)

lemma index_rep_frame [simp]:
  "index_rep K ids (publish ev w) = index_rep K ids w"
  "index_rep K ids (count k i w) = index_rep K ids w"
  by (rule index_rep_cong, simp add: bump_shard_def)+

lemma save_escrow_index [simp]:
  "p_ids (w_pers (save_escrow env i e prev w)) = p_ids (w_pers w)"
  "p_counts (w_pers (save_escrow env i e prev w)) = p_counts (w_pers w)"
  by (simp_all add: save_escrow_def append_state_history_def Let_def)

text \<open>Reading the index, writing it back with a new id, and appending that id again.\<close>

lemma written_twice_rep:
  assumes "keys_ok K" "index_rep K ids w" "p_ids (w_pers w) (ik_legacy K) = None"
    "p_ids (w_pers v) = p_ids (w_pers w)" "p_counts (w_pers v) = p_counts (w_pers w)"
    "is_ok (append_escrow_index K x (write_escrow_index K (fst (read_escrow_index K v) @ [x])
      (snd (read_escrow_index K v))))"
  shows "index_rep K (ids @ [x, x]) (indexed K x
    (write_escrow_index K (fst (read_escrow_index K v) @ [x]) (snd (read_escrow_index K v))))"
proof -
  have v: "index_rep K ids v" using assms(2,4,5) index_rep_cong by metis
  let ?u = "snd (read_escrow_index K v)"
  have u: "w_pers ?u = w_pers v" using only_rent_index [of v K] by (simp add: only_rent_def)
  have "index_rep K ids ?u" using v u index_rep_cong by metis
  from write_escrow_index_rep [OF assms(1) this, of "ids @ [x]"]
  have "index_rep K (ids @ [x]) (write_escrow_index K (ids @ [x]) ?u)" using u assms(3,4) by simp
  from indexed_rep [OF assms(1) this, of x] assms(6) read_escrow_index_rep [OF v]
  show ?thesis by simp
qed

text \<open>
  A new basket escrow is entered twice in its seller's index: the creation path writes the
  index with the new id and then appends the id again, so every seller query shows it twice.
\<close>

theorem basket_indexed_twice:
  assumes "create_basket_escrow env seller buyer resolver tokens amounts fee_bps window notes
      expires_at grace w = Inr (i, w')"
    "index_rep (vendor_keys seller) ids w" "p_ids (w_pers w) (DK_VendorEscrowIndex seller) = None"
  shows "fst (read_vendor_escrow_index seller w') = ids @ [i, i]"
proof -
  let ?K = "vendor_keys seller"
  have l: "p_ids (w_pers w) (ik_legacy ?K) = None" using assms(3) by (simp add: vendor_keys_def)
  have "post (create_basket_escrow env seller buyer resolver tokens amounts fee_bps window notes
      expires_at grace w) (\<lambda>(i, w'). index_rep ?K (ids @ [i, i]) w')"
    by (simp add: create_basket_escrow_def Let_def wp not_less read_vendor_escrow_index_def
        write_vendor_escrow_index_def cong: if_cong)
      (auto simp: append_vendor_escrow_index_def split: option.splits
        intro!: written_twice_rep [OF vendor_keys_ok assms(2) l])
  with assms(1) have "index_rep ?K (ids @ [i, i]) w'" by (simp add: post_def)
  from vendor_index.get_all_rep [OF this] show ?thesis .
qed

theorem basket_indexed_twice_witness:
  "fst (read_vendor_escrow_index ''seller'' basket_created) = [1, 1]"
  using basket_indexed_twice [OF basket_created(1) [unfolded demo_basket_create_def], of "[]"]
  by (simp add: deployed index_rep_def read_index_count_def empty_persistent_def)

section \<open>A cancelled finalization is recorded as a release\<close>

text \<open>
  When the admin cancels a pending finalization the money goes back to the buyer and the
  escrow is Refunded, but the dispute then says that it was resolved for the seller: the code
  stores the position of \<open>Refund\<close> in its enum, and the reader takes that number for \<open>Release\<close>.
\<close>

theorem cancelled_finalization_reads_release:
  assumes "cancel_pending_finalization env c i w = Inr w'" "p_dispute (w_pers w) i \<noteq> None"
  shows "e_state (escrow_at w' i) = Refunded \<and> d_status (dispute_at w' i) = Resolved \<and>
    get_resolution (dispute_at w' i) = Some Release"
  using postD [OF cancel_pending_finalization_effect assms(1)] assms(2)
  by (auto simp: refunds_buyer_def alters_def escrow_at_def dispute_at_def annulled_def
      get_resolution_def)

lemma demo_cancel_run: "\<exists>w. cancel_pending_finalization (demo_env 8000 [''admin'']) ''admin'' 1 resolved
    = Inr w"
  by (simp add: cancel_pending_finalization_def require_admin_caller_def require_admin_def run_defs
      resolved created_pers_def demo_escrow_def load_dispute_def
      demo_inst_def funded_pers_def disputed_pers_def demo_dispute_def funded_escrow_def
      resolved_pers_def resolved_demo_dispute_def escrow_at_def cong: bindE_weak_cong)

theorem cancelled_finalization_reads_release_witness:
  "\<exists>w'. cancel_pending_finalization (demo_env 8000 [''admin'']) ''admin'' 1 resolved = Inr w' \<and>
    e_state (escrow_at w' 1) = Refunded \<and> get_resolution (dispute_at w' 1) = Some Release"
  using demo_cancel_run cancelled_finalization_reads_release
  by (fastforce simp: resolved resolved_pers_def)

section \<open>No treasury, no finalization\<close>

lemma no_treasury_no_platform_fee:
  assumes "g_treasury (read_global_config w) = None"
  shows "post (finalize_dispute env c i w) (\<lambda>w'. final_platform_fee i w \<le> 0)"
proof (cases "p_escrow (w_pers w) i \<noteq> None \<and> p_dispute (w_pers w) i \<noteq> None")
  case True
  then obtain e d where "p_escrow (w_pers w) i = Some e" "p_dispute (w_pers w) i = Some d" by auto
  then show ?thesis
    using assms
    by (auto simp: finalize_dispute_def wp Let_def read_global_config_of read_platform_fee_bps_def
        read_treasury_def final_platform_fee_def final_basis_def escrow_at_def dispute_at_def
        not_less resolution_recipient_def cong: if_cong)
qed (auto simp: finalize_dispute_def wp)

text \<open>
  C40. No reachable contract has a treasury: every entry point that could write one asks for the
  current one first. So once the admin sets a platform fee, a dispute whose fee is not zero
  cannot be finalized by anyone.
\<close>

theorem platform_fee_blocks_finalization:
  assumes "reachable self w"
  shows "g_treasury (read_global_config w) = None \<and>
    (0 < final_platform_fee i w \<longrightarrow> \<not> is_ok (finalize_dispute env c i w))"
proof -
  have t: "g_treasury (read_global_config w) = None"
    using invD(3) [OF reachable_inv [OF assms]] by (simp add: config_ok_def)
  with no_treasury_no_platform_fee [OF t, of env c i] show ?thesis
    by (auto simp: is_ok_def post_def split: sum.splits)
qed

lemma demo_tax_run: "\<exists>w. set_platform_fee (demo_env 8000 [''admin'']) ''admin'' 200 resolved = Inr w \<and>
    w_pers w = resolved_pers \<and> g_platform_fee_bps (read_global_config w) = 200"
  by (simp add: set_platform_fee_def admin_then_auth_def require_admin_caller_def require_admin_def run_defs resolved
      demo_inst_def write_platform_fee_bps_def cong: bindE_weak_cong)

theorem platform_fee_blocks_finalization_witness:
  "\<exists>w. reachable ''contract'' w \<and> e_state (escrow_at w 1) = PendingFinalization \<and>
    \<not> is_ok (finalize_dispute (demo_env 93400 [''keeper'']) ''keeper'' 1 w)"
proof -
  obtain w where w: "set_platform_fee (demo_env 8000 [''admin'']) ''admin'' 200 resolved = Inr w"
    "w_pers w = resolved_pers" "g_platform_fee_bps (read_global_config w) = 200"
    using demo_tax_run by blast
  have r: "reachable ''contract'' w"
    using w(1) by (intro reachable.called [OF demo_reachable(7), of "demo_env 8000 [''admin'']"
      "Administer (ASetPlatformFee ''admin'' 200)"]) simp_all
  have "e_state (escrow_at w 1) = PendingFinalization" "0 < final_platform_fee 1 w"
    by (simp_all add: w escrow_at_def dispute_at_def final_platform_fee_def final_basis_def
        read_platform_fee_bps_def resolved_pers_def resolved_demo_dispute_def bps_of_def)
  with r platform_fee_blocks_finalization [OF r] show ?thesis by blast
qed

end
