(* ===== verification/Appeal_Scenario.thy ===== *)
theory Appeal_Scenario
  imports Scenario
begin

unbundle bit_operations_syntax

text \<open>
  The history of \<open>Scenario\<close> continued after the resolution: the buyer appeals in time, and the
  resolver decides again, this time for the buyer.
\<close>

definition demo_appeal :: "world res" where
  "demo_appeal = appeal_dispute (demo_env 8000 [''buyer'']) ''buyer'' 1 resolved"

definition appealed :: world where "appealed = projr demo_appeal"

definition appealed_pers :: persistent_storage where
  "appealed_pers = resolved_pers\<lparr>
     p_escrow := [1 \<mapsto> funded_escrow\<lparr>e_amount := 975, e_state := Disputed\<rparr>],
     p_history := [1 \<mapsto> [2000, 72057594037927936 + 3000, 288230376151711744 + 6000,
       576460752303423488 + 7000, 288230376151711744 + 8000]],
     p_dispute := [1 \<mapsto> resolved_demo_dispute\<lparr>d_resolution := 0, d_resolved_by := None,
       d_resolved_at := 0, d_appeal_count := 1\<rparr>],
     p_votes := Map.empty\<rparr>"

lemma demo_appeal_run: "\<exists>w. demo_appeal = Inr w \<and> w_inst w = w_inst resolved \<and>
    w_pers w = appealed_pers \<and> w_xfers w = w_xfers resolved"
  by (simp add: demo_appeal_def appeal_dispute_def read_max_appeals_def read_appeal_fee_bps_def
      clear_resolution_def run_defs resolved created_pers_def demo_escrow_def demo_inst_def
      funded_pers_def disputed_pers_def demo_dispute_def funded_escrow_def resolved_pers_def
      resolved_demo_dispute_def appealed_pers_def cong: bindE_weak_cong)

lemma appealed: "demo_appeal = Inr appealed" "w_inst appealed = w_inst resolved"
  "w_pers appealed = appealed_pers" "w_xfers appealed = w_xfers resolved"
  using ran [OF demo_appeal_run] unfolding appealed_def by blast+

definition demo_resolve_again :: "world res" where
  "demo_resolve_again =
     resolve_dispute (demo_env 9000 [''resolver'']) ''resolver'' 1 Refund appealed"

definition resolved_again :: world where "resolved_again = projr demo_resolve_again"

lemma demo_resolve_again_run: "\<exists>w. demo_resolve_again = Inr w \<and>
    get_resolution (dispute_at w 1) = Some Refund"
  by (simp add: demo_resolve_again_def resolve_dispute_def resolve_or_vote_internal_def
      add_or_update_vote_def load_resolver_votes_def tally_votes_def count_vote_def
      u32_checked_inc_def execute_resolution_transition_def resolution_fees_def
      set_resolution_def get_resolution_def run_defs appealed resolved created_pers_def
      demo_escrow_def demo_inst_def funded_pers_def disputed_pers_def demo_dispute_def
      funded_escrow_def resolved_pers_def resolved_demo_dispute_def appealed_pers_def
      dispute_at_def cong: bindE_weak_cong)

lemma resolved_again: "demo_resolve_again = Inr resolved_again"
  "get_resolution (dispute_at resolved_again 1) = Some Refund"
  using ran [OF demo_resolve_again_run] unfolding resolved_again_def by blast+

lemma appealed_reachable: "reachable ''contract'' appealed"
proof -
  have "later ''contract'' resolved appealed"
    using appealed(1) by (intro later_one [of _ "demo_env 8000 [''buyer'']"
      "OnEscrow (EAppealDispute ''buyer'') 1"]) (simp_all add: demo_appeal_def)
  then show ?thesis by (rule later_reachable [OF _ demo_reachable(7)])
qed

end
