(* ===== verification/Reentrancy.thy ===== *)
theory Reentrancy
  imports Scenario
begin

text \<open>
  Tokens that call back.  The host refuses re-entrant calls; here that guard is taken away, and
  the order of the code alone is shown to be enough: whatever calls a token makes while one of
  its transfers out of the contract is under way, the rest of the payout is still covered
  afterwards, and an escrow that is being left cannot be left a second time.
\<close>

section \<open>Slack\<close>

text \<open>What the contract holds of a token beyond its debts never shrinks.\<close>

definition slack :: "address \<Rightarrow> address \<Rightarrow> world \<Rightarrow> int" where
  "slack self tk w = custody_of self tk (map fst (w_xfers w)) - owed tk w"

lemma inv_slack: "inv self w \<Longrightarrow> 0 \<le> slack self tk w"
  using invD(4) [of self w tk] by (simp add: slack_def)

lemma moves_slack:
  assumes "moves env i w w'"
  shows "slack (env_self env) tk w \<le> slack (env_self env) tk w'"
proof -
  have "claim_at tk w' j = claim_at tk w j" if "j \<noteq> i" for j
    using assms that moves_at(1) [OF assms, of j] by (intro claim_at_cong) (simp_all add: moves_def)
  from owed_change [of i tk w' w, OF this]
  have "owed tk w' = owed tk w + (claim_at tk w' i - claim_at tk w i)" .
  moreover have "claim_at tk w' i - claim_at tk w i \<le> custody env tk w' - custody env tk w"
    using assms by (simp add: moves_def)
  ultimately show ?thesis by (simp add: slack_def custody_def)
qed

lemma creates_slack:
  assumes "creates env i e bs w w'" "inv self w" "\<And>j. j \<noteq> i \<Longrightarrow> bs j = p_basket (w_pers w) j"
  shows "slack self tk w' = slack self tk w"
  using creates_owed [OF assms] assms(1) by (simp add: slack_def creates_def)

lemma step_slack:
  assumes "step env w w'" "inv (env_self env) w"
  shows "slack (env_self env) tk w \<le> slack (env_self env) tk w'"
  using assms(1)
proof cases
  case admin
  then have "owed tk w' = owed tk w" by (intro owed_cong idle_claim)
  with admin(1) show ?thesis by (simp add: slack_def idle_def)
next
  case (create i e)
  from creates_slack [OF create assms(2)] show ?thesis by simp
next
  case (create_basket i e ts)
  from creates_slack [OF create_basket(1) assms(2)] show ?thesis by simp
qed (rule moves_slack)

lemma steps_slack:
  assumes "(step env)\<^sup>*\<^sup>* w w'" "inv (env_self env) w"
  shows "slack (env_self env) tk w \<le> slack (env_self env) tk w'"
  using assms
proof (induction rule: rtranclp_induct)
  case (step v v')
  with step_slack [OF step(2) steps_inv [OF step(1,4)], of tk] show ?case by linarith
qed simp

text \<open>The basket of a stored escrow is never written again.\<close>

definition keeps_basket :: "u64 \<Rightarrow> world \<Rightarrow> world \<Rightarrow> bool" where
  "keeps_basket i w w' \<longleftrightarrow> p_escrow (w_pers w) i \<noteq> None \<longrightarrow>
    p_escrow (w_pers w') i \<noteq> None \<and> p_basket (w_pers w') i = p_basket (w_pers w) i"

lemma step_keeps_basket: "step env w w' \<Longrightarrow> inv (env_self env) w \<Longrightarrow> keeps_basket i w w'"
  by (erule stepE) (auto simp: keeps_basket_def idle_def moves_def creates_def inv_def)

lemma steps_keep_basket:
  "(step env)\<^sup>*\<^sup>* w w' \<Longrightarrow> inv (env_self env) w \<Longrightarrow> keeps_basket i w w'"
proof (induction rule: rtranclp_induct)
  case (step v v')
  with step_keeps_basket [OF step(2) steps_inv [OF step(1,4)], of i] show ?case
    by (simp add: keeps_basket_def)
qed (simp add: keeps_basket_def)

text \<open>Any sequence of calls from any world that satisfies the invariant.\<close>

lemma later_keeps:
  assumes "later self w v" "inv self w"
  shows "inv self v \<and> slack self tk w \<le> slack self tk v \<and> ages i w v \<and> keeps_basket i w v"
  using assms
proof (induction rule: later.induct)
  case (call w v env c v')
  have s: "(step env)\<^sup>*\<^sup>* v v'" "inv (env_self env) v" "env_self env = self"
    using exec_steps [OF call(4) _ _ call(3)] call(2,5,6) legit_self [OF call(2)] by simp_all
  from steps_inv [OF s(1,2)] steps_slack [OF s(1,2), of tk] steps_age [OF s(1,2), of i]
    steps_keep_basket [OF s(1,2), of i] s(3) call(5,6)
  show ?case using ages_trans [of i w v v'] by (auto simp: keeps_basket_def)
qed (simp add: ages_same keeps_basket_def)

section \<open>The world a token sees\<close>

text \<open>
  The storage the log recorded with the \<open>n\<close>-th transfer, and the transfers before it: what a
  callback made during that transfer works on.
\<close>

definition observed :: "nat \<Rightarrow> world \<Rightarrow> world" where
  "observed n w = w\<lparr>w_inst := fst (snd (w_xfers w ! n)), w_pers := snd (snd (w_xfers w ! n)),
     w_xfers := take n (w_xfers w)\<rparr>"

lemma observed_payout:
  assumes "pays_last env outs w w'" "length (w_xfers w) \<le> n" "n < length (w_xfers w')"
  shows "w_inst (observed n w') = w_inst w'" "w_pers (observed n w') = w_pers w'"
proof -
  have x: "w_xfers w' = w_xfers w @ log_with (w_inst w', w_pers w') (xfers_of env outs)"
    using assms(1) by (simp add: pays_last_def)
  have "snd (w_xfers w' ! n) = (w_inst w', w_pers w')"
    using assms(2,3) unfolding x by (simp add: nth_append log_with_def)
  then show "w_inst (observed n w') = w_inst w'" "w_pers (observed n w') = w_pers w'"
    by (simp_all add: observed_def)
qed

text \<open>What is still to be sent lowers the holdings, so before it is sent there was more.\<close>

lemma custody_outgoing:
  assumes "\<And>t. t \<in> set ts \<Longrightarrow> tr_from t = self \<and> 0 \<le> tr_amount t"
  shows "custody_of self tk ts \<le> 0"
proof -
  have "xfer_delta self tk t \<le> 0" if "t \<in> set ts" for t
    using assms [OF that] by (simp add: xfer_delta_def)
  then show ?thesis unfolding custody_of_def by (intro sum_list_nonpos) auto
qed

lemma xfers_of_outgoing: "t \<in> set (xfers_of env outs) \<Longrightarrow> tr_from t = env_self env \<and> 0 \<le> tr_amount t"
  by (auto simp: xfers_of_def)

lemma payout_rest:
  assumes "pays_last env outs w w'" "length (w_xfers w) \<le> n"
  shows "custody_of (env_self env) tk (map fst (drop n (w_xfers w'))) \<le> 0"
proof (rule custody_outgoing)
  fix t assume "t \<in> set (map fst (drop n (w_xfers w')))"
  then have "t \<in> set (xfers_of env outs)"
    using assms by (auto simp: pays_last_def log_with_def dest: in_set_dropD)
  then show "tr_from t = env_self env \<and> 0 \<le> tr_amount t" by (rule xfers_of_outgoing)
qed

lemma custody_split:
  "custody_of self tk (map fst (take n xs)) + custody_of self tk (map fst (drop n xs)) =
    custody_of self tk (map fst xs)"
  by (metis append_take_drop_id custody_of_append map_append)

lemma observed_slack:
  assumes "pays_last env outs w w'" "length (w_xfers w) \<le> n" "n < length (w_xfers w')"
  shows "slack (env_self env) tk (observed n w') =
    slack (env_self env) tk w' - custody_of (env_self env) tk (map fst (drop n (w_xfers w')))"
proof -
  have "owed tk (observed n w') = owed tk w'"
    using observed_payout [OF assms] by (intro owed_cong claim_at_cong) simp_all
  then show ?thesis
    using custody_split [of "env_self env" tk n "w_xfers w'"] by (simp add: slack_def observed_def)
qed

lemma observed_inv:
  assumes "pays_last env outs w w'" "length (w_xfers w) \<le> n" "n < length (w_xfers w')"
    "inv (env_self env) w'"
  shows "inv (env_self env) (observed n w')"
proof -
  have "0 \<le> slack (env_self env) tk (observed n w')" for tk
    using observed_slack [OF assms(1-3), of tk] payout_rest [OF assms(1,2), of tk]
      inv_slack [OF assms(4), of tk] by linarith
  then show ?thesis
    using observed_payout [OF assms(1-3)] assms(4) by (simp add: inv_def slack_def next_id_def)
qed

section \<open>Callbacks during a payout\<close>

text \<open>The calls that send money out: every exit, and every way a dispute is resolved.\<close>

fun pays_out :: "call \<Rightarrow> bool" where
  "pays_out (Leave x i) = True"
| "pays_out (OnEscrow x i) = (case x of EResolveDispute c r \<Rightarrow> True | EVote c r \<Rightarrow> True
     | EClaimDisputeTimeout c \<Rightarrow> True | EResolveDeadlocked \<Rightarrow> True | _ \<Rightarrow> False)"
| "pays_out _ = False"

lemma vote_pays_last:
  assumes "resolve_or_vote_internal env c i r w = Inr w'" "inv self w" "w_xfers w' \<noteq> w_xfers w"
  shows "\<exists>outs. pays_last env outs w w'"
proof -
  have V: "votes_or_resolves env c i r w w'"
    using postD [OF resolve_or_vote_effect [OF run_amount(6) [OF assms(2,1)]] assms(1)] .
  from votes_or_resolves_cases(2) [OF V] assms(3) show ?thesis
    by (auto simp: idle_def resolves_def)
qed

lemma payout_writes_first:
  assumes "exec env c w = Inr w'" "inv (env_self env) w" "pays_out c" "w_xfers w' \<noteq> w_xfers w"
  shows "\<exists>outs. pays_last env outs w w'"
proof (cases c)
  case (Leave x i)
  with assms exits.run_closes [of env x i w w'] show ?thesis by (auto simp: closes_def)
next
  case (OnEscrow x i)
  show ?thesis
  proof (cases x)
    case (EClaimDisputeTimeout a)
    with OnEscrow assms(1) have "claim_dispute_timeout env a i w = Inr w'" by simp
    from postD [OF claim_dispute_timeout_effect [OF run_amount(4) [OF assms(2) this]] this]
    show ?thesis by (auto simp: resolves_def)
  next
    case EResolveDeadlocked
    with OnEscrow assms(1) have "resolve_deadlocked_dispute env i w = Inr w'" by simp
    from postD [OF resolve_deadlocked_dispute_effect [OF run_amount(5) [OF assms(2) this]] this]
    show ?thesis by (auto simp: resolves_def)
  qed (use OnEscrow assms in
      \<open>auto simp: resolve_dispute_def vote_def dest: vote_pays_last [OF _ assms(2)]\<close>)
qed (use assms in auto)

text \<open>One payout interrupted: after the callbacks, the rest of it is sent.\<close>

lemma interrupted_payout:
  assumes "exec env c w = Inr w'" "inv (env_self env) w" "inv (env_self env) w'" "pays_out c"
    "length (w_xfers w) \<le> n" "n < length (w_xfers w')" "later (env_self env) (observed n w') v"
  shows "inv (env_self env) v"
    "owed tk v \<le> custody_of (env_self env) tk (map fst (w_xfers v @ drop n (w_xfers w')))"
    "ages i (observed n w') v" "keeps_basket i (observed n w') v"
    "w_inst (observed n w') = w_inst w'" "w_pers (observed n w') = w_pers w'"
proof -
  have "w_xfers w' \<noteq> w_xfers w" using assms(5,6) by auto
  then obtain outs where p: "pays_last env outs w w'"
    using payout_writes_first [OF assms(1,2,4)] by blast
  note I = observed_inv [OF p assms(5,6,3)]
  note K = later_keeps [OF assms(7) I]
  show "inv (env_self env) v" "ages i (observed n w') v" "keeps_basket i (observed n w') v"
    using K by blast+
  show "w_inst (observed n w') = w_inst w'" "w_pers (observed n w') = w_pers w'"
    using observed_payout [OF p assms(5,6)] by blast+
  have "slack (env_self env) tk w' - custody_of (env_self env) tk (map fst (drop n (w_xfers w')))
      \<le> slack (env_self env) tk v"
    using K observed_slack [OF p assms(5,6), of tk] by metis
  with inv_slack [OF assms(3), of tk]
  show "owed tk v \<le> custody_of (env_self env) tk (map fst (w_xfers v @ drop n (w_xfers w')))"
    by (simp add: slack_def)
qed

text \<open>
  C4. Re-entrancy is harmless by the order of the code alone: suppose a token, asked for any of the
  transfers of an exit or of a dispute resolution, first calls back any number of entry points
  with any authorisations.  The contract still covers everything it owes after the rest of the
  interrupted payout has gone out.
\<close>

theorem reentrant_payout_solvent:
  assumes "reachable (env_self env) w" "legit (env_self env) env" "call_ok c" "pays_out c"
    "exec env c w = Inr w'" "length (w_xfers w) \<le> n" "n < length (w_xfers w')"
    "later (env_self env) (observed n w') v"
  shows "owed tk v \<le> custody_of (env_self env) tk (map fst (w_xfers v @ drop n (w_xfers w')))"
proof -
  have "reachable (env_self env) w'" by (rule reachable.called [OF assms(1-3,5)])
  from interrupted_payout(2) [OF assms(5) reachable_inv [OF assms(1)] reachable_inv [OF this] assms(4,6-8)]
  show ?thesis .
qed

text \<open>While the seller is being paid, the token asks the contract for its configuration.\<close>

definition called_back :: world where
  "called_back = snd (get_public_config (observed 2 completed))"

lemma called_back_later: "later ''contract'' (observed 2 completed) called_back"
  by (rule later.call [OF later.now, of _ "demo_env 5000 []" "View VGetPublicConfig"])
    (simp_all add: called_back_def)

lemma demo_lengths: "length (w_xfers shipped) = 1" "length (w_xfers completed) = 3"
  using arg_cong [OF completed(3), of length] arg_cong [OF funded(4), of length]
  by (simp_all add: shipped(4))

theorem reentrant_payout_solvent_witness:
  "owed ''usdc'' called_back \<le> custody_of ''contract'' ''usdc''
    (map fst (w_xfers called_back @ drop 2 (w_xfers completed)))"
  using reentrant_payout_solvent [of "demo_env 5000 [''buyer'']" shipped
      "Leave (XConfirmDelivery ''buyer'' True) 1" completed 2 called_back]
    demo_reachable(4) completed(1) called_back_later demo_lengths
  by (simp add: demo_confirm_def)

text \<open>
  C5. No double release through a callback: while an escrow is being paid out by any exit, a token
  that calls back in, however often, finds every exit of that escrow refused, and what the rest of the
  payout reads, the escrow and its basket, is as the exit left it.
\<close>

theorem reentrant_exit_refused:
  assumes "reachable (env_self env) w" "legit (env_self env) env" "exit_run env x i w = Inr w'"
    "length (w_xfers w) \<le> n" "n < length (w_xfers w')"
    "later (env_self env) (observed n w') v" "env_self env' = env_self env"
  shows "\<not> is_ok (exit_run env' y i v) \<and> p_escrow (w_pers v) i = p_escrow (w_pers w') i \<and>
    p_basket (w_pers v) i = p_basket (w_pers w') i"
proof -
  note I = reachable_inv [OF assms(1)]
  have "reachable (env_self env) w'"
    using reachable.called [OF assms(1,2), of "Leave x i"] assms(3) by simp
  from interrupted_payout [of env "Leave x i", OF _ I reachable_inv [OF this] _ assms(4-6)] assms(3)
  have v: "inv (env_self env) v" "ages i (observed n w') v" "keeps_basket i (observed n w') v"
      "w_pers (observed n w') = w_pers w'"
    by simp_all
  have e: "p_escrow (w_pers w') i = Some (escrow_at w' i)" "is_final (e_state (escrow_at w' i))"
    using moves_at(1) [OF exits.run_moves [OF assms(3) I], of i] exits.run_closes [OF assms(3) I]
    by (simp_all add: closes_def)
  with v(2,4) have "p_escrow (w_pers v) i = p_escrow (w_pers w') i"
    by (auto simp: ages_def descends_def)
  with exits.once [OF assms(3) I, of env' v y] v e assms(7) show ?thesis
    by (simp add: keeps_basket_def)
qed

theorem reentrant_exit_refused_witness:
  "\<not> is_ok (exit_run (demo_env 5000 [''buyer'', ''seller'']) XMutualCancel 1 called_back)"
  using reentrant_exit_refused [of "demo_env 5000 [''buyer'']" shipped "XConfirmDelivery ''buyer'' True"
      1 completed 2 called_back "demo_env 5000 [''buyer'', ''seller'']" XMutualCancel]
    demo_reachable(4) completed(1) called_back_later demo_lengths
  by (simp add: demo_confirm_def)

end
