(* ===== verification/Malicious_Token.thy ===== *)
theory Malicious_Token
  imports Reentrancy
begin

text \<open>
  The adversarial SEP-41 token of \<open>src/contracts/escrow/src/malicious_token.rs\<close>, with its
  attacks, and what the contract may conclude from a token: without an attack its own balances
  are the custody the contract's log implies, and under an attack every operation that needs
  it is refused as a whole.
\<close>

section \<open>State\<close>

text \<open>\<open>NoAttack\<close> is the variant \<open>Attack::None\<close>.\<close>

datatype Attack =
  NoAttack | Fail | BurnBudget | ReenterConfirm | ReenterFund | ReenterCancel | ReenterMutualCancel

record Reentry =
  re_escrow :: address
  re_actor :: address
  re_escrow_id :: u64

text \<open>One field per variant of the storage \<open>Key\<close>.\<close>

record mtoken =
  mt_balances :: "address \<Rightarrow> int option"
  mt_attack :: "Attack option"
  mt_reentry :: "Reentry option"

text \<open>
  What a call to the token finds in the host: who signed, which contracts are on the call stack,
  what is left of the CPU budget and what one \<open>sha256\<close> costs.
\<close>

record mt_host =
  mh_auth :: "address \<Rightarrow> bool"
  mh_running :: "address list"
  mh_budget :: nat
  mh_sha_cost :: nat

section \<open>Configuration and balances\<close>

definition set_attack :: "Attack \<Rightarrow> mtoken \<Rightarrow> mtoken" where
  "set_attack attack m = m\<lparr>mt_attack := Some attack\<rparr>"

definition set_reentry :: "address \<Rightarrow> address \<Rightarrow> u64 \<Rightarrow> mtoken \<Rightarrow> mtoken" where
  "set_reentry escrow actor escrow_id m =
    m\<lparr>mt_reentry := Some \<lparr>re_escrow = escrow, re_actor = actor, re_escrow_id = escrow_id\<rparr>\<rparr>"

definition mt_balance :: "address \<Rightarrow> mtoken \<Rightarrow> int" where
  "mt_balance a m = unwrap_or (mt_balances m a) 0"

definition put_balance :: "address \<Rightarrow> int option \<Rightarrow> mtoken \<Rightarrow> mtoken res" where
  "put_balance a v m = bindE (ok_or v (Trap Overflow)) (\<lambda>n.
     Inr (m\<lparr>mt_balances := (mt_balances m)(a \<mapsto> n)\<rparr>))"

definition mint :: "address \<Rightarrow> int \<Rightarrow> mtoken \<Rightarrow> mtoken res" where
  "mint to amount m = put_balance to (i128_checked_add (mt_balance to m) amount) m"

definition do_transfer :: "address \<Rightarrow> address \<Rightarrow> int \<Rightarrow> mtoken \<Rightarrow> mtoken res" where
  "do_transfer from to amount m =
    (let from_balance = mt_balance from m in
     if from_balance < amount then panic HostError
     else
     bindE (put_balance from (i128_checked_sub from_balance amount) m) (\<lambda>m1.
     put_balance to (i128_checked_add (mt_balance to m1) amount) m1))"

section \<open>The attacks\<close>

text \<open>The loop over \<open>sha256\<close>: the iterations that are left, against the budget that is left.\<close>

fun burn_budget :: "nat \<Rightarrow> nat \<Rightarrow> nat \<Rightarrow> nat res" where
  "burn_budget 0 cost budget = Inr budget"
| "burn_budget (Suc n) cost budget =
    (if budget < cost then panic HostError else burn_budget n cost (budget - cost))"

definition BURN_ROUNDS :: nat where "BURN_ROUNDS = 1000000"

definition reentry :: "mtoken \<Rightarrow> Reentry res" where
  "reentry m = ok_or (mt_reentry m) (Trap HostError)"

text \<open>
  A call on the escrow client from within the token.  The host refuses a contract that is on the
  call stack; any failure of the callee traps in the caller.
\<close>

definition call_back :: "mt_host \<Rightarrow> env \<Rightarrow> Reentry \<Rightarrow> call \<Rightarrow> world \<Rightarrow> world res" where
  "call_back h env r c w =
    (if re_escrow r \<in> set (mh_running h) \<or> re_escrow r \<noteq> env_self env then panic HostError
     else case exec env c w of Inl _ \<Rightarrow> panic HostError | Inr w1 \<Rightarrow> Inr w1)"

fun misbehave :: "mt_host \<Rightarrow> env \<Rightarrow> mtoken \<Rightarrow> Attack \<Rightarrow> world \<Rightarrow> world res" where
  "misbehave h env m NoAttack w = Inr w"
| "misbehave h env m Fail w = panic HostError"
| "misbehave h env m BurnBudget w =
    bindE (burn_budget BURN_ROUNDS (mh_sha_cost h) (mh_budget h)) (\<lambda>_. Inr w)"
| "misbehave h env m ReenterConfirm w = bindE (reentry m) (\<lambda>r.
    call_back h env r (Leave (XConfirmDelivery (re_actor r) False) (re_escrow_id r)) w)"
| "misbehave h env m ReenterFund w = bindE (reentry m) (\<lambda>r.
    call_back h env r (OnEscrow (EFund (re_actor r)) (re_escrow_id r)) w)"
| "misbehave h env m ReenterCancel w = bindE (reentry m) (\<lambda>r.
    call_back h env r (Leave (XCancelEscrow (re_actor r)) (re_escrow_id r)) w)"
| "misbehave h env m ReenterMutualCancel w = bindE (reentry m) (\<lambda>r.
    call_back h env r (Leave XMutualCancel (re_escrow_id r)) w)"

definition mt_transfer ::
  "mt_host \<Rightarrow> env \<Rightarrow> address \<Rightarrow> address \<Rightarrow> int \<Rightarrow> mtoken \<Rightarrow> world \<Rightarrow> (mtoken \<times> world) res" where
  "mt_transfer h env from to amount m w =
    (if \<not> mh_auth h from then panic AuthRequired
     else
     let attack = unwrap_or (mt_attack m) NoAttack in
     bindE (misbehave h env m attack w) (\<lambda>w1.
     bindE (do_transfer from to amount m) (\<lambda>m1.
     Inr (m1, w1))))"

section \<open>An armed token\<close>

text \<open>The loop needs the whole of its cost.\<close>

lemma burn_budget_eq:
  "burn_budget n cost budget =
    (if n * cost \<le> budget then Inr (budget - n * cost) else panic HostError)"
  by (induction n arbitrary: budget) auto

text \<open>
  Armed: some attack is set, with a budget below a million hashes for the burning loop and, for
  the attacks that call back, a target that is on the call stack or none at all.
\<close>

definition armed :: "mt_host \<Rightarrow> mtoken \<Rightarrow> bool" where
  "armed h m \<longleftrightarrow> (case mt_attack m of None \<Rightarrow> False | Some NoAttack \<Rightarrow> False | Some Fail \<Rightarrow> True
     | Some BurnBudget \<Rightarrow> mh_budget h < BURN_ROUNDS * mh_sha_cost h
     | Some _ \<Rightarrow> (\<forall>r. mt_reentry m = Some r \<longrightarrow> re_escrow r \<in> set (mh_running h)))"

lemma armed_traps: "armed h m \<Longrightarrow> \<not> is_ok (mt_transfer h env from to amount m w)"
  by (cases "mt_attack m"; cases "the (mt_attack m)"; cases "mt_reentry m")
    (auto simp: armed_def mt_transfer_def burn_budget_eq reentry_def call_back_def ok_or_def)

text \<open>Where a call back is let through, because the escrow is not running, it is an ordinary call.\<close>

lemma call_back_free:
  "call_back h env r c w = Inr w' \<longleftrightarrow>
    re_escrow r \<notin> set (mh_running h) \<and> re_escrow r = env_self env \<and> exec env c w = Inr w'"
  by (auto simp: call_back_def split: sum.split)

text \<open>An environment in which the calls to \<open>tk\<close> go to this token, in the state \<open>st ts\<close> after the
  transfers \<open>ts\<close>.\<close>

definition runs_token :: "address \<Rightarrow> mt_host \<Rightarrow> (transfer list \<Rightarrow> mtoken) \<Rightarrow> env \<Rightarrow> bool" where
  "runs_token tk h st env \<longleftrightarrow> (\<forall>ts t. tr_token t = tk \<longrightarrow> env_token_ok env ts t \<longrightarrow>
     (\<exists>env' w. env_self env' = env_self env \<and>
       is_ok (mt_transfer h env' (tr_from t) (tr_to t) (tr_amount t) (st ts) w)))"

definition refuses :: "env \<Rightarrow> address \<Rightarrow> bool" where
  "refuses env tk \<longleftrightarrow> (\<forall>ts t. tr_token t = tk \<longrightarrow> \<not> env_token_ok env ts t)"

lemma armed_refuses: "runs_token tk h st env \<Longrightarrow> (\<And>ts. armed h (st ts)) \<Longrightarrow> refuses env tk"
  using armed_traps by (force simp: runs_token_def refuses_def)

lemma refused_transfer: "refuses env tk \<Longrightarrow> transfer_helper env tk a b n w = panic TransferRejected"
  by (simp add: refuses_def transfer_helper_def Let_def)

lemma refused_payout: "refuses env tk \<Longrightarrow> is_ok (payout env tk r n w) \<longleftrightarrow> n \<le> 0"
  by (simp add: payout_def refused_transfer)

text \<open>A distribution of a positive amount is refused with the first positive share.\<close>

lemma refused_payout_Inr: "refuses env tk \<Longrightarrow> payout env tk r n w = Inr w' \<Longrightarrow> n \<le> 0"
  using refused_payout [of env tk r n w] by simp

lemma refused_share: "refuses env tk \<Longrightarrow> pay_share env tk amount p (r, w) = Inr (r', w') \<Longrightarrow> r \<le> r'"
  by (auto simp: pay_share_def dest: refused_payout_Inr)

lemma refused_shares:
  assumes "refuses env tk"
  shows "foldE (pay_share env tk amount) ps (r, w) = Inr (r', w') \<Longrightarrow> r \<le> r'"
proof (induction ps arbitrary: r w)
  case (Cons p ps)
  then obtain r1 w1 where "pay_share env tk amount p (r, w) = Inr (r1, w1)"
    "foldE (pay_share env tk amount) ps (r1, w1) = Inr (r', w')"
    by auto
  with Cons.IH refused_share [OF assms] show ?case by fastforce
qed simp

lemma refused_distribution:
  assumes "refuses env tk" "is_ok (distribute_to_payees env tk payees amount w)"
  shows "amount \<le> 0"
proof -
  obtain w' where "distribute_to_payees env tk payees amount w = Inr w'"
    using assms(2) by (auto simp: is_ok_def split: sum.splits)
  then obtain r w1 a where "foldE (pay_share env tk amount) (drop 1 payees) (amount, w) = Inr (r, w1)"
    "payout env tk a r w1 = Inr w'"
    by (auto simp: distribute_to_payees_def split: if_splits)
  with refused_shares [OF assms(1)] refused_payout_Inr [OF assms(1)] show ?thesis by fastforce
qed

text \<open>No exit of a live escrow gets past its own token.\<close>

lemma not_ok_post: "\<not> is_ok r \<longleftrightarrow> post r (\<lambda>_. False)"
  by (cases r) (simp_all add: post_def)

lemma post_True [simp]: "post r (\<lambda>_. True)"
  by (simp add: post_iff)

lemma refused_refunds:
  assumes "refuses env (e_token e)" "p_escrow (w_pers w) i = Some e" "0 < e_amount e"
    "is_live (e_state e)"
  shows "post (reclaim_expired env i w) P" "post (mutual_cancel env i w) P"
    "post (approve_refund env c i w) P" "post (recovery_withdraw env c i w) P"
    "post (emergency_drain env i w) P" "post (cancel_escrow env c i w) P"
    "post (auto_cancel_pending env i w) P" "post (cancel_pending_finalization env c i w) P"
  using assms
  by (auto simp: reclaim_expired_def mutual_cancel_def approve_refund_def recovery_withdraw_def
      emergency_drain_def cancel_escrow_def auto_cancel_pending_def
      cancel_pending_finalization_def Let_def wp refused_payout)

lemma refused_releases:
  assumes "refuses env (e_token e)" "p_escrow (w_pers w) i = Some e" "0 < e_amount e"
    "is_live (e_state e)" "e_amount e \<le> i128_max"
  shows "post (confirm_delivery env c i waive w) P" "post (auto_release env i w) P"
    "post (co_signed_release env c i w) P"
proof -
  note D = refused_distribution [OF assms(1)] and S = refused_payout [OF assms(1)]
  show "post (confirm_delivery env c i waive w) P"
    using assms by (auto simp: confirm_delivery_def settle_escrow_to_payees_def Let_def wp S dest!: D)
  show "post (auto_release env i w) P"
    using assms by (auto simp: auto_release_def settle_escrow_to_payees_def Let_def wp S dest!: D)
  show "post (co_signed_release env c i w) P" 
    using assms by (auto simp: co_signed_release_def transfer_with_protocol_fee_def Let_def wp S)
qed

lemma refused_finalization:
  assumes "refuses env (e_token e)" "p_escrow (w_pers w) i = Some e" "0 < e_amount e"
    "p_dispute (w_pers w) i = Some d" "get_resolution d = Some r"
  shows "post (finalize_dispute env c i w) P"
  using assms
  by (auto simp add: finalize_dispute_def resolution_recipient_def Let_def read_global_config_of
      read_platform_fee_bps_def read_treasury_def wp not_less refused_payout cong: if_cong)

lemma refused_exit:
  assumes "refuses env (e_token e)" "p_escrow (w_pers w) i = Some e" "0 < e_amount e"
    "is_live (e_state e)" "e_amount e \<le> i128_max"
  shows "\<not> is_ok (exit_run env x i w)"
proof -
  have f: "post (finalize_dispute env c i w) (\<lambda>_. False)" for c
  proof (cases "p_dispute (w_pers w) i \<noteq> None \<and> get_resolution (the (p_dispute (w_pers w) i)) \<noteq> None")
    case True
    then show ?thesis using refused_finalization [OF assms(1-3)] by auto
  qed (auto simp: finalize_dispute_def wp)
  have "post (exit_run env x i w) (\<lambda>_. False)"
    by (cases x) (simp_all add: f refused_refunds [OF assms(1-4)] refused_releases [OF assms])
  then show ?thesis by (simp add: not_ok_post)
qed

lemma refused_deposit:
  assumes "refuses env (e_token e)" "p_escrow (w_pers w) i = Some e"
  shows "\<not> is_ok (fund_escrow env i b w)"
proof
  have t: "\<not> is_ok (transfer_helper env (e_token e) a a' n v)" for a a' n v
    by (simp add: refused_transfer [OF assms(1)])
  have "post (fund_escrow env i b w)
      (\<lambda>_. \<exists>n v. is_ok (transfer_helper env (e_token e) b (env_self env) n v))"
    using assms(2) by (simp add: fund_escrow_def Let_def wp) blast
  moreover assume "is_ok (fund_escrow env i b w)"
  ultimately show False using t by (auto simp: post_def is_ok_def split: sum.splits)
qed

text \<open>
  C35. A hostile token blocks its own escrow and nothing more: while it fails, burns the budget or
  calls back into the running contract, no deposit and no exit of a live escrow in that token
  succeeds, so every such call is rolled back as a whole and the escrow stays what it was.
\<close>

theorem armed_token_blocks:
  assumes "reachable self w" "runs_token tk h st env" "\<And>ts. armed h (st ts)"
    "p_escrow (w_pers w) i = Some e" "e_token e = tk"
  shows "\<not> is_ok (fund_escrow env i b w) \<and>
    (is_live (e_state e) \<and> 0 < e_amount e \<longrightarrow> \<not> is_ok (exit_run env x i w))"
proof -
  have r: "refuses env (e_token e)" using armed_refuses [OF assms(2,3)] assms(5) by simp
  show ?thesis
    using refused_deposit [OF r assms(4)] refused_exit [OF r assms(4)]
      inv_escrow(7) [OF reachable_inv [OF assms(1)] assms(4)] by blast
qed

text \<open>The re-entrancy test of the suite: the token calls confirm\_delivery while it is being paid.\<close>

definition reentrant_token :: mtoken where
  "reentrant_token = set_attack ReenterConfirm (set_reentry ''contract'' ''buyer'' 1
     \<lparr>mt_balances = [''contract'' \<mapsto> 1000], mt_attack = None, mt_reentry = None\<rparr>)"

definition reentrant_host :: mt_host where
  "reentrant_host = \<lparr>mh_auth = (\<lambda>_. True), mh_running = [''contract'', ''usdc''],
     mh_budget = 0, mh_sha_cost = 0\<rparr>"

definition reentrant_env :: env where
  "reentrant_env = (demo_env 5000 [''buyer''])\<lparr>env_token_ok := (\<lambda>ts t. tr_token t = ''usdc'' \<longrightarrow>
     is_ok (mt_transfer reentrant_host (demo_env 5000 []) (tr_from t) (tr_to t) (tr_amount t)
       reentrant_token shipped))\<rparr>"

theorem armed_token_blocks_witness:
  "\<not> is_ok (exit_run reentrant_env (XConfirmDelivery ''buyer'' True) 1 shipped)"
proof -
  have "runs_token ''usdc'' reentrant_host (\<lambda>_. reentrant_token) reentrant_env"
    by (auto simp: runs_token_def reentrant_env_def intro: exI [of _ "demo_env 5000 []"])
  moreover have "armed reentrant_host reentrant_token"
    by (simp add: armed_def reentrant_host_def reentrant_token_def set_attack_def set_reentry_def)
  ultimately show ?thesis
    using armed_token_blocks [OF demo_reachable(4), of "''usdc''" reentrant_host "\<lambda>_. reentrant_token"
        reentrant_env 1 _ b "XConfirmDelivery ''buyer'' True" for b]
    by (simp add: shipped shipped_pers_def funded_escrow_def demo_escrow_def)
qed

section \<open>An honest token\<close>

definition replay_transfer :: "address \<Rightarrow> transfer \<Rightarrow> mtoken \<Rightarrow> mtoken res" where
  "replay_transfer tk t m =
    (if tr_token t = tk then do_transfer (tr_from t) (tr_to t) (tr_amount t) m else Inr m)"

text \<open>The transfers the contract asked this token for, carried out one after the other.\<close>

definition replay :: "address \<Rightarrow> transfer list \<Rightarrow> mtoken \<Rightarrow> mtoken res" where
  "replay tk = foldE (replay_transfer tk)"

lemma put_balance_Inr [simp]:
  "put_balance a v m = Inr m' \<longleftrightarrow> (\<exists>n. v = Some n \<and> m' = m\<lparr>mt_balances := (mt_balances m)(a \<mapsto> n)\<rparr>)"
  by (auto simp: put_balance_def ok_or_def split: option.splits)

lemma mint_balance:
  "mint b n m = Inr m' \<Longrightarrow> mt_balance a m' = mt_balance a m + (if a = b then n else 0)"
  by (auto simp: mint_def mt_balance_def)

lemma do_transfer_balance:
  "do_transfer from to n m = Inr m' \<Longrightarrow> mt_balance a m' = mt_balance a m +
    ((if to = a then n else 0) - (if from = a then n else 0))"
  by (auto simp: do_transfer_def mt_balance_def Let_def split: if_splits)

lemma replay_balance:
  "replay tk ts m = Inr m' \<Longrightarrow> mt_balance a m' = mt_balance a m + custody_of a tk ts"
proof (induction ts arbitrary: m)
  case (Cons t ts)
  then obtain m1 where m1: "replay_transfer tk t m = Inr m1" "replay tk ts m1 = Inr m'"
    by (auto simp: replay_def)
  have "mt_balance a m1 = mt_balance a m + xfer_delta a tk t"
    using m1(1) by (auto simp: replay_transfer_def xfer_delta_def do_transfer_balance split: if_splits)
  with Cons.IH [OF m1(2)] show ?case by simp
qed (simp add: replay_def)

text \<open>
  C36. Solvency in the token's own books: whatever world the contract is in, once a token without an
  attack has carried out the transfers of the log, the balance it keeps for the contract covers
  all that live escrows claim in it.
\<close>

theorem token_balance_covers:
  assumes "reachable self w" "replay tk (map fst (w_xfers w)) m = Inr m'" "0 \<le> mt_balance self m"
  shows "owed tk w \<le> mt_balance self m'"
  using invD(4) [OF reachable_inv [OF assms(1)], of tk] replay_balance [OF assms(2), of self] assms(3)
  by linarith

definition minted :: mtoken where
  "minted = \<lparr>mt_balances = [''buyer'' \<mapsto> 1000], mt_attack = Some NoAttack, mt_reentry = None\<rparr>"

theorem token_balance_covers_witness:
  "\<exists>m'. replay ''usdc'' (map fst (w_xfers shipped)) minted = Inr m' \<and>
    mt_balance ''contract'' m' = 1000 \<and> owed ''usdc'' shipped \<le> 1000"
proof -
  have "\<exists>m'. replay ''usdc'' (map fst (w_xfers shipped)) minted = Inr m' \<and> mt_balance ''contract'' m' = 1000"
    by (simp add: shipped funded demo_deposit_def minted_def replay_def replay_transfer_def
        do_transfer_def Let_def mt_balance_def i128_ok_def i128_max_def i128_min_def)
  with token_balance_covers [OF demo_reachable(4), of "''usdc''" minted] show ?thesis
    by (force simp: minted_def mt_balance_def)
qed

end
