(* ===== verification/Fuzz_Harness.thy ===== *)
theory Fuzz_Harness
  imports System "HOL-Library.State_Monad"
begin

text \<open>
  The shared harness of the fuzz targets, \<open>fuzz/fuzz_targets/common.rs\<close>: the zero-padding reader
  over the fuzz input, the participants, and the calls through the generated client, all as
  programs of a state monad.  The Soroban test host, the Stellar asset contracts and the
  \<open>arbitrary\<close> crate are the fields of \<open>fuzz_host\<close>.
\<close>

section \<open>The state of a run\<close>

text \<open>
  The host: the \<open>n\<close>-th address it hands out (generated accounts and registered contracts alike),
  whether it accepts a second \<open>require_auth\<close> in one frame, whether a token accepts a transfer, what
  \<open>arbitrary\<close> makes of a byte, digests and code hashes.
\<close>

record fuzz_host =
  fh_address :: "nat \<Rightarrow> address"
  fh_reauth :: bool
  fh_token_ok :: "transfer list \<Rightarrow> transfer \<Rightarrow> bool"
  fh_arbitrary_bool :: "bytes \<Rightarrow> bool option"
  fh_params_hash :: "val list \<Rightarrow> bytes"
  fh_wasm_ok :: "bytes \<Rightarrow> bool"

text \<open>The reader's \<open>data\<close> and \<open>pos\<close>, the ledger time, how many addresses were made, the contract.\<close>

record fuzz =
  fz_data :: bytes
  fz_pos :: nat
  fz_now :: u64
  fz_made :: nat
  fz_world :: world

type_synonym 'a run = "(fuzz, 'a) state"

abbreviation done_with :: "'a \<Rightarrow> 'a run" where "done_with \<equiv> State_Monad.return"

definition fuzz_start :: "bytes \<Rightarrow> fuzz" where
  "fuzz_start data =
    \<lparr>fz_data = data, fz_pos = 0, fz_now = 0, fz_made = 0, fz_world = fresh_world\<rparr>"

text \<open>\<open>for _ in 0..n\<close>, with and without collecting what the body pushes.\<close>

primrec for_n :: "nat \<Rightarrow> unit run \<Rightarrow> unit run" where
  "for_n 0 body = done_with ()"
| "for_n (Suc n) body = do { body; for_n n body }"

primrec collect_n :: "nat \<Rightarrow> 'a run \<Rightarrow> 'a list run" where
  "collect_n 0 body = done_with []"
| "collect_n (Suc n) body = do { x \<leftarrow> body; xs \<leftarrow> collect_n n body; done_with (x # xs) }"

text \<open>\<open>let Some(x) = v else { return }\<close>\<close>

definition let_some :: "'a option \<Rightarrow> ('a \<Rightarrow> unit run) \<Rightarrow> unit run" where
  "let_some v f = (case v of None \<Rightarrow> done_with () | Some x \<Rightarrow> f x)"

text \<open>\<open>if c { body }\<close>\<close>

definition only_if :: "bool \<Rightarrow> unit run \<Rightarrow> unit run" where
  "only_if c body = (if c then body else done_with ())"

section \<open>The reader\<close>

definition USIZE_MAX :: nat where "USIZE_MAX = 2 ^ 64 - 1"

definition next_byte :: "u8 run" where
  "next_byte = State (\<lambda>s.
     (if fz_pos s < length (fz_data s) then fz_data s ! fz_pos s else 0,
      s\<lparr>fz_pos := min (fz_pos s + 1) USIZE_MAX\<rparr>))"

definition fill :: "nat \<Rightarrow> bytes run" where
  "fill n = collect_n n next_byte"

text \<open>\<open>from_be_bytes\<close>\<close>

definition be_int :: "bytes \<Rightarrow> int" where
  "be_int bs = foldl (\<lambda>n b. n * 256 + uint b) 0 bs"

definition read_u8 :: "u8 run" where
  "read_u8 = do { buf \<leftarrow> fill 1; done_with (buf ! 0) }"

definition read_u32 :: "u32 run" where
  "read_u32 = do { buf \<leftarrow> fill 4; done_with (word_of_int (be_int buf)) }"

definition read_u64 :: "u64 run" where
  "read_u64 = do { buf \<leftarrow> fill 8; done_with (word_of_int (be_int buf)) }"

definition read_i128 :: "int run" where
  "read_i128 = do { buf \<leftarrow> fill 16; done_with (sint (word_of_int (be_int buf) :: 128 word)) }"

definition bytes32 :: "bytes run" where
  "bytes32 = fill 32"

definition read_bool :: "fuzz_host \<Rightarrow> bool run" where
  "read_bool H = do { b \<leftarrow> read_u8; done_with (unwrap_or (fh_arbitrary_bool H [b]) False) }"

definition timestamp :: "u64 run" where
  "timestamp = do { t \<leftarrow> read_u64; done_with (drop_bit 1 t) }"

definition len :: "nat \<Rightarrow> nat run" where
  "len max_len = do { b \<leftarrow> read_u8; done_with (unat b mod (max_len + 1)) }"

definition target_id :: "fuzz_host \<Rightarrow> u64 \<Rightarrow> u64 run" where
  "target_id H real_id = do { b \<leftarrow> read_bool H; if b then done_with real_id else read_u64 }"

definition ascii_string :: "nat \<Rightarrow> string run" where
  "ascii_string max_len = do {
     n \<leftarrow> len max_len;
     collect_n n (do { b \<leftarrow> read_u8; done_with (char_of (97 + unat b mod 26)) }) }"

definition read_bytes :: "nat \<Rightarrow> bytes run" where
  "read_bytes max_len = do { n \<leftarrow> len max_len; collect_n n read_u8 }"

section \<open>The participants\<close>

definition VALID_AMOUNT :: int where "VALID_AMOUNT = 1000000"
definition VALID_FEE_BPS :: u32 where "VALID_FEE_BPS = 50"
definition VALID_SHIPPING_WINDOW :: u64 where "VALID_SHIPPING_WINDOW = 86400"

record harness =
  h_admin :: address
  h_fee_collector :: address
  h_seller :: address
  h_buyer :: address
  h_resolver :: address
  h_outsider :: address
  h_token :: address
  h_contract :: address

definition generate :: "fuzz_host \<Rightarrow> address run" where
  "generate H = State (\<lambda>s. (fh_address H (fz_made s), s\<lparr>fz_made := fz_made s + 1\<rparr>))"

definition set_timestamp :: "u64 \<Rightarrow> unit run" where
  "set_timestamp t = State (\<lambda>s. ((), s\<lparr>fz_now := t\<rparr>))"

text \<open>
  One invocation through the client under \<open>mock_all_auths\<close>: every address but the contract's own,
  which no target names, has signed.  A failing call is rolled back and reported as an error.
\<close>

definition fuzz_env :: "fuzz_host \<Rightarrow> address \<Rightarrow> u64 \<Rightarrow> env" where
  "fuzz_env H contract now = \<lparr>env_now = now, env_self = contract, env_auth = (\<lambda>a. a \<noteq> contract),
     env_reauth = fh_reauth H,
     env_token_ok = fh_token_ok H, env_params_hash = fh_params_hash H, env_wasm_ok = fh_wasm_ok H\<rparr>"

definition try_invoke ::
  "fuzz_host \<Rightarrow> harness \<Rightarrow> (env \<Rightarrow> world \<Rightarrow> ('a \<times> world) res) \<Rightarrow> 'a option run" where
  "try_invoke H h f = State (\<lambda>s.
     case f (fuzz_env H (h_contract h) (fz_now s)) (fz_world s) of
       Inl _ \<Rightarrow> (None, s)
     | Inr (x, w) \<Rightarrow> (Some x, s\<lparr>fz_world := w\<rparr>))"

definition try_call :: "fuzz_host \<Rightarrow> harness \<Rightarrow> call \<Rightarrow> unit option run" where
  "try_call H h c = try_invoke H h (\<lambda>env w. map_sum id (Pair ()) (exec env c w))"

definition try_create :: "fuzz_host \<Rightarrow> harness \<Rightarrow> create_call \<Rightarrow> u64 option run" where
  "try_create H h c = try_invoke H h (\<lambda>env. create_run env c)"

text \<open>\<open>let _ = h.client.try_...\<close>\<close>

definition ignore :: "'a option run \<Rightarrow> unit run" where
  "ignore m = do { m; done_with () }"

text \<open>
  \<open>Harness::new\<close>: six accounts, the token's admin, the token, the contract, in this order; the
  balances minted are the business of the token.
\<close>

definition new_harness :: "fuzz_host \<Rightarrow> harness run" where
  "new_harness H = do {
     admin \<leftarrow> generate H;
     fee_collector \<leftarrow> generate H;
     seller \<leftarrow> generate H;
     buyer \<leftarrow> generate H;
     resolver \<leftarrow> generate H;
     outsider \<leftarrow> generate H;
     token_admin \<leftarrow> generate H;
     token \<leftarrow> generate H;
     contract_id \<leftarrow> generate H;
     let h = \<lparr>h_admin = admin, h_fee_collector = fee_collector, h_seller = seller, h_buyer = buyer,
              h_resolver = resolver, h_outsider = outsider, h_token = token,
              h_contract = contract_id\<rparr>;
     ignore (try_call H h (Administer (AInitialize admin fee_collector 0)));
     done_with h }"

definition payees :: "harness \<Rightarrow> val" where
  "payees h = VPayees [\<lparr>p_address = h_seller h, p_bps = 10000\<rparr>]"

definition create_valid_escrow :: "fuzz_host \<Rightarrow> harness \<Rightarrow> u64 option run" where
  "create_valid_escrow H h = try_create H h
     (CCreate (payees h) (Some (h_buyer h)) (h_resolver h) (h_token h) VALID_AMOUNT VALID_FEE_BPS 0
       VALID_SHIPPING_WINDOW None)"

definition create_funded_escrow :: "fuzz_host \<Rightarrow> harness \<Rightarrow> u64 option run" where
  "create_funded_escrow H h = do {
     created \<leftarrow> create_valid_escrow H h;
     (case created of
        None \<Rightarrow> done_with None
      | Some i \<Rightarrow> do {
          paid \<leftarrow> try_call H h (OnEscrow (EFund (h_buyer h)) i);
          done_with (map_option (\<lambda>_. i) paid) }) }"

definition actor :: "harness \<Rightarrow> u8 \<Rightarrow> address" where
  "actor h selector =
    (let k = unat selector mod 5 in
     if k = 0 then h_buyer h
     else if k = 1 then h_seller h
     else if k = 2 then h_resolver h
     else if k = 3 then h_admin h
     else h_outsider h)"

definition read_actor :: "harness \<Rightarrow> address run" where
  "read_actor h = do { b \<leftarrow> read_u8; done_with (actor h b) }"

definition stranger :: "fuzz_host \<Rightarrow> address run" where
  "stranger H = generate H"

definition addresses :: "fuzz_host \<Rightarrow> nat \<Rightarrow> address list run" where
  "addresses H n = collect_n n (generate H)"

definition extra_token :: "fuzz_host \<Rightarrow> address run" where
  "extra_token H = do { token_admin \<leftarrow> generate H; generate H }"

definition dispute_reason :: "symbol run" where
  "dispute_reason = do {
     b \<leftarrow> read_u8;
     done_with (DISPUTE_REASONS ! (unat b mod length DISPUTE_REASONS)) }"

definition create_disputed_escrow :: "fuzz_host \<Rightarrow> harness \<Rightarrow> u64 option run" where
  "create_disputed_escrow H h = do {
     funded \<leftarrow> create_funded_escrow H h;
     (case funded of
        None \<Rightarrow> done_with None
      | Some i \<Rightarrow> do {
          reason \<leftarrow> dispute_reason;
          description \<leftarrow> read_bytes 64;
          evidence_hash \<leftarrow> bytes32;
          raised \<leftarrow> try_call H h
            (OnEscrow (ERaiseDispute (h_buyer h) reason description evidence_hash) i);
          done_with (map_option (\<lambda>_. i) raised) }) }"

end
