(* ===== verification/Fuzz_Targets.thy ===== *)
theory Fuzz_Targets
  imports Fuzz_Harness
begin

text \<open>
  The fuzz targets of \<open>src/contracts/escrow/fuzz/fuzz_targets\<close>, one definition per file: what each
  makes of its input and which entry points it calls, in which order and at which ledger time.
\<close>

section \<open>The life of one escrow\<close>

definition fuzz_create_escrow :: "fuzz_host \<Rightarrow> harness \<Rightarrow> unit run" where
  "fuzz_create_escrow H h = do {
     amount \<leftarrow> read_i128;
     fee_bps \<leftarrow> read_u32;
     resolver_fee_bps \<leftarrow> read_u32;
     shipping_window \<leftarrow> read_u64;
     with_buyer \<leftarrow> read_bool H;
     with_notes \<leftarrow> read_bool H;
     notes \<leftarrow> (if with_notes then do { s \<leftarrow> ascii_string 600; done_with (Some s) } else done_with None);
     ignore (try_create H h
       (CCreate (payees h) (if with_buyer then Some (h_buyer h) else None) (h_resolver h) (h_token h)
         amount fee_bps resolver_fee_bps shipping_window notes)) }"

definition fuzz_fund_escrow :: "fuzz_host \<Rightarrow> harness \<Rightarrow> unit run" where
  "fuzz_fund_escrow H h = do {
     created \<leftarrow> create_valid_escrow H h;
     let_some created (\<lambda>i. do {
       target \<leftarrow> target_id H i;
       funder \<leftarrow> read_actor h;
       ignore (try_call H h (OnEscrow (EFund funder) target));
       again \<leftarrow> read_bool H;
       only_if again (ignore (try_call H h (OnEscrow (EFund funder) target))) }) }"

text \<open>The optional shipment with which several targets begin.\<close>

definition maybe_ship :: "fuzz_host \<Rightarrow> harness \<Rightarrow> u64 \<Rightarrow> unit run" where
  "maybe_ship H h i = do {
     ship \<leftarrow> read_bool H;
     only_if ship (do {
       tracking_id \<leftarrow> ascii_string 32;
       ignore (try_call H h (OnEscrow (EMarkShipped (h_seller h) tracking_id) i)) }) }"

definition fuzz_mark_shipped :: "fuzz_host \<Rightarrow> harness \<Rightarrow> unit run" where
  "fuzz_mark_shipped H h = do {
     created \<leftarrow> create_funded_escrow H h;
     let_some created (\<lambda>i. do {
       caller \<leftarrow> read_actor h;
       tracking_id \<leftarrow> ascii_string 96;
       target \<leftarrow> target_id H i;
       ignore (try_call H h (OnEscrow (EMarkShipped caller tracking_id) target));
       again \<leftarrow> read_bool H;
       only_if again (ignore (try_call H h (OnEscrow (EMarkShipped caller tracking_id) target))) }) }"

definition fuzz_confirm_delivery :: "fuzz_host \<Rightarrow> harness \<Rightarrow> unit run" where
  "fuzz_confirm_delivery H h = do {
     created \<leftarrow> create_funded_escrow H h;
     let_some created (\<lambda>i. do {
       maybe_ship H h i;
       t \<leftarrow> timestamp;
       set_timestamp t;
       caller \<leftarrow> read_actor h;
       target \<leftarrow> target_id H i;
       waive \<leftarrow> read_bool H;
       ignore (try_call H h (Leave (XConfirmDelivery caller waive) target)) }) }"

definition fuzz_cancel_escrow :: "fuzz_host \<Rightarrow> harness \<Rightarrow> unit run" where
  "fuzz_cancel_escrow H h = do {
     created \<leftarrow> create_valid_escrow H h;
     let_some created (\<lambda>i. do {
       fund \<leftarrow> read_bool H;
       only_if fund (do {
         ignore (try_call H h (OnEscrow (EFund (h_buyer h)) i));
         maybe_ship H h i });
       caller \<leftarrow> read_actor h;
       target \<leftarrow> target_id H i;
       ignore (try_call H h (Leave (XCancelEscrow caller) target));
       again \<leftarrow> read_bool H;
       only_if again (ignore (try_call H h (Leave (XCancelEscrow caller) target))) }) }"

definition fuzz_auto_release :: "fuzz_host \<Rightarrow> harness \<Rightarrow> unit run" where
  "fuzz_auto_release H h = do {
     created \<leftarrow> create_funded_escrow H h;
     let_some created (\<lambda>i. do {
       maybe_ship H h i;
       past \<leftarrow> read_bool H;
       t \<leftarrow> (if past
             then do { n \<leftarrow> read_u32; done_with (word_saturating_add VALID_SHIPPING_WINDOW (ucast n)) }
             else timestamp);
       set_timestamp t;
       target \<leftarrow> target_id H i;
       ignore (try_call H h (Leave XAutoRelease target));
       again \<leftarrow> read_bool H;
       only_if again (ignore (try_call H h (Leave XAutoRelease target))) }) }"

section \<open>Refunds and co-signed releases\<close>

definition fuzz_co_signed_release :: "fuzz_host \<Rightarrow> harness \<Rightarrow> unit run" where
  "fuzz_co_signed_release H h = do {
     created \<leftarrow> create_funded_escrow H h;
     let_some created (\<lambda>i. do {
       maybe_ship H h i;
       t \<leftarrow> timestamp;
       set_timestamp t;
       target \<leftarrow> target_id H i;
       signatures \<leftarrow> len 4;
       for_n signatures (do {
         caller \<leftarrow> read_actor h;
         ignore (try_call H h (Leave (XCoSignedRelease caller) target)) });
       dispute \<leftarrow> read_bool H;
       only_if dispute (do {
         reason \<leftarrow> dispute_reason;
         description \<leftarrow> read_bytes 32;
         evidence_hash \<leftarrow> bytes32;
         ignore (try_call H h
           (OnEscrow (ERaiseDispute (h_buyer h) reason description evidence_hash) target));
         ignore (try_call H h (Leave (XCoSignedRelease (h_buyer h)) target)) }) }) }"

definition refund_step :: "fuzz_host \<Rightarrow> harness \<Rightarrow> u64 \<Rightarrow> unit run" where
  "refund_step H h target = do {
     caller \<leftarrow> read_actor h;
     b \<leftarrow> read_u8;
     let k = unat b mod 3;
     ignore (try_call H h
       (if k = 0 then OnEscrow (ERequestRefund caller) target
        else if k = 1 then Leave (XApproveRefund caller) target
        else Leave XMutualCancel target)) }"

definition fuzz_refund_flow :: "fuzz_host \<Rightarrow> harness \<Rightarrow> unit run" where
  "fuzz_refund_flow H h = do {
     created \<leftarrow> create_funded_escrow H h;
     let_some created (\<lambda>i. do {
       maybe_ship H h i;
       t \<leftarrow> timestamp;
       set_timestamp t;
       target \<leftarrow> target_id H i;
       steps \<leftarrow> len 5;
       for_n steps (refund_step H h target) }) }"

definition expiration_step :: "fuzz_host \<Rightarrow> harness \<Rightarrow> u64 \<Rightarrow> unit run" where
  "expiration_step H h target = do {
     reclaim \<leftarrow> read_bool H;
     ignore (try_call H h (if reclaim then Leave XReclaimExpired target
                           else Leave XAutoCancelPending target));
     move \<leftarrow> read_bool H;
     only_if move (do { t \<leftarrow> timestamp; set_timestamp t }) }"

definition expires_at_choice :: "u64 \<Rightarrow> u64 option run" where
  "expires_at_choice now = do {
     b \<leftarrow> read_u8;
     let k = unat b mod 4;
     if k = 0 then done_with None
     else if k = 1
     then do { n \<leftarrow> read_u32;
               done_with (Some (word_saturating_add (word_saturating_add now (ucast n)) 1)) }
     else if k = 2 then do { x \<leftarrow> read_u64; done_with (Some x) }
     else done_with (Some now) }"

definition fuzz_expiration :: "fuzz_host \<Rightarrow> harness \<Rightarrow> unit run" where
  "fuzz_expiration H h = do {
     now \<leftarrow> timestamp;
     set_timestamp now;
     expires_at \<leftarrow> expires_at_choice now;
     short_grace \<leftarrow> read_bool H;
     grace_period \<leftarrow> (if short_grace then do { n \<leftarrow> read_u32; done_with (ucast n) } else read_u64);
     created \<leftarrow> try_create H h
       (CWithExpiration (h_seller h) (Some (h_buyer h)) (h_resolver h) (h_token h) VALID_AMOUNT
         VALID_FEE_BPS VALID_SHIPPING_WINDOW expires_at grace_period);
     let_some created (\<lambda>i. do {
       fund \<leftarrow> read_bool H;
       only_if fund (ignore (try_call H h (OnEscrow (EFund (h_buyer h)) i)));
       t \<leftarrow> timestamp;
       set_timestamp t;
       target \<leftarrow> target_id H i;
       steps \<leftarrow> len 4;
       for_n steps (expiration_step H h target) }) }"

section \<open>Disputes\<close>

definition read_resolution :: "fuzz_host \<Rightarrow> ResolutionType run" where
  "read_resolution H = do { b \<leftarrow> read_bool H; done_with (if b then Release else Refund) }"

definition fuzz_raise_dispute :: "fuzz_host \<Rightarrow> harness \<Rightarrow> unit run" where
  "fuzz_raise_dispute H h = do {
     created \<leftarrow> create_funded_escrow H h;
     let_some created (\<lambda>i. do {
       reason \<leftarrow> dispute_reason;
       description \<leftarrow> read_bytes 320;
       evidence_hash \<leftarrow> bytes32;
       caller \<leftarrow> read_actor h;
       target \<leftarrow> target_id H i;
       ignore (try_call H h (OnEscrow (ERaiseDispute caller reason description evidence_hash) target));
       again \<leftarrow> read_bool H;
       only_if again (ignore (try_call H h
         (OnEscrow (ERaiseDispute caller reason description evidence_hash) target))) }) }"

definition fuzz_resolve_dispute :: "fuzz_host \<Rightarrow> harness \<Rightarrow> unit run" where
  "fuzz_resolve_dispute H h = do {
     created \<leftarrow> create_funded_escrow H h;
     let_some created (\<lambda>i. do {
       reason \<leftarrow> dispute_reason;
       description \<leftarrow> read_bytes 64;
       evidence_hash \<leftarrow> bytes32;
       ignore (try_call H h
         (OnEscrow (ERaiseDispute (h_buyer h) reason description evidence_hash) i));
       t \<leftarrow> timestamp;
       set_timestamp t;
       resolution \<leftarrow> read_resolution H;
       caller \<leftarrow> read_actor h;
       target \<leftarrow> target_id H i;
       ignore (try_call H h (OnEscrow (EResolveDispute caller resolution) target));
       again \<leftarrow> read_bool H;
       only_if again (ignore (try_call H h (OnEscrow (EResolveDispute caller resolution) target))) }) }"

definition fuzz_dispute_appeal :: "fuzz_host \<Rightarrow> harness \<Rightarrow> unit run" where
  "fuzz_dispute_appeal H h = do {
     created \<leftarrow> create_disputed_escrow H h;
     let_some created (\<lambda>i. do {
       resolution \<leftarrow> read_resolution H;
       ignore (try_call H h (OnEscrow (EResolveDispute (h_resolver h) resolution) i));
       t \<leftarrow> timestamp;
       set_timestamp t;
       appellant \<leftarrow> read_actor h;
       target \<leftarrow> target_id H i;
       ignore (try_call H h (OnEscrow (EAppealDispute appellant) target));
       again \<leftarrow> read_bool H;
       only_if again (ignore (try_call H h (OnEscrow (EAppealDispute appellant) target)));
       t1 \<leftarrow> timestamp;
       set_timestamp t1;
       finalizer \<leftarrow> read_actor h;
       ignore (try_call H h (Leave (XFinalizeDispute finalizer) target));
       again1 \<leftarrow> read_bool H;
       only_if again1 (ignore (try_call H h (Leave (XFinalizeDispute finalizer) target))) }) }"

definition MAX_RESOLVERS :: nat where "MAX_RESOLVERS = 6"

text \<open>One round: a registered resolver and an unset flag, or any of the participants.\<close>

definition read_voter :: "fuzz_host \<Rightarrow> harness \<Rightarrow> address list \<Rightarrow> address run" where
  "read_voter H h resolvers = do {
     b \<leftarrow> read_u8;
     (case vec_get resolvers (unat b mod max 1 (length resolvers)) of
        None \<Rightarrow> read_actor h
      | Some a \<Rightarrow> do { other \<leftarrow> read_bool H; if \<not> other then done_with a else read_actor h }) }"

definition vote_round :: "fuzz_host \<Rightarrow> harness \<Rightarrow> address list \<Rightarrow> u64 \<Rightarrow> unit run" where
  "vote_round H h resolvers i = do {
     resolution \<leftarrow> read_resolution H;
     voter \<leftarrow> read_voter H h resolvers;
     ignore (try_call H h (OnEscrow (EVote voter resolution) i)) }"

definition fuzz_vote :: "fuzz_host \<Rightarrow> harness \<Rightarrow> unit run" where
  "fuzz_vote H h = do {
     n \<leftarrow> len MAX_RESOLVERS;
     resolvers \<leftarrow> addresses H n;
     b \<leftarrow> read_u8;
     let threshold = unat b mod (MAX_RESOLVERS + 2);
     created \<leftarrow> try_create H h
       (CMulti (h_seller h) (Some (h_buyer h)) resolvers threshold (h_token h) VALID_AMOUNT
         VALID_FEE_BPS VALID_SHIPPING_WINDOW);
     let_some created (\<lambda>i. do {
       paid \<leftarrow> try_call H h (OnEscrow (EFund (h_buyer h)) i);
       let_some paid (\<lambda>_. do {
         reason \<leftarrow> dispute_reason;
         description \<leftarrow> read_bytes 32;
         evidence_hash \<leftarrow> bytes32;
         ignore (try_call H h
           (OnEscrow (ERaiseDispute (h_buyer h) reason description evidence_hash) i));
         rounds \<leftarrow> len (MAX_RESOLVERS + 2);
         for_n rounds (vote_round H h resolvers i) }) }) }"

section \<open>Baskets and batches\<close>

definition MAX_ENTRIES :: nat where "MAX_ENTRIES = 5"

definition read_amount :: "fuzz_host \<Rightarrow> int run" where
  "read_amount H = do {
     plausible \<leftarrow> read_bool H;
     if plausible then do { n \<leftarrow> read_u32; done_with (uint n + 1) } else read_i128 }"

definition fuzz_basket_escrow :: "fuzz_host \<Rightarrow> harness \<Rightarrow> unit run" where
  "fuzz_basket_escrow H h = do {
     second_token \<leftarrow> extra_token H;
     token_count \<leftarrow> len MAX_ENTRIES;
     let tokens = map (\<lambda>i. if i mod 2 = 0 then h_token h else second_token) [0..<token_count];
     amount_count \<leftarrow> len MAX_ENTRIES;
     amounts \<leftarrow> collect_n amount_count (read_amount H);
     created \<leftarrow> try_create H h
       (CBasket (h_seller h) (Some (h_buyer h)) (h_resolver h) tokens amounts VALID_FEE_BPS
         VALID_SHIPPING_WINDOW None None 0);
     let_some created (\<lambda>i. do {
       funder \<leftarrow> read_actor h;
       target \<leftarrow> target_id H i;
       ignore (try_call H h (OnEscrow (EFundBasket funder) target));
       again \<leftarrow> read_bool H;
       only_if again (ignore (try_call H h (OnEscrow (EFundBasket funder) target)));
       ignore (try_call H h (View (VGetBasketTokens target))) }) }"

definition MAX_BATCH :: nat where "MAX_BATCH = 8"

text \<open>One entry of the batch, its fields drawn in the order of the struct expression.\<close>

definition read_input :: "fuzz_host \<Rightarrow> harness \<Rightarrow> EscrowInput run" where
  "read_input H h = do {
     valid \<leftarrow> read_bool H;
     with_buyer \<leftarrow> read_bool H;
     amount \<leftarrow> (if valid then done_with VALID_AMOUNT else read_i128);
     fee_bps \<leftarrow> (if valid then done_with VALID_FEE_BPS else read_u32);
     resolver_fee_bps \<leftarrow> (if valid then done_with VALID_FEE_BPS else read_u32);
     shipping_window \<leftarrow> (if valid then done_with VALID_SHIPPING_WINDOW else read_u64);
     with_notes \<leftarrow> read_bool H;
     notes \<leftarrow> (if with_notes then ascii_string 64 else done_with []);
     done_with \<lparr>in_buyer = (if with_buyer then Some (h_buyer h) else None),
       in_resolver = h_resolver h, in_token = h_token h, in_amount = amount, in_fee_bps = fee_bps,
       in_resolver_fee_bps = resolver_fee_bps, in_shipping_window = shipping_window,
       in_notes = notes\<rparr> }"

text \<open>The loop over the ids: every one of them must resolve to an escrow.\<close>

primrec all_readable :: "fuzz_host \<Rightarrow> harness \<Rightarrow> u64 list \<Rightarrow> bool run" where
  "all_readable H h [] = done_with True"
| "all_readable H h (i # ids) = do {
     found \<leftarrow> try_invoke H h (\<lambda>env. get_escrow i);
     if found = None then done_with False else all_readable H h ids }"

text \<open>The two assertions on a batch that was created; the answer says whether they hold.\<close>

definition batch_assertions ::
  "fuzz_host \<Rightarrow> harness \<Rightarrow> nat \<Rightarrow> u64 list option \<Rightarrow> bool run" where
  "batch_assertions H h n created =
    (case created of
       None \<Rightarrow> done_with True
     | Some ids \<Rightarrow> if length ids \<noteq> n then done_with False else all_readable H h ids)"

definition fuzz_batch_create_escrow :: "fuzz_host \<Rightarrow> harness \<Rightarrow> bool run" where
  "fuzz_batch_create_escrow H h = do {
     count \<leftarrow> len MAX_BATCH;
     escrows \<leftarrow> collect_n count (read_input H h);
     caller \<leftarrow> read_actor h;
     created \<leftarrow> try_invoke H h (\<lambda>env. batch_create_escrow env caller escrows);
     batch_assertions H h count created }"

section \<open>Messages\<close>

definition MAX_CONTENT :: nat where "MAX_CONTENT = 320"

definition post_step :: "fuzz_host \<Rightarrow> harness \<Rightarrow> u64 \<Rightarrow> unit run" where
  "post_step H h i = do {
     t \<leftarrow> timestamp;
     set_timestamp t;
     sender \<leftarrow> read_actor h;
     content \<leftarrow> ascii_string MAX_CONTENT;
     target \<leftarrow> target_id H i;
     ignore (try_call H h (OnEscrow (EPostMessage sender content) target)) }"

definition read_offset :: "fuzz_host \<Rightarrow> u64 run" where
  "read_offset H = do {
     wide \<leftarrow> read_bool H;
     if wide then read_u64 else do { b \<leftarrow> read_u8; done_with (ucast b) } }"

definition fuzz_post_message :: "fuzz_host \<Rightarrow> harness \<Rightarrow> unit run" where
  "fuzz_post_message H h = do {
     created \<leftarrow> create_funded_escrow H h;
     let_some created (\<lambda>i. do {
       posts \<leftarrow> len 4;
       for_n posts (post_step H h i);
       start \<leftarrow> read_offset H;
       limit \<leftarrow> read_offset H;
       ignore (try_call H h (View (VGetMessages i start limit)));
       other \<leftarrow> read_bool H;
       only_if other (do {
         j \<leftarrow> read_u64;
         ignore (try_call H h (View (VGetMessages j start limit))) }) }) }"

section \<open>The admin timelock\<close>

definition ADMIN_TIMELOCK_DELAY :: u64 where "ADMIN_TIMELOCK_DELAY = 86400"
definition OP_SET_ARBITRATION_FEE :: u32 where "OP_SET_ARBITRATION_FEE = 4"

definition queue_some :: "fuzz_host \<Rightarrow> harness \<Rightarrow> address \<Rightarrow> u32 \<Rightarrow> unit run" where
  "queue_some H h caller fee_bps = do {
     b \<leftarrow> read_u8;
     let k = unat b mod 4;
     if k = 0 then ignore (try_call H h (QueueOp caller (LSetArbitrationFee fee_bps)))
     else if k = 1 then ignore (try_call H h (QueueOp caller (LSetPlatformFee fee_bps)))
     else if k = 2 then ignore (try_call H h (QueueOp caller (LSetTtlExtension fee_bps)))
     else do {
       min_amount \<leftarrow> read_i128;
       max_amount \<leftarrow> read_i128;
       ignore (try_call H h (QueueOp caller (LSetAmountLimits min_amount max_amount))) } }"

definition fuzz_admin_timelock :: "fuzz_host \<Rightarrow> harness \<Rightarrow> unit run" where
  "fuzz_admin_timelock H h = do {
     queued_at \<leftarrow> timestamp;
     set_timestamp queued_at;
     caller \<leftarrow> read_actor h;
     small \<leftarrow> read_bool H;
     fee_bps \<leftarrow> (if small then do { b \<leftarrow> read_u8; done_with (ucast b) } else read_u32);
     queue_some H h caller fee_bps;
     requeue \<leftarrow> read_bool H;
     only_if requeue (do {
       b \<leftarrow> read_u8;
       ignore (try_call H h (QueueOp (h_admin h) (LSetArbitrationFee (ucast b)))) });
     past \<leftarrow> read_bool H;
     executed_at \<leftarrow> (if past
       then do { n \<leftarrow> read_u32;
                 done_with (word_saturating_add (word_saturating_add queued_at ADMIN_TIMELOCK_DELAY)
                   (ucast n)) }
       else timestamp);
     set_timestamp executed_at;
     cancel \<leftarrow> read_bool H;
     only_if cancel (do {
       canceller \<leftarrow> read_actor h;
       ignore (try_call H h (Administer (ACancelTimelock canceller OP_SET_ARBITRATION_FEE))) });
     executor \<leftarrow> read_actor h;
     ignore (try_call H h (ExecuteOp executor (LSetArbitrationFee fee_bps)));
     again \<leftarrow> read_bool H;
     only_if again (ignore (try_call H h (ExecuteOp executor (LSetArbitrationFee fee_bps)))) }"

section \<open>Fee arithmetic\<close>

text \<open>No host: the assertions on one amount and one rate.\<close>

definition fee_assertions :: "int \<Rightarrow> u32 \<Rightarrow> bool" where
  "fee_assertions amount fee_bps \<longleftrightarrow>
    (case calculate_fee amount fee_bps of Inl _ \<Rightarrow> True | Inr fee \<Rightarrow> 0 \<le> fee \<and> fee \<le> amount) \<and>
    (case calculate_protocol_fee amount fee_bps of Inl _ \<Rightarrow> True
     | Inr (fee, net) \<Rightarrow> fee + net = amount \<and> 0 \<le> fee \<and> 0 \<le> net) \<and>
    (if fee_bps = 0 then calculate_fee amount 0 = Inr 0 else True)"

definition fuzz_fee_calculation :: "bool run" where
  "fuzz_fee_calculation = do {
     amount \<leftarrow> read_i128;
     fee_bps \<leftarrow> read_u32;
     done_with (if 0 \<le> amount then fee_assertions amount fee_bps else True) }"

section \<open>All targets\<close>

datatype target =
  TCreateEscrow | TFundEscrow | TMarkShipped | TConfirmDelivery | TCancelEscrow | TAutoRelease
| TCoSignedRelease | TRefundFlow | TExpiration | TRaiseDispute | TResolveDispute | TDisputeAppeal
| TVote | TBasketEscrow | TBatchCreateEscrow | TPostMessage | TAdminTimelock

fun target_run :: "fuzz_host \<Rightarrow> harness \<Rightarrow> target \<Rightarrow> unit run" where
  "target_run H h TCreateEscrow = fuzz_create_escrow H h"
| "target_run H h TFundEscrow = fuzz_fund_escrow H h"
| "target_run H h TMarkShipped = fuzz_mark_shipped H h"
| "target_run H h TConfirmDelivery = fuzz_confirm_delivery H h"
| "target_run H h TCancelEscrow = fuzz_cancel_escrow H h"
| "target_run H h TAutoRelease = fuzz_auto_release H h"
| "target_run H h TCoSignedRelease = fuzz_co_signed_release H h"
| "target_run H h TRefundFlow = fuzz_refund_flow H h"
| "target_run H h TExpiration = fuzz_expiration H h"
| "target_run H h TRaiseDispute = fuzz_raise_dispute H h"
| "target_run H h TResolveDispute = fuzz_resolve_dispute H h"
| "target_run H h TDisputeAppeal = fuzz_dispute_appeal H h"
| "target_run H h TVote = fuzz_vote H h"
| "target_run H h TBasketEscrow = fuzz_basket_escrow H h"
| "target_run H h TBatchCreateEscrow = do { ok \<leftarrow> fuzz_batch_create_escrow H h; done_with () }"
| "target_run H h TPostMessage = fuzz_post_message H h"
| "target_run H h TAdminTimelock = fuzz_admin_timelock H h"

text \<open>A whole run on one input: \<open>Reader::new\<close>, \<open>Harness::new\<close>, then the target.\<close>

definition fuzz_final :: "fuzz_host \<Rightarrow> target \<Rightarrow> bytes \<Rightarrow> fuzz" where
  "fuzz_final H t data =
    snd (run_state (do { h \<leftarrow> new_harness H; target_run H h t }) (fuzz_start data))"

end
