(* ===== verification/Fuzz_Facts.thy ===== *)
theory Fuzz_Facts
  imports Fuzz_Targets Scenario
begin

text \<open>
  What the fuzz targets can reach: whatever bytes they are given, every call they make is a call
  of the contract's own transition system, so its invariants hold in every world a target ends
  in; and the assertions the targets state are theorems.
\<close>

section \<open>Programs that stay reachable\<close>

text \<open>
  \<open>keeps self m Q\<close>: run from a reachable world, \<open>m\<close> ends in a reachable world with an answer that
  satisfies \<open>Q\<close>.
\<close>

definition keeps :: "address \<Rightarrow> 'a run \<Rightarrow> ('a \<Rightarrow> bool) \<Rightarrow> bool" where
  "keeps self m Q \<longleftrightarrow> (\<forall>s. reachable self (fz_world s) \<longrightarrow>
     Q (fst (run_state m s)) \<and> reachable self (fz_world (snd (run_state m s))))"

abbreviation safe :: "address \<Rightarrow> 'a run \<Rightarrow> bool" where
  "safe self m \<equiv> keeps self m (\<lambda>_. True)"

lemma keeps_return: "Q x \<Longrightarrow> keeps self (done_with x) Q"
  by (simp add: keeps_def)

lemma keeps_bind:
  assumes "keeps self m Q" "\<And>x. Q x \<Longrightarrow> keeps self (f x) R"
  shows "keeps self (State_Monad.bind m f) R"
  using assms by (fastforce simp: keeps_def split: prod.splits)

lemma keeps_weaken: "keeps self m Q \<Longrightarrow> (\<And>x. Q x \<Longrightarrow> R x) \<Longrightarrow> keeps self m R"
  by (auto simp: keeps_def)

lemma keeps_if:
  "(c \<Longrightarrow> keeps self m Q) \<Longrightarrow> (\<not> c \<Longrightarrow> keeps self n Q) \<Longrightarrow> keeps self (if c then m else n) Q"
  by simp

lemma keeps_option:
  "(v = None \<Longrightarrow> keeps self m Q) \<Longrightarrow> (\<And>x. v = Some x \<Longrightarrow> keeps self (f x) Q) \<Longrightarrow>
    keeps self (case v of None \<Rightarrow> m | Some x \<Rightarrow> f x) Q"
  by (cases v) simp_all

lemma safe_return: "safe self (done_with x)"
  by (rule keeps_return) simp

lemma safe_bind:
  "safe self m \<Longrightarrow> (\<And>x. keeps self (f x) R) \<Longrightarrow> keeps self (State_Monad.bind m f) R"
  by (rule keeps_bind)

lemma safe_only_if: "(c \<Longrightarrow> safe self m) \<Longrightarrow> safe self (only_if c m)"
  by (simp add: only_if_def keeps_return)

lemma safe_let_some: "(\<And>x. v = Some x \<Longrightarrow> safe self (f x)) \<Longrightarrow> safe self (let_some v f)"
  by (cases v) (simp_all add: let_some_def keeps_return)

lemma safe_for_n: "safe self m \<Longrightarrow> safe self (for_n n m)"
  by (induction n) (auto intro: keeps_return keeps_bind)

lemma keeps_collect_n:
  "keeps self m Q \<Longrightarrow> keeps self (collect_n n m) (\<lambda>xs. length xs = n \<and> list_all Q xs)"
proof (induction n)
  case (Suc n)
  show ?case
    unfolding collect_n.simps
    by (rule keeps_bind [OF Suc.prems], rule keeps_bind [OF Suc.IH [OF Suc.prems]])
      (simp add: keeps_return)
qed (simp add: keeps_return)

lemma safe_collect_n: "safe self m \<Longrightarrow> safe self (collect_n n m)"
  by (rule keeps_weaken [OF keeps_collect_n]) simp_all

section \<open>The reader and the participants\<close>

lemma safe_next_byte: "safe self next_byte"
  by (simp add: keeps_def next_byte_def)

lemma safe_fill: "safe self (fill n)"
  unfolding fill_def by (rule safe_collect_n [OF safe_next_byte])

lemma safe_generate: "safe self (generate H)" "safe self (set_timestamp t)"
  by (simp_all add: keeps_def generate_def set_timestamp_def)

lemmas safe_control = safe_return safe_bind keeps_if keeps_option safe_only_if safe_let_some
  safe_for_n

lemma safe_read:
  "safe self read_u8" "safe self read_u32" "safe self read_u64" "safe self bytes32"
  unfolding read_u8_def read_u32_def read_u64_def bytes32_def
  by (intro safe_control safe_fill)+

lemma keeps_read_i128: "keeps self read_i128 (\<lambda>n. n \<le> i128_max)"
  unfolding read_i128_def
proof (rule keeps_bind [OF safe_fill], rule keeps_return)
  fix buf :: bytes
  show "sint (word_of_int (be_int buf) :: 128 word) \<le> i128_max"
    using sint_lt [of "word_of_int (be_int buf) :: 128 word"] by (simp add: i128_max_def)
qed

lemma safe_read_bool: "safe self (read_bool H)"
  unfolding read_bool_def by (intro safe_control safe_read)

lemma safe_derived:
  "safe self timestamp" "safe self (len n)" "safe self (target_id H i)" "safe self (ascii_string n)"
  "safe self (read_bytes n)" "safe self (read_actor h)" "safe self dispute_reason"
  "safe self (read_resolution H)" "safe self (read_offset H)" "safe self (read_voter H h rs)"
  "safe self (expires_at_choice t)" "safe self (extra_token H)" "safe self (addresses H n)"
  unfolding timestamp_def len_def target_id_def ascii_string_def read_bytes_def read_actor_def
    dispute_reason_def read_resolution_def read_offset_def read_voter_def expires_at_choice_def
    extra_token_def addresses_def Let_def
  by (intro safe_control safe_collect_n safe_read safe_read_bool safe_generate)+

lemmas safe_reads = safe_read safe_read_bool safe_derived safe_generate

section \<open>Calls\<close>

lemma fuzz_env_fields [simp]:
  "env_self (fuzz_env H self t) = self" "legit self (fuzz_env H self t)"
  "env_auth (fuzz_env H self t) a \<longleftrightarrow> a \<noteq> self" "env_now (fuzz_env H self t) = t"
  by (simp_all add: fuzz_env_def legit_def)

lemma safe_invoke:
  assumes "h_contract h = self"
    "\<And>env w x w'. legit self env \<Longrightarrow> reachable self w \<Longrightarrow> f env w = Inr (x, w') \<Longrightarrow> reachable self w'"
  shows "safe self (try_invoke H h f)"
  unfolding keeps_def try_invoke_def
  by (auto simp: assms(1) split: sum.split intro: assms(2) [OF fuzz_env_fields(2)])

lemma safe_call:
  assumes "h_contract h = self" "call_ok c"
  shows "safe self (try_call H h c)"
  unfolding try_call_def
proof (rule safe_invoke [OF assms(1)])
  fix env w x w' assume e: "legit self env" "reachable self w" "map_sum id (Pair ()) (exec env c w) = Inr (x, w')"
  then have "exec env c w = Inr w'" by (cases "exec env c w") simp_all
  with e(1,2) assms(2) show "reachable self w'" by (blast intro: reachable.called)
qed

lemma safe_create:
  assumes "h_contract h = self" "create_ok c"
  shows "safe self (try_create H h c)"
  unfolding try_create_def
proof (rule safe_invoke [OF assms(1)])
  fix env w x w' assume e: "legit self env" "reachable self w" "create_run env c w = Inr (x, w')"
  then have "exec env (Create c) w = Inr w'" by simp
  with e(1,2) assms(2) show "reachable self w'" using reachable.called [of self w env "Create c"] by simp
qed

lemma safe_ignore: "safe self m \<Longrightarrow> safe self (ignore m)"
  unfolding ignore_def by (intro safe_control)

lemmas safe_calls = safe_ignore safe_call safe_create

lemma safe_create_escrows:
  assumes "h_contract h = self"
  shows "safe self (create_valid_escrow H h)" "safe self (create_funded_escrow H h)"
    "safe self (create_disputed_escrow H h)"
proof -
  show v: "safe self (create_valid_escrow H h)"
    unfolding create_valid_escrow_def
    by (rule safe_create [OF assms]) (simp add: VALID_AMOUNT_def i128_max_def)
  show f: "safe self (create_funded_escrow H h)"
    unfolding create_funded_escrow_def
    by (intro safe_control v safe_call assms) simp
  show "safe self (create_disputed_escrow H h)"
    unfolding create_disputed_escrow_def
    by (intro safe_control f safe_call safe_reads assms) simp
qed

section \<open>The targets\<close>

lemma keeps_read_amount: "keeps self (read_amount H) (\<lambda>n. n \<le> i128_max)"
proof -
  have "uint (n::u32) + 1 \<le> i128_max" for n
    using uint_lt2p [of n] by (simp add: i128_max_def)
  then show ?thesis
    unfolding read_amount_def by (intro safe_bind keeps_if keeps_read_i128 keeps_return safe_reads)
qed

lemma keeps_read_input:
  assumes "h_contract h = self"
  shows "keeps self (read_input H h) (\<lambda>x. in_amount x \<le> i128_max)"
proof -
  have a: "keeps self (if valid then done_with VALID_AMOUNT else read_i128) (\<lambda>n. n \<le> i128_max)" for valid
    by (intro keeps_if keeps_return keeps_read_i128) (simp add: VALID_AMOUNT_def i128_max_def)
  show ?thesis
    unfolding read_input_def
    by (intro safe_bind keeps_bind [OF a] keeps_if keeps_return safe_reads safe_return) simp
qed

text \<open>The fixed steps several targets share.\<close>

lemma safe_steps:
  assumes "h_contract h = self"
  shows "safe self (maybe_ship H h i)" "safe self (refund_step H h i)"
    "safe self (expiration_step H h i)" "safe self (vote_round H h rs i)"
    "safe self (post_step H h i)" "safe self (queue_some H h a f)"
  unfolding maybe_ship_def refund_step_def expiration_step_def vote_round_def post_step_def
    queue_some_def Let_def
  by (intro safe_control safe_reads safe_calls assms keeps_weaken [OF keeps_read_i128]; simp)+

lemma safe_targets:
  assumes "h_contract h = self"
  shows "safe self (fuzz_fund_escrow H h)" "safe self (fuzz_mark_shipped H h)"
    "safe self (fuzz_confirm_delivery H h)" "safe self (fuzz_cancel_escrow H h)"
    "safe self (fuzz_auto_release H h)" "safe self (fuzz_co_signed_release H h)"
    "safe self (fuzz_refund_flow H h)" "safe self (fuzz_raise_dispute H h)"
    "safe self (fuzz_resolve_dispute H h)" "safe self (fuzz_dispute_appeal H h)"
    "safe self (fuzz_post_message H h)" "safe self (fuzz_admin_timelock H h)"
  unfolding fuzz_fund_escrow_def fuzz_mark_shipped_def fuzz_confirm_delivery_def
    fuzz_cancel_escrow_def fuzz_auto_release_def fuzz_co_signed_release_def fuzz_refund_flow_def
    fuzz_raise_dispute_def fuzz_resolve_dispute_def fuzz_dispute_appeal_def fuzz_post_message_def
    fuzz_admin_timelock_def
  by (intro safe_control safe_reads safe_calls safe_create_escrows safe_steps assms; simp)+

text \<open>The targets that create escrows of their own.\<close>

lemma safe_creating_targets:
  assumes "h_contract h = self"
  shows "safe self (fuzz_expiration H h)" "safe self (fuzz_vote H h)"
  unfolding fuzz_expiration_def fuzz_vote_def Let_def
  by (intro safe_control safe_reads safe_calls safe_steps assms;
      simp add: VALID_AMOUNT_def i128_max_def)+

lemma safe_create_target:
  assumes "h_contract h = self"
  shows "safe self (fuzz_create_escrow H h)"
  unfolding fuzz_create_escrow_def
  by (rule keeps_bind [OF keeps_read_i128], intro safe_control safe_reads safe_calls assms) simp

lemma safe_basket_target:
  assumes "h_contract h = self"
  shows "safe self (fuzz_basket_escrow H h)"
proof -
  note A = keeps_collect_n [OF keeps_read_amount]
  show ?thesis
    unfolding fuzz_basket_escrow_def Let_def
    by (intro safe_bind keeps_bind [OF A] safe_control safe_reads safe_calls assms) simp_all
qed

text \<open>A batch that succeeds returns one id per entry, each of a stored escrow.\<close>

lemma create_batch_entry_stores:
  assumes "create_batch_entry env s x (ids, w) = Inr (ids', w')" "in_amount x \<le> i128_max"
  shows "\<exists>i e. ids' = ids @ [i] \<and> p_escrow (w_pers w') = (p_escrow (w_pers w))(i \<mapsto> e)"
  using assms by (auto simp: create_batch_entry_def creates_one_def creates_def
      dest!: postD [OF create_escrow_internal_one, rotated])

lemma batch_stores:
  assumes "foldE (create_batch_entry env s) xs (ids, w) = Inr (ids', w')"
    "list_all (\<lambda>x. in_amount x \<le> i128_max) xs" "\<forall>i \<in> set ids. p_escrow (w_pers w) i \<noteq> None"
  shows "length ids' = length ids + length xs \<and> (\<forall>i \<in> set ids'. p_escrow (w_pers w') i \<noteq> None)"
  using assms
proof (induction xs arbitrary: ids w)
  case (Cons x xs)
  then obtain ids1 w1 where 1: "create_batch_entry env s x (ids, w) = Inr (ids1, w1)"
    "foldE (create_batch_entry env s) xs (ids1, w1) = Inr (ids', w')" by auto
  then obtain i e where "ids1 = ids @ [i]" "p_escrow (w_pers w1) = (p_escrow (w_pers w))(i \<mapsto> e)"
    using create_batch_entry_stores [OF 1(1)] Cons.prems(2) by auto
  with Cons.IH [OF 1(2)] Cons.prems(2,3) show ?case by auto
qed simp

lemma batch_create_stores:
  assumes "batch_create_escrow env s xs w = Inr (ids, w')" "list_all (\<lambda>x. in_amount x \<le> i128_max) xs"
  shows "length ids = length xs \<and> (\<forall>i \<in> set ids. p_escrow (w_pers w') i \<noteq> None)"
  using assms batch_stores [of env s xs "[]" w ids w'] by (auto simp: batch_create_escrow_def)

lemma read_back:
  assumes "\<forall>i \<in> set ids. p_escrow (w_pers (fz_world s)) i \<noteq> None"
  shows "fst (run_state (all_readable H h ids) s)"
  using assms
proof (induction ids arbitrary: s)
  case (Cons i ids)
  then obtain e where "p_escrow (w_pers (fz_world s)) i = Some e" by auto
  with Cons show ?case by (simp add: try_invoke_def get_escrow_def load_escrow_def)
qed simp

lemma safe_all_readable:
  assumes "h_contract h = self"
  shows "safe self (all_readable H h ids)"
proof (induction ids)
  case (Cons i ids)
  have "safe self (try_invoke H h (\<lambda>env. get_escrow i))"
  proof (rule safe_invoke [OF assms])
    fix env w x w' assume e: "legit self env" "reachable self w" "get_escrow i w = Inr (x, w')"
    then show "reachable self w'"
      using reachable.called [of self w env "View (VGetEscrow i)" w'] by simp
  qed
  with Cons show ?case by (auto intro: safe_control)
qed (simp add: safe_return)

lemma keeps_batch_assertions:
  assumes "h_contract h = self" "list_all (\<lambda>x. in_amount x \<le> i128_max) xs"
  shows "keeps self (State_Monad.bind (try_invoke H h (\<lambda>env. batch_create_escrow env caller xs))
    (batch_assertions H h (length xs))) (\<lambda>ok. ok)" (is "keeps self ?m _")
  unfolding keeps_def
proof (intro allI impI)
  fix s :: fuzz assume r: "reachable self (fz_world s)"
  let ?r = "batch_create_escrow (fuzz_env H self (fz_now s)) caller xs (fz_world s)"
  show "fst (run_state ?m s) \<and> reachable self (fz_world (snd (run_state ?m s)))"
  proof (cases ?r)
    case (Inl f)
    with r assms(1) show ?thesis by (simp add: try_invoke_def batch_assertions_def)
  next
    case (Inr y)
    obtain ids w' where y: "?r = Inr (ids, w')" using Inr by (cases y) simp
    have "reachable self w'"
      using reachable.called [OF r, of "fuzz_env H self (fz_now s)" "BatchCreate caller xs" w'] assms(2) y
      by simp
    with batch_create_stores [OF y assms(2)] assms(1) y read_back safe_all_readable [OF assms(1), of H ids]
    show ?thesis by (simp add: try_invoke_def keeps_def batch_assertions_def)
  qed
qed

lemma keeps_batch_target:
  assumes "h_contract h = self"
  shows "keeps self (fuzz_batch_create_escrow H h) (\<lambda>ok. ok)"
  unfolding fuzz_batch_create_escrow_def
proof (rule safe_bind [OF safe_derived(2)])
  fix n
  show "keeps self (State_Monad.bind (collect_n n (read_input H h)) (\<lambda>escrows.
      State_Monad.bind (read_actor h) (\<lambda>caller.
      State_Monad.bind (try_invoke H h (\<lambda>env. batch_create_escrow env caller escrows))
        (batch_assertions H h n)))) (\<lambda>ok. ok)"
    by (rule keeps_bind [OF keeps_collect_n [OF keeps_read_input [OF assms]]],
        rule safe_bind [OF safe_derived(6)]) (use keeps_batch_assertions [OF assms] in auto)
qed

lemma safe_target_run:
  assumes "h_contract h = self"
  shows "safe self (target_run H h t)"
proof (cases t)
  case TBatchCreateEscrow
  then show ?thesis
    using keeps_bind [OF keeps_batch_target [OF assms], of "\<lambda>_. done_with ()" "\<lambda>_. True" H]
    by (simp add: safe_return)
qed (use assms in \<open>simp_all add: safe_targets safe_creating_targets safe_create_target safe_basket_target\<close>)

section \<open>Whole runs\<close>

text \<open>
  What the harness relies on: the first two addresses the host generates differ and are not the
  zero account.
\<close>

definition fresh_addresses :: "fuzz_host \<Rightarrow> bool" where
  "fresh_addresses H \<longleftrightarrow> fh_address H 0 \<noteq> fh_address H 1 \<and> fh_address H 0 \<noteq> zero_address \<and>
    fh_address H 1 \<noteq> zero_address"

abbreviation fuzz_self :: "fuzz_host \<Rightarrow> address" where
  "fuzz_self H \<equiv> fh_address H 8"

lemma new_harness_run:
  assumes "fresh_addresses H"
  shows "\<exists>h s. run_state (new_harness H) (fuzz_start data) = (h, s) \<and> h_contract h = fuzz_self H \<and>
    reachable (fuzz_self H) (fz_world s)"
proof -
  let ?env = "fuzz_env H (fuzz_self H) 0"
  have "validate_arbitration_fee_bps 0 = Inr ()"
    by (simp add: validate_arbitration_fee_bps_def)
  then obtain w where "initialize ?env (fh_address H 0) (fh_address H 1) 0 fresh_world = Inr w"
    using assms by (simp add: initialize_def fresh_addresses_def fresh_world_def empty_instance_def Let_def)
  moreover from this have "reachable (fuzz_self H) w" by (rule reachable.deployed)
  ultimately show ?thesis
    by (simp add: new_harness_def generate_def fuzz_start_def ignore_def try_call_def try_invoke_def
        Let_def eval_nat_numeral)
qed

text \<open>
  Fuzzing explores the modelled system only: whatever bytes a fuzz target is run on, and whatever
  the tokens do, it ends in a reachable world of the contract, so that every invariant proved for
  reachable worlds holds after each of its runs; in particular the contract stays solvent.
\<close>

theorem fuzz_runs_reachable:
  assumes "fresh_addresses H"
  shows "reachable (fuzz_self H) (fz_world (fuzz_final H t data)) \<and>
    owed tk (fz_world (fuzz_final H t data)) \<le>
      custody_of (fuzz_self H) tk (map fst (w_xfers (fz_world (fuzz_final H t data))))"
proof -
  obtain h s where h: "run_state (new_harness H) (fuzz_start data) = (h, s)"
    "h_contract h = fuzz_self H" "reachable (fuzz_self H) (fz_world s)"
    using new_harness_run [OF assms] by blast
  then have "reachable (fuzz_self H) (fz_world (fuzz_final H t data))"
    using safe_target_run [OF h(2), of H t] by (simp add: fuzz_final_def keeps_def)
  with invD(4) [OF reachable_inv] show ?thesis by blast
qed

text \<open>A host for the examples: numbered addresses, tokens that accept, the low bit of a byte.\<close>

definition demo_host :: fuzz_host where
  "demo_host = \<lparr>fh_address = (\<lambda>n. CHR ''a'' # replicate n CHR ''x''), fh_reauth = False, fh_token_ok = (\<lambda>_ _. True),
     fh_arbitrary_bool = (\<lambda>bs. Some (odd (unat (hd bs)))), fh_params_hash = (\<lambda>_. []),
     fh_wasm_ok = (\<lambda>_. False)\<rparr>"

lemma demo_host_zero: "fh_address demo_host n \<noteq> zero_address"
  by (simp add: demo_host_def zero_address_def ZERO_ADDRESS_STR_def)

lemma demo_host_fresh: "fresh_addresses demo_host"
  using demo_host_zero [of 0] demo_host_zero [of 1] by (simp add: fresh_addresses_def) (simp add: demo_host_def)

theorem fuzz_runs_reachable_witness:
  "reachable (fuzz_self demo_host) (fz_world (fuzz_final demo_host TAutoRelease [1, 2, 3]))"
  using fuzz_runs_reachable [OF demo_host_fresh, of TAutoRelease "[1, 2, 3]" "''usdc''"] by simp

section \<open>The assertions of the targets\<close>

lemma fee_assertions_hold:
  assumes "0 \<le> amount" "amount \<le> i128_max"
  shows "fee_assertions amount bps"
proof -
  have "calculate_fee amount 0 = Inr 0"
    using calculate_fee_eq [OF assms, of 0] by simp
  moreover have "0 \<le> fee \<and> fee \<le> amount" if "calculate_fee amount bps = Inr fee" for fee
    using calculate_fee_Inr [OF that assms(2)] by simp
  moreover have "fee + net = amount \<and> 0 \<le> fee \<and> 0 \<le> net"
    if "calculate_protocol_fee amount bps = Inr (fee, net)" for fee net
    using calculate_protocol_fee_Inr [OF that assms(2)] by simp
  ultimately show ?thesis by (auto simp: fee_assertions_def split: sum.split)
qed

text \<open>
  C38. The assertions the fuzz targets state can never fail, on any input: a batch that succeeds returns
  one id per entry, each of which can be read back, and the fee functions return a fee between zero
  and the amount, a net amount that completes it, and zero at rate zero.
\<close>

theorem fuzz_assertions_hold:
  assumes "fresh_addresses H"
  shows "fst (run_state (do { h \<leftarrow> new_harness H; fuzz_batch_create_escrow H h }) (fuzz_start data)) \<and>
    fst (run_state fuzz_fee_calculation (fuzz_start data))"
proof
  obtain h s where h: "run_state (new_harness H) (fuzz_start data) = (h, s)"
    "h_contract h = fuzz_self H" "reachable (fuzz_self H) (fz_world s)"
    using new_harness_run [OF assms] by blast
  with keeps_batch_target [OF h(2), of H]
  show "fst (run_state (do { h \<leftarrow> new_harness H; fuzz_batch_create_escrow H h }) (fuzz_start data))"
    by (simp add: keeps_def)
  show "fst (run_state fuzz_fee_calculation (fuzz_start data))"
  proof -
    obtain buf s where "run_state (fill 16) (fuzz_start data) = (buf, s)" by (cases "run_state (fill 16) (fuzz_start data)")
    moreover obtain bps s' where "run_state read_u32 s = (bps, s')" by (cases "run_state read_u32 s")
    moreover have "sint (word_of_int (be_int buf) :: 128 word) \<le> i128_max"
      using sint_lt [of "word_of_int (be_int buf) :: 128 word"] by (simp add: i128_max_def)
    ultimately show ?thesis
      using fee_assertions_hold by (simp add: fuzz_fee_calculation_def read_i128_def)
  qed
qed

theorem fuzz_assertions_hold_witness:
  "fst (run_state (do { h \<leftarrow> new_harness demo_host; fuzz_batch_create_escrow demo_host h })
    (fuzz_start [2, 1, 1, 0, 1]))"
  using fuzz_assertions_hold [OF demo_host_fresh, of "[2, 1, 1, 0, 1]"] by blast

section \<open>The targets reach the code they are meant to exercise\<close>

definition harness_inst :: "address \<Rightarrow> address \<Rightarrow> instance_storage" where
  "harness_inst admin collector = empty_instance\<lparr>i_admin := Some admin, i_escrow_counter := Some 1,
     i_storage_version := Some STORAGE_VERSION, i_global_config := Some (default_global_config
       \<lparr>g_fee_collector := Some collector, g_arbitration_fee_bps := 0\<rparr>)\<rparr>"

lemma harness_init:
  assumes "admin \<noteq> collector" "admin \<noteq> zero_address" "collector \<noteq> zero_address"
  shows "\<exists>w. initialize env admin collector 0 fresh_world = Inr w \<and>
    w_inst w = harness_inst admin collector \<and> w_pers w = empty_persistent \<and> w_xfers w = []"
  using assms
  by (simp add: initialize_def validate_arbitration_fee_bps_def fresh_world_def harness_inst_def
      Let_def empty_instance_def inst_update_def)

definition valid_escrow :: "address \<Rightarrow> address \<Rightarrow> address \<Rightarrow> address \<Rightarrow> Escrow" where
  "valid_escrow seller buyer resolver token = \<lparr>e_payees = [\<lparr>p_address = seller, p_bps = 10000\<rparr>],
     e_buyer = Some buyer, e_resolvers = Single resolver, e_token = token,
     e_amount = 1000000, e_fee_bps = 50, e_resolver_fee_bps = 0, e_shipping_window = 86400,
     e_packed_timestamps = 0, e_shipped_at = 0, e_delivered_at = None, e_tracking_id = None,
     e_state = Pending, e_notes = [], e_expires_at = None, e_grace_period = 0\<rparr>"

definition valid_pers :: "address \<Rightarrow> address \<Rightarrow> address \<Rightarrow> address \<Rightarrow> persistent_storage" where
  "valid_pers seller buyer resolver token = empty_persistent
    \<lparr>p_escrow := [1 \<mapsto> valid_escrow seller buyer resolver token], p_history := [1 \<mapsto> [0]],
     p_shard := (\<lambda>_ _. None)(0 := [1 \<mapsto> 1]), p_ids := [DK_VendorEscrow seller 0 \<mapsto> [1]],
     p_counts := [DK_VendorEscrowCount seller \<mapsto> 1]\<rparr>"

lemma harness_create:
  assumes "w_inst w = harness_inst admin collector" "w_pers w = empty_persistent" "w_xfers w = []"
    "distinct [seller, buyer, resolver, self]" "zero_address \<notin> {seller, buyer, resolver}"
  shows "\<exists>w'. create_escrow (fuzz_env H self 0)
     (VPayees [\<lparr>p_address = seller, p_bps = 10000\<rparr>]) (Some buyer) resolver tk 1000000 50 0 86400 None w
     = Inr (1, w') \<and> w_inst w' = (harness_inst admin collector)\<lparr>i_escrow_counter := Some 2\<rparr> \<and>
     w_pers w' = valid_pers seller buyer resolver tk \<and> w_xfers w' = []"
  using assms
  by (simp add: create_escrow_def create_escrow_internal_def run_defs valid_escrow_def valid_pers_def
      harness_inst_def default_global_config_def bump_shard_def shard_bucket_def fuzz_env_def
      cong: bindE_weak_cong) auto

lemma harness_fund:
  assumes "w_inst w = (harness_inst admin collector)\<lparr>i_escrow_counter := Some 2\<rparr>"
    "w_pers w = valid_pers seller buyer resolver tk" "w_xfers w = []"
    "distinct [seller, buyer, resolver, self]"
    "fh_token_ok H [] \<lparr>tr_token = tk, tr_from = buyer, tr_to = self, tr_amount = 1000000\<rparr>"
  shows "\<exists>w'. fund_escrow (fuzz_env H self 0) 1 buyer w = Inr w' \<and> e_state (escrow_at w' 1) = Funded"
  using assms
  by (simp add: fund_escrow_def run_defs valid_escrow_def valid_pers_def harness_inst_def 
      default_global_config_def fuzz_env_def escrow_at_def cong: bindE_weak_cong) auto

text \<open>
  The harness is not vacuous: with distinct generated addresses and a token that lets the buyer
  deposit, \<open>create_funded_escrow\<close> succeeds on every input, so the targets that begin with it never
  return early; the escrow has id 1 and is Funded.
\<close>

theorem harness_reaches_funded:
  assumes "distinct (map (fh_address H) [0..<9])" "zero_address \<notin> fh_address H ` {0..<9}"
    "fh_token_ok H [] \<lparr>tr_token = fh_address H 7, tr_from = fh_address H 3, tr_to = fuzz_self H,
       tr_amount = VALID_AMOUNT\<rparr>"
  shows "\<exists>s. run_state (do { h \<leftarrow> new_harness H; create_funded_escrow H h }) (fuzz_start data) = (Some 1, s) \<and>
    e_state (escrow_at (fz_world s) 1) = Funded"
proof -
  let ?a = "fh_address H" and ?env = "fuzz_env H (fuzz_self H) 0"
  have d: "?a 0 \<noteq> ?a 1" "distinct [?a 2, ?a 3, ?a 4, ?a 8]"
    using assms(1) by (simp_all add: upt_rec eval_nat_numeral)
  have z: "?a n \<noteq> zero_address" if "n < 9" for n
    using assms(2) that by force
  obtain w0 where w0: "initialize ?env (?a 0) (?a 1) 0 fresh_world = Inr w0"
    "w_inst w0 = harness_inst (?a 0) (?a 1)" "w_pers w0 = empty_persistent" "w_xfers w0 = []"
    using harness_init [of "?a 0" "?a 1" ?env] d(1) z by auto
  have "zero_address \<notin> {?a 2, ?a 3, ?a 4}" using z [of 2] z [of 3] z [of 4] by auto
  from harness_create [OF w0(2-4) d(2) this, of H "?a 7"] obtain w1 where w1:
    "create_escrow ?env (VPayees [\<lparr>p_address = ?a 2, p_bps = 10000\<rparr>]) (Some (?a 3)) (?a 4) (?a 7)
       1000000 50 0 86400 None w0 = Inr (1, w1)"
    "w_inst w1 = (harness_inst (?a 0) (?a 1))\<lparr>i_escrow_counter := Some 2\<rparr>"
    "w_pers w1 = valid_pers (?a 2) (?a 3) (?a 4) (?a 7)" "w_xfers w1 = []" by blast
  from harness_fund [OF w1(2-4) d(2), of H] assms(3) obtain w2 where
    "fund_escrow ?env 1 (?a 3) w1 = Inr w2" "e_state (escrow_at w2 1) = Funded"
    by (auto simp: VALID_AMOUNT_def)
  with w0(1) w1(1) show ?thesis
    by (simp add: new_harness_def create_funded_escrow_def create_valid_escrow_def payees_def
        generate_def fuzz_start_def ignore_def try_call_def try_create_def try_invoke_def Let_def
        VALID_AMOUNT_def VALID_FEE_BPS_def VALID_SHIPPING_WINDOW_def eval_nat_numeral)
qed

lemma demo_host_addresses:
  "distinct (map (fh_address demo_host) [0..<9])" "zero_address \<notin> fh_address demo_host ` {0..<9}"
  "fh_token_ok demo_host ts t"
proof -
  have "inj (fh_address demo_host)"
    by (rule injI) (simp add: demo_host_def)
  then show "distinct (map (fh_address demo_host) [0..<9])"
    by (simp add: distinct_map inj_on_subset [OF _ subset_UNIV])
  show "zero_address \<notin> fh_address demo_host ` {0..<9}"
    using demo_host_zero by (metis imageE)
qed (simp add: demo_host_def)

theorem harness_reaches_funded_witness:
  "fst (run_state (do { h \<leftarrow> new_harness demo_host; create_funded_escrow demo_host h }) (fuzz_start [])) =
    Some 1"
  using harness_reaches_funded [OF demo_host_addresses(1,2), of "[]"] demo_host_addresses(3) by fastforce

end
