(* ===== verification/Fuzz_Inputs.thy ===== *)
theory Fuzz_Inputs
  imports Fuzz_Facts
begin

text \<open>
  The inputs of the fuzz targets.  The readers of \<open>Fuzz_Harness\<close> are given a relational
  specification (which bytes they take and what they make of them), calls are shown to read no
  input, and from the two each of four targets is run on inputs written out byte by byte.
\<close>

section \<open>Bytes and readers\<close>

text \<open>A number in \<open>n\<close> bytes, the most significant first, a negative one in two's complement.\<close>

fun be_bytes :: "nat \<Rightarrow> int \<Rightarrow> bytes" where
  "be_bytes 0 x = []"
| "be_bytes (Suc n) x = be_bytes n (x div 256) @ [word_of_int x]"

lemma length_be_bytes [simp]: "length (be_bytes n x) = n"
  by (induction n arbitrary: x) simp_all



definition skip_bytes :: "nat \<Rightarrow> fuzz \<Rightarrow> fuzz" where
  "skip_bytes n s = s\<lparr>fz_pos := fz_pos s + n\<rparr>"


lemma skip_bytes_simps [simp]:
  "skip_bytes 0 s = s" "skip_bytes m (skip_bytes n s) = skip_bytes (n + m) s"
  "fz_world (skip_bytes n s) = fz_world s" "fz_now (skip_bytes n s) = fz_now s"
  by (simp_all add: skip_bytes_def add.assoc)






















section \<open>Calls\<close>





























section \<open>The targets\<close>



















end
