(* ===== verification/Test_Setters.thy ===== *)
theory Test_Setters
  imports Admin
begin

unbundle bit_operations_syntax

text \<open>
  The immediate setters of \<open>src/contracts/escrow/src/admin.rs\<close> that exist only in test builds
  (\<open>cfg(test)\<close> or the feature \<open>testutils\<close>), under the names of the source with the prefix \<open>test_\<close>.
  They are not calls of the deployed contract; what is shown of them is that the tests they serve
  exercise the behaviour of the production path.
\<close>

section \<open>The setters\<close>

definition MAX_PROTOCOL_FEE_BPS :: u32 where [const_defs]: "MAX_PROTOCOL_FEE_BPS = 500"

definition test_set_appeal_fee :: "env \<Rightarrow> address \<Rightarrow> u32 \<Rightarrow> world \<Rightarrow> world res" where
  "test_set_appeal_fee env caller fee_bps w =
    bindE (require_auth env caller) (\<lambda>_.
    bindE (require_admin w) (\<lambda>admin.
    if caller \<noteq> admin then fail NotAuthorized
    else bindE (validate_appeal_fee_bps fee_bps) (\<lambda>_.
    let old_fee = read_appeal_fee_bps w
    in Inr (publish (emit_appeal_fee_updated env old_fee fee_bps)
              (write_appeal_fee_bps fee_bps w)))))"

definition test_set_admin :: "env \<Rightarrow> address \<Rightarrow> world \<Rightarrow> world res" where
  "test_set_admin env new_admin w =
    bindE (require_admin w) (\<lambda>old_admin.
    bindE (require_auth env old_admin) (\<lambda>_.
    if new_admin = old_admin then fail SameAddress
    else Inr (publish (emit_admin_rotated env old_admin new_admin)
                (inst_update (i_admin_update (\<lambda>_. Some new_admin)) w))))"

definition test_set_fee :: "env \<Rightarrow> address \<Rightarrow> u32 \<Rightarrow> world \<Rightarrow> world res" where
  "test_set_fee env caller fee w =
    bindE (require_admin w) (\<lambda>admin.
    bindE (require_auth env caller) (\<lambda>_.
    if caller \<noteq> admin then fail NotAuthorized
    else if MAX_PROTOCOL_FEE_BPS < fee then fail ProtocolFeeExceedsMax
    else
    let config = read_fee_config w in
    bindE (validate_combined_fees fee (f_arbitration_fee_bps config)) (\<lambda>_.
    Inr (write_fee_config (config\<lparr>f_protocol_fee_bps := fee\<rparr>) w))))"

definition test_set_protocol_fee :: "env \<Rightarrow> address \<Rightarrow> u32 \<Rightarrow> world \<Rightarrow> world res" where
  "test_set_protocol_fee env caller fee w =
    bindE (require_admin w) (\<lambda>admin.
    bindE (require_auth env caller) (\<lambda>_.
    if caller \<noteq> admin then fail NotAuthorized
    else if MAX_PROTOCOL_FEE_BPS < fee then fail ProtocolFeeExceedsMax
    else
    let config = read_fee_config w in
    bindE (validate_combined_fees fee (f_arbitration_fee_bps config)) (\<lambda>_.
    let old_fee = f_protocol_fee_bps config;
        w1 = write_fee_config (config\<lparr>f_protocol_fee_bps := fee\<rparr>) w
    in Inr (publish (emit_protocol_fee_updated env old_fee fee) w1))))"

definition test_set_ttl_extension :: "env \<Rightarrow> address \<Rightarrow> u32 \<Rightarrow> world \<Rightarrow> world res" where
  "test_set_ttl_extension env caller extension_seconds w =
    bindE (require_admin w) (\<lambda>admin.
    bindE (require_auth env caller) (\<lambda>_.
    if caller \<noteq> admin then fail NotAuthorized
    else if \<not> (MIN_TTL_EXTENSION \<le> extension_seconds \<and> extension_seconds \<le> MAX_TTL_EXTENSION)
    then fail InvalidTtlExtension
    else
    let old_ledgers = get_ttl_extension w
    in Inr (publish (emit_ttl_extension_updated env old_ledgers extension_seconds caller)
              (update_global_config
                 (\<lambda>c. c\<lparr>g_ttl_extension_ledgers := extension_seconds\<rparr>) w))))"

definition test_pause_contract :: "env \<Rightarrow> address \<Rightarrow> world \<Rightarrow> world res" where
  "test_pause_contract env caller w =
    bindE (require_admin w) (\<lambda>admin.
    bindE (require_auth env caller) (\<lambda>_.
    if caller \<noteq> admin then fail NotAuthorized
    else Inr (publish (emit_contract_paused env admin)
                (update_global_config
                   (\<lambda>c. c\<lparr>g_state_flags := g_state_flags c OR GLOBAL_CONFIG_FLAG_PAUSED\<rparr>) w))))"

definition test_unpause_contract :: "env \<Rightarrow> address \<Rightarrow> world \<Rightarrow> world res" where
  "test_unpause_contract env caller w =
    bindE (require_admin w) (\<lambda>admin.
    bindE (require_auth env caller) (\<lambda>_.
    if caller \<noteq> admin then fail NotAuthorized
    else Inr (publish (emit_contract_unpaused env admin)
                (update_global_config
                   (\<lambda>c. c\<lparr>g_state_flags := g_state_flags c AND NOT GLOBAL_CONFIG_FLAG_PAUSED\<rparr>) w))))"

definition test_set_amount_limits :: "env \<Rightarrow> address \<Rightarrow> int \<Rightarrow> int \<Rightarrow> world \<Rightarrow> world res" where
  "test_set_amount_limits env caller min_amount max_amount w =
    bindE (require_admin w) (\<lambda>admin.
    bindE (require_auth env caller) (\<lambda>_.
    if caller \<noteq> admin then fail NotAuthorized
    else
    let config = read_global_config w
    in Inr (publish (emit_amount_limits_updated env (g_min_amount config) min_amount
                       (g_max_amount config) max_amount caller)
              (write_global_config
                 (config\<lparr>g_min_amount := min_amount, g_max_amount := max_amount\<rparr>) w))))"

definition test_set_resolver_strict :: "env \<Rightarrow> address \<Rightarrow> bool \<Rightarrow> world \<Rightarrow> world res" where
  "test_set_resolver_strict env caller strict w =
    bindE (require_admin w) (\<lambda>admin.
    bindE (require_auth env caller) (\<lambda>_.
    if caller \<noteq> admin then fail NotAuthorized
    else
    let old_strict = flag_set (g_state_flags (read_global_config w))
                       GLOBAL_CONFIG_FLAG_RESOLVER_STRICT
    in Inr (publish (emit_resolver_strict_updated env old_strict strict caller)
              (update_global_config (\<lambda>c.
                 if strict
                 then c\<lparr>g_state_flags := g_state_flags c OR GLOBAL_CONFIG_FLAG_RESOLVER_STRICT\<rparr>
                 else c\<lparr>g_state_flags :=
                   g_state_flags c AND NOT GLOBAL_CONFIG_FLAG_RESOLVER_STRICT\<rparr>) w))))"

definition test_add_approved_resolver :: "env \<Rightarrow> address \<Rightarrow> address \<Rightarrow> world \<Rightarrow> world res" where
  "test_add_approved_resolver env caller resolver w =
    bindE (require_admin w) (\<lambda>admin.
    bindE (require_auth env caller) (\<lambda>_.
    if caller \<noteq> admin then fail NotAuthorized
    else
    let approved = unwrap_or (i_approved_resolvers (w_inst w)) []
    in Inr (if \<not> contains approved resolver
            then publish (emit_resolver_approved env resolver caller)
                   (inst_update (i_approved_resolvers_update
                      (\<lambda>_. Some (approved @ [resolver]))) w)
            else w)))"

text \<open>The loop of \<open>remove_approved_resolver\<close>: the entries kept, and whether one was dropped.\<close>

fun keep_others :: "address \<Rightarrow> address list \<Rightarrow> address list \<times> bool \<Rightarrow> address list \<times> bool" where
  "keep_others resolver [] acc = acc"
| "keep_others resolver (a # approved) (new_approved, removed) =
    keep_others resolver approved
      (if a \<noteq> resolver then (new_approved @ [a], removed) else (new_approved, True))"

definition test_remove_approved_resolver :: "env \<Rightarrow> address \<Rightarrow> address \<Rightarrow> world \<Rightarrow> world res" where
  "test_remove_approved_resolver env caller resolver w =
    bindE (require_admin w) (\<lambda>admin.
    bindE (require_auth env caller) (\<lambda>_.
    if caller \<noteq> admin then fail NotAuthorized
    else
    let approved = unwrap_or (i_approved_resolvers (w_inst w)) [] in
    if \<not> contains approved resolver then fail InvalidAddress
    else
    let (new_approved, removed) = keep_others resolver approved ([], False);
        w1 = inst_update (i_approved_resolvers_update (\<lambda>_. Some new_approved)) w
    in Inr (if removed then publish (emit_resolver_removed env resolver caller) w1 else w1)))"

definition test_get_approved_resolvers :: "world \<Rightarrow> address list" where
  "test_get_approved_resolvers w = unwrap_or (i_approved_resolvers (w_inst w)) []"

definition test_is_resolver_strict :: "world \<Rightarrow> bool" where
  "test_is_resolver_strict w \<longleftrightarrow>
    flag_set (g_state_flags (read_global_config w)) GLOBAL_CONFIG_FLAG_RESOLVER_STRICT"

definition test_upgrade :: "env \<Rightarrow> address \<Rightarrow> bytes \<Rightarrow> world \<Rightarrow> world res" where
  "test_upgrade env caller new_wasm_hash w =
    bindE (require_admin w) (\<lambda>admin.
    bindE (require_auth env caller) (\<lambda>_.
    if caller \<noteq> admin then fail NotAuthorized
    else if \<not> env_wasm_ok env new_wasm_hash then panic HostError
    else Inr (w\<lparr>w_wasm := w_wasm w @ [new_wasm_hash]\<rparr>)))"

section \<open>Test builds exercise the production behaviour\<close>

lemma keep_others_filter:
  "keep_others r as (kept, removed) = (kept @ filter (\<lambda>a. a \<noteq> r) as, removed \<or> r \<in> set as)"
  by (induction as arbitrary: kept removed) auto

text \<open>
  Every test setter that has a timelocked counterpart does, for the signed admin, exactly what
  the execution of that operation does once its proposal was accepted; for anybody else it
  changes nothing.
\<close>

definition signed_admin :: "env \<Rightarrow> address \<Rightarrow> world \<Rightarrow> bool" where
  "signed_admin env caller w \<longleftrightarrow> i_admin (w_inst w) = Some caller \<and> env_auth env caller"

lemma admin_then_auth_if:
  "bindE (require_admin w) (\<lambda>admin. bindE (require_auth env c) (\<lambda>_.
     if c \<noteq> admin then fail NotAuthorized else k admin)) = Inr w' \<longleftrightarrow>
   signed_admin env c w \<and> k c = Inr w'"
  by (auto simp: signed_admin_def require_admin_def ok_or_err_def ok_or_def split: option.splits)

lemma auth_then_admin_if:
  "bindE (require_auth env c) (\<lambda>_. bindE (require_admin w) (\<lambda>admin.
     if c \<noteq> admin then fail NotAuthorized else k admin)) = Inr w' \<longleftrightarrow>
   signed_admin env c w \<and> k c = Inr w'"
  by (auto simp: signed_admin_def require_admin_def ok_or_err_def ok_or_def split: option.splits)

lemma require_admin_signed: "signed_admin env c w \<Longrightarrow> require_admin w = Inr c"
  by (simp add: signed_admin_def require_admin_def ok_or_err_def ok_or_def)

theorem test_setters_agree:
  "(test_pause_contract env c w = Inr w' \<longleftrightarrow>
      signed_admin env c w \<and> apply_pause_contract env c w = Inr w') \<and>
   (test_unpause_contract env c w = Inr w' \<longleftrightarrow>
      signed_admin env c w \<and> apply_unpause_contract env c w = Inr w') \<and>
   (test_set_ttl_extension env c n w = Inr w' \<longleftrightarrow>
      signed_admin env c w \<and> apply_set_ttl_extension env c n w = Inr w') \<and>
   (test_set_resolver_strict env c b w = Inr w' \<longleftrightarrow>
      signed_admin env c w \<and> apply_set_resolver_strict env c b w = Inr w') \<and>
   (test_add_approved_resolver env c a w = Inr w' \<longleftrightarrow>
      signed_admin env c w \<and> apply_add_approved_resolver env c a w = Inr w') \<and>
   (test_remove_approved_resolver env c a w = Inr w' \<longleftrightarrow>
      signed_admin env c w \<and> apply_remove_approved_resolver env c a w = Inr w') \<and>
   (test_set_appeal_fee env c n w = Inr w' \<longleftrightarrow>
      signed_admin env c w \<and> apply_set_appeal_fee env c n w = Inr w')"
proof (intro conjI)
  show "test_pause_contract env c w = Inr w' \<longleftrightarrow>
      signed_admin env c w \<and> apply_pause_contract env c w = Inr w'"
    unfolding test_pause_contract_def admin_then_auth_if
    by (auto simp: apply_pause_contract_def require_admin_signed set_flag_def)
  show "test_unpause_contract env c w = Inr w' \<longleftrightarrow>
      signed_admin env c w \<and> apply_unpause_contract env c w = Inr w'"
    unfolding test_unpause_contract_def admin_then_auth_if
    by (auto simp: apply_unpause_contract_def require_admin_signed set_flag_def)
  show "test_set_ttl_extension env c n w = Inr w' \<longleftrightarrow>
      signed_admin env c w \<and> apply_set_ttl_extension env c n w = Inr w'"
    unfolding test_set_ttl_extension_def admin_then_auth_if
    by (simp add: apply_set_ttl_extension_def)
  show "test_set_resolver_strict env c b w = Inr w' \<longleftrightarrow>
      signed_admin env c w \<and> apply_set_resolver_strict env c b w = Inr w'"
    unfolding test_set_resolver_strict_def admin_then_auth_if
    by (cases b) (simp_all add: apply_set_resolver_strict_def set_flag_def)
  show "test_add_approved_resolver env c a w = Inr w' \<longleftrightarrow>
      signed_admin env c w \<and> apply_add_approved_resolver env c a w = Inr w'"
    unfolding test_add_approved_resolver_def admin_then_auth_if
    by (simp add: apply_add_approved_resolver_def Let_def)
  show "test_remove_approved_resolver env c a w = Inr w' \<longleftrightarrow>
      signed_admin env c w \<and> apply_remove_approved_resolver env c a w = Inr w'"
    unfolding test_remove_approved_resolver_def admin_then_auth_if
    by (simp add: apply_remove_approved_resolver_def Let_def keep_others_filter)
  show "test_set_appeal_fee env c n w = Inr w' \<longleftrightarrow>
      signed_admin env c w \<and> apply_set_appeal_fee env c n w = Inr w'"
    unfolding test_set_appeal_fee_def auth_then_admin_if
    by (simp add: apply_set_appeal_fee_def)
qed

lemma map_sum_bindE: "map_sum id f (bindE m k) = bindE m (\<lambda>x. map_sum id f (k x))"
  by (cases m) simp_all

text \<open>
  The two fee setters keep the protocol fee within its own cap and, with the arbitration fee,
  within the combined one; they differ in the event only.
\<close>

lemma test_fee_setters:
  "test_set_fee env c fee w = Inr w' \<longleftrightarrow>
     signed_admin env c w \<and> fee \<le> 500 \<and>
     uint fee + uint (f_arbitration_fee_bps (read_fee_config w)) \<le> 1000 \<and>
     w' = write_fee_config ((read_fee_config w)\<lparr>f_protocol_fee_bps := fee\<rparr>) w"
  "test_set_protocol_fee env c fee w = map_sum id
     (publish (emit_protocol_fee_updated env (f_protocol_fee_bps (read_fee_config w)) fee))
     (test_set_fee env c fee w)"
proof -
  have v: "validate_combined_fees fee a = Inr () \<longleftrightarrow> uint fee + uint a \<le> 1000" for a
    using uint_lt2p [of fee] uint_lt2p [of a]
    by (auto simp: validate_combined_fees_def ok_or_err_def ok_or_def word_checked_add_def
        const_defs word_le_def word_less_def uint_word_ariths split: if_splits option.splits)
  show "test_set_fee env c fee w = Inr w' \<longleftrightarrow>
     signed_admin env c w \<and> fee \<le> 500 \<and>
     uint fee + uint (f_arbitration_fee_bps (read_fee_config w)) \<le> 1000 \<and>
     w' = write_fee_config ((read_fee_config w)\<lparr>f_protocol_fee_bps := fee\<rparr>) w"
    unfolding test_set_fee_def admin_then_auth_if
    by (auto simp: Let_def v MAX_PROTOCOL_FEE_BPS_def not_less)
  show "test_set_protocol_fee env c fee w = map_sum id
     (publish (emit_protocol_fee_updated env (f_protocol_fee_bps (read_fee_config w)) fee))
     (test_set_fee env c fee w)"
    by (cases "require_admin w"; cases "env_auth env c")
      (simp_all add: test_set_protocol_fee_def test_set_fee_def Let_def map_sum_bindE
        require_auth_def)
qed

end
