(* ===== verification/Gas_Report.thy ===== *)
theory Gas_Report
  imports Prelude "HOL-Library.Char_ord" "HOL-Library.List_Lexorder"
begin

text \<open>
  The gas reports of the developer tool: \<open>src/xtask/src/gas/types.rs\<close>, \<open>parser.rs\<close> and \<open>table.rs\<close>.
  The output of the profiling tests is parsed into metrics, each is put in a category by its
  label, and the report sums them up and prints them as a table.  Text is ASCII; a \<open>u64\<close> sum that
  overflows panics (the tool is built in the development profile), which is the value \<open>None\<close>.
\<close>

section \<open>Text\<close>

text \<open>Of the standard library: \<open>trim\<close>, \<open>lines\<close>, \<open>split\<close>, \<open>contains\<close>, \<open>to_lowercase\<close>, \<open>parse::<u64>\<close>.\<close>

definition is_white :: "char \<Rightarrow> bool" where
  "is_white c \<longleftrightarrow> of_char c \<in> {9, 10, 11, 12, 13, 32 :: nat}"

definition trim :: "string \<Rightarrow> string" where
  "trim s = rev (dropWhile is_white (rev (dropWhile is_white s)))"

fun split_on :: "char \<Rightarrow> string \<Rightarrow> string list" where
  "split_on c [] = [[]]"
| "split_on c (x # xs) =
    (if x = c then [] # split_on c xs
     else (case split_on c xs of [] \<Rightarrow> [[x]] | p # ps \<Rightarrow> (x # p) # ps))"

definition newline :: char where "newline = CHR 0x0A"

definition strip_cr :: "string \<Rightarrow> string" where
  "strip_cr l = (if l \<noteq> [] \<and> last l = CHR 0x0D then butlast l else l)"

definition lines :: "string \<Rightarrow> string list" where
  "lines s = (let ls = split_on newline s
     in map strip_cr (if last ls = [] then butlast ls else ls))"

definition starts_with :: "string \<Rightarrow> string \<Rightarrow> bool" where
  "starts_with s p \<longleftrightarrow> take (length p) s = p"

fun contains_str :: "string \<Rightarrow> string \<Rightarrow> bool" where
  "contains_str [] p \<longleftrightarrow> p = []"
| "contains_str (x # xs) p \<longleftrightarrow> starts_with (x # xs) p \<or> contains_str xs p"

definition lower_char :: "char \<Rightarrow> char" where
  "lower_char c =
    (if 65 \<le> (of_char c :: nat) \<and> of_char c \<le> (90 :: nat) then char_of (of_char c + 32 :: nat) else c)"

definition to_lowercase :: "string \<Rightarrow> string" where
  "to_lowercase = map lower_char"

definition is_digit :: "char \<Rightarrow> bool" where
  "is_digit c \<longleftrightarrow> 48 \<le> (of_char c :: nat) \<and> of_char c \<le> (57 :: nat)"

definition digits_value :: "string \<Rightarrow> nat" where
  "digits_value s = foldl (\<lambda>n c. 10 * n + (of_char c - 48)) 0 s"

definition parse_u64 :: "string \<Rightarrow> u64 option" where
  "parse_u64 s =
    (let ds = (if s \<noteq> [] \<and> hd s = CHR ''+'' then tl s else s)
     in if ds = [] \<or> \<not> list_all is_digit ds \<or> 2 ^ 64 \<le> digits_value ds then None
        else Some (of_nat (digits_value ds)))"

section \<open>Metrics\<close>

record GasMetric =
  m_label :: string
  m_cpu_insns :: u64
  m_mem_bytes :: u64
  m_category :: string

record GasReport =
  r_generated_at :: u64
  r_version :: string
  r_total_samples :: nat
  r_total_cpu_insns :: u64
  r_total_mem_bytes :: u64
  r_metrics :: "GasMetric list"
  r_by_category :: "(string \<times> GasMetric list) list"

definition contains_any :: "string \<Rightarrow> string list \<Rightarrow> bool" where
  "contains_any s ps = list_ex (contains_str s) ps"

definition categorize :: "string \<Rightarrow> string" where
  "categorize label =
    (let lower = to_lowercase label in
     if contains_str lower ''view'' \<or> starts_with lower ''get_'' then ''views''
     else if contains_str lower ''create'' \<or> starts_with lower ''initialize'' then ''creation''
     else if contains_any lower [''cancel'', ''refund'', ''drain''] then ''cancel-refund''
     else if contains_any lower [''fund'', ''mark_shipped''] then ''lifecycle''
     else if contains_any lower [''confirm'', ''release'', ''auto_release'', ''co_signed'']
     then ''completion''
     else if contains_any lower [''dispute'', ''vote'', ''appeal'', ''finalize'', ''raise'', ''resolve'']
     then ''dispute''
     else if contains_any lower [''cancel'', ''refund'', ''drain''] then ''cancel-refund''
     else if contains_any lower [''admin'', ''fee'', ''pause'', ''set_'', ''rotate'']
     then ''admin-config''
     else if contains_any lower [''message'', ''batch'', ''multicall'', ''basket''] then ''advanced''
     else ''other'')"

definition parse_kv :: "string \<Rightarrow> u64 option" where
  "parse_kv s =
    (let tokens = split_on (CHR ''='') s
     in if length tokens \<le> 1 then None else parse_u64 (trim (tokens ! 1)))"

definition parse_line :: "string \<Rightarrow> GasMetric option" where
  "parse_line raw =
    (let line = trim raw in
     if \<not> starts_with line ''gas_profile |'' then None
     else
     let parts = split_on (CHR ''|'') line in
     if length parts < 4 then None
     else
     let label = trim (parts ! 1);
         cpu_part = trim (parts ! 2);
         mem_part = trim (parts ! 3)
     in (case parse_kv cpu_part of
           None \<Rightarrow> None
         | Some cpu \<Rightarrow> (case parse_kv mem_part of
             None \<Rightarrow> None
           | Some mem \<Rightarrow> Some \<lparr>m_label = label, m_cpu_insns = cpu, m_mem_bytes = mem,
                                m_category = categorize label\<rparr>)))"

definition parse_gas_output :: "string \<Rightarrow> GasMetric list" where
  "parse_gas_output stdout = List.map_filter parse_line (lines stdout)"

text \<open>\<open>Iterator::sum\<close> over \<open>u64\<close>, and the \<open>BTreeMap\<close> of vectors as a sorted list of entries.\<close>

fun sum_u64 :: "u64 list \<Rightarrow> u64 \<Rightarrow> u64 option" where
  "sum_u64 [] acc = Some acc"
| "sum_u64 (x # xs) acc = Option.bind (word_checked_add acc x) (sum_u64 xs)"

fun push_entry :: "GasMetric \<Rightarrow> (string \<times> GasMetric list) list \<Rightarrow> (string \<times> GasMetric list) list" where
  "push_entry m [] = [(m_category m, [m])]"
| "push_entry m ((k, ms) # entries) =
    (if m_category m = k then (k, ms @ [m]) # entries
     else if m_category m < k then (m_category m, [m]) # (k, ms) # entries
     else (k, ms) # push_entry m entries)"

definition build_report :: "u64 \<Rightarrow> string \<Rightarrow> GasMetric list \<Rightarrow> GasReport option" where
  "build_report now version metrics =
    Option.bind (sum_u64 (map m_cpu_insns metrics) 0) (\<lambda>total_cpu.
    Option.bind (sum_u64 (map m_mem_bytes metrics) 0) (\<lambda>total_mem.
    Some \<lparr>r_generated_at = now, r_version = version, r_total_samples = length metrics,
      r_total_cpu_insns = total_cpu, r_total_mem_bytes = total_mem, r_metrics = metrics,
      r_by_category = fold push_entry metrics []\<rparr>))"

section \<open>The table\<close>

text \<open>Formatting of the standard library: decimal numbers, \<open>{:<w}\<close> and \<open>{:>w}\<close>.\<close>

fun dec :: "nat \<Rightarrow> string" where
  "dec n = (if n < 10 then [char_of (48 + n)] else dec (n div 10) @ [char_of (48 + n mod 10)])"

declare dec.simps [simp del]

definition pad_right :: "nat \<Rightarrow> string \<Rightarrow> string" where
  "pad_right w s = s @ replicate (w - length s) CHR '' ''"

definition pad_left :: "nat \<Rightarrow> string \<Rightarrow> string" where
  "pad_left w s = replicate (w - length s) CHR '' '' @ s"

text \<open>One sample as the profiling tests print it (\<open>print_gas\<close> of \<open>test_gas_profile.rs\<close>).\<close>

definition print_gas :: "string \<Rightarrow> u64 \<Rightarrow> u64 \<Rightarrow> string" where
  "print_gas label cpu mem =
    ''gas_profile | '' @ pad_right 36 label @ '' | cpu='' @ pad_left 12 (dec (unat cpu)) @
    '' | mem='' @ pad_left 10 (dec (unat mem))"

definition table_row :: "string \<Rightarrow> string \<Rightarrow> string \<Rightarrow> string \<Rightarrow> string" where
  "table_row a b c d =
    pad_right 42 a @ '' | '' @ pad_left 14 b @ '' | '' @ pad_left 12 c @ '' | '' @ pad_right 16 d"

definition rule_row :: string where
  "rule_row = replicate 42 CHR ''-'' @ ''-+-'' @ replicate 14 CHR ''-'' @ ''-+-'' @
     replicate 12 CHR ''-'' @ ''-+-'' @ replicate 16 CHR ''-''"

definition shown :: "string option \<Rightarrow> string \<Rightarrow> bool" where
  "shown category_filter category \<longleftrightarrow>
    (case category_filter of None \<Rightarrow> True | Some f \<Rightarrow> starts_with category f)"

definition metric_row :: "GasMetric \<Rightarrow> string" where
  "metric_row m =
    table_row (m_label m) (dec (unat (m_cpu_insns m))) (dec (unat (m_mem_bytes m))) (m_category m)"

definition average :: "u64 \<Rightarrow> GasMetric list \<Rightarrow> u64" where
  "average n ms = (if ms = [] then 0 else n div of_nat (length ms))"

definition category_row :: "string \<Rightarrow> GasMetric list \<Rightarrow> string option" where
  "category_row cat ms =
    Option.bind (sum_u64 (map m_cpu_insns ms) 0) (\<lambda>sum_cpu.
    Option.bind (sum_u64 (map m_mem_bytes ms) 0) (\<lambda>sum_mem.
    Some (''Category ['' @ pad_right 12 cat @ ''] n='' @ pad_right 2 (dec (length ms)) @
      '' sum_cpu='' @ pad_left 12 (dec (unat sum_cpu)) @
      '' avg_cpu='' @ pad_left 10 (dec (unat (average sum_cpu ms))) @
      '' sum_mem='' @ pad_left 10 (dec (unat sum_mem)) @
      '' avg_mem='' @ pad_left 8 (dec (unat (average sum_mem ms))))))"

fun category_rows :: "string option \<Rightarrow> (string \<times> GasMetric list) list \<Rightarrow> string list option" where
  "category_rows category_filter [] = Some []"
| "category_rows category_filter ((cat, ms) # entries) =
    (if ms = [] then category_rows category_filter entries
     else if \<not> shown category_filter cat then category_rows category_filter entries
     else Option.bind (category_row cat ms) (\<lambda>row.
          Option.bind (category_rows category_filter entries) (\<lambda>rows. Some (row # rows))))"

definition print_table :: "GasReport \<Rightarrow> string option \<Rightarrow> string list option" where
  "print_table report category_filter =
    Option.bind (category_rows category_filter (r_by_category report)) (\<lambda>rows.
    Some ([[], ''=== Gas Profile Report ==='',
       ''Generated: '' @ dec (unat (r_generated_at report)) @
       '' | Samples: '' @ dec (r_total_samples report) @
       '' | Total CPU: '' @ dec (unat (r_total_cpu_insns report)) @
       '' | Total Mem: '' @ dec (unat (r_total_mem_bytes report)), [],
       table_row ''Operation'' ''CPU Insns'' ''Mem Bytes'' ''Category'', rule_row] @
      map metric_row (filter (\<lambda>m. shown category_filter (m_category m)) (r_metrics report)) @
      [[]] @ rows @ [''=== End Gas Report ==='', []]))"

section \<open>Reading back what the tests print\<close>

lemma split_on_other [simp]: "c \<notin> set a \<Longrightarrow> split_on c a = [a]"
  by (induction a) auto

lemma split_on_app [simp]: "c \<notin> set a \<Longrightarrow> split_on c (a @ c # b) = a # split_on c b"
  by (induction a) auto

lemma dropWhile_white_replicate: "dropWhile is_white (replicate n CHR '' '' @ s) = dropWhile is_white s"
  by (induction n) (simp_all add: is_white_def)

definition tidy :: "string \<Rightarrow> bool" where
  "tidy s \<longleftrightarrow> s \<noteq> [] \<and> \<not> is_white (hd s) \<and> \<not> is_white (last s)"

lemma dropWhile_hd: "s \<noteq> [] \<Longrightarrow> \<not> is_white (hd s) \<Longrightarrow> dropWhile is_white (s @ t) = s @ t"
  by (cases s) auto

lemma trim_padded: "tidy s \<Longrightarrow> trim (replicate m CHR '' '' @ s @ replicate n CHR '' '') = s"
proof -
  assume s: "tidy s"
  have "dropWhile is_white (rev s) = rev s"
    using s dropWhile_hd [of "rev s" "[]"] by (simp add: tidy_def hd_rev)
  then show ?thesis using s
    by (simp add: trim_def tidy_def dropWhile_white_replicate dropWhile_hd)
qed

lemma trim_tidy: "tidy s \<Longrightarrow> trim s = s"
  using trim_padded [of s 0 0] by simp

lemma dec_nonempty [simp]: "dec n \<noteq> []"
  by (subst dec.simps) simp

lemma digit_char: "d < 10 \<Longrightarrow> is_digit (char_of (48 + d :: nat)) \<and> (of_char (char_of (48 + d :: nat)) :: nat) = 48 + d"
  by (simp add: is_digit_def of_char_of)

lemma dec_digits: "list_all is_digit (dec n)"
  by (induction n rule: dec.induct) (subst dec.simps, simp add: digit_char)

lemma dec_value: "digits_value (dec n) = n"
proof (induction n rule: dec.induct)
  case (1 n)
  have m: "(of_char (char_of (48 + n mod 10) :: char) :: nat) = 48 + n mod 10"
    using digit_char [of "n mod 10"] by simp
  show ?case
  proof (cases "n < 10")
    case True
    then show ?thesis using digit_char [of n] by (subst dec.simps) (simp add: digits_value_def)
  next
    case False
    then show ?thesis using 1 m by (subst dec.simps) (simp add: digits_value_def)
  qed
qed

lemma digit_kinds: "is_digit c \<Longrightarrow> \<not> is_white c \<and> c \<notin> {CHR ''|'', CHR ''='', CHR ''+'', newline}"
  by (auto simp: is_digit_def is_white_def newline_def)

lemma dec_chars: "c \<in> set (dec n) \<Longrightarrow> \<not> is_white c \<and> c \<notin> {CHR ''|'', CHR ''='', CHR ''+'', newline}"
  using dec_digits [of n] digit_kinds by (auto simp: list_all_iff)

lemma tidy_dec: "tidy (dec n)"
  using dec_chars [of "hd (dec n)" n] dec_chars [of "last (dec n)" n] by (simp add: tidy_def)

lemma parse_dec: "parse_u64 (dec (unat x)) = Some x"
  using dec_chars [of "hd (dec (unat x))" "unat x"] dec_digits [of "unat x"]
    unsigned_less [of x, where 'a = nat]
  by (auto simp: parse_u64_def dec_value not_le)

lemma parse_kv_pair:
  assumes "CHR ''='' \<notin> set k"
  shows "parse_kv (k @ CHR ''='' # pad_left w (dec (unat x))) = Some x"
proof -
  have "CHR ''='' \<notin> set (pad_left w (dec (unat x)))"
    using dec_chars [of "CHR ''=''" "unat x"] by (auto simp: pad_left_def)
  moreover have "trim (pad_left w (dec (unat x))) = dec (unat x)"
    using trim_padded [OF tidy_dec, of _ _ 0] by (simp add: pad_left_def)
  ultimately show ?thesis using assms by (simp add: parse_kv_def parse_dec)
qed


text \<open>A label the tests print: one line, no separator, no blank at either end.\<close>

definition good_label :: "string \<Rightarrow> bool" where
  "good_label l \<longleftrightarrow> tidy l \<and> CHR ''|'' \<notin> set l \<and> newline \<notin> set l"

definition metric :: "string \<Rightarrow> u64 \<Rightarrow> u64 \<Rightarrow> GasMetric" where
  "metric label cpu mem =
    \<lparr>m_label = label, m_cpu_insns = cpu, m_mem_bytes = mem, m_category = categorize label\<rparr>"

lemma padding_bar: "CHR ''|'' \<notin> set (pad_left w (dec n))" "newline \<notin> set (pad_left w (dec n))"
  using dec_chars [of _ n] by (auto simp: pad_left_def newline_def)

lemma tidy_print_gas: "tidy (print_gas l c m)"
  using dec_chars [of "last (dec (unat m))" "unat m"]
  by (simp add: tidy_def print_gas_def pad_left_def is_white_def)

lemma print_gas_parts:
  assumes "good_label l"
  shows "split_on (CHR ''|'') (print_gas l c m) =
    [''gas_profile '', '' '' @ pad_right 36 l @ '' '', '' cpu='' @ pad_left 12 (dec (unat c)) @ '' '',
     '' mem='' @ pad_left 10 (dec (unat m))]"
proof -
  let ?label = "'' '' @ pad_right 36 l @ '' ''"
  let ?cpu = "'' cpu='' @ pad_left 12 (dec (unat c)) @ '' ''"
  let ?mem = "'' mem='' @ pad_left 10 (dec (unat m))"
  have b: "CHR ''|'' \<notin> set ''gas_profile ''" "CHR ''|'' \<notin> set ?label" "CHR ''|'' \<notin> set ?cpu"
    "CHR ''|'' \<notin> set ?mem"
    using padding_bar assms by (auto simp: good_label_def pad_right_def)
  have "split_on (CHR ''|'') (''gas_profile '' @ CHR ''|'' # ?label @ CHR ''|'' # ?cpu @
      CHR ''|'' # ?mem) = [''gas_profile '', ?label, ?cpu, ?mem]"
    by (simp only: split_on_app [OF b(1)] split_on_app [OF b(2)] split_on_app [OF b(3)]
        split_on_other [OF b(4)])
  then show ?thesis by (simp add: print_gas_def)
qed

lemma trim_label:
  assumes "good_label l"
  shows "trim ('' '' @ pad_right 36 l @ '' '') = l"
proof -
  have "'' '' @ pad_right 36 l @ '' '' = replicate 1 CHR '' '' @ l @ replicate (Suc (36 - length l)) CHR '' ''"
    by (simp add: pad_right_def replicate_append_same)
  then show ?thesis
    using assms trim_padded [of l 1 "Suc (36 - length l)"] by (simp only: good_label_def)
qed

lemma trim_pair:
  assumes "tidy (k @ [CHR ''=''])"
  shows "trim (CHR '' '' # k @ CHR ''='' # pad_left w (dec n) @ replicate j CHR '' '') =
    k @ CHR ''='' # pad_left w (dec n)"
proof -
  have "tidy (k @ CHR ''='' # pad_left w (dec n))"
    using assms tidy_dec [of n] by (cases k) (simp_all add: tidy_def pad_left_def is_white_def)
  from trim_padded [OF this, of 1 j] show ?thesis by simp
qed

lemma parse_print:
  assumes "good_label l"
  shows "parse_line (print_gas l c m) = Some (metric l c m)"
proof -
  have "starts_with (print_gas l c m) ''gas_profile |''"
    by (simp add: print_gas_def starts_with_def)
  moreover have "trim ('' cpu='' @ pad_left 12 (dec (unat c)) @ '' '') = ''cpu='' @ pad_left 12 (dec (unat c))"
    using trim_pair [of "''cpu''" 12 "unat c" 1] by (simp add: tidy_def is_white_def)
  moreover have "trim ('' mem='' @ pad_left 10 (dec (unat m))) = ''mem='' @ pad_left 10 (dec (unat m))"
    using trim_pair [of "''mem''" 10 "unat m" 0] by (simp add: tidy_def is_white_def)
  moreover have "parse_kv (''cpu='' @ pad_left 12 (dec (unat c))) = Some c"
    "parse_kv (''mem='' @ pad_left 10 (dec (unat m))) = Some m"
    using parse_kv_pair [of "''cpu''"] parse_kv_pair [of "''mem''"] by simp_all
  ultimately show ?thesis
    using trim_label [OF assms]
    by (simp add: parse_line_def trim_tidy tidy_print_gas print_gas_parts [OF assms] metric_def
        numeral_3_eq_3 numeral_2_eq_2)
qed

text \<open>What a test run prints: samples, and lines of anything else.\<close>

type_synonym printed = "string \<times> u64 \<times> u64 + string"

fun printed_line :: "printed \<Rightarrow> string" where
  "printed_line (Inl (l, c, m)) = print_gas l c m"
| "printed_line (Inr s) = s"

fun printed_ok :: "printed \<Rightarrow> bool" where
  "printed_ok (Inl (l, c, m)) \<longleftrightarrow> good_label l"
| "printed_ok (Inr s) \<longleftrightarrow> newline \<notin> set s \<and> CHR 0x0D \<notin> set s \<and> \<not> starts_with (trim s) ''gas_profile |''"

fun printed_metric :: "printed \<Rightarrow> GasMetric option" where
  "printed_metric (Inl (l, c, m)) = Some (metric l c m)"
| "printed_metric (Inr s) = None"

definition output_of :: "printed list \<Rightarrow> string" where
  "output_of ps = concat (map (\<lambda>p. printed_line p @ [newline]) ps)"

lemma split_lines:
  "\<forall>l \<in> set ls. c \<notin> set l \<Longrightarrow> split_on c (concat (map (\<lambda>l. l @ [c]) ls)) = ls @ [[]]"
  by (induction ls) simp_all

lemma strip_cr_other: "CHR 0x0D \<noteq> last l \<Longrightarrow> strip_cr l = l"
  by (auto simp: strip_cr_def)

lemma printed_line_ok:
  assumes "printed_ok p"
  shows "newline \<notin> set (printed_line p)" "strip_cr (printed_line p) = printed_line p"
    "parse_line (printed_line p) = printed_metric p"
proof -
  show "newline \<notin> set (printed_line p)"
    using assms padding_bar by (cases p rule: printed_line.cases)
      (auto simp: print_gas_def good_label_def pad_right_def newline_def)
  show "strip_cr (printed_line p) = printed_line p"
  proof (cases p rule: printed_line.cases)
    case (1 l c m)
    have "is_white (CHR 0x0D)" by (simp add: is_white_def)
    with 1 show ?thesis using tidy_print_gas [of l c m]
      by (auto simp: tidy_def intro!: strip_cr_other)
  next
    case (2 s)
    then show ?thesis using assms by (cases "s = []") (auto simp: strip_cr_def dest: last_in_set)
  qed
  show "parse_line (printed_line p) = printed_metric p"
    using assms parse_print by (cases p rule: printed_line.cases) (auto simp: parse_line_def Let_def)
qed

lemma lines_output:
  assumes "list_all printed_ok ps"
  shows "lines (output_of ps) = map printed_line ps"
proof -
  have "split_on newline (output_of ps) = map printed_line ps @ [[]]"
    using split_lines [of "map printed_line ps" newline] printed_line_ok(1) assms
    by (auto simp: output_of_def list_all_iff comp_def)
  moreover have "map strip_cr (map printed_line ps) = map printed_line ps"
    using printed_line_ok(2) assms by (simp add: list_all_iff)
  ultimately show ?thesis by (simp add: lines_def)
qed

lemma map_filter_printed:
  "(\<And>p. p \<in> set ps \<Longrightarrow> f (g p) = h p) \<Longrightarrow> List.map_filter f (map g ps) = List.map_filter h ps"
  by (induction ps) (auto simp: map_filter_simps split: option.splits)

text \<open>
  C39. Every sample the profiling tests print is read back, in order, whatever else stands
  between them in the output: label, both numbers over the whole range of \<open>u64\<close>, and its category.
\<close>

theorem gas_output_roundtrip:
  assumes "list_all printed_ok ps"
  shows "parse_gas_output (output_of ps) = List.map_filter printed_metric ps"
  using assms printed_line_ok(3)
  by (auto simp: parse_gas_output_def lines_output list_all_iff intro!: map_filter_printed)

section \<open>The report\<close>

lemma sum_u64_iff:
  "sum_u64 xs acc = Some t \<longleftrightarrow>
    uint acc + sum_list (map uint xs) < 2 ^ 64 \<and> uint t = uint acc + sum_list (map uint xs)"
proof (induction xs arbitrary: acc)
  case Nil
  show ?case using uint_lt2p [of acc] by (auto simp: word_uint_eq_iff)
next
  case (Cons x xs)
  have "0 \<le> sum_list (map uint xs)" by (rule sum_list_nonneg) auto
  then show ?case
    by (auto simp: Cons.IH bind_eq_Some_conv uint_word_ariths(1) word_checked_add_def mod_pos_pos_trivial)
qed

lemma push_entry_keys: "fst ` set (push_entry m es) = insert (m_category m) (fst ` set es)"
proof (induction es)
  case (Cons e es)
  then show ?case by (cases e) (simp add: insert_commute split: if_splits, blast?)
qed simp

lemma push_entry_sorted:
  "sorted_wrt (<) (map fst es) \<Longrightarrow> sorted_wrt (<) (map fst (push_entry m es))"
proof (induction es)
  case (Cons e es)
  obtain k ms where e: "e = (k, ms)" by force
  have "\<forall>x \<in> fst ` set (push_entry m es). k < x" if "k < m_category m"
    using Cons.prems that by (auto simp: e push_entry_keys)
  then show ?case using Cons
    by (auto simp: e neq_iff intro: order.strict_trans)
qed simp

definition category_of :: "(string \<times> GasMetric list) list \<Rightarrow> string \<Rightarrow> GasMetric list" where
  "category_of es k = (case map_of es k of None \<Rightarrow> [] | Some ms \<Rightarrow> ms)"

lemma push_entry_lookup:
  "sorted_wrt (<) (map fst es) \<Longrightarrow> map_of (push_entry m es) k =
    (if k = m_category m then Some (category_of es k @ [m]) else map_of es k)"
proof (induction es)
  case Nil
  show ?case by (simp add: category_of_def)
next
  case (Cons e es)
  obtain k' ms where e: "e = (k', ms)" by force
  have rest: "sorted_wrt (<) (map fst es)" "\<forall>x \<in> fst ` set es. k' < x"
    using Cons.prems by (auto simp: e)
  consider "m_category m = k'" | "m_category m < k'" | "k' < m_category m"
    using less_linear by blast
  then show ?case
  proof cases
    case 2
    with rest(2) have "m_category m \<notin> fst ` set es" by (meson order.asym order.strict_trans)
    then have "map_of es (m_category m) = None" by (simp add: map_of_eq_None_iff)
    with 2 show ?thesis by (auto simp: e category_of_def)
  next
    case 3
    with Cons.IH [OF rest(1)] show ?thesis by (auto simp: e category_of_def)
  qed (auto simp: e category_of_def)
qed

definition groups :: "(string \<times> GasMetric list) list \<Rightarrow> GasMetric list \<Rightarrow> bool" where
  "groups es ms \<longleftrightarrow> sorted_wrt (<) (map fst es) \<and>
    (\<forall>k. category_of es k = filter (\<lambda>m. m_category m = k) ms) \<and>
    fst ` set es = m_category ` set ms"

lemma groups_push: "groups es ms \<Longrightarrow> groups (push_entry m es) (ms @ [m])"
  by (auto simp: groups_def push_entry_sorted push_entry_lookup push_entry_keys category_of_def)

lemma groups_fold: "groups es ms \<Longrightarrow> groups (fold push_entry new es) (ms @ new)"
proof (induction new arbitrary: es ms)
  case (Cons m new)
  from Cons.IH [OF groups_push [OF Cons.prems]] show ?case by simp
qed simp

theorem gas_output_roundtrip_witness:
  "parse_gas_output (output_of [Inr ''running 1 test'', Inl (''fund_escrow'', 18844, 1232)]) =
    [metric ''fund_escrow'' 18844 1232]"
  using gas_output_roundtrip [of "[Inr ''running 1 test'', Inl (''fund_escrow'', 18844, 1232)]"]
  by (simp add: map_filter_simps good_label_def tidy_def newline_def is_white_def trim_def starts_with_def)

text \<open>
  A report exists exactly when both sums fit \<open>u64\<close>; its totals are the sums, and its groups, in
  order of their category, are the metrics of that category in order.
\<close>

theorem gas_report_exact:
  "(build_report now v ms = None \<longleftrightarrow>
      2 ^ 64 \<le> sum_list (map (\<lambda>m. uint (m_cpu_insns m)) ms) \<or>
      2 ^ 64 \<le> sum_list (map (\<lambda>m. uint (m_mem_bytes m)) ms)) \<and>
   (case build_report now v ms of None \<Rightarrow> True | Some r \<Rightarrow>
      uint (r_total_cpu_insns r) = sum_list (map (\<lambda>m. uint (m_cpu_insns m)) ms) \<and>
      uint (r_total_mem_bytes r) = sum_list (map (\<lambda>m. uint (m_mem_bytes m)) ms) \<and>
      r_total_samples r = length ms \<and> r_metrics r = ms \<and> groups (r_by_category r) ms)"
proof -
  have g: "groups (fold push_entry ms []) ms"
    using groups_fold [of "[]" "[]" ms] by (simp add: groups_def category_of_def)
  have n: "sum_u64 xs 0 = None \<longleftrightarrow> 2 ^ 64 \<le> sum_list (map uint xs)" for xs
  proof -
    have "0 \<le> sum_list (map uint xs)" by (rule sum_list_nonneg) auto
    then have "sum_list (map uint xs) < 2 ^ 64 \<Longrightarrow> sum_u64 xs 0 = Some (word_of_int (sum_list (map uint xs)))"
      using take_bit_int_eq_self [of "sum_list (map uint xs)" 64]
      by (simp add: sum_u64_iff unsigned_of_int)
    then show ?thesis using sum_u64_iff [of xs 0] by fastforce
  qed
  show ?thesis
    using n [of "map m_cpu_insns ms"] n [of "map m_mem_bytes ms"] g
    by (auto simp: build_report_def sum_u64_iff comp_def split: option.split bind_split)
qed

text \<open>The label of a resolver rotation is filed under disputes, before \<open>rotate\<close> is looked at.\<close>

lemma rotate_is_dispute: "categorize ''rotate_resolver'' = ''dispute''"
  by (simp add: categorize_def to_lowercase_def lower_char_def contains_any_def starts_with_def)

end
