(* ===== verification/Task_Runner.thy ===== *)
theory Task_Runner
  imports Gas_Report
begin

text \<open>
  The developer task runner \<open>src/xtask\<close>: \<open>process.rs\<close> (the external tools), \<open>tasks.rs\<close> (the table of
  subcommands, the local CI gate), \<open>gas/profile.rs\<close> and \<open>gas/network.rs\<close> (the two profilers) and
  \<open>main.rs\<close>.  What the tools answer is a field of \<open>host\<close>, and may depend on all commands
  run before; what the runner does is a \<open>trace\<close>: commands, console lines (of both streams), files.  A
  failure keeps what was done up to then.  Text is ASCII: the dash in the first help line is a hyphen.  Serialization to JSON (\<open>serde_json\<close>) is a parameter.
\<close>

section \<open>External tools\<close>

record command =
  c_program :: string
  c_args :: "string list"

text \<open>What a spawned command answers; \<open>o_bad_utf8\<close> is the decoding error of its output, if any.\<close>

record finished =
  o_success :: bool
  o_status :: string
  o_stdout :: string
  o_bad_utf8 :: "string option"
  o_stderr :: string

record host =
  h_tool :: "command list \<Rightarrow> command \<Rightarrow> string + finished"
  h_write :: "string \<Rightarrow> string \<Rightarrow> string option"
  h_now :: u64
  h_version :: string

record trace =
  t_ran :: "command list"
  t_out :: "string list"
  t_files :: "(string \<times> string) list"

type_synonym 'a task_res = "(string + 'a) \<times> trace"

definition say :: "string list \<Rightarrow> trace \<Rightarrow> trace" where
  "say ls t = t\<lparr>t_out := t_out t @ ls\<rparr>"

fun and_then :: "'a task_res \<Rightarrow> ('a \<Rightarrow> trace \<Rightarrow> 'b task_res) \<Rightarrow> 'b task_res" where
  "and_then (Inl e, t) f = (Inl e, t)"
| "and_then (Inr x, t) f = f x t"

definition build :: "string \<Rightarrow> string list \<Rightarrow> string list \<Rightarrow> command" where
  "build program args extra = \<lparr>c_program = program, c_args = args @ extra\<rparr>"

definition cargo :: "string list \<Rightarrow> string list \<Rightarrow> command" where
  "cargo args extra = build ''cargo'' args extra"

definition stellar :: "string list \<Rightarrow> string list \<Rightarrow> command" where
  "stellar args extra = build ''stellar'' args extra"

definition npm :: "string list \<Rightarrow> string list \<Rightarrow> command" where
  "npm args extra = build ''npm'' args extra"

definition bash :: "string list \<Rightarrow> string list \<Rightarrow> command" where
  "bash args extra = build ''bash'' args extra"

definition program_of :: "command \<Rightarrow> string" where
  "program_of cmd = CHR 0x22 # c_program cmd @ [CHR 0x22]"

definition launch :: "host \<Rightarrow> command \<Rightarrow> trace \<Rightarrow> (string + finished) \<times> trace" where
  "launch h cmd t = (h_tool h (t_ran t) cmd, t\<lparr>t_ran := t_ran t @ [cmd]\<rparr>)"

definition run_streaming :: "host \<Rightarrow> command \<Rightarrow> trace \<Rightarrow> unit task_res" where
  "run_streaming h cmd t =
    (let program = program_of cmd in
     case launch h cmd t of
       (Inl e, t1) \<Rightarrow> (Inl (''failed to launch '' @ program @ '': '' @ e), t1)
     | (Inr status, t1) \<Rightarrow>
         if \<not> o_success status then (Inl (program @ '' exited with '' @ o_status status), t1)
         else (Inr (), t1))"

definition run_capture :: "host \<Rightarrow> command \<Rightarrow> trace \<Rightarrow> string task_res" where
  "run_capture h cmd t =
    (let program = program_of cmd in
     case launch h cmd t of
       (Inl e, t1) \<Rightarrow> (Inl (''failed to launch '' @ program @ '': '' @ e), t1)
     | (Inr finished, t1) \<Rightarrow>
         if \<not> o_success finished then (Inl (program @ '' exited with '' @ o_status finished), t1)
         else (case o_bad_utf8 finished of
             Some e \<Rightarrow> (Inl (''non-utf8 stdout from '' @ program @ '': '' @ e), t1)
           | None \<Rightarrow> (Inr (o_stdout finished), t1)))"

definition write_file :: "host \<Rightarrow> string \<Rightarrow> string \<Rightarrow> trace \<Rightarrow> unit task_res" where
  "write_file h p content t =
    (case h_write h p content of
       Some e \<Rightarrow> (Inl (''write '' @ p @ '': '' @ e), t)
     | None \<Rightarrow> (Inr (), t\<lparr>t_files := t_files t @ [(p, content)]\<rparr>))"

section \<open>Profiling the tests\<close>

record profile_options =
  po_out_path :: "string option"
  po_category_filter :: "string option"
  po_show_table :: bool
  po_filtered_extra :: "string list"

fun profile_args :: "string list \<Rightarrow> profile_options \<Rightarrow> string + profile_options" where
  "profile_args [] po = Inr po"
| "profile_args (a # it) po =
    (if a = ''--out'' then
       (case it of [] \<Rightarrow> Inl ''--out requires a path''
        | v # it' \<Rightarrow> profile_args it' (po\<lparr>po_out_path := Some v\<rparr>))
     else if a = ''--category'' then
       (case it of [] \<Rightarrow> Inl ''--category requires a prefix''
        | v # it' \<Rightarrow> profile_args it' (po\<lparr>po_category_filter := Some v\<rparr>))
     else if a = ''--no-table'' then profile_args it (po\<lparr>po_show_table := False\<rparr>)
     else profile_args it (po\<lparr>po_filtered_extra := po_filtered_extra po @ [a]\<rparr>))"

definition GAS_TEST_FILTER :: string where "GAS_TEST_FILTER = ''gas_profile_''"

definition DEFAULT_GAS_TEST_ARGS :: "string list" where
  "DEFAULT_GAS_TEST_ARGS = [''test'', ''--package'', ''trustlink-escrow'', ''--lib'', ''--'',
     GAS_TEST_FILTER, ''--nocapture'']"

text \<open>A panic of the report's arithmetic stops the tool; here it is the error \<open>overflow\<close>.\<close>

definition or_panic :: "'a option \<Rightarrow> trace \<Rightarrow> 'a task_res" where
  "or_panic v t = (case v of None \<Rightarrow> (Inl ''overflow'', t) | Some x \<Rightarrow> (Inr x, t))"

definition run_gas_profile ::
  "(GasReport \<Rightarrow> string + string) \<Rightarrow> host \<Rightarrow> string list \<Rightarrow> trace \<Rightarrow> unit task_res" where
  "run_gas_profile to_json h extra t =
    and_then (profile_args extra \<lparr>po_out_path = None, po_category_filter = None,
        po_show_table = True, po_filtered_extra = []\<rparr>, t) (\<lambda>po t1.
    let base_args = DEFAULT_GAS_TEST_ARGS @ po_filtered_extra po;
        t2 = say [''==> Running gas-profile tests (package=trustlink-escrow)''] t1
    in
    and_then (run_capture h (cargo [] base_args) t2) (\<lambda>stdout t3.
    let metrics = parse_gas_output stdout in
    if metrics = []
    then (Inl ''no gas_profile metrics were emitted. Did the tests fail to run?'', t3)
    else
    and_then (or_panic (build_report (h_now h) (h_version h) metrics) t3) (\<lambda>report t4.
    and_then (if po_show_table po
              then and_then (or_panic (print_table report (po_category_filter po)) t4)
                     (\<lambda>rows t5. (Inr (), say rows t5))
              else (Inr (), t4)) (\<lambda>_ t5.
    case po_out_path po of
      None \<Rightarrow> (Inr (), t5)
    | Some p \<Rightarrow>
        and_then (case to_json report of
                    Inl e \<Rightarrow> (Inl (''serialize report: '' @ e), t5)
                  | Inr json \<Rightarrow> (Inr json, t5)) (\<lambda>json t6.
        and_then (write_file h p json t6) (\<lambda>_ t7.
        (Inr (), say [''Wrote JSON gas report to: '' @ p] t7)))))))"

section \<open>Profiling a network\<close>

record NetworkGasTx =
  n_operation :: string
  n_tx_hash :: string
  n_fee_charged :: string
  n_cpu_instructions :: "u64 option"
  n_ram_bytes :: "u64 option"
  n_ledger_reads :: "u64 option"
  n_ledger_writes :: "u64 option"

record NetworkGasReport =
  nr_generated_at :: u64
  nr_network :: string
  nr_contract_id :: string
  nr_transactions :: "NetworkGasTx list"

record network_options =
  no_network :: string
  no_source :: string
  no_contract_id :: "string option"
  no_out_path :: "string option"

fun network_args :: "string list \<Rightarrow> network_options \<Rightarrow> string + network_options" where
  "network_args [] no = Inr no"
| "network_args (a # it) no =
    (if a = ''--network'' then
       (case it of [] \<Rightarrow> Inl ''--network requires a value''
        | v # it' \<Rightarrow> network_args it' (no\<lparr>no_network := v\<rparr>))
     else if a = ''--source'' then
       (case it of [] \<Rightarrow> Inl ''--source requires a value''
        | v # it' \<Rightarrow> network_args it' (no\<lparr>no_source := v\<rparr>))
     else if a = ''--contract'' then
       (case it of [] \<Rightarrow> Inl ''--contract requires a value''
        | v # it' \<Rightarrow> network_args it' (no\<lparr>no_contract_id := Some v\<rparr>))
     else if a = ''--out'' then
       (case it of [] \<Rightarrow> Inl ''--out requires a path''
        | v # it' \<Rightarrow> network_args it' (no\<lparr>no_out_path := Some v\<rparr>))
     else Inl (''unknown gas-profile-network argument: '' @ a))"

definition deploy_args :: "string \<Rightarrow> string \<Rightarrow> string list" where
  "deploy_args network source = [''contract'', ''deploy'', ''--wasm'',
     ''target/wasm32v1-none/release/trustlink_escrow.wasm'', ''--network'', network, ''--source'', source]"

definition find_line :: "string list \<Rightarrow> string \<Rightarrow> string option" where
  "find_line words text = List.find (\<lambda>l. contains_any l words) (lines text)"

definition after_colon :: "string \<Rightarrow> string option" where
  "after_colon l =
    (let parts = split_on (CHR '':'') l in if length parts \<le> 1 then None else Some (trim (parts ! 1)))"

definition or_default :: "'a option \<Rightarrow> 'a \<Rightarrow> 'a" where
  "or_default v d = (case v of None \<Rightarrow> d | Some x \<Rightarrow> x)"

definition stellar_invoke ::
  "host \<Rightarrow> string \<Rightarrow> string \<Rightarrow> string \<Rightarrow> string \<Rightarrow> string list \<Rightarrow> string \<Rightarrow> trace \<Rightarrow> NetworkGasTx task_res"
  where
  "stellar_invoke h cid network source func json_args label t =
    (let cmd_args = [''contract'', ''invoke'', ''--id'', cid, ''--network'', network, ''--source'',
           source, ''--'', func] @ json_args;
         unknown = \<lparr>n_operation = label, n_tx_hash = ''ERROR'', n_fee_charged = ''ERROR'',
           n_cpu_instructions = None, n_ram_bytes = None, n_ledger_reads = None,
           n_ledger_writes = None\<rparr>
     in case launch h (stellar cmd_args []) t of
       (Inl e, t1) \<Rightarrow> (Inl (''launch stellar: '' @ e), t1)
     | (Inr output, t1) \<Rightarrow>
         let combined = o_stdout output @ newline # o_stderr output in
         if \<not> o_success output
         then (Inr unknown,
           say [''warn: stellar invoke '' @ label @ '' failed; skipping:'', combined] t1)
         else
         let tx_hash = or_default (Option.bind
               (find_line [''Transaction Hash'', ''txHash'', ''hash''] combined) after_colon) ''UNKNOWN'';
             fee = or_default (Option.bind
               (find_line [''Fee'', ''feeCharged''] combined) after_colon) ''N/A''
         in (Inr (unknown\<lparr>n_tx_hash := tx_hash, n_fee_charged := fee\<rparr>), t1))"

definition network_contract :: "host \<Rightarrow> network_options \<Rightarrow> trace \<Rightarrow> string task_res" where
  "network_contract h no t =
    (case no_contract_id no of
       Some c \<Rightarrow> (Inr c, t)
     | None \<Rightarrow>
         let t1 = say [''    Deploying fresh contract instance...''] t in
         and_then (run_capture h (stellar (deploy_args (no_network no) (no_source no)) []) t1)
           (\<lambda>stdout t2. (Inr (trim (last (split_on newline (trim stdout)))), t2)))"

definition admin_address :: "host \<Rightarrow> network_options \<Rightarrow> trace \<Rightarrow> string \<times> trace" where
  "admin_address h no t =
    (case run_capture h (stellar [''keys'', ''address'', ''--account'', no_source no,
             ''--network'', no_network no] []) t of
       (answer, t1) \<Rightarrow>
         let output = (case answer of Inl _ \<Rightarrow> no_source no | Inr s \<Rightarrow> s)
         in (trim (if lines output = [] then no_source no else last (lines output)), t1))"

fun invoke_all ::
  "host \<Rightarrow> string \<Rightarrow> string \<Rightarrow> string \<Rightarrow> (string \<times> string list \<times> string) list \<Rightarrow> trace
    \<Rightarrow> NetworkGasTx list task_res" where
  "invoke_all h cid network source [] t = (Inr [], t)"
| "invoke_all h cid network source ((func, json_args, label) # calls) t =
    and_then (stellar_invoke h cid network source func json_args label t) (\<lambda>tx t1.
    and_then (invoke_all h cid network source calls t1) (\<lambda>txs t2. (Inr (tx # txs), t2)))"

definition network_row :: "NetworkGasTx \<Rightarrow> string" where
  "network_row tx = ''  '' @ pad_right 24 (n_operation tx) @ '' fee='' @
     pad_right 12 (n_fee_charged tx) @ '' tx='' @ n_tx_hash tx"

definition run_gas_profile_network ::
  "(NetworkGasReport \<Rightarrow> string + string) \<Rightarrow> host \<Rightarrow> string list \<Rightarrow> trace \<Rightarrow> unit task_res" where
  "run_gas_profile_network to_json h extra t =
    and_then (network_args extra \<lparr>no_network = ''standalone'', no_source = ''alice'',
        no_contract_id = None, no_out_path = None\<rparr>, t) (\<lambda>no t1.
    let network = no_network no; source = no_source no;
        t2 = say [''==> gas-profile-network on network='' @ network @ '' source='' @ source] t1
    in
    and_then (network_contract h no t2) (\<lambda>cid t3.
    if cid = [] then (Inl ''failed to obtain deployed contract id'', t3)
    else
    let t4 = say [''    Contract ID: '' @ cid] t3;
        (admin, t5) = admin_address h no t4;
        init_args = [''--addr='' @ admin, ''--addr='' @ admin, ''--u32=0'']
    in
    and_then (invoke_all h cid network source
        [(''initialize'', init_args, ''initialize''),
         (''get_escrow_count'', [], ''get_escrow_count (view)''),
         (''get_stats'', [], ''get_stats (view)''),
         (''get_fee_config'', [], ''get_fee_config (view)'')] t5) (\<lambda>txs t6.
    let now_report = \<lparr>nr_generated_at = h_now h, nr_network = network, nr_contract_id = cid,
          nr_transactions = txs\<rparr>;
        t7 = say ([[], ''=== Network Gas Profile (Preview: '' @ dec (length txs) @ '' txs) ===''] @
          map network_row txs @
          [''(Note: for full CPU/RAM metrics a Soroban RPC returning meta/sorobanResources is needed.)'', []])
          t6
    in
    case no_out_path no of
      None \<Rightarrow> (Inr (), t7)
    | Some p \<Rightarrow>
        and_then (case to_json now_report of
                    Inl e \<Rightarrow> (Inl (''serialize network report: '' @ e), t7)
                  | Inr json \<Rightarrow> (Inr json, t7)) (\<lambda>json t8.
        and_then (write_file h p json t8) (\<lambda>_ t9.
        (Inr (), say [''Wrote network gas report to: '' @ p] t9))))))"

section \<open>The table of subcommands\<close>

datatype custom = Gas_Profile | Gas_Profile_Network | Ci | Show_Help

datatype action = Spawn "string list \<Rightarrow> command" | Custom custom

record task =
  k_name :: string
  k_about :: string
  k_action :: action

definition WASM_TARGET :: string where "WASM_TARGET = ''wasm32v1-none''"

definition CI_GATES :: "string list" where
  "CI_GATES = [''fmt-check'', ''clippy'', ''build-wasm'', ''test'']"

definition all_tasks :: "task list" where
  "all_tasks = [
    \<lparr>k_name = ''build'', k_about = ''Build the whole workspace in release mode'',
     k_action = Spawn (cargo [''build'', ''--workspace'', ''--release''])\<rparr>,
    \<lparr>k_name = ''build-wasm'', k_about = ''Build the deployable wasm artifact (wasm32v1-none target)'',
     k_action = Spawn (cargo [''build'', ''--workspace'', ''--release'', ''--target'', WASM_TARGET])\<rparr>,
    \<lparr>k_name = ''test'', k_about = ''Run the full workspace test suite'',
     k_action = Spawn (cargo [''test'', ''--workspace''])\<rparr>,
    \<lparr>k_name = ''fmt'', k_about = ''Format all crates with rustfmt'',
     k_action = Spawn (cargo [''fmt'', ''--all''])\<rparr>,
    \<lparr>k_name = ''fmt-check'', k_about = ''Check formatting without writing changes'',
     k_action = Spawn (cargo [''fmt'', ''--all'', ''--check''])\<rparr>,
    \<lparr>k_name = ''clippy'', k_about = ''Lint the workspace, denying warnings'',
     k_action = Spawn (cargo [''clippy'', ''--workspace'', ''--'', ''-D'', ''warnings''])\<rparr>,
    \<lparr>k_name = ''optimize'', k_about = ''Build an optimized wasm via build.sh (requires wasm-opt)'',
     k_action = Spawn (bash [''build.sh''])\<rparr>,
    \<lparr>k_name = ''bindings'',
     k_about = ''Generate the TypeScript bindings (npm run build in bindings/)'',
     k_action = Spawn (npm [''run'', ''build'', ''--prefix'', ''bindings''])\<rparr>,
    \<lparr>k_name = ''deploy'',
     k_about = ''Deploy the contract via the Stellar CLI (pass --network/--source after --)'',
     k_action = Spawn (stellar [''contract'', ''deploy'', ''--wasm'',
       ''target/wasm32v1-none/release/trustlink_escrow.wasm''])\<rparr>,
    \<lparr>k_name = ''gas-profile'',
     k_about = ''Run gas-profile tests, print a console summary, and (optionally) write JSON'',
     k_action = Custom Gas_Profile\<rparr>,
    \<lparr>k_name = ''gas-profile-network'',
     k_about = ''Profile gas on a live/standalone network via stellar CLI (--network/--source/--contract after --)'',
     k_action = Custom Gas_Profile_Network\<rparr>,
    \<lparr>k_name = ''ci'',
     k_about = ''Run the full local CI gate: fmt-check, clippy, wasm build, and tests'',
     k_action = Custom Ci\<rparr>,
    \<lparr>k_name = ''help'', k_about = ''Show this help text'', k_action = Custom Show_Help\<rparr>]"

definition find_task :: "task list \<Rightarrow> string \<Rightarrow> task option" where
  "find_task tasks name = List.find (\<lambda>t. k_name t = name) tasks"

definition print_help :: "task list \<Rightarrow> string list" where
  "print_help tasks =
    (let width = foldr max (map (\<lambda>t. length (k_name t)) tasks) 0 in
     [''cargo xtask - developer task runner for trust-link-contract'', [], ''Usage:'',
      ''    cargo xtask <command> [-- <args forwarded to the tool>]'', [], ''Commands:''] @
     map (\<lambda>t. ''    '' @ pad_right width (k_name t) @ ''  '' @ k_about t) tasks @
     [[], ''gas-profile options (after --):'',
      ''    --out <file>    Write JSON report to <file>'',
      ''    --category <cat> Only show metrics whose category starts with <cat>'',
      ''    --no-table       Suppress the console table (useful with --out)'', [],
      ''gas-profile-network options (after --):'',
      ''    --network <net>   Stellar network (default: standalone)'',
      ''    --source <acc>    Stellar CLI account name (default: alice)'',
      ''    --contract <id>   Existing deployed contract (if omitted, deploys a new one)'',
      ''    --out <file>      Write JSON report to <file>'', [],
      ''    '' @ pad_right width ''help'' @ ''  Show this help text''])"

section \<open>Running a subcommand\<close>

text \<open>
  A gate of \<open>ci\<close> is again a task, so the code could recurse; the depth is the fuel.  Two levels
  are enough (\<open>xtask_main_total\<close>), because no gate is itself \<open>ci\<close>.
\<close>

fun run_gates :: "(task \<Rightarrow> trace \<Rightarrow> unit task_res option) \<Rightarrow> string list \<Rightarrow> trace \<Rightarrow> unit task_res option" where
  "run_gates run [] t = Some (Inr (), t)"
| "run_gates run (gate # gates) t =
    (case find_task all_tasks gate of
       None \<Rightarrow> Some (Inl (''ci gate '' @ CHR 0x27 # gate @ CHR 0x27 # '' is not a known task''), t)
     | Some task \<Rightarrow>
         Option.bind (run task (say [[], ''==> cargo xtask '' @ gate] t)) (\<lambda>(result, t1).
         case result of Inl e \<Rightarrow> Some (Inl e, t1) | Inr _ \<Rightarrow> run_gates run gates t1))"

record serializers =
  s_report :: "GasReport \<Rightarrow> string + string"
  s_network :: "NetworkGasReport \<Rightarrow> string + string"

fun run_task :: "nat \<Rightarrow> serializers \<Rightarrow> host \<Rightarrow> task \<Rightarrow> string list \<Rightarrow> trace \<Rightarrow> unit task_res option" where
  "run_task 0 sr h task extra t = None"
| "run_task (Suc depth) sr h task extra t =
    (case k_action task of
       Spawn command \<Rightarrow> Some (run_streaming h (command extra) t)
     | Custom Gas_Profile \<Rightarrow> Some (run_gas_profile (s_report sr) h extra t)
     | Custom Gas_Profile_Network \<Rightarrow> Some (run_gas_profile_network (s_network sr) h extra t)
     | Custom Ci \<Rightarrow> run_gates (\<lambda>task. run_task depth sr h task []) CI_GATES t
     | Custom Show_Help \<Rightarrow> Some (Inr (), say (print_help all_tasks) t))"

datatype exit_code = SUCCESS | FAILURE

fun exit_of :: "string \<Rightarrow> unit task_res \<Rightarrow> exit_code \<times> trace" where
  "exit_of name (Inr _, t) = (SUCCESS, t)"
| "exit_of name (Inl err, t) = (FAILURE, say [''error: '' @ name @ '' failed: '' @ err] t)"

definition xtask_main ::
  "nat \<Rightarrow> serializers \<Rightarrow> host \<Rightarrow> string list \<Rightarrow> trace \<Rightarrow> (exit_code \<times> trace) option" where
  "xtask_main depth sr h args t =
    (case args of
       [] \<Rightarrow> Some (SUCCESS, say (print_help all_tasks) t)
     | command # forwarded \<Rightarrow>
         let name = (if command = ''--help'' \<or> command = ''-h'' then ''help'' else command) in
         (case find_task all_tasks name of
            None \<Rightarrow> Some (FAILURE, say (print_help all_tasks)
              (say [''error: unknown command '' @ CHR 0x27 # command @ [CHR 0x27], []] t))
          | Some task \<Rightarrow>
              map_option (exit_of name) (run_task depth sr h task forwarded t)))"

section \<open>The table\<close>

lemma find_task_gates:
  "find_task all_tasks ''fmt-check'' = Some (all_tasks ! 4)"
  "find_task all_tasks ''clippy'' = Some (all_tasks ! 5)"
  "find_task all_tasks ''build-wasm'' = Some (all_tasks ! 1)"
  "find_task all_tasks ''test'' = Some (all_tasks ! 2)"
  "find_task all_tasks ''ci'' = Some (all_tasks ! 11)"
  "find_task all_tasks ''help'' = Some (all_tasks ! 12)"
  by (simp_all add: find_task_def all_tasks_def)

lemma task_names_unique: "distinct (map k_name all_tasks)"
  by (simp add: all_tasks_def)

lemma find_by_key: "distinct (map f xs) \<Longrightarrow> x \<in> set xs \<Longrightarrow> List.find (\<lambda>y. f y = f x) xs = Some x"
  by (induction xs) force+

lemma every_task_found: "k \<in> set all_tasks \<Longrightarrow> find_task all_tasks (k_name k) = Some k"
  unfolding find_task_def by (rule find_by_key [OF task_names_unique])

section \<open>The gate\<close>

definition passes :: "host \<Rightarrow> command list \<Rightarrow> command \<Rightarrow> bool" where
  "passes h past c \<longleftrightarrow> (case h_tool h past c of Inl _ \<Rightarrow> False | Inr f \<Rightarrow> o_success f)"

text \<open>The commands of the gates, each a plain tool call, in order.\<close>

definition gate_commands :: "command list" where
  "gate_commands =
    [cargo [''fmt'', ''--all'', ''--check''] [],
     cargo [''clippy'', ''--workspace'', ''--'', ''-D'', ''warnings''] [],
     cargo [''build'', ''--workspace'', ''--release'', ''--target'', ''wasm32v1-none''] [],
     cargo [''test'', ''--workspace''] []]"

fun until_failure :: "host \<Rightarrow> command list \<Rightarrow> command list \<Rightarrow> command list" where
  "until_failure h past [] = []"
| "until_failure h past (c # cs) = c # (if passes h past c then until_failure h (past @ [c]) cs else [])"

fun all_pass :: "host \<Rightarrow> command list \<Rightarrow> command list \<Rightarrow> bool" where
  "all_pass h past [] = True"
| "all_pass h past (c # cs) \<longleftrightarrow> passes h past c \<and> all_pass h (past @ [c]) cs"

lemma say_ran [simp]: "t_ran (say ls t) = t_ran t"
  by (simp add: say_def)

lemma run_streaming_passes:
  "t_ran (snd (run_streaming h c t)) = t_ran t @ [c]"
  "(\<exists>u. fst (run_streaming h c t) = Inr u) \<longleftrightarrow> passes h (t_ran t) c"
  by (auto simp: run_streaming_def launch_def passes_def Let_def split: sum.split)

lemma gate_step:
  assumes "find_task all_tasks gate = Some k" "k_action k = Spawn b"
    and "run_gates (\<lambda>task. run_task (Suc n) sr h task []) (gate # gates) t = Some (r, t')"
  shows "if passes h (t_ran t) (b []) then \<exists>t1. t_ran t1 = t_ran t @ [b []] \<and>
      run_gates (\<lambda>task. run_task (Suc n) sr h task []) gates t1 = Some (r, t')
    else t_ran t' = t_ran t @ [b []] \<and> (\<exists>e. r = Inl e)"
proof -
  let ?s = "run_streaming h (b []) (say [[], ''==> cargo xtask '' @ gate] t)"
  note p = run_streaming_passes [of h "b []" "say [[], ''==> cargo xtask '' @ gate] t"]
  obtain x t1 where s: "?s = (x, t1)" by force
  show ?thesis using assms p s by (cases x) auto
qed

lemma gates_follow:
  assumes "list_all2 (\<lambda>gate c. \<exists>k b. find_task all_tasks gate = Some k \<and> k_action k = Spawn b \<and> b [] = c)
      gates cs"
    and "run_gates (\<lambda>task. run_task (Suc n) sr h task []) gates t = Some (r, t')"
  shows "t_ran t' = t_ran t @ until_failure h (t_ran t) cs \<and>
    ((\<exists>u. r = Inr u) \<longleftrightarrow> all_pass h (t_ran t) cs)"
  using assms
proof (induction arbitrary: t rule: list_all2_induct)
  case (Cons gate gates c cs)
  then obtain k b where k: "find_task all_tasks gate = Some k" "k_action k = Spawn b" "b [] = c"
    by blast
  from gate_step [OF k(1,2) Cons.prems] Cons.IH show ?case
    by (fastforce simp: k(3) split: if_splits)
qed simp

lemma gates_are_commands:
  "list_all2 (\<lambda>gate c. \<exists>k b. find_task all_tasks gate = Some k \<and> k_action k = Spawn b \<and> b [] = c)
     CI_GATES gate_commands"
  by (simp add: CI_GATES_def gate_commands_def find_task_gates) (simp add: all_tasks_def WASM_TARGET_def)

lemma run_gates_total:
  assumes "list_all2 (\<lambda>gate c. \<exists>k b. find_task all_tasks gate = Some k \<and> k_action k = Spawn b \<and> b [] = c)
      gates cs"
  shows "run_gates (\<lambda>task. run_task (Suc n) sr h task []) gates t \<noteq> None"
  using assms by (induction arbitrary: t rule: list_all2_induct) (auto split: sum.splits prod.splits)

lemma run_task_total: "run_task (Suc (Suc n)) sr h k extra t \<noteq> None"
  using run_gates_total [OF gates_are_commands]
  by (subst run_task.simps) (simp split: action.split custom.split)

theorem xtask_main_total: "xtask_main (Suc (Suc n)) sr h args t \<noteq> None"
  using run_task_total by (simp add: xtask_main_def Let_def del: run_task.simps not_None_eq
      split: list.split option.split)

text \<open>
  \<open>cargo xtask ci\<close> runs the four gates in order and stops at the first that fails: the commands
  it runs are the gates' commands up to that one, and it succeeds exactly when all four do.
\<close>

theorem ci_stops_at_failure:
  assumes "xtask_main (Suc (Suc n)) sr h (''ci'' # extra) t = Some (code, t')"
  shows "t_ran t' = t_ran t @ until_failure h (t_ran t) gate_commands \<and>
    (code = SUCCESS \<longleftrightarrow> all_pass h (t_ran t) gate_commands)"
proof -
  have ci: "k_action (all_tasks ! 11) = Custom Ci" by (simp add: all_tasks_def)
  from assms obtain r t1 where
    g: "run_gates (\<lambda>task. run_task (Suc n) sr h task []) CI_GATES t = Some (r, t1)"
    and c: "exit_of ''ci'' (r, t1) = (code, t')"
    by (auto simp: xtask_main_def find_task_gates ci)
  from gates_follow [OF gates_are_commands g] c show ?thesis
    by (cases r) auto
qed

end
