(* ===== verification/Spec2Isabelle.thy ===== *)
theory Spec2Isabelle
  imports Component_Facts Helper_Facts Progress Divergences Appeal_Scenario Malicious_Token Fuzz_Inputs
    Test_Setters Task_Runner
begin

text \<open>
  TrustLink, an escrow contract for the Soroban host (Rust, \<open>src/contracts/escrow/src/\<close>).

  THE PROGRAM.  A seller creates an escrow over a token amount (\<open>create_escrow\<close> and its variants
  in \<open>instructions.rs\<close>, most of them over \<open>create_escrow_internal\<close> of \<open>internal.rs\<close>), a buyer funds
  it, the seller ships, delivery is recorded and confirmed or released by time, and the money is split over
  the payees after a protocol fee (\<open>helpers/payout.rs\<close>).  Instead the parties may cancel, agree
  on a refund, let the escrow expire, or dispute it (\<open>disputes.rs\<close>): resolvers vote, the decision
  waits out an appeal window with its fees already taken, and is finalized, appealed, or ended by one
  of three escape hatches.  An admin sets fees, limits, registries and pauses (\<open>admin.rs\<close>), the critical
  ones through a two-step timelock.  Escrows are indexed by vendor and buyer in pages
  (\<open>storage.rs\<close>), queries read them (\<open>queries.rs\<close>), and \<open>multicall\<close> runs a bounded batch.  Every
  entry point of \<open>lib.rs\<close> forwards to one of these modules; all share the storage of one contract.

  HOW THE CODE IS MODELLED.  A world holds instance storage, persistent storage, the transfers,
  the events and the rent requests made so far; one invocation reads an \<open>env\<close> (time, own
  address, who signed and whether a second \<open>require_auth\<close> of one address is accepted, the answers of
  tokens, the digest of a parameter list).  A function of the
  code that returns \<open>Result\<close> becomes one that returns a failure (a \<open>ContractError\<close>, or a trap of the
  host) or the new world: a failure commits nothing, as on the host.  Guards, writes and transfers
  stand in the order of the source.  Each transfer is stored with a snapshot of storage, so that the
  order of writes and payments is visible.
  Structs are records, enums datatypes; \<open>u32\<close> and \<open>u64\<close> are words of that width, with the checked and
  saturating operations of the source written out; \<open>i128\<close> is \<open>int\<close> with every checked operation
  tested against the range.
    \<^item> \<open>Prelude\<close>: results, checked and saturating arithmetic, lists.  \<open>Types\<close>: \<open>types.rs\<close>, \<open>errors.rs\<close>,
      the constants of \<open>lib.rs\<close>.  \<open>Ledger\<close>: the host as the source uses it; one record field per
      family of \<open>DataKey\<close>.  \<open>Events\<close>: \<open>events.rs\<close>.
    \<^item> \<open>Storage\<close>, \<open>Escrow_Index\<close>: \<open>storage.rs\<close> (configuration with its legacy keys and their migration,
      messages, proposals; the paged indexes, once for both families of keys).
    \<^item> \<open>Payout\<close>: \<open>helpers/payout.rs\<close>.  \<open>Internal\<close>, \<open>Settlement\<close>, \<open>Creation\<close>: \<open>internal.rs\<close> and the
      creation entry points.  \<open>Lifecycle\<close>: the rest of \<open>instructions.rs\<close> but \<open>Multicall\<close>.
      \<open>Disputes\<close>: \<open>disputes.rs\<close>.  \<open>Timelock\<close>, \<open>Admin\<close>: \<open>admin.rs\<close>.  \<open>Queries\<close>: \<open>queries.rs\<close>.
    \<^item> Around the contract: \<open>Malicious_Token\<close>, the adversarial token of \<open>malicious_token.rs\<close>;
      \<open>Fuzz_Harness\<close>, \<open>Fuzz_Targets\<close>: \<open>fuzz/fuzz_targets\<close>, the reader and harness of \<open>common.rs\<close> and the
      eighteen targets as programs of a state monad that make calls of the contract.
    \<^item> Beside the contract: \<open>Test_Setters\<close>, the immediate setters of test builds in \<open>admin.rs\<close>, shown to do
      what the timelocked operations do; \<open>Gas_Report\<close> and \<open>Task_Runner\<close>, the developer tool \<open>src/xtask\<close>: the
      profile output is read back exactly, a report adds it up by category, and the local CI gate
      runs its commands in order and stops at the first failure.

  THE PROOFS, bottom up.
    \<^item> \<open>Effects\<close>: closed forms of the shared helpers, \<open>pay\<close> (a group of payouts after the last write),
      and \<open>post\<close>, the postcondition of a successful run, with its rules (\<open>wp\<close>).
    \<^item> \<open>Steps\<close>, \<open>Dispute_Steps\<close>, \<open>Creation_Steps\<close>: the effect of every operation as such a
      postcondition: new escrow, payments, and the guards that were passed.
    \<^item> \<open>State_Machine\<close>: the abstract specification, an inductive relation \<open>legal\<close> between states and what
      a legal change may alter.  \<open>Claims\<close>: what an escrow claims of a token.  \<open>Invariant\<close>: soundness of
      each escrow and solvency of the contract, kept by every \<open>moves\<close> and \<open>creates\<close> step.
    \<^item> \<open>Exits\<close>: locale \<open>exit_path\<close>, the contract of an operation that closes an escrow, interpreted (\<open>exits\<close>)
      on all twelve.  \<open>Escrow_Index\<close>: locale \<open>escrow_index\<close>, an append-only list per owner behind pages,
      interpreted for vendors and buyers.  \<open>Governance\<close>: locale \<open>timelock_contract\<close>, interpreted (\<open>tl\<close>) on
      the twenty queue/execute pairs; bounds of the settings.  A proposal is queued under the
      signature of an admin; its execution compares the caller it is given with the proposer and
      asks that caller to sign in two of the twenty operations only.
    \<^item> \<open>Views\<close>: the queries request rent and change nothing else.
    \<^item> \<open>Moves\<close>, \<open>System\<close>: every entry point that touches the ledger, the views included, is a
      constructor of \<open>call\<close>; a successful
      call is a sequence of steps, each of which says whose money it moves (\<open>debits\<close>); \<open>reachable\<close> and
      \<open>later\<close> are the runs; \<open>rank_at\<close> is the measure of the life of an escrow.  \<open>Authority\<close>: the
      signatures, roles, states and times each call needs, an escrow's own expiry and the blanket
      deadline of funding among them.
    \<^item> \<open>Reentrancy\<close>: what a token finds that calls back in the middle of a payout (\<open>observed\<close>, read off
      the snapshots in the log), and that nothing it can do there harms the contract: what is held
      beyond the debts (\<open>slack\<close>) never shrinks.  \<open>Malicious_Token\<close>: its attacks block the escrow in
      that token only; its own books agree with the custody the log implies.  \<open>Fuzz_Facts\<close>: the
      fuzz targets stay within \<open>reachable\<close>, and their assertions hold.  \<open>Fuzz_Inputs\<close>: what each reader
      takes from the input, and inputs, written out, on which four targets make any call they are
      written for.
    \<^item> \<open>Component_Facts\<close>, \<open>Helper_Facts\<close>: properties of single components.  \<open>Progress\<close>: exits that
      are guaranteed to succeed.  \<open>Divergences\<close>: where the code departs from its documentation.
    \<^item> \<open>Scenario\<close>, \<open>Appeal_Scenario\<close>, \<open>Basket_Scenario\<close>: concrete runs computed from the definitions, to
      which each theorem with hypotheses is applied.
  This theory states what holds of the contract as a whole: money (the contract is solvent, exits pay exactly the
  claim, once, and only after the last write, and nobody is debited without a signature), the life of an escrow, authority, governance,
  and disputes.

  BOUNDS.  The contract needs no fuel: loops are folds, structural recursion or recursion with a
  measure, and all definitions are total.  Only the task runner, where \<open>ci\<close> is a task that runs
  tasks, has a depth, and two levels are proved to be enough.  An escrow has a rank of at most 26
  (eleven rounds of two states each and the four states before a dispute), because appeals are limited to ten.  Vectors of the host have \<open>nat\<close>
  lengths; theorems about counts in \<open>u32\<close> assume fewer than \<open>2 ^ 32\<close> entries.  \<open>call_ok\<close> says only
  that \<open>i128\<close> arguments are below the top of their range.

  ASSUMPTIONS.  They concern code that is not in this repository, and are hypotheses or fields of \<open>env\<close>.
  A token answers each transfer with success or failure (\<open>env_token_ok\<close>, arbitrary, and free
  to depend on all earlier transfers); what it records is what was asked for.
  The fields of \<open>fuzz_host\<close> and \<open>mt_host\<close> stand for the test host in the same way.
  Only the progress theorems assume that a token honours transfers
  the sender's balance covers (\<open>honours\<close>).  Nobody can sign as the contract itself (\<open>legit\<close>).  The
  digest of a proposal's parameters is an arbitrary function.  Runs start with \<open>initialize\<close> on empty
  storage.
  The repository says two things of a second \<open>require_auth\<close> of one address in one invocation: a comment
  (\<open>internal.rs\<close>, line 1325) that the host rejects it, two tests (\<open>test_co_signed_release.rs\<close>,
  \<open>test_gas_profile.rs\<close>) that rely on its being accepted.  The answer is a field of \<open>env\<close>
  (\<open>env_reauth\<close>); the four functions in which an address can be asked twice (\<open>co_signed_release\<close>,
  \<open>mutual_cancel\<close>, \<open>emergency_drain\<close>, \<open>multicall\<close>) take the second signature under \<open>after_auth\<close>,
  and every theorem holds for both answers.

  NOT MODELLED.  What an upgrade installs: the code after \<open>execute_upgrade\<close> is a different program.
  Entries archived by the host when their rent runs out, and gas.  A call back from a token during a deposit, which is
  made before the escrow is written: there the host's re-entrancy guard is what protects
  the contract (for payouts it is not needed, see \<open>Reentrancy\<close>).  The unit tests
  and the generated bindings.  Of the fuzz harness: the balances minted to the participants, which
  belong to the tokens.  Of the developer tool: text outside ASCII, and what the external
  commands do.
\<close>

section \<open>Money\<close>

text \<open>
  C1. Solvency: in every reachable world and for every token, the contract holds at least what all
  its live escrows together claim, whatever calls were made, in any order, by anyone.
\<close>

theorem solvency:
  assumes "reachable self w"
  shows "owed tk w \<le> custody_of self tk (map fst (w_xfers w))"
  using invD(4) [OF reachable_inv [OF assms]] .

theorem solvency_witness: "owed ''usdc'' funded \<le> 1000"
  using solvency [OF demo_reachable(3), of "''usdc''"]
  by (simp add: funded(4) demo_deposit_def xfer_delta_def)

text \<open>
  C2. Conservation of an exit: whichever of the twelve ways out of an escrow succeeds, it sends,
  token by token, exactly what the escrow claimed; afterwards the escrow claims nothing, and the
  claims of all others are untouched.
\<close>

theorem exit_pays_claim:
  assumes "reachable (env_self env) w" "exit_run env x i w = Inr w'"
  shows "total_out tk (exit_outs x i w) = claim_at tk w i \<and> claim_at tk w' i = 0 \<and>
    (\<forall>j. j \<noteq> i \<longrightarrow> claim_at tk w' j = claim_at tk w j) \<and>
    map fst (w_xfers w') = map fst (w_xfers w) @ xfers_of env (exit_outs x i w)"
proof -
  note I = reachable_inv [OF assms(1)]
  note M = exits.run_moves [OF assms(2) I]
  have "claim_at tk w' j = claim_at tk w j" if "j \<noteq> i" for j
    using moves_at(1) [OF M, of j] that M by (intro claim_at_cong) (simp_all add: moves_def)
  then show ?thesis
    using exits.pays_claim [OF assms(2) I, of tk] exits.pays_after_writing [OF assms(2) I] by simp
qed

theorem exit_pays_claim_witness:
  "exit_run (demo_env 5000 [''buyer'']) (XConfirmDelivery ''buyer'' True) 1 shipped = Inr completed \<and>
    total_out ''usdc'' (exit_outs (XConfirmDelivery ''buyer'' True) 1 shipped) = 1000"
proof -
  have x: "exit_run (demo_env 5000 [''buyer'']) (XConfirmDelivery ''buyer'' True) 1 shipped = Inr completed"
    using completed(1) by (simp add: demo_confirm_def)
  have "claim_at ''usdc'' shipped 1 = 1000"
    by (simp add: claim_at_def claim_of_def shipped shipped_pers_def funded_pers_def created_pers_def
        funded_escrow_def demo_escrow_def basket_of_def empty_persistent_def)
  with exit_pays_claim [OF _ x, of "''usdc''"] demo_reachable(4) x show ?thesis by simp
qed

text \<open>
  Effects before interactions: every transfer of an exit happens against the final storage of
  the call, in which the escrow is already closed, so that a token that calls back in finds
  nothing left to take.
\<close>

theorem exit_effects_first:
  assumes "reachable (env_self env) w" "exit_run env x i w = Inr w'"
    "t \<in> set (drop (length (w_xfers w)) (w_xfers w'))"
  shows "snd t = (w_inst w', w_pers w') \<and> is_final (e_state (the (p_escrow (snd (snd t)) i)))"
proof -
  note I = reachable_inv [OF assms(1)]
  have "t \<in> set (log_with (w_inst w', w_pers w') (xfers_of env (exit_outs x i w)))"
    using exits.pays_after_writing [OF assms(2) I] assms(3) by simp
  then show ?thesis
    using exits.run_closes [OF assms(2) I]
    by (auto simp: log_with_def closes_def escrow_at_def)
qed

text \<open>
  C3. An escrow is left once: after any exit, in any world that may follow, no exit of the same
  escrow succeeds again.
\<close>

theorem exit_once:
  assumes "reachable (env_self env) w" "legit (env_self env) env" "exit_run env x i w = Inr w'"
    "later (env_self env) w' v" "env_self env' = env_self env"
  shows "\<not> is_ok (exit_run env' y i v)"
proof -
  note I = reachable_inv [OF assms(1)]
  have r: "reachable (env_self env) w'"
    using reachable.called [OF assms(1,2), of "Leave x i"] assms(3) by simp
  have e: "p_escrow (w_pers w') i = Some (escrow_at w' i)" "is_final (e_state (escrow_at w' i))"
    using moves_at(1) [OF exits.run_moves [OF assms(3) I], of i] exits.run_closes [OF assms(3) I]
    by (simp_all add: closes_def)
  from later_descends [OF assms(4) r e(1)] e have "p_escrow (w_pers v) i = p_escrow (w_pers w') i"
    by (auto simp: descends_def)
  moreover have "inv (env_self env') v"
    using reachable_inv [OF later_reachable [OF assms(4) r]] assms(5) by simp
  ultimately show ?thesis using exits.once [OF assms(3) I] by blast
qed

theorem exit_once_witness:
  "\<not> is_ok (exit_run (demo_env 9000 [''buyer'', ''seller'']) XMutualCancel 1 completed)"
  by (rule exit_once [of "demo_env 5000 [''buyer'']" shipped "XConfirmDelivery ''buyer'' True" _ completed])
    (use demo_reachable(4) completed(1) in \<open>simp_all add: demo_confirm_def later.now\<close>)

text \<open>
  C6. Nobody is debited without a signature: whatever call succeeds, every transfer it makes is of a
  positive amount and leaves the contract's own balance or that of an address that authorised the
  call.
\<close>

theorem no_unsigned_debit:
  assumes "reachable (env_self env) w" "legit (env_self env) env" "call_ok c" "exec env c w = Inr w'"
  shows "\<exists>ts. w_xfers w' = w_xfers w @ ts \<and>
    (\<forall>t \<in> set ts. 0 < tr_amount (fst t) \<and>
      (tr_from (fst t) = env_self env \<or> env_auth env (tr_from (fst t))))"
  using steps_debits [OF exec_steps [OF assms(4) reachable_inv [OF assms(1)] assms(2,3)]]
  by (simp add: debits_def)

theorem no_unsigned_debit_witness:
  "tr_from (fst (w_xfers funded ! 0)) = ''buyer'' \<and>
    env_auth (demo_env 3000 [''buyer'']) (tr_from (fst (w_xfers funded ! 0)))"
proof -
  have "exec (demo_env 3000 [''buyer'']) (OnEscrow (EFund ''buyer'') 1) created = Inr funded"
    using funded(1) by (simp add: demo_fund_def)
  from no_unsigned_debit [OF _ _ _ this] demo_reachable(2)
  have a: "tr_from (fst t) = ''contract'' \<or> tr_from (fst t) = ''buyer''" if "t \<in> set (w_xfers funded)" for t
    using that by (auto simp: created(4))
  have l: "length (w_xfers funded) = 1" using arg_cong [OF funded(4), of length] by simp
  have "fst (w_xfers funded ! 0) = map fst (w_xfers funded) ! 0" by (simp add: l)
  then have "tr_from (fst (w_xfers funded ! 0)) = ''buyer''" by (simp add: funded(4) demo_deposit_def)
  with a [of "w_xfers funded ! 0"] l show ?thesis by simp
qed

section \<open>The life of an escrow\<close>

text \<open>
  C7. Refinement of the abstract state machine: along any run of the contract a stored escrow is never
  deleted and its state follows only the relation \<open>legal\<close>, the transitions of the code. Its payees,
  token, fee rates, shipping window, notes, expiry and grace period never change, its amount never
  grows, and a buyer once set stays; a panel of resolvers, or one with a fallback, stays, and a single
  resolver is replaced at most by another single one. In a final state nothing changes any more.
  (The diagrams of the repository differ from \<open>legal\<close> in places.)
\<close>

theorem escrow_follows_machine:
  assumes "reachable self w" "later self w v" "p_escrow (w_pers w) i = Some e"
  shows "\<exists>e'. p_escrow (w_pers v) i = Some e' \<and> legal\<^sup>*\<^sup>* (e_state e) (e_state e') \<and>
    e_payees e' = e_payees e \<and> e_token e' = e_token e \<and> e_fee_bps e' = e_fee_bps e \<and>
    e_resolver_fee_bps e' = e_resolver_fee_bps e \<and> e_shipping_window e' = e_shipping_window e \<and>
    e_notes e' = e_notes e \<and> e_expires_at e' = e_expires_at e \<and>
    e_grace_period e' = e_grace_period e \<and>
    (e_resolvers e' = e_resolvers e \<or>
      (\<exists>a b. e_resolvers e = Single a \<and> e_resolvers e' = Single b)) \<and>
    e_amount e' \<le> e_amount e \<and> (e_buyer e = None \<or> e_buyer e' = e_buyer e) \<and>
    (is_final (e_state e) \<longrightarrow> e' = e)"
  using later_descends [OF assms(2,1,3)] by (auto simp: descends_def terms_of_def rotates_def)

theorem escrow_follows_machine_witness:
  "\<exists>e'. p_escrow (w_pers resolved) 1 = Some e' \<and> legal\<^sup>*\<^sup>* Disputed (e_state e') \<and> e_amount e' \<le> 1000"
  using escrow_follows_machine [OF demo_reachable(6) demo_later(6), of 1]
  by (auto simp: disputed disputed_pers_def funded_escrow_def demo_escrow_def)

text \<open>
  C8. The life of an escrow is finite: every change of its state lowers a rank of at most 26, and
  nothing ever raises it; disputes and appeals included, since each appeal is counted and at most
  ten are allowed.
\<close>

theorem state_changes_end:
  assumes "reachable self w" "later self w v" "p_escrow (w_pers w) i \<noteq> None"
  shows "rank_at w i \<le> 26 \<and> rank_at v i \<le> rank_at w i \<and>
    (e_state (escrow_at v i) \<noteq> e_state (escrow_at w i) \<longrightarrow> rank_at v i < rank_at w i)"
proof -
  have "rank_at w i \<le> 26" unfolding rank_at_def by (cases "e_state (escrow_at w i)") simp_all
  then show ?thesis using later_ages [OF assms(2,1), of i] assms(3) by (auto simp: ages_def ranks_down_def)
qed

theorem state_changes_end_witness: "rank_at finalized 1 < rank_at resolved 1"
  using state_changes_end [OF demo_reachable(7) demo_later(7), of 1] finalized(2)
  by (simp add: resolved resolved_pers_def escrow_at_def)

text \<open>
  C9. The stored history of every escrow is not empty, is bounded, ends in its current state, and any
  two neighbouring entries are a transition of the code's own machine \<open>legal\<close>.
\<close>

theorem history_consistent:
  assumes "reachable self w" "p_escrow (w_pers w) i = Some e"
  shows "\<exists>h. p_history (w_pers w) i = Some h \<and> h \<noteq> [] \<and> length h \<le> MAX_STATE_HISTORY_ENTRIES \<and>
    last (map fst (decode_history h)) = e_state e \<and> successively legal (map fst (decode_history h))"
  using inv_escrow(5,6) [OF reachable_inv [OF assms(1)] assms(2)]
  by (auto simp: history_ok_def history_states_def decode_history_def comp_def)

theorem history_consistent_witness:
  "\<exists>h. p_history (w_pers resolved) 1 = Some h \<and> last (map fst (decode_history h)) = PendingFinalization"
  using history_consistent [OF demo_reachable(7), of 1]
  by (auto simp: resolved resolved_pers_def)

text \<open>
  C10. Every stored escrow is well formed: shares that make 10000 basis points, an amount in range
  that is positive until a dispute, fee rates of at most 3%, an id that was given out, a buyer whenever it holds money, and a basket
  of distinct tokens with positive amounts that starts with the escrow's own token.
\<close>

theorem escrow_well_formed:
  assumes "reachable self w" "p_escrow (w_pers w) i = Some e"
  shows "e_payees e \<noteq> [] \<and> total_bps (e_payees e) = 10000 \<and>
    0 \<le> e_amount e \<and> e_amount e \<le> i128_max \<and>
    (e_state e \<in> {Pending, Funded, Shipped, RefundRequested} \<longrightarrow> 0 < e_amount e) \<and>
    uint (e_fee_bps e) \<le> 300 \<and> uint (e_resolver_fee_bps e) \<le> 300 \<and>
    0 < i \<and> i < next_id w \<and> (is_live (e_state e) \<longrightarrow> e_buyer e \<noteq> None) \<and>
    (let ts = basket_of (w_pers w) i in ts \<noteq> [] \<longrightarrow> distinct (map te_token ts) \<and>
       (\<forall>t \<in> set ts. 0 < te_amount t) \<and> te_token (hd ts) = e_token e)"
proof -
  note I = reachable_inv [OF assms(1)]
  note E = inv_escrow [OF I assms(2)]
  have "i < next_id w" "i \<noteq> 0"
    using I assms(2) by (auto simp: inv_def not_le [symmetric])
  then show ?thesis
    using E(1,3,4,8) by (auto simp: amount_sound_def escrow_ok_def basket_sound_def basket_ok_def Let_def word_neq_0_conv)
qed

theorem escrow_well_formed_witness: "total_bps (e_payees basket_funded_escrow) = 10000 \<and> (1::u64) < next_id basket_funded"
  using escrow_well_formed [OF basket_reachable(2), of 1 basket_funded_escrow] basket_funded(3) by simp

text \<open>
  C11. Isolation: a call on one escrow, whether it acts on it or leaves it, touches no other escrow,
  dispute, history or basket, and changes no setting.
\<close>

theorem calls_are_isolated:
  assumes "reachable (env_self env) w" "legit (env_self env) env" "j \<noteq> i"
    "escrow_run env c i w = Inr w' \<or> exit_run env x i w = Inr w'"
  shows "p_escrow (w_pers w') j = p_escrow (w_pers w) j \<and>
    p_dispute (w_pers w') j = p_dispute (w_pers w) j \<and>
    p_history (w_pers w') j = p_history (w_pers w) j \<and>
    p_basket (w_pers w') = p_basket (w_pers w) \<and> settings (w_inst w') = settings (w_inst w)"
proof -
  note I = reachable_inv [OF assms(1)]
  have "local_to env i w w'"
    using assms(4) escrow_run_local [OF _ I assms(2)] moves_local [OF exits.run_moves [OF _ I]] by blast
  then show ?thesis
    unfolding local_to_def
  proof
    assume "moves env i w w'"
    with moves_at(1) [OF this, of j] assms(3) show ?thesis by (simp add: moves_def)
  qed (simp add: idle_def)
qed

theorem calls_are_isolated_witness:
  "p_escrow (w_pers shipped) 2 = p_escrow (w_pers funded) 2"
  using calls_are_isolated [of "demo_env 4000 [''seller'']" funded 2 1 "EMarkShipped ''seller'' ''track''"
      shipped XAutoRelease] demo_reachable(3) shipped(1)
  by (simp add: demo_ship_def)

text \<open>
  C12. Creation: every creation entry point hands out a fresh id, the next one, stores exactly one
  new Pending escrow of a positive amount under it, moves no money and leaves all others alone.
\<close>

theorem creation_is_fresh:
  assumes "reachable self w" "create_ok c" "create_run env c w = Inr (i, w')"
  shows "i = next_id w \<and> p_escrow (w_pers w) i = None \<and> next_id w' = i + 1 \<and> i < next_id w' \<and>
    (\<exists>e. p_escrow (w_pers w') = (p_escrow (w_pers w))(i \<mapsto> e) \<and> e_state e = Pending \<and>
      0 < e_amount e \<and> e_packed_timestamps e = 0) \<and>
    p_dispute (w_pers w') = p_dispute (w_pers w) \<and> w_xfers w' = w_xfers w"
proof -
  from create_run_creates [OF assms(3,2)] obtain e bs where C: "creates env i e bs w w'" by blast
  have n: "p_escrow (w_pers w) i = None" using C reachable_inv [OF assms(1)] by (simp add: creates_def inv_def)
  have u: "uint i + 1 < 2 ^ 64" and "next_id w' = i + 1"
    using C by (auto simp: creates_def next_id_def)
  moreover have "i < i + 1" using u by (simp add: word_less_def uint_word_ariths)
  ultimately show ?thesis using C n by (auto simp: creates_def)
qed

theorem creation_is_fresh_witness: "next_id created = 2 \<and> p_escrow (w_pers deployed) 1 = None"
  using creation_is_fresh [OF demo_reachable(1), of "CCreate (VPayees [\<lparr>p_address = ''seller'', p_bps = 10000\<rparr>])
     (Some ''buyer'') ''resolver'' ''usdc'' 1000 100 50 86400 None" "demo_env 2000 [''seller'']" 1 created]
    created(1)
  by (simp add: demo_create_def i128_max_def)

text \<open>
  C13. Funding: a successful \<open>fund_escrow\<close> was signed by the designated buyer (or any third party
  when none was named), raises the contract's holdings of every token by exactly what the escrow
  claims from then on, and starts its dispute window.
\<close>

theorem funding_takes_claim:
  assumes "reachable (env_self env) w" "legit (env_self env) env" "fund_escrow env i b w = Inr w'"
  shows "custody env tk w' = custody env tk w + claim_at tk w' i \<and>
    e_state (escrow_at w i) = Pending \<and> e_state (escrow_at w' i) = Funded \<and>
    env_auth env b \<and> e_buyer (escrow_at w' i) = Some b \<and>
    (e_buyer (escrow_at w i) = None \<or> e_buyer (escrow_at w i) = Some b) \<and>
    \<not> is_payee (escrow_at w i) b \<and>
    funded_at (escrow_at w' i) = take_bit 32 (env_now env) \<and>
    dispute_deadline (escrow_at w' i) = take_bit 32 (env_now env + DISPUTE_WINDOW)"
proof -
  note F = postD [OF fund_escrow_effect assms(3), unfolded funds_def]
  let ?e = "escrow_at w i"
  have e': "escrow_at w' i = ?e\<lparr>e_buyer := Some b, e_state := Funded,
      e_packed_timestamps := pack_timestamps (env_now env) (env_now env + DISPUTE_WINDOW)\<rparr>"
    and c: "claim_at tk w' i = (if e_token ?e = tk then e_amount ?e else 0)
      + basket_claim tk (e_token ?e) (basket_of (w_pers w) i)"
    using F by (auto simp: alters_def escrow_at_def pack_timestamps_def claim_at_def claim_of_def
        basket_of_def)
  have "b \<noteq> env_self env" using F assms(2) by (auto simp: legit_def)
  then have "custody env tk w' = custody env tk w + claim_at tk w' i"
    using F c custody_deposits [of b env tk] by (simp add: custody_def)
  then show ?thesis
    using F e' drop_push_32 [of "env_now env"] take_push_32 [of "env_now env"]
    by (simp add: funded_at_def dispute_deadline_def pack_timestamps_def mask_32
        take_bit_eq_mask [symmetric] del: drop_bit_or)
qed

theorem funding_takes_claim_witness:
  "custody (demo_env 3000 [''buyer'']) ''usdc'' funded = claim_at ''usdc'' funded 1 \<and>
    dispute_deadline (escrow_at funded 1) = 175800"
proof -
  have "fund_escrow (demo_env 3000 [''buyer'']) 1 ''buyer'' created = Inr funded"
    using funded(1) by (simp add: demo_fund_def)
  from funding_takes_claim [OF _ _ this, of "''usdc''"] demo_reachable(2) show ?thesis
    by (simp add: custody_def created const_defs take_bit_eq_mod)
qed

section \<open>Authority\<close>

text \<open>
  C14. Nobody empties an escrow without the right to. Whenever an exit succeeds, \<open>exit_guard\<close> held: the
  escrow was in a state from which the code lets this exit go, the parties it asks for (buyer, payee,
  admin, all as stored) had signed, and the time was right. Cancelling, mutual cancelling, confirming,
  automatic release and approving a refund are refused once the escrow or its pending schedule has
  expired, and reclaiming before; dispute, shipping, delivery, pending and appeal windows had passed
  where the exit waits for them. (Where README and ARCHITECTURE state other guards, this is the code's.)
\<close>

theorem exits_need_authority:
  assumes "reachable self w" "exit_run env x i w = Inr w'"
  shows "exit_guard env x i w"
  using exit_run_guard [OF assms(2) reachable_inv [OF assms(1)]] .

theorem exits_need_authority_witness:
  "exit_guard (demo_env 93400 [''keeper'']) (XFinalizeDispute ''keeper'') 1 resolved"
  using exits_need_authority [OF demo_reachable(7), of "demo_env 93400 [''keeper'']"
      "XFinalizeDispute ''keeper''" 1 finalized] finalized(1)
  by (simp only: demo_finalize_def exit_run.simps)

text \<open>
  C15. The same for every call that acts on an escrow. Whenever one succeeds, \<open>escrow_guard\<close> held: the
  state, the caller's role and signature, and the time limits the code checks. Funding, shipping and
  refund requests are refused from the moment the escrow expires (the grace period does not count),
  funding also after the blanket deadline of unfunded escrows; any payee may mark the goods
  shipped; disputes, votes, appeals, timeout claims and delivery records keep to their windows; and a
  resolver is only rotated if it is a single one, to an address without a role in the escrow.
\<close>

theorem escrow_calls_need_authority:
  assumes "reachable self w" "escrow_run env c i w = Inr w'"
  shows "escrow_guard env c i w"
  using escrow_run_guard [OF assms(2) reachable_inv [OF assms(1)]] .

theorem escrow_calls_need_authority_witness:
  "escrow_guard (demo_env 6000 [''buyer'']) (ERaiseDispute ''buyer'' ''DAMAGED'' [] []) 1 funded"
  using escrow_calls_need_authority [OF demo_reachable(3), of "demo_env 6000 [''buyer'']"
      "ERaiseDispute ''buyer'' ''DAMAGED'' [] []" 1 disputed] disputed(1)
  by (simp only: demo_raise_def escrow_run.simps)

text \<open>
  C16. Settings are the admin's. An immediate change is signed by the current admin, or by the
  address the admin proposed for that role; only the one initialization is unsigned. A timelocked
  change is queued with the current admin's signature. It is executed only on the parameters queued
  and after it matured, with a \<open>caller\<close> argument equal to the stored proposer. That argument is a
  value, not a signature: two of the twenty operations also ask that address to sign, and the other
  eighteen are permissionless, their outcome is the same whoever signed.
\<close>

theorem settings_need_admin:
  shows "(admin_exec env a w = Inr w' \<longrightarrow> admin_guard env a w) \<and>
    (tl_queue env c t w = Inr w' \<longrightarrow> i_admin (w_inst w) = Some c \<and> env_auth env c) \<and>
    (tl_execute env c t w = Inr w' \<longrightarrow>
      (\<exists>p. i_timelock (w_inst w) (timelock_code (tl_op t)) = Some p \<and> tp_proposer p = c \<and>
        tp_ready_at p \<le> env_now env \<and> tp_params_hash p = env_params_hash env (tl_params t)) \<and>
      (execution_signed t \<longrightarrow> env_auth env c)) \<and>
    (execution_signed t \<longleftrightarrow> (\<exists>z. t = LSetAppealFee z \<or> t = LSetArbitrationFee z)) \<and>
    (\<not> execution_signed t \<longrightarrow>
      tl_execute (env\<lparr>env_auth := anybody\<rparr>) c t w = tl_execute env c t w)"
proof -
  have "execution_signed t \<longleftrightarrow> (\<exists>z. t = LSetAppealFee z \<or> t = LSetArbitrationFee z)"
    by (cases t) simp_all
  moreover have "tl_execute (env\<lparr>env_auth := anybody\<rparr>) c t w = tl_execute env c t w"
    if "\<not> execution_signed t" using permissionless_execution [OF that] .
  ultimately show ?thesis
    using admin_exec_guard [of env a w w'] tl_queue_guard [of env c t w w']
      tl.needs_proposal [of env c t w w'] signed_execution [of env c t w w'] by blast
qed

theorem settings_need_admin_witness:
  "\<exists>p. i_timelock (w_inst queued) 18 = Some p \<and> tp_proposer p = ''admin'' \<and> tp_ready_at p \<le> 94400"
  using settings_need_admin [of "demo_env 94400 [''admin'']" "AMigrate ''admin''" queued executed_world
      "''admin''" "LSetMaxAppeals 3"] executed_world(1)
  by (auto simp: demo_execute_def)

text \<open>
  C17. A paused contract: of all calls only the two buyer rescues, the delivery record and its
  proposals, rent extension and administration still succeed; nothing is created, funded,
  released or resolved.
\<close>

theorem pause_stops_calls:
  assumes "is_paused w" "exec env c w = Inr w'"
  shows "pause_allows c"
proof -
  have m: "is_ok (map_sum id f r) = is_ok r" for f :: "'a \<Rightarrow> 'b" and r :: "'a res"
    by (cases r) simp_all
  have "is_ok (exec env c w)" using assms(2) by simp
  then show ?thesis
    using paused_exits [OF assms(1)] paused_escrow_calls [OF assms(1)] paused_creation [OF assms(1)]
    by (cases c) (simp_all add: m)
qed

lemma demo_drain_run: "\<exists>w'. emergency_drain (demo_env 9000 [''buyer'', ''seller'']) 1
     (funded\<lparr>w_inst := demo_inst\<lparr>i_global_config := Some ((the (i_global_config demo_inst))
       \<lparr>g_state_flags := GLOBAL_CONFIG_FLAG_PAUSED\<rparr>)\<rparr>\<rparr>) = Inr w'"
  by (simp add: emergency_drain_def is_paused_def run_defs funded created_pers_def demo_escrow_def
      demo_inst_def funded_pers_def funded_escrow_def cong: bindE_weak_cong)

theorem pause_stops_calls_witness:
  "\<exists>w. is_paused w \<and> is_ok (exec (demo_env 9000 [''buyer'', ''seller'']) (Leave XEmergencyDrain 1) w) \<and>
    pause_allows (Leave XEmergencyDrain 1)"
proof -
  let ?w = "funded\<lparr>w_inst := demo_inst\<lparr>i_global_config := Some ((the (i_global_config demo_inst))
       \<lparr>g_state_flags := GLOBAL_CONFIG_FLAG_PAUSED\<rparr>)\<rparr>\<rparr>"
  have p: "is_paused ?w" by (simp add: is_paused_def read_global_config_def flag_set_def const_defs)
  obtain w' where "exec (demo_env 9000 [''buyer'', ''seller'']) (Leave XEmergencyDrain 1) ?w = Inr w'"
    using demo_drain_run by auto
  with p pause_stops_calls [OF p this] show ?thesis by (intro exI [of _ ?w]) simp
qed

section \<open>Governance\<close>

text \<open>
  C18. In every reachable world the rates, limits and delays that can be configured are in the ranges the
  code gives them: fee rates (an appeal fee is off or at least ten basis points), dispute timeout, rent
  extension, amount limits, appeals, basket size, timelock delay. Every pending proposal sits under
  its own code and matures at least twelve hours after it was queued.
\<close>

theorem settings_in_range:
  assumes "reachable self w"
  shows "(let c = read_global_config w in
      g_arbitration_fee_bps c \<le> 500 \<and> g_platform_fee_bps c \<le> 200 \<and> g_protocol_fee_bps c = 0 \<and>
      (g_appeal_fee_bps c = 0 \<or> 10 \<le> g_appeal_fee_bps c \<and> g_appeal_fee_bps c \<le> 500) \<and>
      MIN_DISPUTE_TIMEOUT \<le> g_dispute_timeout c \<and> g_dispute_timeout c \<le> MAX_DISPUTE_TIMEOUT \<and>
      MIN_TTL_EXTENSION \<le> g_ttl_extension_ledgers c \<and> g_ttl_extension_ledgers c \<le> MAX_TTL_EXTENSION \<and>
      0 < g_min_amount c \<and> g_min_amount c < g_max_amount c \<and> g_fee_collector c \<noteq> None) \<and>
    1 \<le> read_max_appeals w \<and> read_max_appeals w \<le> 10 \<and>
    1 \<le> read_max_basket_size w \<and> read_max_basket_size w \<le> 20 \<and> 43200 \<le> uint (delay_of w) \<and> delay_of w \<le> MAX_TIMELOCK_DELAY_SECONDS \<and>
    (\<forall>k p. i_timelock (w_inst w) k = Some p \<longrightarrow>
      timelock_code (tp_operation p) = k \<and> uint (tp_queued_at p) + 43200 \<le> uint (tp_ready_at p))"
proof -
  note I = reachable_inv [OF assms]
  note S = invD(1) [OF I, unfolded settings_ok_def]
  have "1 \<le> read_max_appeals w \<and> read_max_appeals w \<le> 10"
    using S by (cases "i_max_appeals (w_inst w)") (auto simp: read_max_appeals_def const_defs)
  moreover have "1 \<le> read_max_basket_size w \<and> read_max_basket_size w \<le> 20"
    using S by (cases "i_max_basket_size (w_inst w)") (auto simp: read_max_basket_size_def const_defs)
  moreover have "43200 \<le> uint (delay_of w) \<and> delay_of w \<le> MAX_TIMELOCK_DELAY_SECONDS"
    using S by (cases "i_admin_timelock_delay (w_inst w)")
      (auto simp: delay_of_def const_defs word_le_def)
  ultimately show ?thesis
    using S invD(3) [OF I] by (auto simp: Let_def config_ok_def proposal_ok_def const_defs)
qed

theorem settings_in_range_witness: "43200 \<le> uint (delay_of queued) \<and> g_platform_fee_bps (read_global_config queued) \<le> 200"
  using settings_in_range [OF demo_reachable(9)] by (simp add: Let_def)

text \<open>
  C19. The timelock: between the queueing of a proposal and any execution of it lies at least the
  delay in force, twelve hours or more. It was queued by the admin of that time, who signed; the
  \<open>caller\<close> argument of the execution is that admin's address, which anyone may pass, since nothing is
  said about who submits or signs the execution; and the parameters executed have the digest
  of those queued.
\<close>

theorem timelock_delays:
  assumes "reachable self w" "tl_queue env c t w = Inr w1"
    "i_timelock (w_inst w2) (timelock_code (tl_op t)) = i_timelock (w_inst w1) (timelock_code (tl_op t))"
    "tl_execute env' c' t' w2 = Inr w3" "tl_op t' = tl_op t"
  shows "c' = c \<and> i_admin (w_inst w) = Some c \<and> env_auth env c \<and>
    env_params_hash env' (tl_params t') = env_params_hash env (tl_params t) \<and>
    uint (env_now env) + uint (delay_of w) \<le> uint (env_now env') \<and> 43200 \<le> uint (delay_of w)"
proof -
  have "MIN_TIMELOCK_DELAY_SECONDS \<le> delay_of w"
    using invD(1) [OF reachable_inv [OF assms(1)]] by (cases "i_admin_timelock_delay (w_inst w)")
      (auto simp: settings_ok_def delay_of_def const_defs)
  then have "43200 \<le> uint (delay_of w)" by (simp add: const_defs word_le_def)
  with tl.delay_passes [OF assms(2-5)] show ?thesis by simp
qed

theorem timelock_delays_witness: "uint (8000::u64) + uint (delay_of funded) \<le> 94400"
  using timelock_delays [OF demo_reachable(3), of "demo_env 8000 [''admin'']" "''admin''"
      "LSetMaxAppeals 3" queued queued "demo_env 94400 [''admin'']" "''admin''" "LSetMaxAppeals 3"
      executed_world] queued(1) executed_world(1)
  by (simp add: demo_queue_def demo_execute_def)

text \<open>
  C20. A proposal is executed at most once: the execution removes it, and as long as nothing is
  queued for that operation again every further execution fails, whoever tries, with whatever
  parameters, at whatever time.
\<close>

theorem timelock_used_once:
  assumes "tl_execute env c t w = Inr w'" "tl_op t' = tl_op t"
    "i_timelock (w_inst v) (timelock_code (tl_op t)) = i_timelock (w_inst w') (timelock_code (tl_op t))"
  shows "i_timelock (w_inst w') (timelock_code (tl_op t)) = None \<and> \<not> is_ok (tl_execute env' c' t' v)"
  using tl.used_up [OF assms(1)] tl.needs_proposal [of env' c' t' v] assms(2,3)
  by (auto simp: is_ok_def split: sum.splits)

theorem timelock_used_once_witness:
  "\<not> is_ok (tl_execute (demo_env 99999 [''admin'']) ''admin'' (LSetMaxAppeals 3) executed_world)"
  using timelock_used_once [of "demo_env 94400 [''admin'']" "''admin''" "LSetMaxAppeals 3" queued
      executed_world "LSetMaxAppeals 3" executed_world] executed_world(1)
  by (simp add: demo_execute_def)

section \<open>Disputes\<close>

text \<open>
  C21. The record of a dispute fits its escrow: a Disputed escrow, or one that waits for
  finalization, has one; before that stage there is none; while finalization is pending the
  resolution, its author and the fees are recorded.
\<close>

theorem dispute_record_fits:
  assumes "reachable self w" "p_escrow (w_pers w) i = Some e"
  shows "(e_state e \<in> {Pending, Funded, Shipped, RefundRequested} \<longrightarrow> p_dispute (w_pers w) i = None) \<and>
    (e_state e = Disputed \<longrightarrow> p_dispute (w_pers w) i \<noteq> None) \<and>
    (e_state e = PendingFinalization \<longrightarrow> (\<exists>d. p_dispute (w_pers w) i = Some d \<and>
      d_fees_charged d \<and> get_resolution d \<noteq> None \<and> d_resolved_by d \<noteq> None))"
  using inv_escrow(2) [OF reachable_inv [OF assms(1)] assms(2)]
  by (auto simp: dispute_sound_def)

theorem dispute_record_fits_witness:
  "\<exists>d. p_dispute (w_pers resolved) 1 = Some d \<and> d_fees_charged d \<and> get_resolution d \<noteq> None"
  using dispute_record_fits [OF demo_reachable(7), of 1]
  by (auto simp: resolved resolved_pers_def)

text \<open>
  C22. The fees of a dispute are bounded: what was charged is at most 8% of the amount disputed
  (5% arbitration and 3% for the resolver), and a dispute is appealed at most ten times.
\<close>

theorem dispute_fees_capped:
  assumes "reachable self w" "p_escrow (w_pers w) i = Some e" "p_dispute (w_pers w) i = Some d"
    "d_fees_charged d"
  shows "0 \<le> d_arbitration_fee d \<and> 0 \<le> d_resolver_fee d \<and>
    100 * (d_arbitration_fee d + d_resolver_fee d) \<le>
      8 * (e_amount e + d_arbitration_fee d + d_resolver_fee d) \<and>
    d_appeal_count d \<le> 10"
  using inv_escrow(2) [OF reachable_inv [OF assms(1)] assms(2)] assms(3,4)
  by (simp add: dispute_sound_def fees_ok_def const_defs)

theorem dispute_fees_capped_witness:
  "d_appeal_count (dispute_at resolved 1) \<le> 10 \<and> 0 \<le> d_resolver_fee (dispute_at resolved 1)"
  using dispute_fees_capped [OF demo_reachable(7), of 1 _ resolved_demo_dispute]
  by (auto simp: resolved resolved_pers_def dispute_at_def resolved_demo_dispute_def)

text \<open>The calls that resolve a dispute; with the fees already charged they move no money.\<close>

fun resolves_dispute :: "escrow_call \<Rightarrow> bool" where
  "resolves_dispute (EResolveDispute c r) = True"
| "resolves_dispute (EVote c r) = True"
| "resolves_dispute (EClaimDisputeTimeout c) = True"
| "resolves_dispute EResolveDeadlocked = True"
| "resolves_dispute _ = False"

lemma charged_resolution:
  assumes "resolves env i c r charge w w'" "d_fees_charged (dispute_at w i)"
  shows "w_xfers w' = w_xfers w" "e_amount (escrow_at w' i) = e_amount (escrow_at w i)"
    "d_arbitration_fee (dispute_at w' i) = d_arbitration_fee (dispute_at w i)"
    "d_resolver_fee (dispute_at w' i) = d_resolver_fee (dispute_at w i)"
  using assms
  by (auto simp: resolves_def pays_last_def alters_def escrow_at_def dispute_at_def
      round_arbitration_fee_def round_resolver_fee_def resolved_dispute_def Let_def)

text \<open>
  C23. Resolving again after an appeal is free: once the fees of a dispute were charged, a vote, a
  resolution, a timeout claim or the deadlock fallback moves no money, leaves the amount in escrow as
  it is and keeps the recorded fees.
\<close>

theorem fees_charged_once:
  assumes "reachable self w" "resolves_dispute c" "escrow_run env c i w = Inr w'"
    "d_fees_charged (dispute_at w i)"
  shows "w_xfers w' = w_xfers w \<and> e_amount (escrow_at w' i) = e_amount (escrow_at w i) \<and>
    d_arbitration_fee (dispute_at w' i) = d_arbitration_fee (dispute_at w i) \<and>
    d_resolver_fee (dispute_at w' i) = d_resolver_fee (dispute_at w i)"
proof -
  note I = reachable_inv [OF assms(1)]
  have idle: "idle w w' \<Longrightarrow> ?thesis"
    by (simp add: idle_def escrow_at_def dispute_at_def)
  have v: ?thesis if "resolve_or_vote_internal env a i r w = Inr w'" for a r
    using votes_or_resolves_cases(2) [OF postD [OF resolve_or_vote_effect [OF run_amount(6) [OF I that]] that]]
      idle charged_resolution [OF _ assms(4)] by blast
  show ?thesis
  proof (cases c)
    case (EClaimDisputeTimeout a)
    with assms(3) have "claim_dispute_timeout env a i w = Inr w'" by simp
    from postD [OF claim_dispute_timeout_effect [OF run_amount(4) [OF I this]] this]
    show ?thesis using charged_resolution [OF _ assms(4)] by blast
  next
    case EResolveDeadlocked
    with assms(3) have "resolve_deadlocked_dispute env i w = Inr w'" by simp
    from postD [OF resolve_deadlocked_dispute_effect [OF run_amount(5) [OF I this]] this]
    show ?thesis using charged_resolution [OF _ assms(4)] by blast
  qed (use assms(2,3) v in \<open>auto simp: resolve_dispute_def vote_def\<close>)
qed

theorem fees_charged_once_witness:
  "w_xfers resolved_again = w_xfers appealed \<and> e_amount (escrow_at resolved_again 1) = 975 \<and>
    d_arbitration_fee (dispute_at resolved_again 1) = 20"
proof -
  have "escrow_run (demo_env 9000 [''resolver'']) (EResolveDispute ''resolver'' Refund) 1 appealed =
      Inr resolved_again"
    using resolved_again(1) by (simp add: demo_resolve_again_def)
  from fees_charged_once [OF appealed_reachable _ this] show ?thesis
    by (simp add: appealed appealed_pers_def dispute_at_def escrow_at_def resolved_demo_dispute_def)
qed

text \<open>
  C24. Finalization pays out as resolved: the protocol fee, taken of the amount before the dispute
  fees, goes to the fee collector, all the rest to the first payee or back to the buyer, together
  with the rest of the basket; nothing is left.
\<close>

theorem finalization_splits:
  assumes "reachable (env_self env) w" "finalize_dispute env c i w = Inr w'"
  shows "\<exists>r. get_resolution (dispute_at w i) = Some r \<and>
    e_state (escrow_at w' i) = (case r of Release \<Rightarrow> Completed | Refund \<Rightarrow> Refunded) \<and>
    (let e = escrow_at w i; d = dispute_at w i; tk = e_token e;
         to = (case r of Release \<Rightarrow> payee_at w i | Refund \<Rightarrow> buyer_at w i);
         fee = (e_amount e + d_arbitration_fee d + d_resolver_fee d) * uint (e_fee_bps e) div 10000
     in 0 \<le> fee \<and> fee \<le> e_amount e \<and>
        map fst (w_xfers w') = map fst (w_xfers w) @ xfers_of env
          ([(tk, to, e_amount e - fee), (tk, collector_of w, fee)] @
           basket_outs tk to (basket_of (w_pers w) i)))"
proof -
  note I = reachable_inv [OF assms(1)]
  obtain r where F: "finalizes env c i r w w'" using postD [OF finalize_dispute_effect assms(2)] by blast
  have a: "alters env i ((escrow_at w i)\<lparr>e_state := final_state r\<rparr>) w w'"
    using F by (simp add: finalizes_def)
  note E = exit_escrow [OF a I]
  have d: "fees_ok (escrow_at w i) (dispute_at w i)" "d_fees_charged (dispute_at w i)"
    using E(2) F by (auto simp: finalizes_def dispute_sound_def dispute_at_def)
  note fit = final_fees_fit [OF E(1) invD(3) [OF I] d]
  have t: "g_treasury (read_global_config w) = None"
    using invD(3) [OF I] by (simp add: config_ok_def)
  have "final_platform_fee i w = 0"
    using postD [OF no_treasury_no_platform_fee [OF t] assms(2)] fit(1) by simp
  moreover have "e_state (escrow_at w' i) = final_state r"
    using a by (simp add: alters_def escrow_at_def)
  ultimately show ?thesis
    using F fit
    by (auto simp: finalizes_def pays_last_def final_outs_def Let_def final_recipient_def
        final_state_def final_protocol_fee_def final_basis_def bps_of_def)
qed

theorem finalization_splits_witness:
  "map fst (w_xfers finalized) = map fst (w_xfers resolved) @
    [\<lparr>tr_token = ''usdc'', tr_from = ''contract'', tr_to = ''seller'', tr_amount = 965\<rparr>,
     \<lparr>tr_token = ''usdc'', tr_from = ''contract'', tr_to = ''collector'', tr_amount = 10\<rparr>]"
proof -
  have f: "finalize_dispute (demo_env 93400 [''keeper'']) ''keeper'' 1 resolved = Inr finalized"
    using finalized(1) by (simp add: demo_finalize_def)
  have r: "get_resolution (dispute_at resolved 1) = Some Release"
    by (simp add: resolved resolved_pers_def resolved_demo_dispute_def dispute_at_def get_resolution_def)
  from finalization_splits [OF _ f] demo_reachable(7) r show ?thesis
    by (simp add: Let_def escrow_at_def dispute_at_def resolved resolved_pers_def funded_escrow_def
        demo_escrow_def resolved_demo_dispute_def payee_at_def collector_of_def read_global_config_def
        demo_inst_def basket_of_def basket_outs_def disputed_pers_def funded_pers_def
        created_pers_def empty_persistent_def empty_instance_def)
qed

end
